(* ===== verification/Prelude.thy ===== *)
theory Prelude
  imports Main "HOL-Library.Countable"
begin

text \<open>
  Shared vocabulary of the development: identifiers and instants, the result and
  world-passing types in which fallible and effectful Rust code is written, the
  fixed-width integer operations the sources use, JSON values, the parts of the Rust
  string API the sources use, and the lemma collections the component theories share.

  Text is a byte string: a Rust \<open>String\<close> is UTF-8, so \<open>length\<close> is
  Rust's \<open>str::len\<close>. An instant (\<open>DateTime<Utc>\<close>) is its number of
  nanoseconds since the Unix epoch. A UUID is its 128-bit number.
\<close>

type_synonym uuid = nat
type_synonym time = int

text \<open>An effectful fallible call: it takes the world, returns \<open>Ok\<close> (\<open>Inr\<close>) or
  \<open>Err\<close> (\<open>Inl\<close>), and the world it leaves.\<close>

type_synonym ('w, 'e, 'a) io = "'w \<Rightarrow> ('e + 'a) \<times> 'w"

named_theorems nazo_defs \<open>definitions unfolded together when a component is evaluated\<close>
named_theorems evolve_intros \<open>introduction rules for the evolution relations\<close>
named_theorems frame_simps \<open>what an operation leaves unchanged\<close>

subsection \<open>Fixed-width integers\<close>

definition u32_max :: nat where "u32_max = 4294967295"
definition u64_max :: nat where "u64_max = 18446744073709551615"
definition i64_max :: int where "i64_max = 9223372036854775807"
definition i64_min :: int where "i64_min = - 9223372036854775808"

definition is_i64 :: "int \<Rightarrow> bool" where
  "is_i64 x \<longleftrightarrow> i64_min \<le> x \<and> x \<le> i64_max"

definition saturating_add_u32 :: "nat \<Rightarrow> nat \<Rightarrow> nat" where
  "saturating_add_u32 a b = min u32_max (a + b)"

definition saturating_add_u64 :: "nat \<Rightarrow> nat \<Rightarrow> nat" where
  "saturating_add_u64 a b = min u64_max (a + b)"

definition saturating_mul_u64 :: "nat \<Rightarrow> nat \<Rightarrow> nat" where
  "saturating_mul_u64 a b = min u64_max (a * b)"

definition checked_add_u64 :: "nat \<Rightarrow> nat \<Rightarrow> nat option" where
  "checked_add_u64 a b = (if a + b \<le> u64_max then Some (a + b) else None)"

definition saturating_add_i64 :: "int \<Rightarrow> int \<Rightarrow> int" where
  "saturating_add_i64 a b = max i64_min (min i64_max (a + b))"

definition saturating_sub_i64 :: "int \<Rightarrow> int \<Rightarrow> int" where
  "saturating_sub_i64 a b = max i64_min (min i64_max (a - b))"

definition checked_add_i64 :: "int \<Rightarrow> int \<Rightarrow> int option" where
  "checked_add_i64 a b = (if is_i64 (a + b) then Some (a + b) else None)"

definition checked_sub_i64 :: "int \<Rightarrow> int \<Rightarrow> int option" where
  "checked_sub_i64 a b = (if is_i64 (a - b) then Some (a - b) else None)"

text \<open>\<open>a + b\<close> on \<open>i64\<close> in a release build: it wraps around.\<close>

definition wrapping_add_i64 :: "int \<Rightarrow> int \<Rightarrow> int" where
  "wrapping_add_i64 a b = (a + b - i64_min) mod 18446744073709551616 + i64_min"

text \<open>\<open>i64::try_from\<close> on a \<open>u64\<close> and \<open>u64::try_from\<close> on an \<open>i64\<close>.\<close>

definition i64_of_u64 :: "nat \<Rightarrow> int option" where
  "i64_of_u64 n = (if int n \<le> i64_max then Some (int n) else None)"

definition u64_of_i64 :: "int \<Rightarrow> nat option" where
  "u64_of_i64 i = (if 0 \<le> i then Some (nat i) else None)"

lemmas int_bounds = u32_max_def u64_max_def i64_max_def i64_min_def

lemma saturating_add_u32_le: "saturating_add_u32 a b \<le> u32_max"
  by (simp add: saturating_add_u32_def)

lemma saturating_add_u64_le: "saturating_add_u64 a b \<le> u64_max"
  by (simp add: saturating_add_u64_def)

lemma saturating_add_u64_mono:
  "a \<le> a' \<Longrightarrow> b \<le> b' \<Longrightarrow> saturating_add_u64 a b \<le> saturating_add_u64 a' b'"
  by (auto simp: saturating_add_u64_def min_def)

lemma saturating_mul_u64_mono:
  assumes "a \<le> a'"
  shows "saturating_mul_u64 a b \<le> saturating_mul_u64 a' b"
proof -
  have "a * b \<le> a' * b" using assms by (rule mult_le_mono1)
  then show ?thesis unfolding saturating_mul_u64_def by (intro min.mono order_refl)
qed

lemma saturating_add_u32_ge: "a \<le> u32_max \<Longrightarrow> a \<le> saturating_add_u32 a b"
  by (simp add: saturating_add_u32_def)

lemma wrapping_add_i64_exact: "is_i64 (a + b) \<Longrightarrow> wrapping_add_i64 a b = a + b"
  by (simp add: wrapping_add_i64_def is_i64_def int_bounds)

lemma wrapping_add_i64_range: "is_i64 (wrapping_add_i64 a b)"
proof -
  have "0 \<le> (a + b - i64_min) mod 18446744073709551616"
    and "(a + b - i64_min) mod 18446744073709551616 < 18446744073709551616" by simp_all
  then show ?thesis by (simp add: wrapping_add_i64_def is_i64_def int_bounds)
qed

lemma checked_add_i64_Some [simp]:
  "checked_add_i64 a b = Some c \<longleftrightarrow> c = a + b \<and> is_i64 (a + b)"
  by (auto simp: checked_add_i64_def)

lemma checked_sub_i64_Some [simp]:
  "checked_sub_i64 a b = Some c \<longleftrightarrow> c = a - b \<and> is_i64 (a - b)"
  by (auto simp: checked_sub_i64_def)

lemma checked_add_u64_Some [simp]:
  "checked_add_u64 a b = Some c \<longleftrightarrow> c = a + b \<and> a + b \<le> u64_max"
  by (auto simp: checked_add_u64_def)

subsection \<open>JSON values\<close>

text \<open>\<open>serde_json::Value\<close>. Integers are separated from other numbers, which are kept by
  their literal text; an object is the list of its members.\<close>

datatype json =
    JNull
  | JBool bool
  | JInt int
  | JFloat string
  | JString string
  | JArray "json list"
  | JObject "(string \<times> json) list"

fun as_array :: "json \<Rightarrow> json list option" where
  "as_array (JArray xs) = Some xs"
| "as_array _ = None"

fun as_object :: "json \<Rightarrow> (string \<times> json) list option" where
  "as_object (JObject xs) = Some xs"
| "as_object _ = None"

fun as_str :: "json \<Rightarrow> string option" where
  "as_str (JString s) = Some s"
| "as_str _ = None"

instance json :: countable by countable_datatype

subsection \<open>Options, lists and results\<close>

definition is_some_and :: "('a \<Rightarrow> bool) \<Rightarrow> 'a option \<Rightarrow> bool" where
  "is_some_and p x = (case x of None \<Rightarrow> False | Some a \<Rightarrow> p a)"

definition is_none_or :: "('a \<Rightarrow> bool) \<Rightarrow> 'a option \<Rightarrow> bool" where
  "is_none_or p x = (case x of None \<Rightarrow> True | Some a \<Rightarrow> p a)"

lemma is_some_and_simps [simp]:
  "is_some_and p None = False" "is_some_and p (Some a) = p a"
  by (simp_all add: is_some_and_def)

lemma is_none_or_simps [simp]:
  "is_none_or p None = True" "is_none_or p (Some a) = p a"
  by (simp_all add: is_none_or_def)

lemma is_some_and_iff: "is_some_and p x \<longleftrightarrow> (\<exists>a. x = Some a \<and> p a)"
  by (cases x) auto

lemma is_none_or_iff: "is_none_or p x \<longleftrightarrow> (\<forall>a. x = Some a \<longrightarrow> p a)"
  by (cases x) auto

definition map_err :: "('e \<Rightarrow> 'f) \<Rightarrow> 'e + 'a \<Rightarrow> 'f + 'a" where
  "map_err f r = (case r of Inl e \<Rightarrow> Inl (f e) | Inr a \<Rightarrow> Inr a)"

lemma map_err_simps [simp]:
  "map_err f (Inl e) = Inl (f e)" "map_err f (Inr a) = Inr a"
  by (simp_all add: map_err_def)

lemma map_err_eq_Inr [simp]: "map_err f r = Inr a \<longleftrightarrow> r = Inr a"
  by (cases r) auto

definition ok_or :: "'e \<Rightarrow> 'a option \<Rightarrow> 'e + 'a" where
  "ok_or e x = (case x of None \<Rightarrow> Inl e | Some a \<Rightarrow> Inr a)"

lemma ok_or_simps [simp]: "ok_or e None = Inl e" "ok_or e (Some a) = Inr a"
  by (simp_all add: ok_or_def)

text \<open>The \<open>?\<close> operator: go on with the value, return the error. A function that uses it
  succeeds only if every step does.\<close>

definition and_then :: "'e + 'a \<Rightarrow> ('a \<Rightarrow> 'e + 'b) \<Rightarrow> 'e + 'b" where
  "and_then r f = (case r of Inl e \<Rightarrow> Inl e | Inr a \<Rightarrow> f a)"

lemma and_then_simps [simp]: "and_then (Inl e) f = Inl e" "and_then (Inr a) f = f a"
  by (simp_all add: and_then_def)

lemma and_then_cong [fundef_cong]:
  "r = r' \<Longrightarrow> (\<And>a. r' = Inr a \<Longrightarrow> f a = f' a) \<Longrightarrow> and_then r f = and_then r' f'"
  by (cases r') auto

lemma and_then_Inr: "and_then r f = Inr b \<longleftrightarrow> (\<exists>a. r = Inr a \<and> f a = Inr b)"
  by (cases r) auto

lemma guard_Inr: "(if c then Inl e else x) = Inr y \<longleftrightarrow> \<not> c \<and> x = Inr y"
  by simp

lemmas result_Inr = and_then_Inr guard_Inr

subsection \<open>Text\<close>

text \<open>The number of bytes of the Unicode white-space character at the front of a byte
  string, 0 if there is none: what \<open>str::trim\<close> removes.\<close>

definition byte :: "char \<Rightarrow> nat" where "byte c = of_char c"

definition ws_width :: "nat list \<Rightarrow> nat" where
  "ws_width s =
     (case s of
        [] \<Rightarrow> 0
      | a # r \<Rightarrow>
          if a = 32 \<or> (9 \<le> a \<and> a \<le> 13) then 1
          else if a = 194 \<and> (take 1 r = [133] \<or> take 1 r = [160]) then 2
          else if a = 225 \<and> take 2 r = [154, 128] then 3
          else if a = 226 \<and> take 1 r = [128] \<and>
                  is_some_and (\<lambda>c. (128 \<le> c \<and> c \<le> 138) \<or> c = 168 \<or> c = 169 \<or> c = 175)
                    (case drop 1 r of [] \<Rightarrow> None | c # _ \<Rightarrow> Some c) then 3
          else if a = 226 \<and> take 2 r = [129, 159] then 3
          else if a = 227 \<and> take 2 r = [128, 128] then 3
          else 0)"

fun blank_from :: "nat \<Rightarrow> nat list \<Rightarrow> bool" where
  "blank_from _ [] = True"
| "blank_from 0 (_ # _) = False"
| "blank_from (Suc n) s = (ws_width s \<noteq> 0 \<and> blank_from n (drop (ws_width s) s))"

text \<open>\<open>s.trim().is_empty()\<close>: the text is white space throughout. The first argument of
  \<open>blank_from\<close> bounds the number of characters; the length of the text is enough.\<close>

definition is_blank :: "string \<Rightarrow> bool" where
  "is_blank s = blank_from (length s) (map byte s)"

lemma is_blank_Nil [simp]: "is_blank []"
  by (simp add: is_blank_def)

text \<open>\<open>str::trim\<close>.\<close>

fun trim_start_from :: "nat \<Rightarrow> string \<Rightarrow> string" where
  "trim_start_from 0 s = s"
| "trim_start_from (Suc n) s =
     (let k = ws_width (map byte s) in if k = 0 then s else trim_start_from n (drop k s))"

fun trim_end :: "string \<Rightarrow> string" where
  "trim_end [] = []"
| "trim_end (c # s) = (if is_blank (c # s) then [] else c # trim_end s)"

definition trim :: "string \<Rightarrow> string" where
  "trim s = trim_end (trim_start_from (length s) s)"

definition is_ascii_alphanumeric :: "char \<Rightarrow> bool" where
  "is_ascii_alphanumeric c =
     (let b = byte c in (48 \<le> b \<and> b \<le> 57) \<or> (65 \<le> b \<and> b \<le> 90) \<or> (97 \<le> b \<and> b \<le> 122))"

definition to_ascii_uppercase :: "char \<Rightarrow> char" where
  "to_ascii_uppercase c =
     (let b = byte c in if 97 \<le> b \<and> b \<le> 122 then char_of (b - 32) else c)"

definition starts_with :: "string \<Rightarrow> string \<Rightarrow> bool" where
  "starts_with s p \<longleftrightarrow> take (length p) s = p"

fun str_contains :: "string \<Rightarrow> string \<Rightarrow> bool" where
  "str_contains [] p \<longleftrightarrow> p = []"
| "str_contains (c # s) p \<longleftrightarrow> starts_with (c # s) p \<or> str_contains s p"

lemma starts_with_iff: "starts_with s p \<longleftrightarrow> (\<exists>t. s = p @ t)"
  unfolding starts_with_def by (metis append_eq_conv_conj append_take_drop_id)

lemma str_contains_iff: "str_contains s p \<longleftrightarrow> (\<exists>a b. s = a @ p @ b)"
proof (induction s)
  case (Cons c s)
  have "(\<exists>a b. c # s = a @ p @ b) \<longleftrightarrow>
      (\<exists>b. c # s = [] @ p @ b) \<or> (\<exists>d a b. c # s = (d # a) @ p @ b)"
    by (metis list.exhaust)
  then show ?case using Cons by (simp add: starts_with_iff)
qed simp

subsection \<open>Control flow\<close>

text \<open>One iteration of a bounded loop either returns from the function or goes on.\<close>

datatype ('r, 'c) flow = Return 'r | Continue 'c

subsection \<open>Instants\<close>

text \<open>
  The \<open>chrono\<close> crate is a parameter: \<open>whole_seconds_since now t\<close> stands for
  \<open>now.signed_duration_since(t).num_seconds()\<close>, \<open>duration_seconds_ok n\<close> for
  \<open>Duration::seconds(n)\<close> not panicking, \<open>checked_add_seconds\<close> for
  \<open>checked_add_signed\<close> of such a duration. The locale states what its documentation says of
  them; \<open>chrono_ref\<close> is a concrete instance.
\<close>

record chrono =
  whole_seconds_since :: "time \<Rightarrow> time \<Rightarrow> int"
  duration_seconds_ok :: "int \<Rightarrow> bool"
  checked_add_seconds :: "time \<Rightarrow> int \<Rightarrow> time option"
  max_utc :: time

locale chrono_time =
  fixes ch :: chrono
  assumes seconds_forward:
      "t \<le> now \<Longrightarrow> whole_seconds_since ch now t = (now - t) div 1000000000"
    and seconds_backward:
      "now < t \<Longrightarrow> whole_seconds_since ch now t = - ((t - now) div 1000000000)"
    and duration_range:
      "duration_seconds_ok ch n \<longleftrightarrow> \<bar>n\<bar> \<le> i64_max div 1000"
    and add_exact: "checked_add_seconds ch t n = Some u \<Longrightarrow> u = t + n * 1000000000"
    and add_bounded: "checked_add_seconds ch t n = Some u \<Longrightarrow> u \<le> max_utc ch"
    and add_defined:
      "0 \<le> n \<Longrightarrow> t + n * 1000000000 \<le> max_utc ch \<Longrightarrow> checked_add_seconds ch t n \<noteq> None"
begin

lemma seconds_mono:
  assumes "now \<le> now'"
  shows "whole_seconds_since ch now t \<le> whole_seconds_since ch now' t"
proof (cases "t \<le> now")
  case True
  with assms show ?thesis by (simp add: seconds_forward zdiv_mono1)
next
  case False
  then have behind: "whole_seconds_since ch now t = - ((t - now) div 1000000000)"
    by (simp add: seconds_backward)
  show ?thesis
  proof (cases "t \<le> now'")
    case True
    have "0 \<le> (now' - t) div 1000000000" and "0 \<le> (t - now) div 1000000000"
      using True \<open>\<not> t \<le> now\<close> by (simp_all add: pos_imp_zdiv_nonneg_iff)
    with True behind show ?thesis by (simp add: seconds_forward)
  next
    case False
    have "(t - now') div 1000000000 \<le> (t - now) div 1000000000"
      using assms by (intro zdiv_mono1) simp_all
    with False behind show ?thesis by (simp add: seconds_backward)
  qed
qed

lemma seconds_self [simp]: "whole_seconds_since ch t t = 0"
  by (simp add: seconds_forward)

end

definition chrono_ref :: chrono where
  "chrono_ref =
     \<lparr>whole_seconds_since =
        (\<lambda>now t. if t \<le> now then (now - t) div 1000000000 else - ((t - now) div 1000000000)),
      duration_seconds_ok = (\<lambda>n. \<bar>n\<bar> \<le> i64_max div 1000),
      checked_add_seconds =
        (\<lambda>t n. let u = t + n * 1000000000
                in if u \<le> 8210266876799999999999 then Some u else None),
      max_utc = 8210266876799999999999\<rparr>"

interpretation chrono_ref: chrono_time chrono_ref
  by unfold_locales (auto simp: chrono_ref_def Let_def split: if_splits)

subsection \<open>Serialisation\<close>

text \<open>\<open>serde_json::to_string\<close> and \<open>from_str\<close> at one type. What the adapters
  rely on: a value that deserialising may return round-trips, and deserialising returns only such
  values.\<close>

record 'a codec =
  encode :: "'a \<Rightarrow> string option"
  decode :: "string \<Rightarrow> 'a option"

definition codec_for :: "('a \<Rightarrow> bool) \<Rightarrow> 'a codec \<Rightarrow> bool" where
  "codec_for ok c \<longleftrightarrow>
     (\<forall>x. ok x \<longrightarrow> (\<exists>r. encode c x = Some r \<and> decode c r = Some x)) \<and>
     (\<forall>r x. decode c r = Some x \<longrightarrow> ok x)"

lemma codec_for_encode:
  assumes "codec_for ok c" and "ok x"
  obtains r where "encode c x = Some r" and "decode c r = Some x"
  using assms unfolding codec_for_def by blast

lemma codec_for_decode: "codec_for ok c \<Longrightarrow> decode c r = Some x \<Longrightarrow> ok x"
  unfolding codec_for_def by blast

lemma codec_for_round: "codec_for ok c \<Longrightarrow> ok x \<Longrightarrow> encode c x = Some r \<Longrightarrow> decode c r = Some x"
  by (erule (1) codec_for_encode) simp

text \<open>A concrete codec for every countable type: the value's number in unary.\<close>

definition unary_codec :: "('a::countable \<Rightarrow> bool) \<Rightarrow> 'a codec" where
  "unary_codec ok =
     \<lparr>encode = (\<lambda>x. Some (replicate (to_nat x) CHR ''1'')),
      decode = (\<lambda>s. let x = from_nat (length s) in if ok x then Some x else None)\<rparr>"

lemma unary_codec_for: "codec_for ok (unary_codec ok)"
  by (auto simp: codec_for_def unary_codec_def Let_def)

subsection \<open>Compare and swap\<close>

text \<open>A store of versioned entries. What a compare-and-swap on entry \<open>h\<close> with expected version \<open>v\<close> may
  have done to the entries: nothing, drop the entry, or replace the expected one. A reported success
  is the last.\<close>

definition cas_written ::
  "(string \<Rightarrow> ('s \<times> 'v) option) \<Rightarrow> string \<Rightarrow> 'v \<Rightarrow> 's \<Rightarrow> 'v \<Rightarrow>
     (string \<Rightarrow> ('s \<times> 'v) option) \<Rightarrow> bool"
where
  "cas_written e h v s' v' e' \<longleftrightarrow> (\<exists>s. e h = Some (s, v)) \<and> e' = e(h \<mapsto> (s', v'))"

definition cas_effect ::
  "(string \<Rightarrow> ('s \<times> 'v) option) \<Rightarrow> string \<Rightarrow> 'v \<Rightarrow> 's \<Rightarrow>
     (string \<Rightarrow> ('s \<times> 'v) option) \<Rightarrow> bool"
where
  "cas_effect e h v s' e' \<longleftrightarrow>
     e' = e \<or> e' = e(h := None) \<or> (\<exists>v'. cas_written e h v s' v' e')"

end
