(* ===== verification/Text_Ops.thy ===== *)
theory Text_Ops
  imports Prelude "HOL-Library.List_Lexorder" "HOL-Library.Char_ord"
begin

text \<open>
  The parts of Rust's string API the OAuth policies use beyond those of the prelude: splitting,
  joining, prefixes and suffixes, counting characters, \<open>split_whitespace\<close> and
  \<open>parse::<i64>\<close>. Texts are byte strings in UTF-8, ordered bytewise as \<open>str\<close>
  is. The lemmas are the laws the component theories use: splitting and joining on a separator
  are inverse to each other, and the words of a text contain no white space.
\<close>

subsection \<open>The only element\<close>

text \<open>An iterator whose \<open>next()\<close> yields a value once and then nothing.\<close>

fun the_only :: "'a list \<Rightarrow> 'a option" where
  "the_only [x] = Some x"
| "the_only _ = None"

lemma the_only_Some [simp]: "the_only xs = Some x \<longleftrightarrow> xs = [x]"
  by (cases xs rule: the_only.cases) auto

subsection \<open>Splitting and joining\<close>

text \<open>\<open>str::split\<close> at a character: there is always a first segment.\<close>

fun split_on :: "char \<Rightarrow> string \<Rightarrow> string list" where
  "split_on c [] = [[]]"
| "split_on c (x # s) =
     (if x = c then [] # split_on c s
      else (case split_on c s of [] \<Rightarrow> [[x]] | t # ts \<Rightarrow> (x # t) # ts))"

fun join :: "string \<Rightarrow> string list \<Rightarrow> string" where
  "join sep [] = []"
| "join sep [t] = t"
| "join sep (t # ts) = t @ sep @ join sep ts"

lemma join_Cons: "join sep (t # ts) = (if ts = [] then t else t @ sep @ join sep ts)"
  by (cases ts) simp_all

lemma split_on_ne [simp]: "split_on c s \<noteq> []"
  by (induction s) (auto split: list.splits)

lemma split_on_piece: "t \<in> set (split_on c s) \<Longrightarrow> c \<notin> set t"
proof (induction s arbitrary: t)
  case (Cons x s)
  then show ?case
    by (cases "split_on c s") (auto split: if_splits)
qed simp

lemma split_on_free: "c \<notin> set t \<Longrightarrow> split_on c t = [t]"
  by (induction t) auto

lemma split_on_append:
  "c \<notin> set t \<Longrightarrow> split_on c (t @ c # s) = t # split_on c s"
  by (induction t) auto

lemma split_on_join:
  assumes "ts \<noteq> []" and "\<forall>t \<in> set ts. c \<notin> set t"
  shows "split_on c (join [c] ts) = ts"
  using assms
proof (induction ts)
  case (Cons t ts)
  then show ?case
    by (cases "ts = []") (simp_all add: join_Cons split_on_free split_on_append)
qed simp

lemma join_split_on: "join [c] (split_on c s) = s"
proof (induction s)
  case (Cons x s)
  then show ?case
    by (cases "split_on c s") (auto simp: join_Cons split: if_splits)
qed simp

text \<open>\<open>str::split_once\<close> at a pattern and \<open>str::rsplit_once\<close> at a character.\<close>

fun split_once :: "string \<Rightarrow> string \<Rightarrow> (string \<times> string) option" where
  "split_once p [] = (if p = [] then Some ([], []) else None)"
| "split_once p (x # s) =
     (if starts_with (x # s) p then Some ([], drop (length p) (x # s))
      else map_option (\<lambda>(a, b). (x # a, b)) (split_once p s))"

fun rsplit_once :: "char \<Rightarrow> string \<Rightarrow> (string \<times> string) option" where
  "rsplit_once c [] = None"
| "rsplit_once c (x # s) =
     (case rsplit_once c s of
        Some (a, b) \<Rightarrow> Some (x # a, b)
      | None \<Rightarrow> if x = c then Some ([], s) else None)"

lemma rsplit_once_None: "rsplit_once c s = None \<longleftrightarrow> c \<notin> set s"
  by (induction s) (auto split: option.splits)

lemma rsplit_once_append: "c \<notin> set t \<Longrightarrow> rsplit_once c (s @ c # t) = Some (s, t)"
  by (induction s) (simp_all add: rsplit_once_None [THEN iffD2])

lemma rsplit_once_Some: "rsplit_once c s = Some (a, b) \<Longrightarrow> s = a @ c # b \<and> c \<notin> set b"
  by (induction s arbitrary: a b) (auto simp: rsplit_once_None split: option.splits if_splits)

definition strip_prefix :: "string \<Rightarrow> string \<Rightarrow> string option" where
  "strip_prefix s p = (if starts_with s p then Some (drop (length p) s) else None)"

definition ends_with :: "string \<Rightarrow> string \<Rightarrow> bool" where
  "ends_with s p \<longleftrightarrow> length p \<le> length s \<and> drop (length s - length p) s = p"

definition strip_suffix :: "string \<Rightarrow> string \<Rightarrow> string option" where
  "strip_suffix s p = (if ends_with s p then Some (take (length s - length p) s) else None)"

lemma strip_prefix_Some [simp]: "strip_prefix s p = Some t \<longleftrightarrow> s = p @ t"
  by (auto simp: strip_prefix_def starts_with_iff)

lemma strip_suffix_Some [simp]: "strip_suffix s p = Some t \<longleftrightarrow> s = t @ p"
proof
  assume "strip_suffix s p = Some t"
  then have "drop (length s - length p) s = p" and "take (length s - length p) s = t"
    by (auto simp: strip_suffix_def ends_with_def split: if_splits)
  then show "s = t @ p" using append_take_drop_id [of "length s - length p" s] by simp
qed (simp add: strip_suffix_def ends_with_def)

subsection \<open>Characters\<close>

definition to_ascii_lowercase :: "char \<Rightarrow> char" where
  "to_ascii_lowercase c =
     (let b = byte c in if 65 \<le> b \<and> b \<le> 90 then char_of (b + 32) else c)"

definition eq_ignore_ascii_case :: "string \<Rightarrow> string \<Rightarrow> bool" where
  "eq_ignore_ascii_case s t \<longleftrightarrow> map to_ascii_lowercase s = map to_ascii_lowercase t"

text \<open>\<open>s.chars().count()\<close>: the bytes that do not continue a character.\<close>

definition chars_count :: "string \<Rightarrow> nat" where
  "chars_count s = length (filter (\<lambda>c. \<not> (128 \<le> byte c \<and> byte c < 192)) s)"

lemma chars_count_le: "chars_count s \<le> length s"
  by (simp add: chars_count_def)

text \<open>\<open>char::to_digit(16)\<close>.\<close>

definition hex_digit :: "char \<Rightarrow> nat option" where
  "hex_digit c =
     (let b = byte c in
      if 48 \<le> b \<and> b \<le> 57 then Some (b - 48)
      else if 97 \<le> b \<and> b \<le> 102 then Some (b - 87)
      else if 65 \<le> b \<and> b \<le> 70 then Some (b - 55)
      else None)"

lemma hex_digit_less: "hex_digit c = Some d \<Longrightarrow> d < 16"
  by (auto simp: hex_digit_def Let_def split: if_splits)

subsection \<open>White space\<close>

text \<open>\<open>str::split_whitespace\<close>: the second argument is the word read so far.\<close>

fun split_words :: "string \<Rightarrow> string \<Rightarrow> string list" where
  "split_words [] w = (if w = [] then [] else [w])"
| "split_words (c # s) w =
     (let k = ws_width (map byte (c # s)) in
      if k = 0 then split_words s (w @ [c])
      else (if w = [] then [] else [w]) @ split_words (drop (k - 1) s) [])"

definition split_whitespace :: "string \<Rightarrow> string list" where
  "split_whitespace s = split_words s []"

lemma split_words_ne: "w \<in> set (split_words s v) \<Longrightarrow> w \<noteq> []"
  by (induction s v rule: split_words.induct) (auto simp: Let_def split: if_splits)

lemma split_whitespace_ne: "w \<in> set (split_whitespace s) \<Longrightarrow> w \<noteq> []"
  by (simp add: split_whitespace_def split_words_ne)

lemma ws_width_space: "ws_width (32 # s) = 1"
  by (simp add: ws_width_def)

lemma split_words_space: "CHR '' '' \<notin> set v \<Longrightarrow> w \<in> set (split_words s v) \<Longrightarrow> CHR '' '' \<notin> set w"
proof (induction s v rule: split_words.induct)
  case (2 c s w)
  have "c \<noteq> CHR '' ''" if "ws_width (map byte (c # s)) = 0"
    using that by (auto simp: byte_def ws_width_space)
  with 2 show ?case by (auto simp: Let_def split: if_splits)
qed (auto split: if_splits)

text \<open>A text of printable ASCII characters is its own trimmed text and a single word.\<close>

definition printable :: "char \<Rightarrow> bool" where
  "printable c \<longleftrightarrow> 33 \<le> byte c \<and> byte c < 127"

lemma ws_width_Nil [simp]: "ws_width [] = 0"
  by (simp add: ws_width_def)

lemma ws_width_printable: "printable c \<Longrightarrow> ws_width (map byte (c # s)) = 0"
  by (simp add: printable_def ws_width_def)

lemma not_blank_printable: "printable c \<Longrightarrow> \<not> is_blank (c # s)"
  using ws_width_printable [of c s] by (simp add: is_blank_def)

lemma trim_printable:
  assumes "\<forall>c \<in> set s. printable c"
  shows "trim s = s"
proof -
  have "trim_end s = s"
    using assms by (induction s) (simp_all add: not_blank_printable)
  moreover have "trim_start_from n s = s" for n
    using assms by (cases n; cases s) (simp_all add: ws_width_printable [simplified] Let_def)
  ultimately show ?thesis by (simp add: trim_def)
qed

subsection \<open>Numbers\<close>

definition decimal_digit :: "char \<Rightarrow> nat option" where
  "decimal_digit c = (let b = byte c in if 48 \<le> b \<and> b \<le> 57 then Some (b - 48) else None)"

fun parse_digits :: "nat \<Rightarrow> string \<Rightarrow> nat option" where
  "parse_digits n [] = Some n"
| "parse_digits n (c # s) =
     (case decimal_digit c of None \<Rightarrow> None | Some d \<Rightarrow> parse_digits (10 * n + d) s)"

text \<open>\<open>str::parse::<i64>\<close>: an optional sign and at least one digit, within range.\<close>

definition parse_signed :: "int \<Rightarrow> string \<Rightarrow> int option" where
  "parse_signed sign s =
     (if s = [] then None
      else case parse_digits 0 s of
        None \<Rightarrow> None
      | Some n \<Rightarrow> if is_i64 (sign * int n) then Some (sign * int n) else None)"

fun parse_i64 :: "string \<Rightarrow> int option" where
  "parse_i64 [] = None"
| "parse_i64 (c # s) =
     (if c = CHR ''+'' then parse_signed 1 s
      else if c = CHR ''-'' then parse_signed (- 1) s
      else parse_signed 1 (c # s))"

lemma parse_i64_range: "parse_i64 s = Some i \<Longrightarrow> is_i64 i"
  by (cases s) (auto simp: parse_signed_def split: if_splits option.splits)

text \<open>\<open>Display\<close> of an integer.\<close>

definition digit_char :: "nat \<Rightarrow> char" where
  "digit_char d = char_of (48 + d)"

fun nat_text :: "nat \<Rightarrow> string" where
  "nat_text n =
     (if n < 10 then [digit_char n] else nat_text (n div 10) @ [digit_char (n mod 10)])"

declare nat_text.simps [simp del]

definition int_text :: "int \<Rightarrow> string" where
  "int_text i = (if i < 0 then CHR ''-'' # nat_text (nat (- i)) else nat_text (nat i))"

lemma decimal_digit_char [simp]: "d < 10 \<Longrightarrow> decimal_digit (digit_char d) = Some d"
  by (simp add: decimal_digit_def digit_char_def byte_def Let_def)

lemma parse_digits_append:
  "parse_digits k (s @ t) = Option.bind (parse_digits k s) (\<lambda>m. parse_digits m t)"
  by (induction s arbitrary: k) (auto split: option.split)

lemma parse_nat_text [simp]: "parse_digits 0 (nat_text n) = Some n"
proof (induction n rule: nat_text.induct)
  case (1 n)
  then show ?case
    by (subst nat_text.simps) (auto simp: parse_digits_append)
qed

lemma nat_text_nonempty [simp]: "nat_text n \<noteq> []"
  by (subst nat_text.simps) simp

lemma nat_text_hd: "decimal_digit (hd (nat_text n)) \<noteq> None"
proof (induction n rule: nat_text.induct)
  case (1 n)
  then show ?case by (subst nat_text.simps) (auto simp: hd_append)
qed

lemma parse_int_text: "is_i64 i \<Longrightarrow> parse_i64 (int_text i) = Some i"
proof -
  assume i: "is_i64 i"
  obtain c s where cs: "nat_text (nat i) = c # s" by (cases "nat_text (nat i)") auto
  have "c \<noteq> CHR ''+''" and "c \<noteq> CHR ''-''"
    using nat_text_hd [of "nat i"] cs by (auto simp: decimal_digit_def byte_def)
  moreover have "parse_digits 0 (c # s) = Some (nat i)" using cs by (metis parse_nat_text)
  ultimately show ?thesis
    using i cs by (auto simp: int_text_def parse_signed_def simp del: parse_digits.simps)
qed

subsection \<open>Sorted texts\<close>

text \<open>\<open>sort_unstable\<close> followed by \<open>dedup\<close>.\<close>

definition sort_dedup :: "string list \<Rightarrow> string list" where
  "sort_dedup ts = remdups_adj (sort ts)"

lemma set_sort_dedup [simp]: "set (sort_dedup ts) = set ts"
  by (simp add: sort_dedup_def)

lemma sort_dedup_Nil_iff [simp]: "sort_dedup ts = [] \<longleftrightarrow> ts = []"
  by (metis set_empty set_sort_dedup)

lemma sorted_sort_dedup: "sorted (sort_dedup ts)"
  unfolding sort_dedup_def by (simp add: sorted_remdups_adj)

lemma distinct_sort_dedup: "distinct (sort_dedup ts)"
proof -
  have "sorted xs \<Longrightarrow> distinct (remdups_adj xs)" for xs :: "string list"
  proof (induction xs rule: remdups_adj.induct)
    case (3 x y xs)
    then show ?case by (auto simp: order_le_less)
  qed auto
  then show ?thesis by (simp add: sort_dedup_def)
qed

end
