(* ===== verification/Base64.thy ===== *)
theory Base64
  imports Text_Ops
begin

text \<open>
  The engine \<open>URL_SAFE_NO_PAD\<close> of the \<open>base64\<close> crate. The crate is not part of the
  program, so the engine is a parameter of the definitions that use it; the locale
  \<open>base64_engine\<close> states what its documentation says (RFC 4648 section 5 without
  padding). \<open>base64url\<close> is a concrete engine, which satisfies these laws and on which
  the examples are evaluated.
\<close>

record base64 =
  b64_encode :: "string \<Rightarrow> string"
  b64_decode :: "string \<Rightarrow> string option"
  b64_decode_slice :: "nat \<Rightarrow> string \<Rightarrow> string option"

definition b64_alphabet :: string where
  "b64_alphabet = ''ABCDEFGHIJKLMNOPQRSTUVWXYZabcdefghijklmnopqrstuvwxyz0123456789-_''"

locale base64_engine =
  fixes b64 :: base64
  assumes decode_encode: "b64_decode b64 (b64_encode b64 bs) = Some bs"
    and encode_alphabet: "set (b64_encode b64 bs) \<subseteq> set b64_alphabet"
    and decode_alphabet: "b64_decode b64 s = Some bs \<Longrightarrow> set s \<subseteq> set b64_alphabet"
    and encode_length: "length (b64_encode b64 bs) = (4 * length bs + 2) div 3"
    and decode_slice:
      "b64_decode_slice b64 n s = Some bs \<longleftrightarrow> b64_decode b64 s = Some bs \<and> length bs \<le> n"
begin

lemma encode_inject: "b64_encode b64 a = b64_encode b64 b \<longleftrightarrow> a = b"
  by (metis decode_encode option.inject)

lemma alphabet_printable: "c \<in> set b64_alphabet \<Longrightarrow> printable c"
  by (auto simp: b64_alphabet_def printable_def byte_def)

lemma encode_no_dot: "CHR ''.'' \<notin> set (b64_encode b64 bs)"
proof
  assume "CHR ''.'' \<in> set (b64_encode b64 bs)"
  then have "CHR ''.'' \<in> set b64_alphabet" using encode_alphabet by blast
  then show False by (simp add: b64_alphabet_def)
qed

lemma decode_slice_encode:
  "length bs \<le> n \<Longrightarrow> b64_decode_slice b64 n (b64_encode b64 bs) = Some bs"
  by (simp add: decode_slice decode_encode)

end

subsection \<open>A concrete engine\<close>

definition sextet_char :: "nat \<Rightarrow> char" where
  "sextet_char n = b64_alphabet ! n"

definition char_sextet :: "char \<Rightarrow> nat option" where
  "char_sextet c = map_of (zip b64_alphabet [0..<64]) c"

fun encode_bytes :: "nat list \<Rightarrow> nat list" where
  "encode_bytes [] = []"
| "encode_bytes [a] = [a div 4, a mod 4 * 16]"
| "encode_bytes [a, b] = [a div 4, a mod 4 * 16 + b div 16, b mod 16 * 4]"
| "encode_bytes (a # b # c # r) =
     [a div 4, a mod 4 * 16 + b div 16, b mod 16 * 4 + c div 64, c mod 64] @ encode_bytes r"

fun decode_sextets :: "nat list \<Rightarrow> nat list option" where
  "decode_sextets [] = Some []"
| "decode_sextets [v] = None"
| "decode_sextets [v, w] = (if w mod 16 = 0 then Some [v * 4 + w div 16] else None)"
| "decode_sextets [v, w, x] =
     (if x mod 4 = 0 then Some [v * 4 + w div 16, w mod 16 * 16 + x div 4] else None)"
| "decode_sextets (v # w # x # y # r) =
     map_option (\<lambda>bs. [v * 4 + w div 16, w mod 16 * 16 + x div 4, x mod 4 * 64 + y] @ bs)
       (decode_sextets r)"

fun sextets :: "string \<Rightarrow> nat list option" where
  "sextets [] = Some []"
| "sextets (c # s) =
     (case char_sextet c of None \<Rightarrow> None | Some v \<Rightarrow> map_option ((#) v) (sextets s))"

definition decode_text :: "string \<Rightarrow> string option" where
  "decode_text s = map_option (map char_of) (Option.bind (sextets s) decode_sextets)"

definition base64url :: base64 where
  "base64url =
     \<lparr>b64_encode = (\<lambda>bs. map sextet_char (encode_bytes (map byte bs))),
      b64_decode = decode_text,
      b64_decode_slice =
        (\<lambda>n s. case decode_text s of
           None \<Rightarrow> None | Some bs \<Rightarrow> if length bs \<le> n then Some bs else None)\<rparr>"

lemma byte_less: "byte c < 256"
proof -
  have "byte c = byte c mod 256"
    unfolding byte_def by (metis char_of_char of_char_of)
  then show ?thesis by (metis mod_less_divisor zero_less_numeral)
qed

lemma char_of_byte [simp]: "char_of (byte c) = c"
  by (simp add: byte_def)

lemma b64_alphabet_facts: "distinct b64_alphabet" "length b64_alphabet = 64"
  by (simp_all add: b64_alphabet_def)

lemma char_sextet_char: "n < 64 \<Longrightarrow> char_sextet (sextet_char n) = Some n"
  unfolding char_sextet_def sextet_char_def
  by (subst map_of_zip_nth) (simp_all add: b64_alphabet_facts)

lemma char_sextet_alphabet: "char_sextet c = Some v \<Longrightarrow> c \<in> set b64_alphabet"
  unfolding char_sextet_def by (auto dest!: map_of_SomeD set_zip_leftD)

lemma sextets_alphabet: "sextets s = Some vs \<Longrightarrow> set s \<subseteq> set b64_alphabet"
  by (induction s arbitrary: vs) (auto dest: char_sextet_alphabet split: option.splits)

lemma octet_parts:
  fixes a :: nat
  assumes "a < 256"
  shows "a div 4 < 64" "a div 16 < 16" "a div 64 < 4"
  using assms by (simp_all add: less_mult_imp_div_less)

lemma sextet_parts:
  fixes a b :: nat
  shows "a mod 4 * 16 < 64" "a mod 16 * 4 < 64"
    "b < 256 \<Longrightarrow> a mod 4 * 16 + b div 16 < 64"
    "b < 256 \<Longrightarrow> a mod 16 * 4 + b div 64 < 64"
proof -
  have *: "a mod 4 \<le> 3" "a mod 16 \<le> 15" by simp_all
  then show "a mod 4 * 16 < 64" "a mod 16 * 4 < 64" by linarith+
  assume "b < 256"
  then have "b div 16 \<le> 15" "b div 64 \<le> 3" using octet_parts [of b] by linarith+
  with * show "a mod 4 * 16 + b div 16 < 64" "a mod 16 * 4 + b div 64 < 64" by linarith+
qed

lemma encode_bytes_range: "\<forall>a \<in> set as. a < 256 \<Longrightarrow> \<forall>v \<in> set (encode_bytes as). v < 64"
  by (induction as rule: encode_bytes.induct) (simp_all add: octet_parts sextet_parts)

lemma digit_split:
  fixes q :: nat
  shows "q < 16 \<Longrightarrow> (x * 16 + q) div 16 = x" "q < 16 \<Longrightarrow> (x * 16 + q) mod 16 = q"
    "q < 4 \<Longrightarrow> (x * 4 + q) div 4 = x" "q < 4 \<Longrightarrow> (x * 4 + q) mod 4 = q"
  by simp_all

lemma decode_encode_bytes: "\<forall>a \<in> set as. a < 256 \<Longrightarrow> decode_sextets (encode_bytes as) = Some as"
proof (induction as rule: encode_bytes.induct)
  case (3 a b)
  then have "b div 16 < 16" by (simp add: octet_parts)
  then show ?case by (simp add: digit_split)
next
  case (4 a b c r)
  then have "decode_sextets (encode_bytes r) = Some r" and "b div 16 < 16" and "c div 64 < 4"
    by (simp_all add: octet_parts)
  then show ?case by (simp add: digit_split)
qed simp_all

lemma sextets_map: "\<forall>v \<in> set vs. v < 64 \<Longrightarrow> sextets (map sextet_char vs) = Some vs"
  by (induction vs) (simp_all add: char_sextet_char)

lemma encode_bytes_length: "length (encode_bytes as) = (4 * length as + 2) div 3"
  by (induction as rule: encode_bytes.induct) simp_all

interpretation base64url: base64_engine base64url
proof unfold_locales
  fix bs n s
  have bytes: "\<forall>a \<in> set (map byte bs). a < 256" by (auto simp: byte_less)
  then have small: "\<forall>v \<in> set (encode_bytes (map byte bs)). v < 64"
    by (rule encode_bytes_range)
  show "b64_decode base64url (b64_encode base64url bs) = Some bs"
    using bytes small
    by (simp add: base64url_def decode_text_def sextets_map decode_encode_bytes comp_def)
  have "sextet_char v \<in> set b64_alphabet" if "v < 64" for v
    unfolding sextet_char_def by (rule nth_mem) (use that in \<open>simp add: b64_alphabet_facts\<close>)
  with small show "set (b64_encode base64url bs) \<subseteq> set b64_alphabet"
    by (auto simp: base64url_def)
  show "set s \<subseteq> set b64_alphabet" if "b64_decode base64url s = Some bs"
    using that
    by (auto simp: base64url_def decode_text_def bind_eq_Some_conv dest!: sextets_alphabet)
  show "length (b64_encode base64url bs) = (4 * length bs + 2) div 3"
    by (simp add: base64url_def encode_bytes_length)
  show "b64_decode_slice base64url n s = Some bs \<longleftrightarrow>
      b64_decode base64url s = Some bs \<and> length bs \<le> n"
    by (auto simp: base64url_def split: option.splits if_splits)
qed

end
