(* ===== verification/Uri_Policy.thy ===== *)
theory Uri_Policy
  imports Base64
begin

text \<open>
  URL policy and the parameters built from URLs
  (\<open>src/crates/authorization-server-core/src\<close>: \<open>uri_policy.rs\<close>,
  \<open>resource_indicator.rs\<close>, \<open>oauth_parameters.rs\<close>,
  \<open>session_management.rs\<close>). The \<open>url\<close> crate is a parameter:
  \<open>url_lib\<close> holds \<open>Url::parse\<close>, whose result is the record of what the
  accessors of \<open>Url\<close> return, and the two ways the program writes a changed URL back.
  Error messages of \<open>anyhow\<close> are kept as the label and the cause.
\<close>

subsection \<open>URLs\<close>

datatype url_host = HostDomain string | HostIpv4 nat | HostIpv6 nat

record url =
  url_scheme :: string
  url_username :: string
  url_password :: "string option"
  url_host_of :: "url_host option"
  url_host_str :: "string option"
  url_port :: "nat option"
  url_path :: string
  url_query :: "string option"
  url_fragment :: "string option"
  url_origin :: string
  url_text :: string

record url_lib =
  url_parse :: "string \<Rightarrow> url option"
  url_without_query_fragment :: "url \<Rightarrow> string"
  url_append_pairs :: "url \<Rightarrow> (string \<times> string) list \<Rightarrow> string"

text \<open>\<open>Ipv4Addr::is_loopback\<close> is 127.0.0.0/8, \<open>Ipv6Addr::is_loopback\<close> is \<open>::1\<close>.\<close>

fun is_loopback_address :: "url_host \<Rightarrow> bool" where
  "is_loopback_address (HostDomain host) = eq_ignore_ascii_case host ''localhost''"
| "is_loopback_address (HostIpv4 a) = (a div 16777216 = 127)"
| "is_loopback_address (HostIpv6 a) = (a = 1)"

definition is_loopback_host :: "url \<Rightarrow> bool" where
  "is_loopback_host u = is_some_and is_loopback_address (url_host_of u)"

datatype uri_cause =
    OuterWhitespace | NotAbsolute | NoHost | TrailingSlash | HasCredentials
  | HasQueryOrFragment | NotAnOrigin | HasFragment | NotHttps | HasWildcard
  | HttpNotLoopback | BadRedirectScheme

type_synonym uri_error = "string \<times> uri_cause"

definition parse_url :: "url_lib \<Rightarrow> string \<Rightarrow> string \<Rightarrow> uri_error + url" where
  "parse_url ul label v =
     (if v \<noteq> trim v then Inl (label, OuterWhitespace)
      else ok_or (label, NotAbsolute) (url_parse ul v))"

definition validate_https_or_loopback_http :: "string \<Rightarrow> url \<Rightarrow> uri_error + unit" where
  "validate_https_or_loopback_http label u =
     (if url_scheme u = ''https'' then Inr ()
      else if url_scheme u = ''http'' \<and> is_loopback_host u then Inr ()
      else Inl (label, NotHttps))"

text \<open>The authority as written: up to the first \<open>/\<close>, \<open>?\<close> or \<open>#\<close> after \<open>://\<close>.\<close>

definition has_explicit_userinfo :: "string \<Rightarrow> bool" where
  "has_explicit_userinfo v =
     (case split_once ''://'' v of
        None \<Rightarrow> False
      | Some (_, remainder) \<Rightarrow>
          CHR ''@'' \<in> set (takeWhile (\<lambda>c. c \<notin> set ''/?#'') remainder))"

definition reject_url_credentials :: "string \<Rightarrow> string \<Rightarrow> url \<Rightarrow> uri_error + unit" where
  "reject_url_credentials label v u =
     (if has_explicit_userinfo v \<or> url_username u \<noteq> [] \<or> url_password u \<noteq> None
      then Inl (label, HasCredentials) else Inr ())"

definition validate_issuer_url :: "url_lib \<Rightarrow> string \<Rightarrow> uri_error + url" where
  "validate_issuer_url ul v =
     and_then (parse_url ul ''issuer'' v) (\<lambda>u.
     if url_host_of u = None then Inl (''issuer'', NoHost)
     else if ends_with v ''/'' then Inl (''issuer'', TrailingSlash)
     else and_then (reject_url_credentials ''issuer'' v u) (\<lambda>_.
     if url_query u \<noteq> None \<or> url_fragment u \<noteq> None then Inl (''issuer'', HasQueryOrFragment)
     else and_then (validate_https_or_loopback_http ''issuer'' u) (\<lambda>_. Inr u)))"

definition validate_frontend_base_url :: "url_lib \<Rightarrow> string \<Rightarrow> uri_error + unit" where
  "validate_frontend_base_url ul v =
     (let label = ''FRONTEND_BASE_URL'' in
      and_then (parse_url ul label v) (\<lambda>u.
      if url_host_of u = None then Inl (label, NoHost)
      else and_then (reject_url_credentials label v u) (\<lambda>_.
      if url_query u \<noteq> None \<or> url_fragment u \<noteq> None then Inl (label, HasQueryOrFragment)
      else validate_https_or_loopback_http label u)))"

definition validate_cors_origin :: "url_lib \<Rightarrow> string \<Rightarrow> uri_error + unit" where
  "validate_cors_origin ul v =
     (let label = ''CORS_ALLOWED_ORIGINS'' in
      and_then (parse_url ul label v) (\<lambda>u.
      if url_host_of u = None then Inl (label, NoHost)
      else and_then (reject_url_credentials label v u) (\<lambda>_.
      if url_path u \<noteq> ''/'' \<or> url_query u \<noteq> None \<or> url_fragment u \<noteq> None
      then Inl (label, NotAnOrigin)
      else validate_https_or_loopback_http label u)))"

definition validate_http_endpoint :: "url_lib \<Rightarrow> string \<Rightarrow> string \<Rightarrow> uri_error + url" where
  "validate_http_endpoint ul label v =
     and_then (parse_url ul label v) (\<lambda>u.
     if url_host_of u = None then Inl (label, NoHost)
     else and_then (reject_url_credentials label v u) (\<lambda>_.
     if url_fragment u \<noteq> None then Inl (label, HasFragment)
     else and_then (validate_https_or_loopback_http label u) (\<lambda>_. Inr u)))"

definition validate_protected_resource_identifier :: "url_lib \<Rightarrow> string \<Rightarrow> uri_error + unit" where
  "validate_protected_resource_identifier ul v =
     and_then (validate_http_endpoint ul ''PROTECTED_RESOURCE_IDENTIFIER'' v) (\<lambda>_. Inr ())"

definition validate_http_endpoint_url :: "url_lib \<Rightarrow> string \<Rightarrow> uri_error + url" where
  "validate_http_endpoint_url ul v = validate_http_endpoint ul ''endpoint'' v"

subsection \<open>Redirect URIs\<close>

datatype redirect_uri_error = RedirectMissing | RedirectInvalid

definition validate_oauth_redirect_uri :: "url_lib \<Rightarrow> string \<Rightarrow> string \<Rightarrow> uri_error + unit" where
  "validate_oauth_redirect_uri ul ctype v =
     (let label = ''redirect_uri'' in
      if CHR ''*'' \<in> set v then Inl (label, HasWildcard)
      else and_then (parse_url ul label v) (\<lambda>u.
      and_then (reject_url_credentials label v u) (\<lambda>_.
      if url_fragment u \<noteq> None then Inl (label, HasFragment)
      else if url_scheme u = ''https'' then Inr ()
      else if url_scheme u = ''http'' then
        (if ctype \<noteq> ''public'' \<or> \<not> is_loopback_host u then Inl (label, HttpNotLoopback) else Inr ())
      else if ctype = ''public'' \<and> CHR ''.'' \<in> set (url_scheme u) then Inr ()
      else Inl (label, BadRedirectScheme))))"

definition loopback_redirect_matches :: "url \<Rightarrow> url \<Rightarrow> bool" where
  "loopback_redirect_matches r q \<longleftrightarrow>
     url_scheme r = ''http'' \<and> url_scheme q = ''http'' \<and>
     is_loopback_host r \<and> is_loopback_host q \<and>
     url_host_str r = url_host_str q \<and>
     url_username r = url_username q \<and>
     url_password r = url_password q \<and>
     url_path r = url_path q \<and>
     url_query r = url_query q \<and>
     url_fragment r = url_fragment q"

definition oauth_redirect_uri_matches :: "url_lib \<Rightarrow> string \<Rightarrow> string \<Rightarrow> string \<Rightarrow> bool" where
  "oauth_redirect_uri_matches ul ctype registered requested =
     (if registered = requested then True
      else if ctype \<noteq> ''public'' then False
      else case (url_parse ul registered, url_parse ul requested) of
        (Some r, Some q) \<Rightarrow> loopback_redirect_matches r q
      | _ \<Rightarrow> False)"

definition resolve_registered_redirect_uri ::
  "url_lib \<Rightarrow> string \<Rightarrow> string list \<Rightarrow> string option \<Rightarrow> redirect_uri_error + string"
where
  "resolve_registered_redirect_uri ul ctype registered requested =
     (case requested of
        Some v \<Rightarrow>
          if list_ex (\<lambda>r. oauth_redirect_uri_matches ul ctype r v) registered then Inr v
          else Inl RedirectInvalid
      | None \<Rightarrow> (case registered of [only] \<Rightarrow> Inr only | _ \<Rightarrow> Inl RedirectMissing))"

definition is_valid_pkce_value :: "string \<Rightarrow> bool" where
  "is_valid_pkce_value v \<longleftrightarrow>
     43 \<le> length v \<and> length v \<le> 128 \<and>
     list_all (\<lambda>c. is_ascii_alphanumeric c \<or> c \<in> set ''-._~'') v"

definition is_loopback_http_url :: "url_lib \<Rightarrow> string \<Rightarrow> bool" where
  "is_loopback_http_url ul v =
     is_some_and (\<lambda>u. url_scheme u = ''http'' \<and> is_loopback_host u) (url_parse ul v)"

subsection \<open>Scopes, audiences and repeated parameters\<close>

definition parse_scope :: "string \<Rightarrow> string list" where
  "parse_scope raw = filter (\<lambda>s. s \<noteq> []) (split_on CHR '' '' raw)"

definition is_valid_scope_token :: "string \<Rightarrow> bool" where
  "is_valid_scope_token s \<longleftrightarrow> s \<noteq> [] \<and>
     list_all (\<lambda>c. let b = byte c in b = 33 \<or> (35 \<le> b \<and> b \<le> 91) \<or> (93 \<le> b \<and> b \<le> 126)) s"

definition string_array_values :: "json \<Rightarrow> string list" where
  "string_array_values v = (case as_array v of None \<Rightarrow> [] | Some vs \<Rightarrow> List.map_filter as_str vs)"

definition is_subset :: "string list \<Rightarrow> string list \<Rightarrow> bool" where
  "is_subset requested allowed = list_all (\<lambda>v. v \<in> set allowed) requested"

fun token_audience_values :: "json \<Rightarrow> string list" where
  "token_audience_values (JString v) = [v]"
| "token_audience_values (JArray vs) = List.map_filter as_str vs"
| "token_audience_values _ = []"

fun token_audience_contains :: "json \<Rightarrow> string \<Rightarrow> bool" where
  "token_audience_contains (JString a) expected = (a = expected)"
| "token_audience_contains (JArray vs) expected =
     list_ex (\<lambda>a. a = expected) (List.map_filter as_str vs)"
| "token_audience_contains _ _ = False"

text \<open>The loop over the parsed pairs; the last argument is \<open>seen\<close>.
  \<open>form_urlencoded::parse\<close> is the argument of \<open>has_duplicate_oauth_parameter\<close>.\<close>

fun duplicate_in :: "string list \<Rightarrow> (string \<times> string) list \<Rightarrow> string list \<Rightarrow> bool" where
  "duplicate_in names [] seen = False"
| "duplicate_in names ((k, _) # pairs) seen =
     (if k \<in> set names then
        if k \<in> set seen then True else duplicate_in names pairs (k # seen)
      else duplicate_in names pairs seen)"

definition has_duplicate_oauth_parameter ::
  "(string \<Rightarrow> (string \<times> string) list) \<Rightarrow> string \<Rightarrow> string list \<Rightarrow> bool"
where
  "has_duplicate_oauth_parameter form_parse raw_query names =
     duplicate_in names (form_parse raw_query) []"

subsection \<open>Resource indicators\<close>

text \<open>\<open>serde_json::to_string\<close> (infallible on a list of texts, as the program
  expects) and \<open>from_str\<close> at \<open>Vec<String>\<close>.\<close>

record text_list_json =
  list_to_json :: "string list \<Rightarrow> string"
  list_from_json :: "string \<Rightarrow> string list option"

definition text_list_round_trip :: "text_list_json \<Rightarrow> bool" where
  "text_list_round_trip tj \<longleftrightarrow> (\<forall>vs. list_from_json tj (list_to_json tj vs) = Some vs)"

definition unary_text_list :: text_list_json where
  "unary_text_list =
     \<lparr>list_to_json = (\<lambda>vs. replicate (to_nat vs) CHR ''1''),
      list_from_json = (\<lambda>s. Some (from_nat (length s)))\<rparr>"

lemma unary_text_list_round_trip: "text_list_round_trip unary_text_list"
  by (simp add: text_list_round_trip_def unary_text_list_def)

definition INTERNAL_RESOURCE_SET_PREFIX :: string where
  "INTERNAL_RESOURCE_SET_PREFIX = ''nazo-internal-resource-set:''"

datatype resource_indicator_error = ResourceInvalid | ResourceDuplicate

fun check_resource_indicators ::
  "url_lib \<Rightarrow> string list \<Rightarrow> string list \<Rightarrow> resource_indicator_error + unit"
where
  "check_resource_indicators ul seen [] = Inr ()"
| "check_resource_indicators ul seen (v # vs) =
     (case url_parse ul v of
        None \<Rightarrow> Inl ResourceInvalid
      | Some u \<Rightarrow>
          if url_fragment u \<noteq> None then Inl ResourceInvalid
          else if v \<in> set seen then Inl ResourceDuplicate
          else check_resource_indicators ul (v # seen) vs)"

definition parse_resource_indicators ::
  "url_lib \<Rightarrow> string list \<Rightarrow> resource_indicator_error + string list"
where
  "parse_resource_indicators ul vs =
     (case check_resource_indicators ul [] vs of Inl e \<Rightarrow> Inl e | Inr _ \<Rightarrow> Inr vs)"

definition parse_resource_indicator_parameter ::
  "url_lib \<Rightarrow> text_list_json \<Rightarrow> string option \<Rightarrow> resource_indicator_error + string list"
where
  "parse_resource_indicator_parameter ul tj value =
     (case value of
        None \<Rightarrow> Inr []
      | Some v \<Rightarrow>
     (case strip_prefix v INTERNAL_RESOURCE_SET_PREFIX of
        Some encoded \<Rightarrow>
          (case list_from_json tj encoded of
             None \<Rightarrow> Inl ResourceInvalid
           | Some vs \<Rightarrow> parse_resource_indicators ul vs)
      | None \<Rightarrow> parse_resource_indicators ul [v]))"

definition encode_resource_indicators :: "text_list_json \<Rightarrow> string list \<Rightarrow> string option" where
  "encode_resource_indicators tj vs =
     (if vs = [] then None else Some (INTERNAL_RESOURCE_SET_PREFIX @ list_to_json tj vs))"

subsection \<open>Session state\<close>

datatype oidc_session_status = SessionUnchanged | SessionChanged | SessionError

definition oidc_session_state ::
  "(string \<Rightarrow> string) \<Rightarrow> base64 \<Rightarrow> string \<Rightarrow> string \<Rightarrow> string \<Rightarrow> string \<Rightarrow> string"
where
  "oidc_session_state sha256 b64 client_id client_origin op_browser_state salt =
     b64_encode b64
       (sha256 (concat (map (\<lambda>part. part @ '' '') [client_id, client_origin, op_browser_state])
         @ salt)) @ ''.'' @ salt"

definition oidc_redirect_uri_origin :: "url_lib \<Rightarrow> string \<Rightarrow> string option" where
  "oidc_redirect_uri_origin ul redirect_uri =
     (case url_parse ul redirect_uri of
        None \<Rightarrow> None
      | Some u \<Rightarrow>
          if \<not> (url_scheme u = ''http'' \<or> url_scheme u = ''https'') \<or> url_host_str u = None then None
          else Some (url_origin u))"

definition issue_oidc_session_state ::
  "(string \<Rightarrow> string) \<Rightarrow> base64 \<Rightarrow> url_lib \<Rightarrow> string \<Rightarrow> string \<Rightarrow> string \<Rightarrow> string \<Rightarrow> string option"
where
  "issue_oidc_session_state sha256 b64 ul random client_id redirect_uri op_browser_state =
     map_option
       (\<lambda>origin. oidc_session_state sha256 b64 client_id origin op_browser_state
         (b64_encode b64 random))
       (oidc_redirect_uri_origin ul redirect_uri)"

definition check_oidc_session_state ::
  "(string \<Rightarrow> string) \<Rightarrow> base64 \<Rightarrow> string \<Rightarrow> string \<Rightarrow> string \<Rightarrow> string option \<Rightarrow> oidc_session_status"
where
  "check_oidc_session_state sha256 b64 client_id client_origin provided op_browser_state =
     (case rsplit_once CHR ''.'' provided of
        None \<Rightarrow> SessionError
      | Some (_, salt) \<Rightarrow>
     (case op_browser_state of
        None \<Rightarrow> SessionChanged
      | Some state \<Rightarrow>
          if oidc_session_state sha256 b64 client_id client_origin state salt = provided
          then SessionUnchanged else SessionChanged))"

subsection \<open>What the policies accept\<close>

lemma validate_oauth_redirect_uri_ok:
  assumes "validate_oauth_redirect_uri ul ctype v = Inr x"
  obtains u where "url_parse ul v = Some u" and "CHR ''*'' \<notin> set v"
    and "\<not> has_explicit_userinfo v" and "url_username u = []" and "url_password u = None"
    and "url_fragment u = None"
    and "url_scheme u = ''https'' \<or> (ctype = ''public'' \<and>
      (url_scheme u = ''http'' \<and> is_loopback_host u \<or> CHR ''.'' \<in> set (url_scheme u)))"
  using assms
  by (cases "url_parse ul v")
    (auto simp: validate_oauth_redirect_uri_def Let_def parse_url_def reject_url_credentials_def
      split: if_splits)

lemma resolve_registered_redirect_uri_ok:
  assumes "resolve_registered_redirect_uri ul ctype registered requested = Inr v"
  obtains r where "r \<in> set registered" and "oauth_redirect_uri_matches ul ctype r v"
  using assms
  by (auto simp: resolve_registered_redirect_uri_def oauth_redirect_uri_matches_def list_ex_iff
    split: option.splits if_splits list.splits)

lemma duplicate_in_iff:
  "duplicate_in names pairs seen \<longleftrightarrow>
     (let ks = filter (\<lambda>k. k \<in> set names) (map fst pairs)
      in \<not> distinct ks \<or> set ks \<inter> set seen \<noteq> {})"
  by (induction names pairs seen rule: duplicate_in.induct) (auto simp: Let_def)

lemma check_resource_indicators_ok:
  "check_resource_indicators ul seen vs = Inr () \<longleftrightarrow>
     distinct vs \<and> set vs \<inter> set seen = {} \<and>
     (\<forall>v \<in> set vs. is_some_and (\<lambda>u. url_fragment u = None) (url_parse ul v))"
  by (induction vs arbitrary: seen) (auto split: option.splits)

lemma parse_resource_indicators_ok:
  "parse_resource_indicators ul vs = Inr ws \<longleftrightarrow>
     ws = vs \<and> distinct vs \<and>
     (\<forall>v \<in> set vs. is_some_and (\<lambda>u. url_fragment u = None) (url_parse ul v))"
  using check_resource_indicators_ok [of ul "[]" vs]
  by (auto simp: parse_resource_indicators_def split: sum.splits)

lemma parse_scope_join:
  assumes "\<forall>s \<in> set ss. s \<noteq> [] \<and> CHR '' '' \<notin> set s"
  shows "parse_scope (join '' '' ss) = ss"
proof (cases "ss = []")
  case False
  then have "split_on CHR '' '' (join '' '' ss) = ss"
    using assms by (intro split_on_join) auto
  with assms show ?thesis by (simp add: parse_scope_def filter_id_conv)
qed (simp add: parse_scope_def)

lemma parse_scope_tokens: "s \<in> set (parse_scope raw) \<Longrightarrow> s \<noteq> [] \<and> CHR '' '' \<notin> set s"
  by (auto simp: parse_scope_def dest: split_on_piece)

lemma valid_scope_token_no_space: "is_valid_scope_token s \<Longrightarrow> s \<noteq> [] \<and> CHR '' '' \<notin> set s"
  by (auto simp: is_valid_scope_token_def list_all_iff Let_def byte_def)

lemma is_subset_iff: "is_subset requested allowed \<longleftrightarrow> set requested \<subseteq> set allowed"
  by (auto simp: is_subset_def list_all_iff)

lemma token_audience_contains_iff:
  "token_audience_contains aud a \<longleftrightarrow> a \<in> set (token_audience_values aud)"
  by (cases aud) (auto simp: list_ex_iff)

context base64_engine
begin

lemma encoded_salt_splits:
  "rsplit_once CHR ''.'' (d @ ''.'' @ b64_encode b64 salt) = Some (d, b64_encode b64 salt)"
  using rsplit_once_append [OF encode_no_dot] by simp

end

end
