(* ===== verification/Ciba.thy ===== *)
theory Ciba
  imports Uri_Policy
begin

text \<open>
  Client-initiated backchannel authentication
  (\<open>src/crates/authorization-server-core/src/ciba.rs\<close> and \<open>ciba_ping.rs\<close>): the stored
  request, the pure evaluation of polls and decisions, the checks on a stored request, and the
  service over the state port. Times are whole seconds (\<open>i64\<close>), as in the source.
\<close>

subsection \<open>The stored request\<close>

record ciba_authentication_context =
  cctx_auth_time :: int
  cctx_amr :: "string list"
  cctx_oidc_sid :: "string option"

datatype ciba_ping_notification_status = PingAwaitingDecision | PingPending | PingDelivered | PingFailed

record ciba_ping_notification =
  cpn_auth_req_id :: "string option"
  cpn_endpoint :: string
  cpn_client_notification_token :: "string option"
  cpn_status :: ciba_ping_notification_status
  cpn_attempts :: nat
  cpn_next_attempt_at :: "int option"

datatype ciba_status = CibaPending | CibaApproved | CibaDenied

record ciba_request_state =
  crs_client_id :: string
  crs_user_id :: uuid
  crs_scopes :: "string list"
  crs_audiences :: "string list"
  crs_acr :: "string option"
  crs_authentication_context :: "ciba_authentication_context option"
  crs_binding_message :: "string option"
  crs_issued_at :: int
  crs_status :: ciba_status
  crs_interval_seconds :: nat
  crs_expires_at :: int
  crs_retention_expires_at :: int
  crs_last_poll_at :: "int option"
  crs_ping_notification :: "ciba_ping_notification option"

subsection \<open>The state port\<close>

datatype ciba_atomic_result = CibaApplied | CibaConflict | CibaDeadlineElapsed
datatype ciba_state_port_error = CibaUnavailable | CibaCorruptData | CibaUnexpected

record 'v ciba_stored_request =
  csr_state :: ciba_request_state
  csr_version :: 'v

record 'v prepared_ciba_decision =
  pcd_auth_req_id :: string
  pcd_stored :: "'v ciba_stored_request"

text \<open>The operations the service calls. \<open>create\<close>, \<open>replace\<close> and \<open>delete\<close> of the port are
  these without a deadline.\<close>

record ('w, 'v) ciba_state_store =
  cs_load :: "string \<Rightarrow> ('w, ciba_state_port_error, 'v ciba_stored_request option) io"
  cs_create :: "string \<Rightarrow> ciba_request_state \<Rightarrow> int option \<Rightarrow>
    ('w, ciba_state_port_error, ciba_atomic_result) io"
  cs_replace :: "string \<Rightarrow> 'v \<Rightarrow> ciba_request_state \<Rightarrow> int option \<Rightarrow>
    ('w, ciba_state_port_error, ciba_atomic_result) io"
  cs_delete :: "string \<Rightarrow> 'v \<Rightarrow> int option \<Rightarrow>
    ('w, ciba_state_port_error, ciba_atomic_result) io"

subsection \<open>Evaluation\<close>

datatype ciba_decision = CibaApprove ciba_authentication_context | CibaDeny

datatype ciba_decision_evaluation =
    EvalCommit ciba_request_state
  | EvalInvalidAuthenticationContext
  | EvalUserMismatch
  | EvalAlreadyHandled
  | EvalExpired

datatype ciba_poll_transition =
    TransAuthorizationPending ciba_request_state
  | TransSlowDown ciba_request_state
  | TransApproved
  | TransDenied
  | TransExpired

definition CIBA_TRANSITION_MAX_ATTEMPTS :: nat where "CIBA_TRANSITION_MAX_ATTEMPTS = 4"
definition CIBA_EXPIRED_STATE_RETENTION_SECONDS :: int where
  "CIBA_EXPIRED_STATE_RETENTION_SECONDS = 120"
definition CIBA_SLOW_DOWN_INCREMENT_SECONDS :: nat where "CIBA_SLOW_DOWN_INCREMENT_SECONDS = 5"

definition ciba_retention_deadline :: "int \<Rightarrow> int" where
  "ciba_retention_deadline expires_at =
     saturating_add_i64 expires_at CIBA_EXPIRED_STATE_RETENTION_SECONDS"

definition evaluate_ciba_poll :: "ciba_request_state \<Rightarrow> int \<Rightarrow> ciba_poll_transition" where
  "evaluate_ciba_poll state now =
     (if now \<ge> crs_expires_at state then TransExpired
      else case crs_status state of
        CibaApproved \<Rightarrow> TransApproved
      | CibaDenied \<Rightarrow> TransDenied
      | CibaPending \<Rightarrow>
          (let too_early = is_some_and (\<lambda>last_poll_at.
                 saturating_sub_i64 now last_poll_at <
                   (case i64_of_u64 (crs_interval_seconds state) of None \<Rightarrow> i64_max | Some i \<Rightarrow> i))
                 (crs_last_poll_at state);
               next = state\<lparr>crs_last_poll_at := Some now\<rparr>
           in if too_early
              then TransSlowDown (next\<lparr>crs_interval_seconds :=
                     saturating_add_u64 (crs_interval_seconds next) CIBA_SLOW_DOWN_INCREMENT_SECONDS\<rparr>)
              else TransAuthorizationPending next))"

definition valid_authentication_context :: "ciba_authentication_context \<Rightarrow> bool" where
  "valid_authentication_context context \<longleftrightarrow>
     cctx_auth_time context > 0 \<and> cctx_amr context \<noteq> [] \<and>
     list_all (\<lambda>method. \<not> is_blank method) (cctx_amr context) \<and>
     is_none_or (\<lambda>sid. \<not> is_blank sid) (cctx_oidc_sid context)"

definition notify_at :: "int \<Rightarrow> ciba_ping_notification \<Rightarrow> ciba_ping_notification" where
  "notify_at now notification =
     notification\<lparr>cpn_status := PingPending, cpn_next_attempt_at := Some now\<rparr>"

definition evaluate_ciba_decision ::
  "ciba_request_state \<Rightarrow> uuid option \<Rightarrow> ciba_decision \<Rightarrow> int \<Rightarrow> ciba_decision_evaluation"
where
  "evaluate_ciba_decision state expected_user_id decision now =
     (if is_some_and (\<lambda>user_id. user_id \<noteq> crs_user_id state) expected_user_id then EvalUserMismatch
      else if crs_status state \<noteq> CibaPending then EvalAlreadyHandled
      else if now \<ge> crs_expires_at state then EvalExpired
      else if (case decision of CibaApprove context \<Rightarrow> \<not> valid_authentication_context context
               | CibaDeny \<Rightarrow> False)
      then EvalInvalidAuthenticationContext
      else
        let next = (case decision of
              CibaApprove context \<Rightarrow>
                state\<lparr>crs_status := CibaApproved, crs_authentication_context := Some context\<rparr>
            | CibaDeny \<Rightarrow>
                state\<lparr>crs_status := CibaDenied, crs_authentication_context := None\<rparr>)
        in EvalCommit (next\<lparr>crs_ping_notification :=
             map_option (notify_at now) (crs_ping_notification next)\<rparr>))"

definition same_ciba_authorization :: "ciba_request_state \<Rightarrow> ciba_request_state \<Rightarrow> bool" where
  "same_ciba_authorization expected current \<longleftrightarrow>
     crs_client_id expected = crs_client_id current \<and>
     crs_user_id expected = crs_user_id current \<and>
     crs_scopes expected = crs_scopes current \<and>
     crs_audiences expected = crs_audiences current \<and>
     crs_acr expected = crs_acr current \<and>
     crs_binding_message expected = crs_binding_message current \<and>
     crs_issued_at expected = crs_issued_at current \<and>
     crs_expires_at expected = crs_expires_at current \<and>
     crs_retention_expires_at expected = crs_retention_expires_at current \<and>
     map_option (\<lambda>ping. (cpn_auth_req_id ping, cpn_endpoint ping)) (crs_ping_notification expected) =
     map_option (\<lambda>ping. (cpn_auth_req_id ping, cpn_endpoint ping)) (crs_ping_notification current)"

subsection \<open>Checks on a request\<close>

definition ping_shape_invalid :: "bool \<Rightarrow> ciba_ping_notification \<Rightarrow> bool" where
  "ping_shape_invalid require_persisted_auth_req_id n \<longleftrightarrow>
     cpn_endpoint n = [] \<or>
     (require_persisted_auth_req_id \<and> is_none_or (\<lambda>i. i = []) (cpn_auth_req_id n)) \<or>
     is_some_and (\<lambda>t. t = []) (cpn_client_notification_token n) \<or>
     ((cpn_status n = PingAwaitingDecision \<or> cpn_status n = PingPending) \<and>
       cpn_client_notification_token n = None) \<or>
     (cpn_status n = PingAwaitingDecision \<and> cpn_next_attempt_at n \<noteq> None) \<or>
     (cpn_status n = PingPending \<and> cpn_next_attempt_at n = None) \<or>
     ((cpn_status n = PingDelivered \<or> cpn_status n = PingFailed) \<and>
       (cpn_client_notification_token n \<noteq> None \<or> cpn_next_attempt_at n \<noteq> None))"

definition validate_state_shape ::
  "ciba_request_state \<Rightarrow> bool \<Rightarrow> ciba_state_port_error + unit"
where
  "validate_state_shape state require_persisted_auth_req_id =
     (if crs_expires_at state \<le> 0 \<or> crs_retention_expires_at state < crs_expires_at state
      then Inl CibaCorruptData
      else if \<not> (case (crs_status state, crs_authentication_context state) of
                   (CibaApproved, Some context) \<Rightarrow> valid_authentication_context context
                 | (CibaApproved, None) \<Rightarrow> False
                 | (_, None) \<Rightarrow> True
                 | (_, Some _) \<Rightarrow> False)
      then Inl CibaCorruptData
      else if is_some_and (ping_shape_invalid require_persisted_auth_req_id)
                (crs_ping_notification state)
      then Inl CibaCorruptData
      else Inr ())"

definition validate_stored_state :: "ciba_request_state \<Rightarrow> ciba_state_port_error + unit" where
  "validate_stored_state state = validate_state_shape state True"

definition validate_new_state :: "ciba_request_state \<Rightarrow> ciba_state_port_error + unit" where
  "validate_new_state state =
     and_then (validate_state_shape state False) (\<lambda>_.
       if is_some_and (\<lambda>n. cpn_status n \<noteq> PingAwaitingDecision \<or> cpn_auth_req_id n \<noteq> None)
            (crs_ping_notification state)
       then Inl CibaCorruptData else Inr ())"

definition validate_stored_request ::
  "'v ciba_stored_request \<Rightarrow> ciba_state_port_error + 'v ciba_stored_request"
where
  "validate_stored_request stored =
     and_then (validate_stored_state (csr_state stored)) (\<lambda>_. Inr stored)"

subsection \<open>The service\<close>

datatype ciba_poll_commit =
    CommitPending
  | CommitSlow
  | CommitCibaApproved ciba_request_state
  | CommitDenied
  | CommitCibaExpired

record ciba_committed_decision =
  ccd_state :: ciba_request_state
  ccd_decision :: ciba_decision

datatype ciba_create_failure =
    CibaCreateDeadlineElapsed | CibaCreateStorage ciba_state_port_error | CibaCollisionLimit

datatype ciba_decision_failure =
    CibaDecisionMissing
  | CibaDecisionInvalidContext
  | CibaDecisionUserMismatch
  | CibaDecisionAlreadyHandled
  | CibaDecisionExpired
  | CibaDecisionStorage ciba_state_port_error
  | CibaDecisionContended

datatype ciba_poll_failure =
    CibaPollMissing | CibaPollClientMismatch | CibaPollStorage ciba_state_port_error
  | CibaPollContended

definition ciba_load ::
  "('w, 'v) ciba_state_store \<Rightarrow> string \<Rightarrow>
    ('w, ciba_state_port_error, 'v ciba_stored_request option) io"
where
  "ciba_load st auth_req_id w =
     (case cs_load st auth_req_id w of
        (Inl e, w1) \<Rightarrow> (Inl e, w1)
      | (Inr None, w1) \<Rightarrow> (Inr None, w1)
      | (Inr (Some stored), w1) \<Rightarrow>
          (and_then (validate_stored_request stored) (\<lambda>s. Inr (Some s)), w1))"

fun ciba_create_loop ::
  "('w, 'v) ciba_state_store \<Rightarrow> ciba_request_state \<Rightarrow> int option \<Rightarrow> ('w \<Rightarrow> string \<times> 'w) \<Rightarrow> nat \<Rightarrow>
    ('w, ciba_create_failure, string) io"
where
  "ciba_create_loop st state authorization_deadline generate_id 0 w = (Inl CibaCollisionLimit, w)"
| "ciba_create_loop st state authorization_deadline generate_id (Suc n) w =
     (case generate_id w of (auth_req_id, w1) \<Rightarrow>
     (case cs_create st auth_req_id state authorization_deadline w1 of
        (Inr CibaApplied, w2) \<Rightarrow> (Inr auth_req_id, w2)
      | (Inr CibaConflict, w2) \<Rightarrow>
          ciba_create_loop st state authorization_deadline generate_id n w2
      | (Inr CibaDeadlineElapsed, w2) \<Rightarrow> (Inl CibaCreateDeadlineElapsed, w2)
      | (Inl e, w2) \<Rightarrow> (Inl (CibaCreateStorage e), w2)))"

definition ciba_create_unique_with_authorization_deadline ::
  "('w, 'v) ciba_state_store \<Rightarrow> ciba_request_state \<Rightarrow> int option \<Rightarrow> ('w \<Rightarrow> string \<times> 'w) \<Rightarrow>
    ('w, ciba_create_failure, string) io"
where
  "ciba_create_unique_with_authorization_deadline st state authorization_deadline generate_id w =
     (case validate_new_state state of
        Inl e \<Rightarrow> (Inl (CibaCreateStorage e), w)
      | Inr _ \<Rightarrow> ciba_create_loop st state authorization_deadline generate_id
                  CIBA_TRANSITION_MAX_ATTEMPTS w)"

definition ciba_prepare_decision ::
  "('w, 'v) ciba_state_store \<Rightarrow> string \<Rightarrow>
    ('w, ciba_state_port_error, 'v prepared_ciba_decision option) io"
where
  "ciba_prepare_decision st auth_req_id w =
     (case ciba_load st auth_req_id w of
        (Inl e, w1) \<Rightarrow> (Inl e, w1)
      | (Inr stored, w1) \<Rightarrow>
          (Inr (map_option (\<lambda>s. \<lparr>pcd_auth_req_id = auth_req_id, pcd_stored = s\<rparr>) stored), w1))"

definition ciba_decision_attempt ::
  "('w, 'v) ciba_state_store \<Rightarrow> ('w \<Rightarrow> int \<times> 'w) \<Rightarrow> string \<Rightarrow> ciba_decision \<Rightarrow> uuid option \<Rightarrow>
    int option \<Rightarrow> 'v ciba_stored_request \<Rightarrow> 'w \<Rightarrow>
    (ciba_decision_failure + ciba_committed_decision, unit) flow \<times> 'w"
where
  "ciba_decision_attempt st current_time auth_req_id decision expected_user_id
       authorization_deadline current w =
     (case current_time w of (now, w1) \<Rightarrow>
     (case evaluate_ciba_decision (csr_state current) expected_user_id decision now of
        EvalInvalidAuthenticationContext \<Rightarrow> (Return (Inl CibaDecisionInvalidContext), w1)
      | EvalUserMismatch \<Rightarrow> (Return (Inl CibaDecisionUserMismatch), w1)
      | EvalAlreadyHandled \<Rightarrow> (Return (Inl CibaDecisionAlreadyHandled), w1)
      | EvalExpired \<Rightarrow>
         (case cs_delete st auth_req_id (csr_version current) authorization_deadline w1 of
            (Inr CibaApplied, w2) \<Rightarrow> (Return (Inl CibaDecisionExpired), w2)
          | (Inr CibaDeadlineElapsed, w2) \<Rightarrow> (Return (Inl CibaDecisionExpired), w2)
          | (Inr CibaConflict, w2) \<Rightarrow> (Continue (), w2)
          | (Inl e, w2) \<Rightarrow> (Return (Inl (CibaDecisionStorage e)), w2))
      | EvalCommit next \<Rightarrow>
          let decision_deadline = Some (case authorization_deadline of
                None \<Rightarrow> crs_expires_at (csr_state current)
              | Some deadline \<Rightarrow> min deadline (crs_expires_at (csr_state current)))
          in (case cs_replace st auth_req_id (csr_version current) next decision_deadline w1 of
                (Inr CibaApplied, w2) \<Rightarrow>
                  (Return (Inr \<lparr>ccd_state = next, ccd_decision = decision\<rparr>), w2)
              | (Inr CibaConflict, w2) \<Rightarrow> (Continue (), w2)
              | (Inr CibaDeadlineElapsed, w2) \<Rightarrow> (Return (Inl CibaDecisionExpired), w2)
              | (Inl e, w2) \<Rightarrow> (Return (Inl (CibaDecisionStorage e)), w2))))"

text \<open>The attempts after the first reload the request; the first uses the prepared snapshot.\<close>

definition ciba_reload ::
  "('w, 'v) ciba_state_store \<Rightarrow> string \<Rightarrow> 'v ciba_stored_request \<Rightarrow>
    ('w, ciba_decision_failure, 'v ciba_stored_request) io"
where
  "ciba_reload st auth_req_id stored w =
     (case ciba_load st auth_req_id w of
        (Inl e, w1) \<Rightarrow> (Inl (CibaDecisionStorage e), w1)
      | (Inr None, w1) \<Rightarrow> (Inl CibaDecisionMissing, w1)
      | (Inr (Some refreshed), w1) \<Rightarrow>
          if \<not> same_ciba_authorization (csr_state stored) (csr_state refreshed)
          then (Inl (CibaDecisionStorage CibaCorruptData), w1)
          else (Inr refreshed, w1))"

fun ciba_decision_loop ::
  "('w, 'v) ciba_state_store \<Rightarrow> ('w \<Rightarrow> int \<times> 'w) \<Rightarrow> string \<Rightarrow> ciba_decision \<Rightarrow> uuid option \<Rightarrow>
    int option \<Rightarrow> 'v ciba_stored_request \<Rightarrow> bool \<Rightarrow> nat \<Rightarrow>
    ('w, ciba_decision_failure, ciba_committed_decision) io"
where
  "ciba_decision_loop st current_time auth_req_id decision user deadline stored first 0 w =
     (Inl CibaDecisionContended, w)"
| "ciba_decision_loop st current_time auth_req_id decision user deadline stored first (Suc n) w =
     (case (if first then (Inr stored, w) else ciba_reload st auth_req_id stored w) of
        (Inl e, w1) \<Rightarrow> (Inl e, w1)
      | (Inr current, w1) \<Rightarrow>
         (case ciba_decision_attempt st current_time auth_req_id decision user deadline current w1 of
            (Return r, w2) \<Rightarrow> (r, w2)
          | (Continue _, w2) \<Rightarrow>
              ciba_decision_loop st current_time auth_req_id decision user deadline stored False n w2))"

definition ciba_commit_prepared_decision ::
  "('w, 'v) ciba_state_store \<Rightarrow> ('w \<Rightarrow> int \<times> 'w) \<Rightarrow> 'v prepared_ciba_decision \<Rightarrow> ciba_decision \<Rightarrow>
    uuid option \<Rightarrow> int option \<Rightarrow> ('w, ciba_decision_failure, ciba_committed_decision) io"
where
  "ciba_commit_prepared_decision st current_time prepared decision expected_user_id
       authorization_deadline w =
     ciba_decision_loop st current_time (pcd_auth_req_id prepared) decision expected_user_id
       authorization_deadline (pcd_stored prepared) True CIBA_TRANSITION_MAX_ATTEMPTS w"

definition ciba_decide_with_authorization_deadline ::
  "('w, 'v) ciba_state_store \<Rightarrow> ('w \<Rightarrow> int \<times> 'w) \<Rightarrow> string \<Rightarrow> ciba_decision \<Rightarrow>
    uuid option \<Rightarrow> int option \<Rightarrow> ('w, ciba_decision_failure, ciba_committed_decision) io"
where
  "ciba_decide_with_authorization_deadline st current_time auth_req_id decision expected_user_id
       authorization_deadline w =
     (case ciba_prepare_decision st auth_req_id w of
        (Inl e, w1) \<Rightarrow> (Inl (CibaDecisionStorage e), w1)
      | (Inr None, w1) \<Rightarrow> (Inl CibaDecisionMissing, w1)
      | (Inr (Some prepared), w1) \<Rightarrow>
          ciba_commit_prepared_decision st current_time prepared decision expected_user_id
            authorization_deadline w1)"

text \<open>A write of a poll: applied answers \<open>commit\<close>, a conflict goes on, an elapsed deadline is
  expiry.\<close>

definition ciba_poll_write ::
  "ciba_poll_commit \<Rightarrow> (ciba_state_port_error + ciba_atomic_result) \<times> 'w \<Rightarrow>
    (ciba_poll_failure + ciba_poll_commit, unit) flow \<times> 'w"
where
  "ciba_poll_write commit outcome =
     (case outcome of
        (Inl e, w1) \<Rightarrow> (Return (Inl (CibaPollStorage e)), w1)
      | (Inr CibaApplied, w1) \<Rightarrow> (Return (Inr commit), w1)
      | (Inr CibaConflict, w1) \<Rightarrow> (Continue (), w1)
      | (Inr CibaDeadlineElapsed, w1) \<Rightarrow> (Return (Inr CommitCibaExpired), w1))"

definition ciba_poll_attempt ::
  "('w, 'v) ciba_state_store \<Rightarrow> ('w \<Rightarrow> int \<times> 'w) \<Rightarrow> string \<Rightarrow> string \<Rightarrow> int option \<Rightarrow>
    'v ciba_stored_request \<Rightarrow> 'w \<Rightarrow> (ciba_poll_failure + ciba_poll_commit, unit) flow \<times> 'w"
where
  "ciba_poll_attempt st current_time auth_req_id expected_client_id authorization_deadline stored w =
     (if crs_client_id (csr_state stored) \<noteq> expected_client_id
      then (Return (Inl CibaPollClientMismatch), w)
      else case current_time w of (now, w1) \<Rightarrow>
       (case evaluate_ciba_poll (csr_state stored) now of
          TransAuthorizationPending next \<Rightarrow>
            ciba_poll_write CommitPending
              (cs_replace st auth_req_id (csr_version stored) next authorization_deadline w1)
        | TransSlowDown next \<Rightarrow>
            ciba_poll_write CommitSlow
              (cs_replace st auth_req_id (csr_version stored) next authorization_deadline w1)
        | TransApproved \<Rightarrow>
            if authorization_deadline = None
            then (Return (Inr (CommitCibaApproved (csr_state stored))), w1)
            else ciba_poll_write (CommitCibaApproved (csr_state stored))
                   (cs_replace st auth_req_id (csr_version stored) (csr_state stored)
                     authorization_deadline w1)
        | TransDenied \<Rightarrow>
            ciba_poll_write CommitDenied
              (cs_delete st auth_req_id (csr_version stored) authorization_deadline w1)
        | TransExpired \<Rightarrow>
            ciba_poll_write CommitCibaExpired
              (cs_delete st auth_req_id (csr_version stored) authorization_deadline w1)))"

fun ciba_poll_loop ::
  "('w, 'v) ciba_state_store \<Rightarrow> ('w \<Rightarrow> int \<times> 'w) \<Rightarrow> string \<Rightarrow> string \<Rightarrow> int option \<Rightarrow>
    'v ciba_stored_request option \<Rightarrow> nat \<Rightarrow> ('w, ciba_poll_failure, ciba_poll_commit) io"
where
  "ciba_poll_loop st current_time auth_req_id client_id deadline snapshot 0 w =
     (Inl CibaPollContended, w)"
| "ciba_poll_loop st current_time auth_req_id client_id deadline snapshot (Suc n) w =
     (case (case snapshot of
              Some stored \<Rightarrow> (Inr stored, w)
            | None \<Rightarrow>
               (case ciba_load st auth_req_id w of
                  (Inl e, w1) \<Rightarrow> (Inl (CibaPollStorage e), w1)
                | (Inr None, w1) \<Rightarrow> (Inl CibaPollMissing, w1)
                | (Inr (Some s), w1) \<Rightarrow> (Inr s, w1))) of
        (Inl e, w1) \<Rightarrow> (Inl e, w1)
      | (Inr stored, w1) \<Rightarrow>
         (case ciba_poll_attempt st current_time auth_req_id client_id deadline stored w1 of
            (Return r, w2) \<Rightarrow> (r, w2)
          | (Continue _, w2) \<Rightarrow>
              ciba_poll_loop st current_time auth_req_id client_id deadline None n w2))"

definition ciba_poll_with_authorization_deadline ::
  "('w, 'v) ciba_state_store \<Rightarrow> ('w \<Rightarrow> int \<times> 'w) \<Rightarrow> string \<Rightarrow> string \<Rightarrow> 'v ciba_stored_request \<Rightarrow>
    int option \<Rightarrow> ('w, ciba_poll_failure, ciba_poll_commit) io"
where
  "ciba_poll_with_authorization_deadline st current_time auth_req_id expected_client_id stored
       authorization_deadline w =
     (case validate_stored_request stored of
        Inl e \<Rightarrow> (Inl (CibaPollStorage e), w)
      | Inr s \<Rightarrow> ciba_poll_loop st current_time auth_req_id expected_client_id
                   authorization_deadline (Some s) CIBA_TRANSITION_MAX_ATTEMPTS w)"

subsection \<open>Ping notifications\<close>

definition MAX_CIBA_LOGOUT_URI_BYTES :: nat where "MAX_CIBA_LOGOUT_URI_BYTES = 2048"

datatype ciba_ping_response_action = ActionDelivered | ActionTerminalFailure | ActionRetry

definition validate_ciba_notification_endpoint :: "url_lib \<Rightarrow> string \<Rightarrow> string + url" where
  "validate_ciba_notification_endpoint ul v =
     (if length v > MAX_CIBA_LOGOUT_URI_BYTES
      then Inl ''CIBA ping endpoint exceeds the maximum URI length''
      else case url_parse ul v of
        None \<Rightarrow> Inl ''CIBA ping endpoint is not a valid URI''
      | Some parsed \<Rightarrow>
          if url_scheme parsed \<noteq> ''https'' \<or> url_host_str parsed = None \<or> url_username parsed \<noteq> []
             \<or> url_password parsed \<noteq> None \<or> url_fragment parsed \<noteq> None
          then Inl ''CIBA ping endpoint must be an absolute HTTPS URI without userinfo or fragment''
          else Inr parsed)"

definition classify_ciba_ping_status :: "nat \<Rightarrow> ciba_ping_response_action" where
  "classify_ciba_ping_status status =
     (if 200 \<le> status \<and> status \<le> 299 then ActionDelivered
      else if 300 \<le> status \<and> status \<le> 499 then ActionTerminalFailure
      else ActionRetry)"

definition next_ciba_ping_retry_at :: "nat \<Rightarrow> int \<Rightarrow> int \<Rightarrow> int option" where
  "next_ciba_ping_retry_at attempts now expires_at =
     (case (if attempts = 1 then Some 1 else if attempts = 2 then Some 3
            else if attempts = 3 then Some 9 else None) of
        None \<Rightarrow> None
      | Some delay \<Rightarrow>
          let next = saturating_add_i64 now delay in if next < expires_at then Some next else None)"

end
