(* ===== verification/Ciba_Contract.thy ===== *)
theory Ciba_Contract
  imports Ciba
begin

text \<open>
  What the service of \<open>ciba.rs\<close> guarantees when many workers run it on one store.
  \<open>ciba_trans\<close> are the legal changes of one stored request, \<open>ciba_step\<close> one atomic step of
  the system as seen through the stored requests. The locale \<open>ciba_contract\<close> is the interface
  the service relies on; inside it every operation is a sequence of such steps, whatever the others
  do in between, and an answer is tied to an instant of the call.
\<close>

subsection \<open>The changes of a request\<close>

inductive ciba_trans :: "ciba_request_state \<Rightarrow> ciba_request_state \<Rightarrow> bool" where
  ciba_trans_same: "ciba_trans s s"
| ciba_trans_poll: "crs_status s = CibaPending \<Longrightarrow>
    ciba_trans s (s\<lparr>crs_last_poll_at := Some t, crs_interval_seconds := n\<rparr>)"
| ciba_trans_decide: "evaluate_ciba_decision s u d t = EvalCommit s' \<Longrightarrow> ciba_trans s s'"
| ciba_trans_ping: "crs_status s \<noteq> CibaPending \<Longrightarrow> crs_ping_notification s = Some n \<Longrightarrow>
    cpn_auth_req_id n' = cpn_auth_req_id n \<Longrightarrow> cpn_endpoint n' = cpn_endpoint n \<Longrightarrow>
    \<not> ping_shape_invalid True n' \<Longrightarrow>
    ciba_trans s (s\<lparr>crs_ping_notification := Some n'\<rparr>)"

declare ciba_trans.intros [evolve_intros]

text \<open>A well-formed request: it passes the service's check, and while it is undecided its
  notification, if it has one, awaits the decision.\<close>

definition ciba_ok :: "ciba_request_state \<Rightarrow> bool" where
  "ciba_ok s \<longleftrightarrow> validate_stored_state s = Inr () \<and>
     (crs_status s = CibaPending \<longrightarrow>
       is_none_or (\<lambda>n. cpn_status n = PingAwaitingDecision) (crs_ping_notification s))"

definition context_fits :: "ciba_request_state \<Rightarrow> bool" where
  "context_fits s \<longleftrightarrow>
     (if crs_status s = CibaApproved
      then is_some_and valid_authentication_context (crs_authentication_context s)
      else crs_authentication_context s = None)"

lemma validate_state_shape_iff:
  "validate_state_shape s p = Inr () \<longleftrightarrow>
     0 < crs_expires_at s \<and> crs_expires_at s \<le> crs_retention_expires_at s \<and> context_fits s \<and>
     is_none_or (\<lambda>n. \<not> ping_shape_invalid p n) (crs_ping_notification s)"
  by (auto simp: validate_state_shape_def context_fits_def is_some_and_iff is_none_or_iff
      split: ciba_status.splits option.splits)

lemma committed_decision:
  assumes "evaluate_ciba_decision s u d t = EvalCommit s'"
  shows "crs_status s = CibaPending" and "t < crs_expires_at s"
    and "is_none_or (\<lambda>user. user = crs_user_id s) u"
    and "case d of CibaApprove c \<Rightarrow> valid_authentication_context c | CibaDeny \<Rightarrow> True"
    and "s' = s\<lparr>crs_status := (case d of CibaApprove _ \<Rightarrow> CibaApproved | CibaDeny \<Rightarrow> CibaDenied),
      crs_authentication_context := (case d of CibaApprove c \<Rightarrow> Some c | CibaDeny \<Rightarrow> None),
      crs_ping_notification := map_option (notify_at t) (crs_ping_notification s)\<rparr>"
  using assms unfolding evaluate_ciba_decision_def Let_def
  by (auto simp: is_some_and_iff is_none_or_iff split: if_split_asm ciba_decision.split_asm)

lemma ping_shape_notified:
  "\<not> ping_shape_invalid p n \<Longrightarrow> cpn_status n = PingAwaitingDecision \<Longrightarrow>
     \<not> ping_shape_invalid p (notify_at t n)"
  by (auto simp: ping_shape_invalid_def notify_at_def)

lemma decided_ok:
  assumes "evaluate_ciba_decision s u d t = EvalCommit s'" and "ciba_ok s"
  shows "ciba_ok s'"
proof -
  note c = committed_decision [OF assms(1)]
  have "is_none_or (\<lambda>n. \<not> ping_shape_invalid True n) (map_option (notify_at t) (crs_ping_notification s))"
    using assms(2) c(1) ping_shape_notified
    by (cases "crs_ping_notification s")
      (auto simp: ciba_ok_def validate_stored_state_def validate_state_shape_iff)
  then show ?thesis using assms(2) c(4) unfolding c(5)
    by (auto simp: ciba_ok_def validate_stored_state_def validate_state_shape_iff context_fits_def
      split: ciba_decision.splits)
qed

lemma ciba_trans_ok: "ciba_trans s s' \<Longrightarrow> ciba_ok s \<Longrightarrow> ciba_ok s'"
proof (induction rule: ciba_trans.induct)
  case (ciba_trans_decide s u d t s')
  then show ?case by (rule decided_ok)
qed (auto simp: ciba_ok_def validate_stored_state_def validate_state_shape_iff context_fits_def)

lemma same_ciba_authorization_refl [simp]: "same_ciba_authorization s s"
  by (simp add: same_ciba_authorization_def)

lemma same_ciba_authorization_trans:
  "same_ciba_authorization a b \<Longrightarrow> same_ciba_authorization b c \<Longrightarrow> same_ciba_authorization a c"
  unfolding same_ciba_authorization_def by (elim conjE) simp

lemma ciba_trans_same_authorization: "ciba_trans s s' \<Longrightarrow> same_ciba_authorization s s'"
proof (induction rule: ciba_trans.induct)
  case (ciba_trans_decide s u d t s')
  then show ?case using committed_decision(5) [OF ciba_trans_decide]
    by (simp add: same_ciba_authorization_def notify_at_def option.map_comp comp_def)
qed (auto simp: same_ciba_authorization_def)

text \<open>The outcome of a request: decided requests keep it.\<close>

definition ciba_outcome ::
  "ciba_request_state \<Rightarrow> ciba_status \<times> ciba_authentication_context option"
where
  "ciba_outcome s = (crs_status s, crs_authentication_context s)"

lemma ciba_trans_outcome:
  assumes "ciba_trans s s'" and "crs_status s \<noteq> CibaPending"
  shows "ciba_outcome s' = ciba_outcome s"
  using assms committed_decision(1) by (cases rule: ciba_trans.cases) (auto simp: ciba_outcome_def)

subsection \<open>The steps of the system\<close>

type_synonym 'v ciba_view = "string \<Rightarrow> (ciba_request_state \<times> 'v) option"

text \<open>The store adds the identifier to a new request's notification.\<close>

definition with_auth_req_id :: "string \<Rightarrow> ciba_request_state \<Rightarrow> ciba_request_state" where
  "with_auth_req_id auth_req_id s =
     s\<lparr>crs_ping_notification :=
       map_option (\<lambda>n. n\<lparr>cpn_auth_req_id := Some auth_req_id\<rparr>) (crs_ping_notification s)\<rparr>"

lemma with_auth_req_id_simps [simp]:
  "crs_status (with_auth_req_id i s) = crs_status s"
  "crs_retention_expires_at (with_auth_req_id i s) = crs_retention_expires_at s"
  by (simp_all add: with_auth_req_id_def)

lemma new_ciba_ok:
  assumes "validate_new_state s = Inr ()" and "i \<noteq> []"
  shows "ciba_ok (with_auth_req_id i s)"
proof -
  have "validate_state_shape s False = Inr ()"
    and "is_none_or (\<lambda>n. cpn_status n = PingAwaitingDecision) (crs_ping_notification s)"
    using assms(1) by (auto simp: validate_new_state_def result_Inr is_some_and_iff is_none_or_iff)
  then show ?thesis
    using assms(2) unfolding ciba_ok_def validate_stored_state_def validate_state_shape_iff
      with_auth_req_id_def
    by (cases "crs_ping_notification s") (auto simp: context_fits_def ping_shape_invalid_def)
qed

inductive ciba_step :: "'v ciba_view \<Rightarrow> 'v ciba_view \<Rightarrow> bool" where
  ciba_step_write: "e h = Some (s, v) \<Longrightarrow> ciba_trans s s' \<Longrightarrow> ciba_step e (e(h \<mapsto> (s', v')))"
| ciba_step_create: "e h = None \<Longrightarrow> ciba_ok s \<Longrightarrow> crs_status s = CibaPending \<Longrightarrow>
    ciba_step e (e(h \<mapsto> (s, v)))"
| ciba_step_drop: "ciba_step e (e(h := None))"

declare ciba_step.intros [evolve_intros]

lemma ciba_steps_drop [simp]: "ciba_step\<^sup>*\<^sup>* e (e(h := None))"
  by (rule r_into_rtranclp [of ciba_step]) (rule ciba_step_drop)

definition ciba_inv :: "'v ciba_view \<Rightarrow> bool" where
  "ciba_inv e \<longleftrightarrow> (\<forall>h s v. e h = Some (s, v) \<longrightarrow> ciba_ok s)"

lemma ciba_step_inv: "ciba_step e e' \<Longrightarrow> ciba_inv e \<Longrightarrow> ciba_inv e'"
proof (induction rule: ciba_step.induct)
  case (ciba_step_write e h s v s' v')
  then have "ciba_ok s'" using ciba_trans_ok unfolding ciba_inv_def by blast
  with ciba_step_write show ?case by (auto simp: ciba_inv_def)
qed (auto simp: ciba_inv_def)

lemma ciba_steps_inv: "ciba_step\<^sup>*\<^sup>* e e' \<Longrightarrow> ciba_inv e \<Longrightarrow> ciba_inv e'"
  by (induction rule: rtranclp_induct) (auto intro: ciba_step_inv)

text \<open>Where a decided request comes from: it was decided before, or it was pending and a decision
  with this outcome was taken on it.\<close>

definition decided_by ::
  "'v ciba_view \<Rightarrow> string \<Rightarrow> ciba_request_state \<Rightarrow> bool"
where
  "decided_by e h s \<longleftrightarrow>
     (\<exists>e1 s1 v1 u d t s2. ciba_step\<^sup>*\<^sup>* e e1 \<and> e1 h = Some (s1, v1) \<and>
        evaluate_ciba_decision s1 u d t = EvalCommit s2 \<and> same_ciba_authorization s2 s \<and>
        ciba_outcome s2 = ciba_outcome s)"

lemma decided_by_trans:
  assumes "decided_by e h s" and "ciba_trans s s'" and "crs_status s \<noteq> CibaPending"
  shows "decided_by e h s'"
proof -
  note kept = same_ciba_authorization_trans [OF _ ciba_trans_same_authorization [OF assms(2)]]
    ciba_trans_outcome [OF assms(2,3), symmetric]
  from assms(1) obtain e1 s1 v1 u d t s2 where "ciba_step\<^sup>*\<^sup>* e e1" "e1 h = Some (s1, v1)"
    "evaluate_ciba_decision s1 u d t = EvalCommit s2" "same_ciba_authorization s2 s"
    "ciba_outcome s2 = ciba_outcome s" unfolding decided_by_def by (elim exE conjE)
  then show ?thesis unfolding decided_by_def
    by (intro exI [of _ e1] exI [of _ s1] exI [of _ v1] exI [of _ u] exI [of _ d] exI [of _ t]
      exI [of _ s2] conjI) (simp_all add: kept)
qed

lemma decided_history:
  assumes "ciba_step\<^sup>*\<^sup>* e e'" and "e' h = Some (s', v')" and "crs_status s' \<noteq> CibaPending"
  shows "decided_by e h s' \<or>
    (\<exists>s v. e h = Some (s, v) \<and> same_ciba_authorization s s' \<and> ciba_outcome s = ciba_outcome s')"
  using assms
proof (induction arbitrary: s' v' rule: rtranclp_induct)
  case base
  then show ?case by auto
next
  case (step y z)
  show ?case
  proof (cases "y h = z h")
    case True
    then show ?thesis using step.IH step.prems by simp
  next
    case False
    with step.hyps(2) step.prems obtain s v where y: "y h = Some (s, v)" and tr: "ciba_trans s s'"
      by (cases rule: ciba_step.cases) (auto split: if_split_asm)
    show ?thesis
    proof (cases "crs_status s = CibaPending")
      case True
      with tr step.prems(2) obtain u d t where "evaluate_ciba_decision s u d t = EvalCommit s'"
        by (cases rule: ciba_trans.cases) auto
      with step.hyps(1) y have "decided_by e h s'" unfolding decided_by_def
        by (intro exI conjI) (assumption | rule same_ciba_authorization_refl refl)+
      then show ?thesis ..
    next
      case False
      note kept = ciba_trans_same_authorization [OF tr] ciba_trans_outcome [OF tr False]
      from step.IH [OF y False] show ?thesis
      proof
        assume "decided_by e h s"
        then show ?thesis using decided_by_trans tr False by blast
      next
        assume "\<exists>s0 v. e h = Some (s0, v) \<and> same_ciba_authorization s0 s \<and> ciba_outcome s0 = ciba_outcome s"
        then show ?thesis using kept same_ciba_authorization_trans by metis
      qed
    qed
  qed
qed

lemma decided_by_approval:
  assumes "decided_by e h s" and "crs_status s = CibaApproved"
    and "crs_authentication_context s = Some c"
  shows "\<exists>e1 s1 v1 user t s2. ciba_step\<^sup>*\<^sup>* e e1 \<and> e1 h = Some (s1, v1) \<and>
    evaluate_ciba_decision s1 user (CibaApprove c) t = EvalCommit s2 \<and> same_ciba_authorization s2 s"
proof -
  from assms(1) obtain e1 s1 v1 u d t s2 where "ciba_step\<^sup>*\<^sup>* e e1" "e1 h = Some (s1, v1)"
    and ev: "evaluate_ciba_decision s1 u d t = EvalCommit s2" and "same_ciba_authorization s2 s"
    and out: "ciba_outcome s2 = ciba_outcome s" unfolding decided_by_def by (elim exE conjE)
  moreover have "d = CibaApprove c"
    using committed_decision(5) [OF ev] out assms(2,3)
    by (auto simp: ciba_outcome_def split: ciba_decision.split_asm)
  ultimately show ?thesis by blast
qed

subsection \<open>The interface of the service\<close>

locale ciba_contract =
  fixes st :: "('w, 'v) ciba_state_store"
    and current_time :: "'w \<Rightarrow> int \<times> 'w"
    and hash_of :: "string \<Rightarrow> string"
    and entry :: "'w \<Rightarrow> string \<Rightarrow> (ciba_request_state \<times> 'v) option"
    and server_now :: "'w \<Rightarrow> int"
    and env :: "'w \<Rightarrow> 'w \<Rightarrow> bool"
    and version_state :: "'v \<Rightarrow> ciba_request_state option"
  assumes env_steps: "env w w' \<Longrightarrow> ciba_step\<^sup>*\<^sup>* (entry w) (entry w')"
    and clock: "current_time w = (t, w') \<Longrightarrow> env w w'"
    and version_reads: "entry w h = Some (s, v) \<Longrightarrow> version_state v = Some s"
    and load_law: "cs_load st i w = (rl, w') \<Longrightarrow>
      \<exists>w1. env w w1 \<and> env w1 w' \<and>
        (\<forall>x. rl = Inr x \<longrightarrow> entry w1 (hash_of i) = map_option (\<lambda>y. (csr_state y, csr_version y)) x)"
    and create_law: "validate_new_state s = Inr () \<Longrightarrow> i \<noteq> [] \<Longrightarrow> cs_create st i s d w = (r, w') \<Longrightarrow>
      \<exists>w1 w2. env w w1 \<and> env w2 w' \<and>
        (entry w2 = entry w1 \<or> entry w1 (hash_of i) = None \<and>
          (\<exists>v. entry w2 = (entry w1)(hash_of i \<mapsto> (with_auth_req_id i s, v)))) \<and>
        (r = Inr CibaApplied \<longrightarrow> is_none_or (\<lambda>t. server_now w1 < t) d \<and> entry w1 (hash_of i) = None \<and>
          (\<exists>v. entry w2 = (entry w1)(hash_of i \<mapsto> (with_auth_req_id i s, v))))"
    and replace_law: "version_state v = Some s0 \<Longrightarrow> cs_replace st i v s d w = (r, w') \<Longrightarrow>
      \<exists>w1 w2. env w w1 \<and> env w2 w' \<and> cas_effect (entry w1) (hash_of i) v s (entry w2) \<and>
        (r = Inr CibaApplied \<longrightarrow> is_none_or (\<lambda>t. server_now w1 < t) d \<and>
          (\<exists>v'. cas_written (entry w1) (hash_of i) v s v' (entry w2)))"
    and delete_law: "cs_delete st i v d w = (r, w') \<Longrightarrow>
      \<exists>w1 w2. env w w1 \<and> env w2 w' \<and>
        (entry w2 = entry w1 \<or> entry w2 = (entry w1)(hash_of i := None))"
begin

abbreviation reaches :: "'w \<Rightarrow> 'w \<Rightarrow> bool" where
  "reaches w w' \<equiv> ciba_step\<^sup>*\<^sup>* (entry w) (entry w')"

lemma reaches_trans: "reaches w1 w2 \<Longrightarrow> reaches w2 w3 \<Longrightarrow> reaches w1 w3"
  by (rule rtranclp_trans)

lemma clock_reaches: "current_time w = (t, w') \<Longrightarrow> reaches w w'"
  using clock env_steps by blast

text \<open>A snapshot that was the entry at some instant since \<open>w0\<close>.\<close>

definition seen :: "string \<Rightarrow> 'w \<Rightarrow> 'w \<Rightarrow> 'v ciba_stored_request \<Rightarrow> bool" where
  "seen i w0 w y \<longleftrightarrow>
     (\<exists>u. reaches w0 u \<and> entry u (hash_of i) = Some (csr_state y, csr_version y) \<and> reaches u w)"

lemma seen_version: "seen i w0 w y \<Longrightarrow> version_state (csr_version y) = Some (csr_state y)"
  unfolding seen_def by (auto dest: version_reads)

lemma seen_later: "seen i w0 w y \<Longrightarrow> reaches w w' \<Longrightarrow> seen i w0 w' y"
  unfolding seen_def using reaches_trans by blast

lemma seen_earlier: "reaches w00 w0 \<Longrightarrow> seen i w0 w y \<Longrightarrow> seen i w00 w y"
  unfolding seen_def using reaches_trans by blast

lemma seen_reaches: "seen i w0 w y \<Longrightarrow> reaches w0 w"
  unfolding seen_def using reaches_trans by blast

lemma ciba_load_ok:
  assumes "ciba_load st i w = (r, w')"
  shows "reaches w w'"
    and "r = Inr (Some y) \<Longrightarrow> seen i w w' y \<and> validate_stored_state (csr_state y) = Inr ()"
proof -
  obtain rl w1 where l: "cs_load st i w = (rl, w1)" by fastforce
  from load_law [OF l] obtain wa where wa: "env w wa" "env wa w1"
    and x: "\<And>x. rl = Inr x \<Longrightarrow> entry wa (hash_of i) = map_option (\<lambda>y. (csr_state y, csr_version y)) x"
    by blast
  have w1: "w1 = w'" using assms l
    by (auto simp: ciba_load_def split: sum.split_asm option.split_asm)
  show "reaches w w'" using wa w1 env_steps reaches_trans by blast
  assume r: "r = Inr (Some y)"
  then have "rl = Inr (Some y)" "validate_stored_state (csr_state y) = Inr ()"
    using assms l by (auto simp: ciba_load_def validate_stored_request_def result_Inr
      split: sum.split_asm option.split_asm)
  then show "seen i w w' y \<and> validate_stored_state (csr_state y) = Inr ()"
    using x [of "Some y"] wa w1 env_steps unfolding seen_def by auto
qed

lemma replace_write:
  assumes run: "cs_replace st i v s' d w = (r, w')"
    and ver: "version_state v = Some s" and tr: "ciba_trans s s'"
  shows "reaches w w'" and "r = Inr CibaApplied \<Longrightarrow>
    \<exists>u u' v'. reaches w u \<and> entry u (hash_of i) = Some (s, v) \<and> is_none_or (\<lambda>t. server_now u < t) d \<and>
      entry u' = (entry u)(hash_of i \<mapsto> (s', v')) \<and> reaches u' w'"
proof -
  from replace_law [OF ver run] obtain w1 w2 where steps: "env w w1" "env w2 w'"
    and eff: "cas_effect (entry w1) (hash_of i) v s' (entry w2)"
    and app: "r = Inr CibaApplied \<Longrightarrow> is_none_or (\<lambda>t. server_now w1 < t) d \<and>
      (\<exists>v'. cas_written (entry w1) (hash_of i) v s' v' (entry w2))" by blast
  have wr: "entry w1 (hash_of i) = Some (s, v) \<and> entry w2 = (entry w1)(hash_of i \<mapsto> (s', v'))"
    if "cas_written (entry w1) (hash_of i) v s' v' (entry w2)" for v'
    using that ver version_reads unfolding cas_written_def by fastforce
  have "reaches w1 w2"
    using eff unfolding cas_effect_def
  proof (elim disjE exE)
    fix v' assume "cas_written (entry w1) (hash_of i) v s' v' (entry w2)"
    note w = wr [OF this]
    have "ciba_step (entry w1) ((entry w1)(hash_of i \<mapsto> (s', v')))"
      by (rule ciba_step_write [of "entry w1" "hash_of i", OF conjunct1 [OF w] tr])
    then show ?thesis unfolding conjunct2 [OF w] by (rule r_into_rtranclp [of ciba_step])
  qed simp_all
  then show "reaches w w'" using steps env_steps reaches_trans by blast
  assume "r = Inr CibaApplied"
  from app [OF this] obtain v' where "is_none_or (\<lambda>t. server_now w1 < t) d"
    and v': "cas_written (entry w1) (hash_of i) v s' v' (entry w2)" by blast
  with wr [OF v'] env_steps [OF steps(1)] env_steps [OF steps(2)]
  show "\<exists>u u' v'. reaches w u \<and> entry u (hash_of i) = Some (s, v) \<and>
      is_none_or (\<lambda>t. server_now u < t) d \<and>
      entry u' = (entry u)(hash_of i \<mapsto> (s', v')) \<and> reaches u' w'"
    by (intro exI [of _ w1] exI [of _ w2] exI [of _ v']) simp
qed

lemma delete_reaches: "cs_delete st i v d w = (r, w') \<Longrightarrow> reaches w w'"
proof -
  assume "cs_delete st i v d w = (r, w')"
  from delete_law [OF this] obtain w1 w2 where steps: "env w w1" "env w2 w'"
    and e: "entry w2 = entry w1 \<or> entry w2 = (entry w1)(hash_of i := None)" by blast
  have "reaches w1 w2" using e by auto
  then show "reaches w w'" using steps env_steps reaches_trans by blast
qed

subsection \<open>Polling\<close>

text \<open>An approval the service answers: a snapshot seen since \<open>w0\<close>, of that client, approved,
  and not expired by a reading of the clock during the call.\<close>

definition approved_in :: "string \<Rightarrow> string \<Rightarrow> 'w \<Rightarrow> 'w \<Rightarrow> 'w \<Rightarrow> ciba_request_state \<Rightarrow> bool" where
  "approved_in i client_id w0 w w' s \<longleftrightarrow>
     (\<exists>y. seen i w0 w' y \<and> csr_state y = s) \<and> crs_client_id s = client_id \<and>
     crs_status s = CibaApproved \<and>
     (\<exists>u t u'. reaches w u \<and> current_time u = (t, u') \<and> t < crs_expires_at s \<and> reaches u' w')"

lemma evaluate_ciba_poll_cases:
  obtains (pending) n where "crs_status s = CibaPending" and
      "evaluate_ciba_poll s t = TransAuthorizationPending (s\<lparr>crs_last_poll_at := Some t, crs_interval_seconds := n\<rparr>) \<or>
       evaluate_ciba_poll s t = TransSlowDown (s\<lparr>crs_last_poll_at := Some t, crs_interval_seconds := n\<rparr>)"
    | (approved) "evaluate_ciba_poll s t = TransApproved" and "crs_status s = CibaApproved"
        and "t < crs_expires_at s"
    | (dropped) "evaluate_ciba_poll s t = TransDenied \<or> evaluate_ciba_poll s t = TransExpired"
proof (cases "crs_expires_at s \<le> t")
  case True
  then show thesis by (intro dropped) (simp add: evaluate_ciba_poll_def)
next
  case False
  show thesis
  proof (cases "crs_status s")
    case CibaPending
    let ?p = "\<lambda>n. s\<lparr>crs_last_poll_at := Some t, crs_interval_seconds := n\<rparr>"
    from CibaPending False have "evaluate_ciba_poll s t = TransAuthorizationPending (?p (crs_interval_seconds s)) \<or>
      evaluate_ciba_poll s t =
        TransSlowDown (?p (saturating_add_u64 (crs_interval_seconds s) CIBA_SLOW_DOWN_INCREMENT_SECONDS))"
      by (simp add: evaluate_ciba_poll_def Let_def)
    then show thesis using pending [OF CibaPending] by blast
  next
    case CibaApproved
    then show thesis using False by (intro approved) (simp_all add: evaluate_ciba_poll_def)
  next
    case CibaDenied
    then show thesis using False by (intro dropped) (simp add: evaluate_ciba_poll_def)
  qed
qed

lemma ciba_poll_write_out:
  "ciba_poll_write c (r, w) = (out, w') \<Longrightarrow>
     w' = w \<and> (out = Return (Inr c) \<and> r = Inr CibaApplied \<or> out = Return (Inr CommitCibaExpired) \<or>
       (\<exists>e. out = Return (Inl e)) \<or> out = Continue ())"
  by (auto simp: ciba_poll_write_def split: sum.split_asm ciba_atomic_result.split_asm)

lemma ciba_poll_write_other:
  "ciba_poll_write c (r, w) = (out, w') \<Longrightarrow> (\<And>s. c \<noteq> CommitCibaApproved s) \<Longrightarrow>
     w' = w \<and> (\<forall>s. out \<noteq> Return (Inr (CommitCibaApproved s)))"
  by (auto dest!: ciba_poll_write_out)

lemma ciba_poll_attempt_ok:
  assumes y: "seen i w0 w y"
    and run: "ciba_poll_attempt st current_time i client_id deadline y w = (out, w')"
  shows "reaches w w' \<and>
    (\<forall>s. out = Return (Inr (CommitCibaApproved s)) \<longrightarrow> approved_in i client_id w0 w w' s)"
proof (cases "crs_client_id (csr_state y) = client_id")
  case False
  then show ?thesis using run by (auto simp: ciba_poll_attempt_def)
next
  case True
  obtain t w1 where t: "current_time w = (t, w1)" by fastforce
  note r1 = clock_reaches [OF t] and ver = seen_version [OF y]
  show ?thesis
  proof (cases rule: evaluate_ciba_poll_cases [of "csr_state y" t])
    case (pending n)
    let ?s = "(csr_state y)\<lparr>crs_last_poll_at := Some t, crs_interval_seconds := n\<rparr>"
    obtain r w2 where c: "cs_replace st i (csr_version y) ?s deadline w1 = (r, w2)" by fastforce
    from run True t pending(2) c have "ciba_poll_write CommitPending (r, w2) = (out, w') \<or>
      ciba_poll_write CommitSlow (r, w2) = (out, w')" by (auto simp: ciba_poll_attempt_def)
    then have "w' = w2 \<and> (\<forall>s. out \<noteq> Return (Inr (CommitCibaApproved s)))"
      by (elim disjE) (rule ciba_poll_write_other, assumption, simp)+
    then show ?thesis using reaches_trans [OF r1 replace_write(1) [OF c ver ciba_trans_poll [OF pending(1)]]] by simp
  next
    case approved
    have seen: "approved_in i client_id w0 w w2 (csr_state y)" if "reaches w1 w2" for w2
      using y t that r1 approved True seen_later [OF y] reaches_trans
      unfolding approved_in_def by blast
    show ?thesis
    proof (cases deadline)
      case None
      then show ?thesis using run True t approved r1 seen [of w1]
        by (auto simp: ciba_poll_attempt_def)
    next
      case (Some d)
      obtain r w2 where c: "cs_replace st i (csr_version y) (csr_state y) deadline w1 = (r, w2)"
        by fastforce
      have r2: "reaches w1 w2" by (rule replace_write(1) [OF c ver ciba_trans_same])
      from run True t approved c Some
      have "ciba_poll_write (CommitCibaApproved (csr_state y)) (r, w2) = (out, w')"
        by (simp add: ciba_poll_attempt_def)
      from ciba_poll_write_out [OF this] show ?thesis
        using reaches_trans [OF r1 r2] seen [OF r2] by auto
    qed
  next
    case dropped
    obtain r w2 where c: "cs_delete st i (csr_version y) deadline w1 = (r, w2)" by fastforce
    from run True t dropped c have "ciba_poll_write CommitDenied (r, w2) = (out, w') \<or>
      ciba_poll_write CommitCibaExpired (r, w2) = (out, w')" by (auto simp: ciba_poll_attempt_def)
    then have "w' = w2 \<and> (\<forall>s. out \<noteq> Return (Inr (CommitCibaApproved s)))"
      by (elim disjE) (rule ciba_poll_write_other, assumption, simp)+
    then show ?thesis using reaches_trans [OF r1 delete_reaches [OF c]] by simp
  qed
qed

lemma approved_in_prefix:
  "reaches w wa \<Longrightarrow> approved_in i c w0 wa w' s \<Longrightarrow> approved_in i c w0 w w' s"
  unfolding approved_in_def using reaches_trans by blast

lemma ciba_poll_loop_ok:
  "ciba_poll_loop st current_time i client_id deadline snapshot n w = (r, w') \<Longrightarrow>
     reaches w0 w \<Longrightarrow> is_none_or (seen i w0 w) snapshot \<Longrightarrow>
     reaches w w' \<and> (\<forall>s. r = Inr (CommitCibaApproved s) \<longrightarrow> approved_in i client_id w0 w w' s)"
proof (induction n arbitrary: snapshot w)
  case (Suc n)
  obtain o1 w1 where load: "(case snapshot of Some stored \<Rightarrow> (Inr stored, w)
      | None \<Rightarrow> (case ciba_load st i w of (Inl e, w1) \<Rightarrow> (Inl (CibaPollStorage e), w1)
          | (Inr None, w1) \<Rightarrow> (Inl CibaPollMissing, w1) | (Inr (Some s), w1) \<Rightarrow> (Inr s, w1))) = (o1, w1)"
    by fastforce
  have l: "reaches w w1 \<and> (\<forall>y. o1 = Inr y \<longrightarrow> seen i w0 w1 y)"
  proof (cases snapshot)
    case None
    obtain rl wl where "ciba_load st i w = (rl, wl)" by fastforce
    with ciba_load_ok [OF this] load None seen_earlier [OF Suc.prems(2)] show ?thesis
      by (cases rl) (auto split: option.split_asm)
  next
    case (Some y)
    then show ?thesis using load Suc.prems(3) by auto
  qed
  show ?case
  proof (cases o1)
    case (Inl e)
    then show ?thesis using Suc.prems(1) load l by auto
  next
    case (Inr y)
    obtain out w2 where att: "ciba_poll_attempt st current_time i client_id deadline y w1 = (out, w2)"
      by fastforce
    with l Inr have a: "reaches w1 w2"
      "\<And>s. out = Return (Inr (CommitCibaApproved s)) \<Longrightarrow> approved_in i client_id w0 w1 w2 s"
      using ciba_poll_attempt_ok [OF _ att] by blast+
    note r2 = reaches_trans [OF conjunct1 [OF l] a(1)]
    show ?thesis
    proof (cases out)
      case (Return x)
      then show ?thesis using Suc.prems(1) load Inr att r2 a(2) approved_in_prefix l by auto
    next
      case (Continue x)
      then have "ciba_poll_loop st current_time i client_id deadline None n w2 = (r, w')"
        using Suc.prems(1) load Inr att by auto
      from Suc.IH [OF this reaches_trans [OF Suc.prems(2) r2]] show ?thesis
        using r2 approved_in_prefix [OF r2] reaches_trans by simp
    qed
  qed
qed auto

lemma ciba_poll_ok:
  assumes "ciba_poll_with_authorization_deadline st current_time i client_id y deadline w = (r, w')"
    and "seen i w0 w y"
  shows "reaches w w'" and "r = Inr (CommitCibaApproved s) \<Longrightarrow> approved_in i client_id w0 w w' s"
  using assms ciba_poll_loop_ok [OF _ seen_reaches [OF assms(2)], of i client_id deadline "Some y"]
  by (auto simp: ciba_poll_with_authorization_deadline_def validate_stored_request_def
    and_then_def split: sum.split_asm)

lemma polled_approval:
  assumes load: "ciba_load st i w = (Inr (Some stored), w1)" and between: "env w1 w2"
    and run: "ciba_poll_with_authorization_deadline st current_time i client_id stored deadline w2 =
      (Inr (CommitCibaApproved s), w')"
    and inv: "ciba_inv (entry w)"
  shows "ciba_ok s" and "crs_status s = CibaApproved" and "crs_client_id s = client_id"
    and "\<exists>u t u'. current_time u = (t, u') \<and> t < crs_expires_at s"
    and "decided_by (entry w) (hash_of i) s \<or> (\<exists>s0 v. entry w (hash_of i) = Some (s0, v) \<and>
      same_ciba_authorization s0 s \<and> ciba_outcome s0 = ciba_outcome s)"
proof -
  have "seen i w w1 stored" using ciba_load_ok [OF load] by simp
  then have "seen i w w2 stored" by (rule seen_later) (rule env_steps [OF between])
  from ciba_poll_ok(2) [OF run this refl]
  have a: "approved_in i client_id w w2 w' s" .
  then obtain y :: "'v ciba_stored_request" and u where "reaches w u" "entry u (hash_of i) = Some (csr_state y, csr_version y)"
    "csr_state y = s" unfolding approved_in_def seen_def by blast
  then have u: "reaches w u" "entry u (hash_of i) = Some (s, csr_version y)" by simp_all
  show "ciba_ok s" using ciba_steps_inv [OF u(1) inv] u(2) unfolding ciba_inv_def by blast
  show st: "crs_status s = CibaApproved" and "crs_client_id s = client_id"
    and "\<exists>u t u'. current_time u = (t, u') \<and> t < crs_expires_at s"
    using a unfolding approved_in_def by blast+
  show "decided_by (entry w) (hash_of i) s \<or> (\<exists>s0 v. entry w (hash_of i) = Some (s0, v) \<and>
      same_ciba_authorization s0 s \<and> ciba_outcome s0 = ciba_outcome s)"
    by (rule decided_history [OF u]) (simp add: st)
qed

subsection \<open>Deciding\<close>

text \<open>A committed decision: at one instant of the call, before its expiry and the given deadline by
  the store's clock, the pending request of the same authorization was replaced by the outcome of
  the evaluation.\<close>

definition committed_in ::
  "string \<Rightarrow> ciba_decision \<Rightarrow> uuid option \<Rightarrow> int option \<Rightarrow> ciba_request_state \<Rightarrow> 'w \<Rightarrow> 'w \<Rightarrow>
    ciba_committed_decision \<Rightarrow> bool"
where
  "committed_in i d user deadline s0 w w' c \<longleftrightarrow> ccd_decision c = d \<and>
     (\<exists>u s v t u' v'. reaches w u \<and> entry u (hash_of i) = Some (s, v) \<and>
        same_ciba_authorization s0 s \<and> evaluate_ciba_decision s user d t = EvalCommit (ccd_state c) \<and>
        server_now u < crs_expires_at s \<and> is_none_or (\<lambda>t. server_now u < t) deadline \<and>
        entry u' = (entry u)(hash_of i \<mapsto> (ccd_state c, v')) \<and> reaches u' w')"

lemma committed_in_prefix:
  "reaches w wa \<Longrightarrow> committed_in i d user deadline s0 wa w' c \<Longrightarrow> committed_in i d user deadline s0 w w' c"
  unfolding committed_in_def using reaches_trans by blast

lemma ciba_decision_attempt_ok:
  assumes y: "seen i w0 w y" and same: "same_ciba_authorization s0 (csr_state y)"
    and run: "ciba_decision_attempt st current_time i d user deadline y w = (out, w')"
  shows "reaches w w' \<and> (\<forall>c. out = Return (Inr c) \<longrightarrow> committed_in i d user deadline s0 w w' c)"
proof -
  obtain t w1 where t: "current_time w = (t, w1)" by fastforce
  note r1 = clock_reaches [OF t] and ver = seen_version [OF y]
  show ?thesis
  proof (cases "evaluate_ciba_decision (csr_state y) user d t")
    case (EvalCommit s')
    define dl where "dl = (case deadline of None \<Rightarrow> crs_expires_at (csr_state y)
      | Some deadline \<Rightarrow> min deadline (crs_expires_at (csr_state y)))"
    obtain r w2 where c: "cs_replace st i (csr_version y) s' (Some dl) w1 = (r, w2)" by fastforce
    note wr = replace_write [OF c ver ciba_trans_decide [OF EvalCommit]]
    have out: "w2 = w'" "out = (case r of Inr CibaApplied \<Rightarrow> Return (Inr \<lparr>ccd_state = s', ccd_decision = d\<rparr>)
        | Inr CibaConflict \<Rightarrow> Continue () | Inr CibaDeadlineElapsed \<Rightarrow> Return (Inl CibaDecisionExpired)
        | Inl e \<Rightarrow> Return (Inl (CibaDecisionStorage e)))"
      using run t EvalCommit c unfolding dl_def
      by (auto simp: ciba_decision_attempt_def split: sum.splits ciba_atomic_result.splits)
    have "committed_in i d user deadline s0 w w' \<lparr>ccd_state = s', ccd_decision = d\<rparr>"
      if "r = Inr CibaApplied"
    proof -
      from wr(2) [OF that] obtain u u' v' where u: "reaches w1 u"
        "entry u (hash_of i) = Some (csr_state y, csr_version y)" "server_now u < dl"
        "entry u' = (entry u)(hash_of i \<mapsto> (s', v'))" "reaches u' w2" by auto
      have "server_now u < crs_expires_at (csr_state y)" "is_none_or (\<lambda>t. server_now u < t) deadline"
        using u(3) by (auto simp: dl_def split: option.split_asm)
      with u out(1) reaches_trans [OF r1 u(1)] same EvalCommit show ?thesis
        unfolding committed_in_def
        by (intro conjI exI [of _ u] exI [of _ "csr_state y"] exI [of _ "csr_version y"] exI [of _ t]
          exI [of _ u'] exI [of _ v']) simp_all
    qed
    then show ?thesis using reaches_trans [OF r1 wr(1)] unfolding out
      by (auto split: sum.split_asm ciba_atomic_result.split_asm)
  next
    case EvalExpired
    obtain r w2 where c: "cs_delete st i (csr_version y) deadline w1 = (r, w2)" by fastforce
    with run t EvalExpired have "w' = w2" "\<forall>c. out \<noteq> Return (Inr c)"
      by (auto simp: ciba_decision_attempt_def split: sum.split_asm ciba_atomic_result.split_asm)
    then show ?thesis using reaches_trans [OF r1 delete_reaches [OF c]] by simp
  qed (use run t r1 in \<open>auto simp: ciba_decision_attempt_def\<close>)
qed

lemma ciba_reload_ok:
  assumes "ciba_reload st i stored w = (r, w')"
  shows "reaches w w'"
    and "r = Inr y \<Longrightarrow> seen i w w' y \<and> same_ciba_authorization (csr_state stored) (csr_state y)"
proof -
  obtain rl wl where l: "ciba_load st i w = (rl, wl)" by fastforce
  note ok = ciba_load_ok [OF l]
  have "wl = w'" using assms l
    by (auto simp: ciba_reload_def split: sum.split_asm option.split_asm if_split_asm)
  with ok show "reaches w w'" by simp
  assume "r = Inr y"
  with assms l have "rl = Inr (Some y)" "same_ciba_authorization (csr_state stored) (csr_state y)"
    by (auto simp: ciba_reload_def split: sum.split_asm option.split_asm if_split_asm)
  with ok(2) \<open>wl = w'\<close> show "seen i w w' y \<and> same_ciba_authorization (csr_state stored) (csr_state y)"
    by blast
qed

lemma ciba_decision_loop_ok:
  "ciba_decision_loop st current_time i d user deadline stored first n w = (r, w') \<Longrightarrow>
     reaches w0 w \<Longrightarrow> (first \<Longrightarrow> seen i w0 w stored) \<Longrightarrow>
     reaches w w' \<and> (\<forall>c. r = Inr c \<longrightarrow> committed_in i d user deadline (csr_state stored) w w' c)"
proof (induction n arbitrary: first w)
  case (Suc n)
  obtain o1 w1 where load: "(if first then (Inr stored, w) else ciba_reload st i stored w) = (o1, w1)"
    by fastforce
  have l: "reaches w w1"
    "o1 = Inr y \<Longrightarrow> seen i w0 w1 y \<and> same_ciba_authorization (csr_state stored) (csr_state y)" for y
    using load Suc.prems(3) ciba_reload_ok [of i stored w o1 w1] seen_earlier [OF Suc.prems(2)]
    by (auto split: if_split_asm)
  show ?case
  proof (cases o1)
    case (Inl e)
    then show ?thesis using Suc.prems(1) load l(1) by auto
  next
    case (Inr y)
    obtain out w2 where att: "ciba_decision_attempt st current_time i d user deadline y w1 = (out, w2)"
      by fastforce
    note a = ciba_decision_attempt_ok [OF conjunct1 [OF l(2) [OF Inr]] conjunct2 [OF l(2) [OF Inr]] att]
    note r2 = reaches_trans [OF l(1) conjunct1 [OF a]]
    show ?thesis
    proof (cases out)
      case (Return x)
      then show ?thesis using Suc.prems(1) load Inr att r2 a committed_in_prefix [OF l(1)] by auto
    next
      case (Continue x)
      then have "ciba_decision_loop st current_time i d user deadline stored False n w2 = (r, w')"
        using Suc.prems(1) load Inr att by auto
      from Suc.IH [OF this reaches_trans [OF Suc.prems(2) r2]] show ?thesis
        using r2 committed_in_prefix [OF r2] reaches_trans by simp
    qed
  qed
qed auto

lemma ciba_decide_ok:
  assumes "ciba_decide_with_authorization_deadline st current_time i d user deadline w = (r, w')"
  shows "reaches w w'" and "r = Inr c \<Longrightarrow>
    \<exists>y w1. seen i w w1 y \<and> committed_in i d user deadline (csr_state y) w1 w' c"
proof -
  obtain rl w1 where l: "ciba_load st i w = (rl, w1)" by fastforce
  note ok = ciba_load_ok [OF l]
  have *: "reaches w w' \<and> (\<forall>c. r = Inr c \<longrightarrow>
    (\<exists>y w1. seen i w w1 y \<and> committed_in i d user deadline (csr_state y) w1 w' c))"
  proof (cases "\<exists>y. rl = Inr (Some y)")
    case True
    then obtain y where y: "rl = Inr (Some y)" by blast
    with assms l have "ciba_decision_loop st current_time i d user deadline y True
        CIBA_TRANSITION_MAX_ATTEMPTS w1 = (r, w')"
      by (simp add: ciba_decide_with_authorization_deadline_def ciba_prepare_decision_def
        ciba_commit_prepared_decision_def)
    from ciba_decision_loop_ok [OF this ok(1)] ok y show ?thesis using reaches_trans by blast
  next
    case False
    with assms l ok(1) show ?thesis
      by (auto simp: ciba_decide_with_authorization_deadline_def ciba_prepare_decision_def
        split: sum.split_asm option.split_asm)
  qed
  show "reaches w w'" and "r = Inr c \<Longrightarrow>
    \<exists>y w1. seen i w w1 y \<and> committed_in i d user deadline (csr_state y) w1 w' c" using * by blast+
qed

subsection \<open>Creating\<close>

definition created_in ::
  "string \<Rightarrow> ciba_request_state \<Rightarrow> int option \<Rightarrow> 'w \<Rightarrow> 'w \<Rightarrow> bool"
where
  "created_in i s deadline w w' \<longleftrightarrow>
     (\<exists>u u' v. reaches w u \<and> entry u (hash_of i) = None \<and> is_none_or (\<lambda>t. server_now u < t) deadline \<and>
        entry u' = (entry u)(hash_of i \<mapsto> (with_auth_req_id i s, v)) \<and> reaches u' w')"

lemma created_in_prefix:
  "reaches w wa \<Longrightarrow> created_in i s deadline wa w' \<Longrightarrow> created_in i s deadline w w'"
  unfolding created_in_def using reaches_trans by blast

lemma create_ok:
  assumes new: "validate_new_state s = Inr ()" "crs_status s = CibaPending" and i: "i \<noteq> []"
    and run: "cs_create st i s deadline w = (r, w')"
  shows "reaches w w'" and "r = Inr CibaApplied \<Longrightarrow> created_in i s deadline w w'"
proof -
  from create_law [OF new(1) i run] obtain u u' where u: "env w u" "env u' w'"
    and e: "entry u' = entry u \<or> entry u (hash_of i) = None \<and>
      (\<exists>v. entry u' = (entry u)(hash_of i \<mapsto> (with_auth_req_id i s, v)))"
    and app: "r = Inr CibaApplied \<longrightarrow> is_none_or (\<lambda>t. server_now u < t) deadline \<and>
      entry u (hash_of i) = None \<and> (\<exists>v. entry u' = (entry u)(hash_of i \<mapsto> (with_auth_req_id i s, v)))"
    by blast
  have "ciba_step (entry u) ((entry u)(hash_of i \<mapsto> (with_auth_req_id i s, v)))"
    if "entry u (hash_of i) = None" for v
    using that new_ciba_ok [OF new(1) i] new(2) by (intro ciba_step_create) simp_all
  with e have "reaches u u'" by (auto intro: r_into_rtranclp [of ciba_step])
  then show "reaches w w'" using env_steps [OF u(1)] env_steps [OF u(2)] reaches_trans by blast
  assume "r = Inr CibaApplied"
  with app show "created_in i s deadline w w'"
    unfolding created_in_def using env_steps [OF u(1)] env_steps [OF u(2)] by blast
qed

text \<open>\<open>generate_id\<close> makes non-empty identifiers.\<close>

lemma ciba_create_loop_ok:
  assumes ids: "\<And>w i w'. generate_id w = (i, w') \<Longrightarrow> i \<noteq> [] \<and> env w w'"
    and new: "validate_new_state s = Inr ()" "crs_status s = CibaPending"
  shows "ciba_create_loop st s deadline generate_id n w = (r, w') \<Longrightarrow>
    reaches w w' \<and> (\<forall>i. r = Inr i \<longrightarrow> created_in i s deadline w w')"
proof (induction n arbitrary: w)
  case (Suc n)
  obtain i w1 where g: "generate_id w = (i, w1)" by fastforce
  obtain rc w2 where c: "cs_create st i s deadline w1 = (rc, w2)" by fastforce
  have i: "i \<noteq> []" and r1: "reaches w w1" using ids [OF g] env_steps by blast+
  note ok = create_ok [OF new i c]
  have r2: "reaches w w2" by (rule reaches_trans [OF r1 ok(1)])
  show ?case
  proof (cases "rc = Inr CibaConflict")
    case True
    then have "ciba_create_loop st s deadline generate_id n w2 = (r, w')" using Suc.prems g c by simp
    from Suc.IH [OF this] show ?thesis using r2 reaches_trans created_in_prefix [OF r2] by blast
  next
    case False
    then show ?thesis using Suc.prems g c r2 ok(2) created_in_prefix [OF r1]
      by (auto split: sum.split_asm ciba_atomic_result.split_asm)
  qed
qed auto

lemma ciba_create_unique_ok:
  assumes ids: "\<And>w i w'. generate_id w = (i, w') \<Longrightarrow> i \<noteq> [] \<and> env w w'"
    and pending: "crs_status s = CibaPending"
    and run: "ciba_create_unique_with_authorization_deadline st s deadline generate_id w = (r, w')"
  shows "reaches w w'" and "r = Inr i \<Longrightarrow> created_in i s deadline w w'"
  using run ciba_create_loop_ok [OF ids _ pending]
  by (auto simp: ciba_create_unique_with_authorization_deadline_def split: sum.split_asm)

end

end
