(* ===== verification/Valkey.thy ===== *)
theory Valkey
  imports Prelude
begin

text \<open>
  The Valkey adapter's common ground (\<open>src/crates/state-store-valkey/src\<close>,
  \<open>error.rs\<close>, \<open>keys.rs\<close>, \<open>command.rs\<close>,
  \<open>connection.rs\<close>). The server and the client library are a parameter, the record
  \<open>'w valkey\<close> of the commands the source uses; the locale \<open>valkey_server\<close> states
  their documented meaning over a view of the live keys. A command or script runs at one instant of
  the call; before and after it the environment (other clients, expiry) may act, and a call that
  reports an error may or may not have reached the server.

  \<open>valkey_ref\<close> is a server in memory that fulfils these laws.
\<close>

subsection \<open>Errors\<close>

datatype fred_error_kind =
    FredTimeout | FredCanceled | FredProtocol | FredParse | FredNotFound | FredAuth | FredIO
  | FredRouting | FredCluster | FredSentinel | FredBackpressure | FredOther

text \<open>An adapter error is modelled by its kind; its message is diagnostic text.\<close>

datatype vk_error_kind = VkTimeout | VkUnavailable | VkProtocol | VkCorruptData | VkUnexpectedResult

fun from_fred :: "fred_error_kind \<Rightarrow> vk_error_kind" where
  "from_fred FredTimeout = VkTimeout"
| "from_fred FredCanceled = VkTimeout"
| "from_fred FredProtocol = VkProtocol"
| "from_fred FredParse = VkProtocol"
| "from_fred FredNotFound = VkProtocol"
| "from_fred FredAuth = VkUnavailable"
| "from_fred FredIO = VkUnavailable"
| "from_fred FredRouting = VkUnavailable"
| "from_fred FredCluster = VkUnavailable"
| "from_fred FredSentinel = VkUnavailable"
| "from_fred FredBackpressure = VkUnavailable"
| "from_fred FredOther = VkProtocol"

subsection \<open>The server\<close>

datatype vk_reply =
    ReplyNil
  | ReplyBulk string
  | ReplyInt int
  | ReplyArray "vk_reply list"
  | ReplyError string

record 'w valkey =
  vk_get :: "string \<Rightarrow> 'w \<Rightarrow> string option"
  vk_exists :: "string \<Rightarrow> 'w \<Rightarrow> bool"
  vk_set :: "string \<Rightarrow> string \<Rightarrow> 'w \<Rightarrow> 'w"
  vk_set_ex :: "string \<Rightarrow> string \<Rightarrow> nat \<Rightarrow> 'w \<Rightarrow> 'w option"
  vk_del :: "string \<Rightarrow> 'w \<Rightarrow> 'w"
  vk_pexpiretime :: "string \<Rightarrow> 'w \<Rightarrow> int"
  vk_pexpireat :: "string \<Rightarrow> int \<Rightarrow> 'w \<Rightarrow> 'w"
  vk_time :: "'w \<Rightarrow> nat \<times> nat"
  vk_send :: "('w \<Rightarrow> vk_reply \<times> 'w) \<Rightarrow> ('w, fred_error_kind, vk_reply) io"
  vk_to_string :: "vk_reply \<Rightarrow> fred_error_kind + string"
  vk_to_optional_string :: "vk_reply \<Rightarrow> fred_error_kind + string option"
  vk_to_snapshot :: "vk_reply \<Rightarrow> fred_error_kind + (string \<times> int) option"
  vk_to_integer :: "vk_reply \<Rightarrow> fred_error_kind + int"

locale valkey_server =
  fixes vk :: "'w valkey"
    and view :: "'w \<Rightarrow> string \<Rightarrow> (string \<times> int option) option"
    and clock_ms :: "'w \<Rightarrow> int"
    and env :: "'w \<Rightarrow> 'w \<Rightarrow> bool"
  assumes env_refl: "env w w"
    and env_trans: "env w1 w2 \<Longrightarrow> env w2 w3 \<Longrightarrow> env w1 w3"
    and deadline_nonneg: "view w k = Some (v, Some d) \<Longrightarrow> 0 \<le> d"
    and get: "vk_get vk k w = map_option fst (view w k)"
    and exists: "vk_exists vk k w \<longleftrightarrow> view w k \<noteq> None"
    and pexpiretime: "vk_pexpiretime vk k w =
      (case view w k of None \<Rightarrow> -2 | Some (_, None) \<Rightarrow> -1 | Some (_, Some d) \<Rightarrow> d)"
    and set: "view (vk_set vk k v w) = (view w)(k \<mapsto> (v, None))"
    and clock_kept: "clock_ms (vk_set vk k v w) = clock_ms w" "clock_ms (vk_del vk k w) = clock_ms w"
      "clock_ms (vk_pexpireat vk k d w) = clock_ms w"
    and set_ex: "vk_set_ex vk k v n w = Some w' \<Longrightarrow>
      view w' = (view w)(k \<mapsto> (v, Some (clock_ms w + 1000 * int n))) \<and> clock_ms w' = clock_ms w"
    and del: "view (vk_del vk k w) = (view w)(k := None)"
    and pexpireat: "clock_ms w < d \<Longrightarrow>
      view (vk_pexpireat vk k d w) =
        (case view w k of None \<Rightarrow> view w | Some (v, _) \<Rightarrow> (view w)(k \<mapsto> (v, Some d)))"
    and time: "vk_time vk w = (sec, us) \<Longrightarrow> clock_ms w = int sec * 1000 + int (us div 1000)"
    and send: "vk_send vk cmd w = (r, w') \<Longrightarrow>
      \<exists>w1. env w w1 \<and>
        (case r of
           Inr x \<Rightarrow> (\<forall>m. x \<noteq> ReplyError m) \<and> (\<exists>w2. cmd w1 = (x, w2) \<and> env w2 w')
         | Inl _ \<Rightarrow> env w1 w' \<or> (\<exists>x w2. cmd w1 = (x, w2) \<and> env w2 w'))"
    and to_string: "vk_to_string vk (ReplyBulk s) = Inr s"
    and to_optional_string:
      "vk_to_optional_string vk ReplyNil = Inr None"
      "vk_to_optional_string vk (ReplyBulk s) = Inr (Some s)"
    and to_snapshot:
      "vk_to_snapshot vk ReplyNil = Inr None"
      "vk_to_snapshot vk (ReplyArray [ReplyBulk s, ReplyInt i]) = Inr (Some (s, i))"
    and to_integer: "vk_to_integer vk (ReplyInt i) = Inr i"
begin

text \<open>A write that keeps the deadline: the new value is live under the old deadline.\<close>

lemma set_keeping_deadline:
  assumes "clock_ms w < d"
  shows "view (vk_pexpireat vk k d (vk_set vk k v w)) = (view w)(k \<mapsto> (v, Some d))"
  using assms by (simp add: pexpireat set clock_kept)

end

subsection \<open>Commands\<close>

text \<open>\<open>state_key\<close>: every key carries the namespace of the connection.\<close>

definition state_key :: "string \<Rightarrow> string \<Rightarrow> string" where
  "state_key namespace key = namespace @ key"

lemma state_key_eq [simp]: "state_key ns k = state_key ns k' \<longleftrightarrow> k = k'"
  by (simp add: state_key_def)

definition vk_get_command :: "'w valkey \<Rightarrow> string \<Rightarrow> 'w \<Rightarrow> vk_reply \<times> 'w" where
  "vk_get_command vk key w =
     (case vk_get vk key w of None \<Rightarrow> ReplyNil | Some v \<Rightarrow> ReplyBulk v, w)"

definition command_get ::
  "'w valkey \<Rightarrow> string \<Rightarrow> string \<Rightarrow> ('w, vk_error_kind, string option) io"
where
  "command_get vk namespace key w =
     (case vk_send vk (vk_get_command vk (state_key namespace key)) w of
        (Inl e, w1) \<Rightarrow> (Inl (from_fred e), w1)
      | (Inr reply, w1) \<Rightarrow> (map_err from_fred (vk_to_optional_string vk reply), w1))"

definition eval_string ::
  "'w valkey \<Rightarrow> ('w \<Rightarrow> vk_reply \<times> 'w) \<Rightarrow> ('w, vk_error_kind, string) io"
where
  "eval_string vk script w =
     (case vk_send vk script w of
        (Inl e, w1) \<Rightarrow> (Inl (from_fred e), w1)
      | (Inr reply, w1) \<Rightarrow> (map_err from_fred (vk_to_string vk reply), w1))"

datatype compare_delete_result = CompareDeleted | CompareMissingOrChanged

definition COMPARE_DELETE_SCRIPT ::
  "'w valkey \<Rightarrow> string \<Rightarrow> string \<Rightarrow> 'w \<Rightarrow> vk_reply \<times> 'w"
where
  "COMPARE_DELETE_SCRIPT vk key expected w =
     (case vk_get vk key w of
        None \<Rightarrow> (ReplyBulk ''missing'', w)
      | Some current \<Rightarrow>
          if current \<noteq> expected then (ReplyBulk ''changed'', w)
          else (ReplyBulk ''deleted'', vk_del vk key w))"

definition compare_delete ::
  "'w valkey \<Rightarrow> string \<Rightarrow> string \<Rightarrow> string \<Rightarrow> ('w, vk_error_kind, compare_delete_result) io"
where
  "compare_delete vk namespace key expected w =
     (case eval_string vk (COMPARE_DELETE_SCRIPT vk (state_key namespace key) expected) w of
        (Inl e, w1) \<Rightarrow> (Inl e, w1)
      | (Inr reply, w1) \<Rightarrow>
          (if reply = ''deleted'' then Inr CompareDeleted
           else if reply = ''missing'' \<or> reply = ''changed'' then Inr CompareMissingOrChanged
           else Inl VkUnexpectedResult, w1))"

text \<open>What a call of a script that answers a bulk string does: it ran at one instant, or an
  error is reported and it ran at most once.\<close>

context valkey_server
begin

lemma eval_string_runs:
  assumes "eval_string vk script w = (r, w')"
  obtains (ran) w1 w2 x where "env w w1" and "script w1 = (x, w2)" and "env w2 w'"
      and "\<And>s. x = ReplyBulk s \<Longrightarrow> (\<exists>e. r = Inl e) \<or> r = Inr s"
      and "\<And>s. r = Inr s \<Longrightarrow> vk_to_string vk x = Inr s \<and> (\<forall>m. x \<noteq> ReplyError m)"
    | (not_run) e where "env w w'" and "r = Inl e"
proof -
  obtain rs w0 where snd: "vk_send vk script w = (rs, w0)" by fastforce
  from send [OF snd] obtain w1 where w1: "env w w1"
    and cases: "case rs of Inr x \<Rightarrow> (\<forall>m. x \<noteq> ReplyError m) \<and> (\<exists>w2. script w1 = (x, w2) \<and> env w2 w0)
         | Inl _ \<Rightarrow> env w1 w0 \<or> (\<exists>x w2. script w1 = (x, w2) \<and> env w2 w0)" by blast
  show thesis
  proof (cases rs)
    case (Inr x)
    then show thesis
      using cases assms snd w1 ran by (auto simp: eval_string_def to_string)
  next
    case (Inl e)
    then have r: "r = Inl (from_fred e)" and w0: "w0 = w'" using assms snd by (auto simp: eval_string_def)
    from cases Inl consider "env w1 w0" | x w2 where "script w1 = (x, w2)" "env w2 w0" by auto
    then show thesis
    proof cases
      case 1
      then show thesis using r w0 w1 env_trans not_run by blast
    next
      case (2 x w2)
      then show thesis using r w0 w1 ran [of w1 x w2] by auto
    qed
  qed
qed

text \<open>A command that only reads.\<close>

lemma send_reads:
  assumes run: "vk_send vk cmd w = (r, w')" and pure: "\<And>w x w'. cmd w = (x, w') \<Longrightarrow> w' = w"
  obtains w1 where "env w w1" and "env w1 w'" and "\<And>x. r = Inr x \<Longrightarrow> cmd w1 = (x, w1)"
proof -
  from send [OF run] obtain w1 where w1: "env w w1"
    and cases: "case r of Inr x \<Rightarrow> (\<forall>m. x \<noteq> ReplyError m) \<and> (\<exists>w2. cmd w1 = (x, w2) \<and> env w2 w')
         | Inl _ \<Rightarrow> env w1 w' \<or> (\<exists>x w2. cmd w1 = (x, w2) \<and> env w2 w')" by blast
  show thesis
  proof (cases r)
    case (Inl e)
    then show ?thesis using that [OF w1] cases pure by auto
  next
    case (Inr x)
    then obtain w2 where w2: "cmd w1 = (x, w2)" "env w2 w'" using cases by auto
    with pure [OF w2(1)] show ?thesis using that [OF w1] Inr by simp
  qed
qed

text \<open>The clock in whole seconds, as scripts read it.\<close>

lemma clock_seconds:
  assumes "vk_time vk w = (sec, us)" and "us < 1000000"
  shows "int sec < d \<longleftrightarrow> clock_ms w < d * 1000"
proof -
  have "us div 1000 < 1000" using assms(2) by (simp add: less_mult_imp_div_less)
  then show ?thesis using time [OF assms(1)] by auto
qed

end

subsection \<open>A server in memory\<close>

record vk_world =
  vw_keys :: "string \<Rightarrow> (string \<times> nat option) option"
  vw_ms :: nat

definition vk_ref_view :: "'a vk_world_scheme \<Rightarrow> string \<Rightarrow> (string \<times> int option) option" where
  "vk_ref_view w k =
     (case vw_keys w k of
        None \<Rightarrow> None
      | Some (v, None) \<Rightarrow> Some (v, None)
      | Some (v, Some d) \<Rightarrow> if vw_ms w < d then Some (v, Some (int d)) else None)"

definition valkey_ref :: "'a vk_world_scheme valkey" where
  "valkey_ref =
     \<lparr>vk_get = (\<lambda>k w. map_option fst (vk_ref_view w k)),
      vk_exists = (\<lambda>k w. vk_ref_view w k \<noteq> None),
      vk_set = (\<lambda>k v w. w\<lparr>vw_keys := (vw_keys w)(k \<mapsto> (v, None))\<rparr>),
      vk_set_ex = (\<lambda>k v n w.
        if n = 0 then None
        else Some (w\<lparr>vw_keys := (vw_keys w)(k \<mapsto> (v, Some (vw_ms w + 1000 * n)))\<rparr>)),
      vk_del = (\<lambda>k w. w\<lparr>vw_keys := (vw_keys w)(k := None)\<rparr>),
      vk_pexpiretime = (\<lambda>k w.
        case vk_ref_view w k of None \<Rightarrow> -2 | Some (_, None) \<Rightarrow> -1 | Some (_, Some d) \<Rightarrow> d),
      vk_pexpireat = (\<lambda>k d w.
        case vw_keys w k of
          None \<Rightarrow> w
        | Some (v, _) \<Rightarrow>
            if vk_ref_view w k = None then w
            else w\<lparr>vw_keys := (vw_keys w)(k \<mapsto> (v, Some (nat d)))\<rparr>),
      vk_time = (\<lambda>w. (vw_ms w div 1000, vw_ms w mod 1000 * 1000)),
      vk_send = (\<lambda>cmd w.
        case cmd w of (ReplyError _, w') \<Rightarrow> (Inl FredOther, w') | (x, w') \<Rightarrow> (Inr x, w')),
      vk_to_string = (\<lambda>x. case x of ReplyBulk s \<Rightarrow> Inr s | _ \<Rightarrow> Inl FredParse),
      vk_to_optional_string =
        (\<lambda>x. case x of ReplyBulk s \<Rightarrow> Inr (Some s) | ReplyNil \<Rightarrow> Inr None | _ \<Rightarrow> Inl FredParse),
      vk_to_snapshot =
        (\<lambda>x. case x of ReplyNil \<Rightarrow> Inr None
              | ReplyArray [ReplyBulk s, ReplyInt i] \<Rightarrow> Inr (Some (s, i))
              | _ \<Rightarrow> Inl FredParse),
      vk_to_integer = (\<lambda>x. case x of ReplyInt i \<Rightarrow> Inr i | _ \<Rightarrow> Inl FredParse)\<rparr>"

interpretation vk_ref: valkey_server valkey_ref vk_ref_view "\<lambda>w. int (vw_ms w)" "(=)"
proof unfold_locales
  fix w :: "'a vk_world_scheme" and k v d
  show "vk_ref_view w k = Some (v, Some d) \<Longrightarrow> 0 \<le> d"
    by (auto simp: vk_ref_view_def split: option.splits if_splits)
  show "int (vw_ms w) < d \<Longrightarrow> vk_ref_view (vk_pexpireat valkey_ref k d w) =
      (case vk_ref_view w k of None \<Rightarrow> vk_ref_view w
       | Some (v, _) \<Rightarrow> (vk_ref_view w)(k \<mapsto> (v, Some d)))"
    by (auto simp: valkey_ref_def vk_ref_view_def fun_eq_iff zless_nat_eq_int_zless
          split: option.splits if_splits)
  fix sec us
  show "vk_time valkey_ref w = (sec, us) \<Longrightarrow> int (vw_ms w) = int sec * 1000 + int (us div 1000)"
    by (auto simp: valkey_ref_def zdiv_int zmod_int)
qed (auto simp: valkey_ref_def vk_ref_view_def fun_eq_iff
      split: option.splits if_splits vk_reply.splits prod.splits)

end
