(* ===== verification/Valkey_Commands.thy ===== *)
theory Valkey_Commands
  imports Valkey
begin

text \<open>
  The remaining commands of the Valkey adapter (\<open>src/crates/state-store-valkey/src/command.rs\<close>):
  conditional and unconditional writes with a lifetime, take and delete. The commands of the
  server that they send are composed of the operations of \<open>'w valkey\<close>.
\<close>

text \<open>SET with NX and EX checks its arguments first, then whether the key exists.\<close>

definition vk_set_nx_ex_command ::
  "'w valkey \<Rightarrow> string \<Rightarrow> string \<Rightarrow> nat \<Rightarrow> 'w \<Rightarrow> vk_reply \<times> 'w"
where
  "vk_set_nx_ex_command vk key v seconds w =
     (case vk_set_ex vk key v seconds w of
        None \<Rightarrow> (ReplyError ''ERR invalid expire time in 'set' command'', w)
      | Some w1 \<Rightarrow> if vk_exists vk key w then (ReplyNil, w) else (ReplyBulk ''OK'', w1))"

definition vk_set_ex_command ::
  "'w valkey \<Rightarrow> string \<Rightarrow> string \<Rightarrow> nat \<Rightarrow> 'w \<Rightarrow> vk_reply \<times> 'w"
where
  "vk_set_ex_command vk key v seconds w =
     (case vk_set_ex vk key v seconds w of
        None \<Rightarrow> (ReplyError ''ERR invalid expire time in 'set' command'', w)
      | Some w1 \<Rightarrow> (ReplyBulk ''OK'', w1))"

definition vk_getdel_command :: "'w valkey \<Rightarrow> string \<Rightarrow> 'w \<Rightarrow> vk_reply \<times> 'w" where
  "vk_getdel_command vk key w =
     (case vk_get vk key w of
        None \<Rightarrow> (ReplyNil, w)
      | Some v \<Rightarrow> (ReplyBulk v, vk_del vk key w))"

text \<open>SET with NX and EXAT inside a script: \<open>None\<close> is the raised error, a value tells whether
  the key was set.\<close>

definition vk_set_nx_exat ::
  "'w valkey \<Rightarrow> string \<Rightarrow> string \<Rightarrow> int \<Rightarrow> 'w \<Rightarrow> (bool \<times> 'w) option"
where
  "vk_set_nx_exat vk key v seconds w =
     (if seconds \<le> 0 \<or> seconds > i64_max div 1000 then None
      else if vk_exists vk key w then Some (False, w)
      else Some (True, vk_pexpireat vk key (seconds * 1000) (vk_set vk key v w)))"

definition set_ex_nx ::
  "'w valkey \<Rightarrow> string \<Rightarrow> string \<Rightarrow> string \<Rightarrow> nat \<Rightarrow> ('w, vk_error_kind, bool) io"
where
  "set_ex_nx vk namespace key v ttl_seconds w =
     (case vk_send vk (vk_set_nx_ex_command vk (state_key namespace key) v
        (min ttl_seconds (nat i64_max))) w of
        (Inl e, w1) \<Rightarrow> (Inl (from_fred e), w1)
      | (Inr reply, w1) \<Rightarrow>
          (and_then (map_err from_fred (vk_to_optional_string vk reply)) (\<lambda>r.
             case r of
               None \<Rightarrow> Inr False
             | Some s \<Rightarrow> if s = ''OK'' then Inr True else Inl VkUnexpectedResult), w1))"

definition set_ex ::
  "'w valkey \<Rightarrow> string \<Rightarrow> string \<Rightarrow> string \<Rightarrow> nat \<Rightarrow> ('w, vk_error_kind, unit) io"
where
  "set_ex vk namespace key v ttl_seconds w =
     (case vk_send vk (vk_set_ex_command vk (state_key namespace key) v
        (min ttl_seconds (nat i64_max))) w of
        (Inl e, w1) \<Rightarrow> (Inl (from_fred e), w1)
      | (Inr _, w1) \<Rightarrow> (Inr (), w1))"

definition command_take ::
  "'w valkey \<Rightarrow> string \<Rightarrow> string \<Rightarrow> ('w, vk_error_kind, string option) io"
where
  "command_take vk namespace key w =
     (case vk_send vk (vk_getdel_command vk (state_key namespace key)) w of
        (Inl e, w1) \<Rightarrow> (Inl (from_fred e), w1)
      | (Inr reply, w1) \<Rightarrow> (map_err from_fred (vk_to_optional_string vk reply), w1))"

text \<open>DEL answers how many keys it removed. SET with KEEPTTL keeps the deadline of the key.\<close>

definition vk_del_command :: "'w valkey \<Rightarrow> string \<Rightarrow> 'w \<Rightarrow> vk_reply \<times> 'w" where
  "vk_del_command vk key w =
     (if vk_exists vk key w then (ReplyInt 1, vk_del vk key w) else (ReplyInt 0, w))"

definition vk_set_keepttl :: "'w valkey \<Rightarrow> string \<Rightarrow> string \<Rightarrow> 'w \<Rightarrow> 'w" where
  "vk_set_keepttl vk key v w =
     (let d = vk_pexpiretime vk key w in
      if d < 0 then vk_set vk key v w else vk_pexpireat vk key d (vk_set vk key v w))"

definition command_delete :: "'w valkey \<Rightarrow> string \<Rightarrow> string \<Rightarrow> ('w, vk_error_kind, int) io" where
  "command_delete vk namespace key w =
     (case vk_send vk (vk_del_command vk (state_key namespace key)) w of
        (Inl e, w1) \<Rightarrow> (Inl (from_fred e), w1)
      | (Inr reply, w1) \<Rightarrow> (map_err from_fred (vk_to_integer vk reply), w1))"

context valkey_server
begin

lemma sent:
  assumes "vk_send vk cmd w = (Inr x, w')"
  obtains w1 w2 where "env w w1" and "cmd w1 = (x, w2)" and "env w2 w'"
    and "\<And>m. x \<noteq> ReplyError m"
  using send [OF assms] that by auto

lemma not_exists: "\<not> vk_exists vk k w \<longleftrightarrow> view w k = None"
  using exists [of k w] by blast

text \<open>A script that answers with a text ran at one instant of the call.\<close>

lemma script_answered:
  assumes "eval_string vk script w = (Inr s, w')"
  obtains w1 x w2 where "env w w1" and "script w1 = (x, w2)" and "env w2 w'"
    and "vk_to_string vk x = Inr s" and "\<forall>m. x \<noteq> ReplyError m"
proof (rule eval_string_runs [OF assms])
  fix w1 w2 x
  assume "env w w1" and "script w1 = (x, w2)" and "env w2 w'"
    and "\<And>t. Inr s = Inr t \<Longrightarrow> vk_to_string vk x = Inr t \<and> (\<forall>m. x \<noteq> ReplyError m)"
  then show thesis using that by blast
qed simp

lemma set_keepttl:
  assumes "view w k = Some (v0, Some d)" and "clock_ms w < d"
  shows "view (vk_set_keepttl vk k v w) = (view w)(k \<mapsto> (v, Some d))"
proof -
  have "vk_pexpiretime vk k w = d" "\<not> d < 0"
    using assms(1) deadline_nonneg [OF assms(1)] by (simp_all add: pexpiretime)
  then show ?thesis using set_keeping_deadline [OF assms(2)] by (simp add: vk_set_keepttl_def)
qed

lemma set_keepttl_value:
  assumes "view w k \<noteq> None" and "\<And>v0 d. view w k = Some (v0, Some d) \<Longrightarrow> clock_ms w < d"
  shows "\<exists>t. view (vk_set_keepttl vk k v w) = (view w)(k \<mapsto> (v, t))"
proof -
  obtain v0 t where t: "view w k = Some (v0, t)" using assms(1) by auto
  show ?thesis
  proof (cases t)
    case None
    then have "vk_set_keepttl vk k v w = vk_set vk k v w"
      using t by (simp add: vk_set_keepttl_def pexpiretime)
    then show ?thesis by (auto simp: set)
  next
    case (Some d)
    then show ?thesis using set_keepttl assms(2) t by blast
  qed
qed

end

end
