(* ===== verification/Valkey_Keys.thy ===== *)
theory Valkey_Keys
  imports Valkey
begin

text \<open>
  The key layout of the state store (\<open>src/crates/state-store-valkey/src/keys.rs\<close> and the
  namespaces of \<open>connection.rs\<close>). \<open>digest\<close> stands for the hexadecimal BLAKE3
  digest of a text, \<open>uuid_text\<close> for the textual form of a UUID. The lemmas show which
  arguments a key determines and that keys of different purposes differ.
\<close>

subsection \<open>Namespaces\<close>

definition namespace_char :: "char \<Rightarrow> bool" where
  "namespace_char c \<longleftrightarrow> is_ascii_alphanumeric c \<or> c = CHR ''.'' \<or> c = CHR ''-'' \<or> c = CHR ''_''"

definition deployment_namespace ::
  "(uuid \<Rightarrow> string) \<Rightarrow> string \<Rightarrow> uuid \<Rightarrow> vk_error_kind + string"
where
  "deployment_namespace uuid_text deployment_id state_epoch =
     (let d = trim deployment_id in
      if d = [] \<or> length d > 255 \<or> \<not> list_all namespace_char d then Inl VkUnexpectedResult
      else if state_epoch = 0 then Inl VkUnexpectedResult
      else Inr (''nazo:state:v1:'' @ d @ '':'' @ uuid_text state_epoch @ '':''))"

definition state_namespace ::
  "(uuid \<Rightarrow> string) \<Rightarrow> string \<Rightarrow> uuid \<Rightarrow> uuid \<Rightarrow> vk_error_kind + string"
where
  "state_namespace uuid_text deployment_id state_epoch tenant_id =
     (case deployment_namespace uuid_text deployment_id state_epoch of
        Inl e \<Rightarrow> Inl e
      | Inr ns \<Rightarrow> Inr (ns @ ''tenant:'' @ uuid_text tenant_id @ '':''))"

subsection \<open>Keys\<close>

definition key_fapi_http_signature_replay ::
  "(uuid \<Rightarrow> string) \<Rightarrow> ('fp \<Rightarrow> string) \<Rightarrow> uuid \<Rightarrow> 'fp \<Rightarrow> string"
where
  "key_fapi_http_signature_replay uuid_text hex tenant_id fingerprint =
     ''fapi_http_signature_replay:'' @ uuid_text tenant_id @ '':'' @ hex fingerprint"

definition key_dpop_replay :: "(string \<Rightarrow> string) \<Rightarrow> string \<Rightarrow> string \<Rightarrow> string" where
  "key_dpop_replay digest jkt jti = ''oauth:dpop:jti:'' @ jkt @ '':'' @ digest jti"

definition key_dpop_nonce :: "(string \<Rightarrow> string) \<Rightarrow> string \<Rightarrow> string" where
  "key_dpop_nonce digest nonce = ''oauth:dpop:nonce:'' @ digest nonce"

definition key_private_key_jwt_replay :: "(string \<Rightarrow> string) \<Rightarrow> string \<Rightarrow> string \<Rightarrow> string" where
  "key_private_key_jwt_replay digest client_id jti =
     ''oauth:client_assertion:jti:'' @ digest client_id @ '':'' @ digest jti"

definition key_client_attestation_replay :: "(string \<Rightarrow> string) \<Rightarrow> string \<Rightarrow> string \<Rightarrow> string" where
  "key_client_attestation_replay digest client_id jti =
     key_private_key_jwt_replay digest (''client-attestation:'' @ client_id) jti"

definition key_jar_replay :: "(string \<Rightarrow> string) \<Rightarrow> string \<Rightarrow> string \<Rightarrow> string" where
  "key_jar_replay digest client_id jti =
     ''oauth:jar:jti:'' @ digest client_id @ '':'' @ digest jti"

definition key_jwt_bearer_replay :: "(string \<Rightarrow> string) \<Rightarrow> string \<Rightarrow> string \<Rightarrow> string" where
  "key_jwt_bearer_replay digest client_id jti =
     ''oauth:jwt_bearer:jti:'' @ digest client_id @ '':'' @ digest jti"

definition key_ciba_request_object_replay :: "(string \<Rightarrow> string) \<Rightarrow> string \<Rightarrow> string \<Rightarrow> string" where
  "key_ciba_request_object_replay digest client_id jti =
     ''oauth:ciba:request_object:jti:'' @ digest client_id @ '':'' @ digest jti"

definition key_consent :: "string \<Rightarrow> string" where
  "key_consent request_id = ''oauth:consent:'' @ request_id"

definition key_par :: "(string \<Rightarrow> string) \<Rightarrow> string \<Rightarrow> string" where
  "key_par digest request_uri = ''oauth:par:'' @ digest request_uri"

definition key_authorization_code_hash :: "string \<Rightarrow> string" where
  "key_authorization_code_hash code_hash = ''oauth:auth_code:'' @ code_hash"

definition key_authorization_code :: "(string \<Rightarrow> string) \<Rightarrow> string \<Rightarrow> string" where
  "key_authorization_code digest code = key_authorization_code_hash (digest code)"

definition key_reauth_nonce :: "(string \<Rightarrow> string) \<Rightarrow> string \<Rightarrow> string" where
  "key_reauth_nonce digest nonce = ''oauth:authorization:reauth:'' @ digest nonce"

definition key_ciba_from_hash :: "string \<Rightarrow> string" where
  "key_ciba_from_hash auth_req_id_hash = ''oauth:ciba:'' @ auth_req_id_hash"

definition key_ciba :: "(string \<Rightarrow> string) \<Rightarrow> string \<Rightarrow> string" where
  "key_ciba digest auth_req_id = key_ciba_from_hash (digest auth_req_id)"

definition key_ciba_ping_queue :: string where
  "key_ciba_ping_queue = ''oauth:ciba:ping:due''"

definition key_device_code_hash :: "string \<Rightarrow> string" where
  "key_device_code_hash device_code_hash = ''oauth:device:code:'' @ device_code_hash"

definition key_device_code :: "(string \<Rightarrow> string) \<Rightarrow> string \<Rightarrow> string" where
  "key_device_code digest device_code = key_device_code_hash (digest device_code)"

definition normalize_user_code :: "string \<Rightarrow> string" where
  "normalize_user_code s = map to_ascii_uppercase (filter is_ascii_alphanumeric s)"

definition key_device_user_code :: "(string \<Rightarrow> string) \<Rightarrow> string \<Rightarrow> string" where
  "key_device_user_code digest user_code =
     ''oauth:device:user_code:'' @ digest (normalize_user_code user_code)"

definition key_rate :: "(string \<Rightarrow> string) \<Rightarrow> string \<Rightarrow> string \<Rightarrow> string" where
  "key_rate digest dimension subject =
     ''oauth:rate:'' @ dimension @ '':'' @ digest (trim subject)"

definition key_login_failure :: "(string \<Rightarrow> string) \<Rightarrow> string \<Rightarrow> string \<Rightarrow> string" where
  "key_login_failure digest dimension subject =
     ''oauth:login_failure:'' @ dimension @ '':'' @ digest (trim subject)"

definition key_mfa_failure :: "(string \<Rightarrow> string) \<Rightarrow> string \<Rightarrow> string" where
  "key_mfa_failure digest subject = ''oauth:mfa_failure:'' @ digest (trim subject)"

subsection \<open>What a key determines\<close>

lemma key_device_code_hash_inj [simp]:
  "key_device_code_hash h = key_device_code_hash h' \<longleftrightarrow> h = h'"
  by (simp add: key_device_code_hash_def)

lemma key_device_user_code_not_code [simp]:
  "key_device_user_code digest u \<noteq> key_device_code_hash h"
  "key_device_code_hash h \<noteq> key_device_user_code digest u"
  by (simp_all add: key_device_user_code_def key_device_code_hash_def)

lemma normalize_user_code_idem [simp]:
  "normalize_user_code (normalize_user_code s) = normalize_user_code s"
proof -
  have up: "is_ascii_alphanumeric c \<Longrightarrow> is_ascii_alphanumeric (to_ascii_uppercase c)" for c
    by (auto simp: is_ascii_alphanumeric_def to_ascii_uppercase_def byte_def Let_def)
  have idem: "to_ascii_uppercase (to_ascii_uppercase c) = to_ascii_uppercase c" for c
    by (auto simp: to_ascii_uppercase_def byte_def Let_def)
  show ?thesis
    by (induction s) (auto simp: normalize_user_code_def up idem)
qed

end
