(* ===== verification/Ciba_Valkey.thy ===== *)
theory Ciba_Valkey
  imports Ciba_Contract Valkey_Commands Valkey_Keys
begin

text \<open>
  The Valkey adapter of the CIBA store (\<open>src/crates/state-store-valkey/src/ciba.rs\<close>): the Lua
  scripts as functions on the server's state, the adapter's operations around them, and the proof
  that the adapter fulfils the contract of the CIBA service on every server with the documented
  laws. The queue of due notifications is a sorted set of the server; its commands are parameters.
  Times reach the scripts as decimal text and are read with \<open>tonumber\<close>, which is exact for
  seconds below \<open>2\<^sup>53\<close>; the texts are modelled by the numbers they denote.
\<close>

record 'w ciba_store =
  cb_vk :: "'w valkey"
  cb_namespace :: string
  cb_digest :: "string \<Rightarrow> string"
  cb_codec :: "ciba_request_state codec"
  cb_zadd :: "string \<Rightarrow> int \<Rightarrow> string \<Rightarrow> 'w \<Rightarrow> 'w"
  cb_zrem :: "string \<Rightarrow> string \<Rightarrow> 'w \<Rightarrow> 'w"

record ciba_state_version =
  csv_comparison_token :: string
  csv_retention_expires_at :: int

subsection \<open>Scripts\<close>

text \<open>EXPIRETIME answers in seconds, rounded.\<close>

definition vk_expiretime :: "'w valkey \<Rightarrow> string \<Rightarrow> 'w \<Rightarrow> int" where
  "vk_expiretime vk key w =
     (let d = vk_pexpiretime vk key w in if d < 0 then d else (d + 500) div 1000)"

definition CIBA_SNAPSHOT_SCRIPT :: "'w valkey \<Rightarrow> string \<Rightarrow> 'w \<Rightarrow> vk_reply \<times> 'w" where
  "CIBA_SNAPSHOT_SCRIPT vk key w =
     (case vk_get vk key w of
        None \<Rightarrow> (ReplyNil, w)
      | Some v \<Rightarrow> (ReplyArray [ReplyBulk v, ReplyInt (vk_expiretime vk key w)], w))"

definition script_second :: "'w valkey \<Rightarrow> 'w \<Rightarrow> int" where
  "script_second vk w = int (fst (vk_time vk w))"

definition SET_NX_DEADLINE_SCRIPT ::
  "'w valkey \<Rightarrow> string \<Rightarrow> string \<Rightarrow> int \<Rightarrow> int option \<Rightarrow> 'w \<Rightarrow> vk_reply \<times> 'w"
where
  "SET_NX_DEADLINE_SCRIPT vk key raw deadline authorization_deadline w =
     (let now = script_second vk w in
      if is_some_and (\<lambda>t. now \<ge> t) authorization_deadline then (ReplyBulk ''deadline_elapsed'', w)
      else if now \<ge> deadline then (ReplyBulk ''deadline_elapsed'', w)
      else if vk_exists vk key w then (ReplyBulk ''conflict'', w)
      else
        let w1 = vk_pexpireat vk key (deadline * 1000) (vk_set vk key raw w) in
        if \<not> vk_exists vk key w1 then (ReplyBulk ''deadline_elapsed'', w1)
        else (ReplyBulk ''applied'', w1))"

definition COMPARE_SET_DEADLINE_SCRIPT ::
  "'w ciba_store \<Rightarrow> string \<Rightarrow> string \<Rightarrow> string \<Rightarrow> string \<Rightarrow> int \<Rightarrow> string \<Rightarrow> int option \<Rightarrow> int option \<Rightarrow>
    'w \<Rightarrow> vk_reply \<times> 'w"
where
  "COMPARE_SET_DEADLINE_SCRIPT cb key queue expected replacement deadline member due_at
       authorization_deadline w =
     (let vk = cb_vk cb; now = script_second vk w in
      if is_some_and (\<lambda>t. now \<ge> t) authorization_deadline then (ReplyBulk ''deadline_elapsed'', w)
      else if now \<ge> deadline then
        (ReplyBulk ''deadline_elapsed'',
         if vk_get vk key w = Some expected then cb_zrem cb queue member (vk_del vk key w) else w)
      else if vk_get vk key w \<noteq> Some expected then (ReplyBulk ''conflict'', w)
      else
        let w1 = vk_pexpireat vk key (deadline * 1000) (vk_set vk key replacement w) in
        if \<not> vk_exists vk key w1 then (ReplyBulk ''deadline_elapsed'', w1)
        else
          (ReplyBulk ''applied'',
           case due_at of None \<Rightarrow> cb_zrem cb queue member w1 | Some t \<Rightarrow> cb_zadd cb queue t member w1))"

definition COMPARE_DELETE_DEADLINE_SCRIPT ::
  "'w ciba_store \<Rightarrow> string \<Rightarrow> string \<Rightarrow> string \<Rightarrow> int \<Rightarrow> string \<Rightarrow> int option \<Rightarrow> 'w \<Rightarrow> vk_reply \<times> 'w"
where
  "COMPARE_DELETE_DEADLINE_SCRIPT cb key queue expected deadline member authorization_deadline w =
     (let vk = cb_vk cb; now = script_second vk w in
      if is_some_and (\<lambda>t. now \<ge> t) authorization_deadline then (ReplyBulk ''deadline_elapsed'', w)
      else if now \<ge> deadline then
        (ReplyBulk ''deadline_elapsed'',
         if vk_get vk key w = Some expected then cb_zrem cb queue member (vk_del vk key w) else w)
      else if vk_get vk key w \<noteq> Some expected then (ReplyBulk ''conflict'', w)
      else (ReplyBulk ''applied'', cb_zrem cb queue member (vk_del vk key w)))"

subsection \<open>Operations\<close>

fun ciba_port_error :: "vk_error_kind \<Rightarrow> ciba_state_port_error" where
  "ciba_port_error VkTimeout = CibaUnavailable"
| "ciba_port_error VkUnavailable = CibaUnavailable"
| "ciba_port_error VkProtocol = CibaCorruptData"
| "ciba_port_error VkCorruptData = CibaCorruptData"
| "ciba_port_error VkUnexpectedResult = CibaUnexpected"

definition ciba_parse_atomic :: "string \<Rightarrow> vk_error_kind + ciba_atomic_result" where
  "ciba_parse_atomic reply =
     (if reply = ''applied'' then Inr CibaApplied
      else if reply = ''conflict'' then Inr CibaConflict
      else if reply = ''deadline_elapsed'' then Inr CibaDeadlineElapsed
      else Inl VkUnexpectedResult)"

definition ciba_atomic_call ::
  "'w valkey \<Rightarrow> ('w \<Rightarrow> vk_reply \<times> 'w) \<Rightarrow> ('w, vk_error_kind, ciba_atomic_result) io"
where
  "ciba_atomic_call vk script w =
     (case eval_string vk script w of
        (Inl e, w1) \<Rightarrow> (Inl e, w1)
      | (Inr reply, w1) \<Rightarrow> (ciba_parse_atomic reply, w1))"

definition ciba_store_create ::
  "'w ciba_store \<Rightarrow> string \<Rightarrow> ciba_request_state \<Rightarrow> int option \<Rightarrow>
    ('w, vk_error_kind, ciba_atomic_result) io"
where
  "ciba_store_create cb auth_req_id state authorization_deadline w =
     (let state' = with_auth_req_id auth_req_id state in
      case encode (cb_codec cb) state' of
        None \<Rightarrow> (Inl VkProtocol, w)
      | Some raw \<Rightarrow>
          ciba_atomic_call (cb_vk cb)
            (SET_NX_DEADLINE_SCRIPT (cb_vk cb)
              (state_key (cb_namespace cb) (key_ciba (cb_digest cb) auth_req_id)) raw
              (crs_retention_expires_at state') authorization_deadline) w)"

definition ciba_store_load ::
  "'w ciba_store \<Rightarrow> string \<Rightarrow>
    ('w, vk_error_kind, ciba_state_version ciba_stored_request option) io"
where
  "ciba_store_load cb auth_req_id w =
     (case vk_send (cb_vk cb) (CIBA_SNAPSHOT_SCRIPT (cb_vk cb)
        (state_key (cb_namespace cb) (key_ciba (cb_digest cb) auth_req_id))) w of
        (Inl e, w1) \<Rightarrow> (Inl (from_fred e), w1)
      | (Inr reply, w1) \<Rightarrow>
     (case vk_to_snapshot (cb_vk cb) reply of
        Inl e \<Rightarrow> (Inl (from_fred e), w1)
      | Inr None \<Rightarrow> (Inr None, w1)
      | Inr (Some (raw, deadline)) \<Rightarrow>
         (case decode (cb_codec cb) raw of
            None \<Rightarrow> (Inl VkProtocol, w1)
          | Some s \<Rightarrow>
              if crs_retention_expires_at s \<noteq> deadline then (Inl VkProtocol, w1)
              else (Inr (Some \<lparr>csr_state = s, csr_version =
                \<lparr>csv_comparison_token = raw, csv_retention_expires_at = deadline\<rparr>\<rparr>), w1))))"

definition ping_due_at :: "ciba_request_state \<Rightarrow> int option" where
  "ping_due_at replacement =
     (case crs_ping_notification replacement of
        None \<Rightarrow> None
      | Some n \<Rightarrow> if cpn_status n = PingPending then cpn_next_attempt_at n else None)"

definition ciba_store_replace ::
  "'w ciba_store \<Rightarrow> string \<Rightarrow> ciba_state_version \<Rightarrow> ciba_request_state \<Rightarrow> int option \<Rightarrow>
    ('w, vk_error_kind, ciba_atomic_result) io"
where
  "ciba_store_replace cb auth_req_id expected replacement authorization_deadline w =
     (if crs_retention_expires_at replacement \<noteq> csv_retention_expires_at expected
      then (Inl VkProtocol, w)
      else case encode (cb_codec cb) replacement of
        None \<Rightarrow> (Inl VkProtocol, w)
      | Some raw \<Rightarrow>
          let auth_req_id_hash = cb_digest cb auth_req_id in
          ciba_atomic_call (cb_vk cb)
            (COMPARE_SET_DEADLINE_SCRIPT cb
              (state_key (cb_namespace cb) (key_ciba_from_hash auth_req_id_hash))
              (state_key (cb_namespace cb) key_ciba_ping_queue)
              (csv_comparison_token expected) raw (csv_retention_expires_at expected)
              auth_req_id_hash (ping_due_at replacement) authorization_deadline) w)"

definition ciba_store_delete ::
  "'w ciba_store \<Rightarrow> string \<Rightarrow> ciba_state_version \<Rightarrow> int option \<Rightarrow>
    ('w, vk_error_kind, ciba_atomic_result) io"
where
  "ciba_store_delete cb auth_req_id expected authorization_deadline w =
     (let auth_req_id_hash = cb_digest cb auth_req_id in
      ciba_atomic_call (cb_vk cb)
        (COMPARE_DELETE_DEADLINE_SCRIPT cb
          (state_key (cb_namespace cb) (key_ciba_from_hash auth_req_id_hash))
          (state_key (cb_namespace cb) key_ciba_ping_queue)
          (csv_comparison_token expected) (csv_retention_expires_at expected)
          auth_req_id_hash authorization_deadline) w)"

definition valkey_ciba_store :: "'w ciba_store \<Rightarrow> ('w, ciba_state_version) ciba_state_store" where
  "valkey_ciba_store cb =
     \<lparr>cs_load = (\<lambda>auth_req_id w.
        apfst (map_err ciba_port_error) (ciba_store_load cb auth_req_id w)),
      cs_create = (\<lambda>auth_req_id state deadline w.
        apfst (map_err ciba_port_error) (ciba_store_create cb auth_req_id state deadline w)),
      cs_replace = (\<lambda>auth_req_id version state deadline w.
        apfst (map_err ciba_port_error) (ciba_store_replace cb auth_req_id version state deadline w)),
      cs_delete = (\<lambda>auth_req_id version deadline w.
        apfst (map_err ciba_port_error) (ciba_store_delete cb auth_req_id version deadline w))\<rparr>"

subsection \<open>The adapter fulfils the contract\<close>

text \<open>The stored requests in a view of the server: the values under the request keys that parse.\<close>

definition ciba_entry ::
  "('w \<Rightarrow> string \<Rightarrow> (string \<times> int option) option) \<Rightarrow> 'w ciba_store \<Rightarrow> 'w \<Rightarrow> string \<Rightarrow>
    (ciba_request_state \<times> ciba_state_version) option"
where
  "ciba_entry view cb w h =
     (case view w (state_key (cb_namespace cb) (key_ciba_from_hash h)) of
        None \<Rightarrow> None
      | Some (raw, _) \<Rightarrow>
          map_option (\<lambda>s. (s, \<lparr>csv_comparison_token = raw,
            csv_retention_expires_at = crs_retention_expires_at s\<rparr>)) (decode (cb_codec cb) raw))"

lemma key_ciba_from_hash_eq [simp]: "key_ciba_from_hash h = key_ciba_from_hash h' \<longleftrightarrow> h = h'"
  by (simp add: key_ciba_from_hash_def)

definition ciba_version_state ::
  "'w ciba_store \<Rightarrow> ciba_state_version \<Rightarrow> ciba_request_state option"
where
  "ciba_version_state cb v =
     (case decode (cb_codec cb) (csv_comparison_token v) of
        None \<Rightarrow> None
      | Some s \<Rightarrow> if crs_retention_expires_at s = csv_retention_expires_at v then Some s else None)"

locale ciba_valkey = valkey_server "cb_vk cb" view clock_ms env
  for cb :: "'w ciba_store"
    and view :: "'w \<Rightarrow> string \<Rightarrow> (string \<times> int option) option"
    and clock_ms :: "'w \<Rightarrow> int"
    and env :: "'w \<Rightarrow> 'w \<Rightarrow> bool" +
  fixes current_time :: "'w \<Rightarrow> int \<times> 'w"
  assumes state_codec: "codec_for (\<lambda>_. True) (cb_codec cb)"
    and queue: "view (cb_zadd cb q n m w) = view w" "view (cb_zrem cb q m w) = view w"
    and time_us: "vk_time (cb_vk cb) w = (sec, us) \<Longrightarrow> us < 1000000"
    and others_follow: "env w w' \<Longrightarrow> ciba_step\<^sup>*\<^sup>* (ciba_entry view cb w) (ciba_entry view cb w')"
    and clock_step: "current_time w = (t, w') \<Longrightarrow> env w w'"
begin

abbreviation entries :: "'w \<Rightarrow> string \<Rightarrow> (ciba_request_state \<times> ciba_state_version) option" where
  "entries \<equiv> ciba_entry view cb"

abbreviation ckey :: "string \<Rightarrow> string" where
  "ckey h \<equiv> state_key (cb_namespace cb) (key_ciba_from_hash h)"

abbreviation version :: "string \<Rightarrow> ciba_request_state \<Rightarrow> ciba_state_version" where
  "version raw s \<equiv>
     \<lparr>csv_comparison_token = raw, csv_retention_expires_at = crs_retention_expires_at s\<rparr>"

lemma second_elapsed: "script_second (cb_vk cb) w < d \<longleftrightarrow> clock_ms w < d * 1000"
  using clock_seconds time_us unfolding script_second_def by (cases "vk_time (cb_vk cb) w") simp

lemma entries_drop: "view w' = (view w)(ckey h := None) \<Longrightarrow> entries w' = (entries w)(h := None)"
  by (auto simp: ciba_entry_def fun_eq_iff)

lemma entries_put:
  "view w' = (view w)(ckey h \<mapsto> (raw, d)) \<Longrightarrow> decode (cb_codec cb) raw = Some s \<Longrightarrow>
     entries w' = (entries w)(h \<mapsto> (s, version raw s))"
  by (auto simp: ciba_entry_def fun_eq_iff)

lemma entries_view: "view w' = view w \<Longrightarrow> entries w' = entries w"
  by (simp add: ciba_entry_def fun_eq_iff)

lemma expired_entries:
  "entries (if vk_get (cb_vk cb) (ckey h) w = Some e
     then cb_zrem cb q m (vk_del (cb_vk cb) (ckey h) w) else w) = entries w \<or>
   entries (if vk_get (cb_vk cb) (ckey h) w = Some e
     then cb_zrem cb q m (vk_del (cb_vk cb) (ckey h) w) else w) = (entries w)(h := None)"
  using entries_drop [of "cb_zrem cb q m (vk_del (cb_vk cb) (ckey h) w)" w h]
  by (simp add: queue del)

text \<open>What a script did and answered: an effect, and a stronger one if it answered that it was
  applied.\<close>

lemma atomic_call:
  assumes run: "ciba_atomic_call (cb_vk cb) script w = (r, w')"
    and effect: "\<And>w1 x w2. script w1 = (x, w2) \<Longrightarrow>
      E w1 w2 \<and> (\<exists>reply. x = ReplyBulk reply \<and> (reply = ''applied'' \<longrightarrow> A w1 w2))"
    and none: "\<And>w1. E w1 w1"
  shows "\<exists>w1 w2. env w w1 \<and> env w2 w' \<and> E w1 w2 \<and> (r = Inr CibaApplied \<longrightarrow> A w1 w2)"
proof -
  obtain re w0 where ev: "eval_string (cb_vk cb) script w = (re, w0)" by fastforce
  have w0: "w0 = w'" and re: "r = Inr CibaApplied \<Longrightarrow> re = Inr ''applied''"
    using run ev by (auto simp: ciba_atomic_call_def ciba_parse_atomic_def split: sum.split_asm if_split_asm)
  from ev [unfolded w0] show ?thesis
  proof (cases rule: eval_string_runs)
    case (ran w1 w2 x)
    from effect [OF ran(2)] obtain reply where "E w1 w2" and x: "x = ReplyBulk reply"
      and "reply = ''applied'' \<longrightarrow> A w1 w2" by blast
    moreover have "reply = ''applied''" if "r = Inr CibaApplied" using ran(4) [OF x] re [OF that] by auto
    ultimately show ?thesis using ran(1,3) by blast
  next
    case (not_run e)
    then show ?thesis using none [of w] env_refl re by blast
  qed
qed

lemma create_effect:
  assumes run: "SET_NX_DEADLINE_SCRIPT (cb_vk cb) (ckey h) raw deadline d w = (x, w')"
    and raw: "decode (cb_codec cb) raw = Some s"
  defines "installed \<equiv> entries w h = None \<and> entries w' = (entries w)(h \<mapsto> (s, version raw s))"
  shows "(entries w' = entries w \<or> installed) \<and> (\<exists>reply. x = ReplyBulk reply \<and>
    (reply = ''applied'' \<longrightarrow> is_none_or (\<lambda>t. script_second (cb_vk cb) w < t) d \<and> installed))"
proof (cases "is_some_and (\<lambda>t. script_second (cb_vk cb) w \<ge> t) d \<or> script_second (cb_vk cb) w \<ge> deadline
    \<or> vk_exists (cb_vk cb) (ckey h) w")
  case True
  then show ?thesis using run by (auto simp: SET_NX_DEADLINE_SCRIPT_def Let_def split: if_split_asm)
next
  case False
  let ?w1 = "vk_pexpireat (cb_vk cb) (ckey h) (deadline * 1000) (vk_set (cb_vk cb) (ckey h) raw w)"
  have "clock_ms w < deadline * 1000" using False second_elapsed [of w deadline] by simp
  then have view: "view ?w1 = (view w)(ckey h \<mapsto> (raw, Some (deadline * 1000)))"
    by (rule set_keeping_deadline)
  then have "vk_exists (cb_vk cb) (ckey h) ?w1" by (simp add: exists)
  with False run have x: "x = ReplyBulk ''applied''" "w' = ?w1"
    by (simp_all add: SET_NX_DEADLINE_SCRIPT_def Let_def)
  have "view w (ckey h) = None" using False not_exists by blast
  then have "installed" unfolding installed_def x(2) using entries_put [OF view raw]
    by (simp add: ciba_entry_def)
  moreover have "is_none_or (\<lambda>t. script_second (cb_vk cb) w < t) d"
    using False by (auto simp: is_some_and_iff is_none_or_iff not_le)
  ultimately show ?thesis using x(1) by simp
qed

lemma replace_effect:
  assumes run: "COMPARE_SET_DEADLINE_SCRIPT cb (ckey h) q (csv_comparison_token v) raw
      (csv_retention_expires_at v) m due d w = (x, w')"
    and ver: "ciba_version_state cb v = Some s0" and raw: "decode (cb_codec cb) raw = Some s"
  shows "cas_effect (entries w) h v s (entries w') \<and> (\<exists>reply. x = ReplyBulk reply \<and>
    (reply = ''applied'' \<longrightarrow> is_none_or (\<lambda>t. script_second (cb_vk cb) w < t) d \<and>
      (\<exists>v'. cas_written (entries w) h v s v' (entries w'))))"
proof -
  let ?now = "script_second (cb_vk cb) w" and ?dl = "csv_retention_expires_at v"
  note body = run [unfolded COMPARE_SET_DEADLINE_SCRIPT_def Let_def]
  consider (late) "is_some_and (\<lambda>t. ?now \<ge> t) d" | (expired) "\<not> is_some_and (\<lambda>t. ?now \<ge> t) d" "?now \<ge> ?dl"
    | (changed) "\<not> is_some_and (\<lambda>t. ?now \<ge> t) d" "?now < ?dl"
        "vk_get (cb_vk cb) (ckey h) w \<noteq> Some (csv_comparison_token v)"
    | (same) "\<not> is_some_and (\<lambda>t. ?now \<ge> t) d" "?now < ?dl"
        "vk_get (cb_vk cb) (ckey h) w = Some (csv_comparison_token v)" by fastforce
  then show ?thesis
  proof cases
    case late
    then show ?thesis using body by (auto simp: cas_effect_def)
  next
    case expired
    then have x: "x = ReplyBulk ''deadline_elapsed''" and w': "w' =
        (if vk_get (cb_vk cb) (ckey h) w = Some (csv_comparison_token v)
         then cb_zrem cb q m (vk_del (cb_vk cb) (ckey h) w) else w)" using body by simp_all
    show ?thesis unfolding x w' cas_effect_def using expired_entries [of h w "csv_comparison_token v" q m]
      by auto
  next
    case changed
    then show ?thesis using body by (auto simp: cas_effect_def)
  next
    case same
    let ?w1 = "vk_pexpireat (cb_vk cb) (ckey h) (?dl * 1000) (vk_set (cb_vk cb) (ckey h) raw w)"
    have view: "view ?w1 = (view w)(ckey h \<mapsto> (raw, Some (?dl * 1000)))"
      using same(2) second_elapsed by (intro set_keeping_deadline) simp
    then have "vk_exists (cb_vk cb) (ckey h) ?w1" by (simp add: exists)
    with body same have x: "x = ReplyBulk ''applied''" and w': "w' =
        (case due of None \<Rightarrow> cb_zrem cb q m ?w1 | Some t \<Rightarrow> cb_zadd cb q t m ?w1)" by auto
    have "entries w' = (entries w)(h \<mapsto> (s, version raw s))"
      unfolding w' using view raw
      by (intro entries_put [where d = "Some (?dl * 1000)"]) (simp_all add: queue split: option.split)
    moreover have "entries w h = Some (s0, v)"
      using same(3) ver by (auto simp: get ciba_entry_def ciba_version_state_def
        split: option.split_asm if_split_asm)
    ultimately have "cas_written (entries w) h v s (version raw s) (entries w')"
      unfolding cas_written_def by blast
    then show ?thesis using x same(1) unfolding cas_effect_def
      by (auto simp: is_some_and_iff is_none_or_iff not_le)
  qed
qed

lemma delete_effect:
  assumes "COMPARE_DELETE_DEADLINE_SCRIPT cb (ckey h) q e deadline m d w = (x, w')"
  shows "(entries w' = entries w \<or> entries w' = (entries w)(h := None)) \<and> (\<exists>reply. x = ReplyBulk reply)"
proof -
  have "w' = w \<or> w' = cb_zrem cb q m (vk_del (cb_vk cb) (ckey h) w)" and "\<exists>reply. x = ReplyBulk reply"
    using assms by (auto simp: COMPARE_DELETE_DEADLINE_SCRIPT_def Let_def split: if_split_asm)
  then show ?thesis
    using entries_drop [of "cb_zrem cb q m (vk_del (cb_vk cb) (ckey h) w)" w h]
    by (auto simp: queue del)
qed

text \<open>From the scripts to the laws of the contract.\<close>

lemma encode_decode: "encode (cb_codec cb) s = Some raw \<Longrightarrow> decode (cb_codec cb) raw = Some s"
  using codec_for_round [OF state_codec] by blast

lemma adapted_run:
  assumes "apfst (map_err ciba_port_error) x = (r, w')"
  obtains r0 where "x = (r0, w')" and "r = map_err ciba_port_error r0"
  using assms by (cases x) auto

lemma replace_contract:
  assumes ver: "ciba_version_state cb v = Some s0" and run: "ciba_store_replace cb i v s d w = (r, w')"
  shows "\<exists>w1 w2. env w w1 \<and> env w2 w' \<and> cas_effect (entries w1) (cb_digest cb i) v s (entries w2) \<and>
    (r = Inr CibaApplied \<longrightarrow> is_none_or (\<lambda>t. script_second (cb_vk cb) w1 < t) d \<and>
      (\<exists>v'. cas_written (entries w1) (cb_digest cb i) v s v' (entries w2)))"
proof (cases "crs_retention_expires_at s = csv_retention_expires_at v \<and> encode (cb_codec cb) s \<noteq> None")
  case True
  then obtain raw where raw: "encode (cb_codec cb) s = Some raw" by blast
  with run True have "ciba_atomic_call (cb_vk cb) (COMPARE_SET_DEADLINE_SCRIPT cb (ckey (cb_digest cb i))
      (state_key (cb_namespace cb) key_ciba_ping_queue) (csv_comparison_token v) raw
      (csv_retention_expires_at v) (cb_digest cb i) (ping_due_at s) d) w = (r, w')"
    by (simp add: ciba_store_replace_def Let_def)
  from atomic_call [OF this replace_effect [OF _ ver encode_decode [OF raw]]] show ?thesis
    by (simp add: cas_effect_def)
next
  case False
  then have "w' = w" "\<exists>e. r = Inl e"
    using run by (auto simp: ciba_store_replace_def split: if_split_asm)
  then show ?thesis using env_refl [of w] unfolding cas_effect_def by blast
qed

lemma create_contract:
  assumes run: "ciba_store_create cb i s d w = (r, w')"
  shows "\<exists>w1 w2. env w w1 \<and> env w2 w' \<and>
    (entries w2 = entries w1 \<or> entries w1 (cb_digest cb i) = None \<and>
      (\<exists>v. entries w2 = (entries w1)(cb_digest cb i \<mapsto> (with_auth_req_id i s, v)))) \<and>
    (r = Inr CibaApplied \<longrightarrow> is_none_or (\<lambda>t. script_second (cb_vk cb) w1 < t) d \<and>
      entries w1 (cb_digest cb i) = None \<and>
      (\<exists>v. entries w2 = (entries w1)(cb_digest cb i \<mapsto> (with_auth_req_id i s, v))))"
proof (cases "encode (cb_codec cb) (with_auth_req_id i s)")
  case None
  then have "w' = w" "r = Inl VkProtocol" using run by (auto simp: ciba_store_create_def Let_def)
  then show ?thesis using env_refl [of w] by blast
next
  case (Some raw)
  let ?i = "\<lambda>w1 w2. entries w1 (cb_digest cb i) = None \<and>
    entries w2 = (entries w1)(cb_digest cb i \<mapsto> (with_auth_req_id i s, version raw (with_auth_req_id i s)))"
  from run Some have "ciba_atomic_call (cb_vk cb) (SET_NX_DEADLINE_SCRIPT (cb_vk cb) (ckey (cb_digest cb i))
      raw (crs_retention_expires_at (with_auth_req_id i s)) d) w = (r, w')"
    by (simp add: ciba_store_create_def Let_def key_ciba_def)
  then have "\<exists>w1 w2. env w w1 \<and> env w2 w' \<and> (entries w2 = entries w1 \<or> ?i w1 w2) \<and>
    (r = Inr CibaApplied \<longrightarrow> is_none_or (\<lambda>t. script_second (cb_vk cb) w1 < t) d \<and> ?i w1 w2)"
    by (rule atomic_call) (erule create_effect [OF _ encode_decode [OF Some]], simp)
  then obtain w1 w2 where "env w w1" "env w2 w'" "entries w2 = entries w1 \<or> ?i w1 w2"
    "r = Inr CibaApplied \<longrightarrow> is_none_or (\<lambda>t. script_second (cb_vk cb) w1 < t) d \<and> ?i w1 w2"
    by (elim exE conjE)
  then show ?thesis by (intro exI [of _ w1] exI [of _ w2]) auto
qed

lemma delete_contract:
  assumes run: "ciba_store_delete cb i v d w = (r, w')"
  shows "\<exists>w1 w2. env w w1 \<and> env w2 w' \<and>
    (entries w2 = entries w1 \<or> entries w2 = (entries w1)(cb_digest cb i := None))"
proof -
  have "\<exists>w1 w2. env w w1 \<and> env w2 w' \<and>
    (entries w2 = entries w1 \<or> entries w2 = (entries w1)(cb_digest cb i := None)) \<and>
    (r = Inr CibaApplied \<longrightarrow> True)"
    by (rule atomic_call [OF run [unfolded ciba_store_delete_def Let_def]]) (auto dest: delete_effect)
  then show ?thesis by blast
qed

lemma load_contract:
  assumes run: "ciba_store_load cb i w = (r, w')"
  shows "\<exists>w1. env w w1 \<and> env w1 w' \<and>
    (\<forall>x. r = Inr x \<longrightarrow> entries w1 (cb_digest cb i) = map_option (\<lambda>y. (csr_state y, csr_version y)) x)"
proof -
  let ?k = "ckey (cb_digest cb i)"
  obtain rs w0 where sn: "vk_send (cb_vk cb) (CIBA_SNAPSHOT_SCRIPT (cb_vk cb) ?k) w = (rs, w0)" by fastforce
  have w0: "w0 = w'" using run sn
    by (auto simp: ciba_store_load_def key_ciba_def split: sum.split_asm option.split_asm if_split_asm)
  obtain w1 where w1: "env w w1" "env w1 w'"
    and x: "\<And>x. rs = Inr x \<Longrightarrow> CIBA_SNAPSHOT_SCRIPT (cb_vk cb) ?k w1 = (x, w1)"
    by (rule send_reads [OF sn [unfolded w0]])
      (auto simp: CIBA_SNAPSHOT_SCRIPT_def split: option.splits)
  have "entries w1 (cb_digest cb i) = map_option (\<lambda>y. (csr_state y, csr_version y)) y" if r: "r = Inr y" for y
  proof -
    obtain x0 where rs: "rs = Inr x0" using run sn r by (cases rs) (auto simp: ciba_store_load_def key_ciba_def)
    note snap = x [OF rs, unfolded CIBA_SNAPSHOT_SCRIPT_def get]
    note body = run [unfolded ciba_store_load_def key_ciba_def sn rs prod.case sum.case r]
    show ?thesis
      using snap body by (cases "view w1 ?k") (auto simp: to_snapshot ciba_entry_def
        split: option.split_asm if_split_asm prod.split_asm)
  qed
  with w1 show ?thesis by blast
qed

lemma ciba_adapter_contract:
  "ciba_contract (valkey_ciba_store cb) current_time (cb_digest cb) entries
     (script_second (cb_vk cb)) env (ciba_version_state cb)"
proof unfold_locales
  fix w :: 'w and h s v
  show "entries w h = Some (s, v) \<Longrightarrow> ciba_version_state cb v = Some s"
    by (auto simp: ciba_entry_def ciba_version_state_def split: option.split_asm)
qed (rule others_follow clock_step, assumption |
  (simp only: valkey_ciba_store_def ciba_state_store.select_convs, erule adapted_run,
   (simp only: map_err_eq_Inr)?,
   rule load_contract create_contract replace_contract delete_contract, assumption+))+

end

sublocale ciba_valkey \<subseteq> contract: ciba_contract "valkey_ciba_store cb" current_time "cb_digest cb"
  "ciba_entry view cb" "script_second (cb_vk cb)" env "ciba_version_state cb"
  by (rule ciba_adapter_contract)

end
