(* ===== verification/Ciba_Properties.thy ===== *)
theory Ciba_Properties
  imports Ciba_Valkey
begin

text \<open>
  Backchannel authentication across the service and the Valkey adapter, with other workers acting
  between the calls. A server in memory with the queue of notifications, a clock that reads the
  server's, and a codec that numbers the requests fulfil the assumptions.
\<close>

subsection \<open>A concrete system\<close>

instance ciba_authentication_context_ext :: (countable) countable
proof
  show "\<exists>f :: 'a ciba_authentication_context_scheme \<Rightarrow> nat. inj f"
    by (rule exI [of _ "\<lambda>c. to_nat (cctx_auth_time c, cctx_amr c, cctx_oidc_sid c,
          ciba_authentication_context.more c)"]) (auto intro!: injI)
qed

instance ciba_ping_notification_status :: countable by countable_datatype
instance ciba_status :: countable by countable_datatype

instance ciba_ping_notification_ext :: (countable) countable
proof
  show "\<exists>f :: 'a ciba_ping_notification_scheme \<Rightarrow> nat. inj f"
    by (rule exI [of _ "\<lambda>n. to_nat (cpn_auth_req_id n, cpn_endpoint n, cpn_client_notification_token n,
          cpn_status n, cpn_attempts n, cpn_next_attempt_at n, ciba_ping_notification.more n)"])
       (auto intro!: injI)
qed

instance ciba_request_state_ext :: (countable) countable
proof
  show "\<exists>f :: 'a ciba_request_state_scheme \<Rightarrow> nat. inj f"
    by (rule exI [of _ "\<lambda>s. to_nat ((crs_client_id s, crs_user_id s, crs_scopes s, crs_audiences s,
          crs_acr s, crs_authentication_context s, crs_binding_message s),
          (crs_issued_at s, crs_status s, crs_interval_seconds s, crs_expires_at s,
          crs_retention_expires_at s, crs_last_poll_at s, crs_ping_notification s,
          ciba_request_state.more s))"])
       (auto intro!: injI)
qed

record ciba_world = vk_world +
  cw_queue :: "(string \<times> int) list"

definition ciba_ref :: "ciba_world ciba_store" where
  "ciba_ref =
     \<lparr>cb_vk = valkey_ref, cb_namespace = ''nazo:'', cb_digest = (\<lambda>s. s),
      cb_codec = unary_codec (\<lambda>_. True),
      cb_zadd = (\<lambda>_ t m w. w\<lparr>cw_queue := (m, t) # filter (\<lambda>x. fst x \<noteq> m) (cw_queue w)\<rparr>),
      cb_zrem = (\<lambda>_ m w. w\<lparr>cw_queue := filter (\<lambda>x. fst x \<noteq> m) (cw_queue w)\<rparr>)\<rparr>"

definition ciba_ref_time :: "ciba_world \<Rightarrow> int \<times> ciba_world" where
  "ciba_ref_time w = (int (vw_ms w) div 1000, w)"

interpretation ciba_ref: ciba_valkey ciba_ref vk_ref_view "\<lambda>w. int (vw_ms w)" "(=)" ciba_ref_time
proof (intro ciba_valkey.intro ciba_valkey_axioms.intro)
  show "valkey_server (cb_vk ciba_ref) vk_ref_view (\<lambda>w. int (vw_ms w)) (=)"
    unfolding ciba_ref_def by (simp add: vk_ref.valkey_server_axioms)
  show "codec_for (\<lambda>_. True) (cb_codec ciba_ref)"
    unfolding ciba_ref_def by (simp add: unary_codec_for)
qed (auto simp: ciba_ref_def valkey_ref_def ciba_ref_time_def vk_ref_view_def fun_eq_iff
      split: option.splits if_splits vk_reply.splits prod.splits)


definition ref_request :: ciba_request_state where
  "ref_request =
     \<lparr>crs_client_id = ''bank'', crs_user_id = 3, crs_scopes = [''openid''], crs_audiences = [''api''],
      crs_acr = None, crs_authentication_context = None, crs_binding_message = Some ''W4SCT'',
      crs_issued_at = 0, crs_status = CibaPending, crs_interval_seconds = 5, crs_expires_at = 300,
      crs_retention_expires_at = 420, crs_last_poll_at = None, crs_ping_notification = None\<rparr>"


definition ciba_ref_world :: "ciba_request_state \<Rightarrow> ciba_world" where
  "ciba_ref_world s =
     \<lparr>vw_keys = [''nazo:oauth:ciba:r'' \<mapsto> (replicate (to_nat s) CHR ''1'', Some 420000)],
      vw_ms = 10000, cw_queue = []\<rparr>"



lemma ref_request_fields [simp]:
  "crs_client_id ref_request = ''bank''" "crs_user_id ref_request = 3"
  "crs_status ref_request = CibaPending" "crs_expires_at ref_request = 300"
  "crs_retention_expires_at ref_request = 420" "crs_ping_notification ref_request = None"
  by (simp_all add: ref_request_def)

lemma ciba_ref_now [simp]: "ciba_ref_time (ciba_ref_world s) = (10, ciba_ref_world s)"
  by (simp add: ciba_ref_time_def ciba_ref_world_def)





subsection \<open>Polling\<close>



subsection \<open>Deciding\<close>



subsection \<open>The stored requests\<close>







text \<open>C37. The Valkey adapter refines the store contract of the service. On every server with the
  documented laws and other workers that follow the protocol, each script is one atomic step on the
  stored requests: a load reads one entry, a creation installs an absent one, a replacement or
  deletion touches only the entry it expects, and an applied one happened before its deadline by the
  clock of the server.\<close>

theorem ciba_adapter_refines_contract:
  assumes "ciba_valkey cb view clock_ms env current_time"
  shows "ciba_contract (valkey_ciba_store cb) current_time (cb_digest cb) (ciba_entry view cb)
    (script_second (cb_vk cb)) env (ciba_version_state cb)"
  using assms by (rule ciba_valkey.ciba_adapter_contract)

theorem ciba_adapter_refines_contract_witness:
  "ciba_contract (valkey_ciba_store ciba_ref) ciba_ref_time (cb_digest ciba_ref)
     (ciba_entry vk_ref_view ciba_ref) (script_second (cb_vk ciba_ref)) (=) (ciba_version_state ciba_ref)"
  by (rule ciba_adapter_refines_contract [OF ciba_ref.ciba_valkey_axioms])

end
