(* ===== verification/Client.thy ===== *)
theory Client
  imports Prelude
begin

text \<open>
  The registered OAuth client as the runtime sees it
  (\<open>src/crates/authorization-server-core/src/client_registration.rs\<close>): the security
  policy, the validated registration metadata and the client record that composes them.
  \<open>Deref\<close> on \<open>OAuthClient\<close> makes the registration's fields readable on the
  client; here they are read through \<open>registration\<close>.
\<close>

datatype client_assurance_level = AssuranceBaseline | AssuranceFapi2

record client_security_policy =
  csp_version :: nat
  assurance :: client_assurance_level
  require_pushed_authorization_requests :: bool
  require_signed_authorization_request :: bool
  require_signed_authorization_response :: bool
  require_signed_introspection_response :: bool
  introspection_audiences :: "string list"
  session_management :: bool
  allow_cross_device_flows :: bool
  allow_confidential_oidc_without_pkce :: bool

definition CLIENT_SECURITY_POLICY_VERSION :: nat where
  "CLIENT_SECURITY_POLICY_VERSION = 1"

definition default_client_security_policy :: client_security_policy where
  "default_client_security_policy =
     \<lparr>csp_version = CLIENT_SECURITY_POLICY_VERSION,
      assurance = AssuranceBaseline,
      require_pushed_authorization_requests = False,
      require_signed_authorization_request = False,
      require_signed_authorization_response = False,
      require_signed_introspection_response = False,
      introspection_audiences = [],
      session_management = False,
      allow_cross_device_flows = False,
      allow_confidential_oidc_without_pkce = False\<rparr>"

definition validate_client_security_policy :: "client_security_policy \<Rightarrow> string + unit" where
  "validate_client_security_policy p =
     (if csp_version p \<noteq> CLIENT_SECURITY_POLICY_VERSION
      then Inl ''unsupported client security policy version'' else Inr ())"

definition fapi2_client_security_policy :: client_security_policy where
  "fapi2_client_security_policy =
     default_client_security_policy\<lparr>assurance := AssuranceFapi2\<rparr>"

definition requires_fapi2_security_policy :: "client_security_policy \<Rightarrow> bool" where
  "requires_fapi2_security_policy p \<longleftrightarrow> assurance p = AssuranceFapi2"

record client_presentation_metadata =
  logo_uri :: "string option"
  policy_uri :: "string option"
  tos_uri :: "string option"

record validated_client_registration =
  reg_client_id :: string
  reg_client_name :: string
  client_type :: string
  redirect_uris :: "string list"
  post_logout_redirect_uris :: "string list"
  reg_scopes :: "string list"
  allowed_audiences :: "string list"
  grant_types :: "string list"
  token_endpoint_auth_method :: string
  subject_type :: string
  sector_identifier_uri :: "string option"
  sector_identifier_host :: "string option"
  require_dpop_bound_tokens :: bool
  allow_client_assertion_audience_array :: bool
  allow_client_assertion_endpoint_audience :: bool
  require_par_request_object :: bool
  backchannel_token_delivery_mode :: string
  backchannel_client_notification_endpoint :: "string option"
  backchannel_authentication_request_signing_alg :: "string option"
  backchannel_logout_uri :: "string option"
  backchannel_logout_session_required :: bool
  frontchannel_logout_uri :: "string option"
  frontchannel_logout_session_required :: bool
  tls_client_auth_subject_dn :: "string option"
  tls_client_auth_cert_sha256 :: "string option"
  tls_client_auth_san_dns :: "string list"
  tls_client_auth_san_uri :: "string list"
  tls_client_auth_san_ip :: "string list"
  tls_client_auth_san_email :: "string list"
  jwks_uri :: "string option"
  jwks :: "json option"
  request_uris :: "string list"
  initiate_login_uri :: "string option"
  presentation :: client_presentation_metadata
  id_token_signed_response_alg :: "string option"
  id_token_encrypted_response_alg :: "string option"
  id_token_encrypted_response_enc :: "string option"
  request_object_signing_alg :: "string option"
  request_object_encryption_alg :: "string option"
  request_object_encryption_enc :: "string option"
  token_endpoint_auth_signing_alg :: "string option"
  introspection_signed_response_alg :: "string option"
  introspection_encrypted_response_alg :: "string option"
  introspection_encrypted_response_enc :: "string option"
  userinfo_signed_response_alg :: "string option"
  userinfo_encrypted_response_alg :: "string option"
  userinfo_encrypted_response_enc :: "string option"
  authorization_signed_response_alg :: "string option"
  authorization_encrypted_response_alg :: "string option"
  authorization_encrypted_response_enc :: "string option"
  security_policy :: client_security_policy

record oauth_client =
  oc_id :: uuid
  oc_tenant_id :: uuid
  oc_realm_id :: uuid
  oc_organization_id :: uuid
  registration :: validated_client_registration
  require_mtls_bound_tokens :: bool
  oc_is_active :: bool

abbreviation oc_client_id :: "oauth_client \<Rightarrow> string" where
  "oc_client_id c \<equiv> reg_client_id (registration c)"

subsection \<open>A client for the examples\<close>

definition sample_registration :: validated_client_registration where
  "sample_registration =
     \<lparr>reg_client_id = ''tv'',
      reg_client_name = ''TV'',
      client_type = ''public'',
      redirect_uris = [],
      post_logout_redirect_uris = [],
      reg_scopes = [''openid''],
      allowed_audiences = [''urn:api''],
      grant_types = [''urn:ietf:params:oauth:grant-type:device_code''],
      token_endpoint_auth_method = ''none'',
      subject_type = ''public'',
      sector_identifier_uri = None,
      sector_identifier_host = None,
      require_dpop_bound_tokens = False,
      allow_client_assertion_audience_array = False,
      allow_client_assertion_endpoint_audience = False,
      require_par_request_object = False,
      backchannel_token_delivery_mode = ''poll'',
      backchannel_client_notification_endpoint = None,
      backchannel_authentication_request_signing_alg = None,
      backchannel_logout_uri = None,
      backchannel_logout_session_required = False,
      frontchannel_logout_uri = None,
      frontchannel_logout_session_required = False,
      tls_client_auth_subject_dn = None,
      tls_client_auth_cert_sha256 = None,
      tls_client_auth_san_dns = [],
      tls_client_auth_san_uri = [],
      tls_client_auth_san_ip = [],
      tls_client_auth_san_email = [],
      jwks_uri = None,
      jwks = None,
      request_uris = [],
      initiate_login_uri = None,
      presentation = \<lparr>logo_uri = None, policy_uri = None, tos_uri = None\<rparr>,
      id_token_signed_response_alg = None,
      id_token_encrypted_response_alg = None,
      id_token_encrypted_response_enc = None,
      request_object_signing_alg = None,
      request_object_encryption_alg = None,
      request_object_encryption_enc = None,
      token_endpoint_auth_signing_alg = None,
      introspection_signed_response_alg = None,
      introspection_encrypted_response_alg = None,
      introspection_encrypted_response_enc = None,
      userinfo_signed_response_alg = None,
      userinfo_encrypted_response_alg = None,
      userinfo_encrypted_response_enc = None,
      authorization_signed_response_alg = None,
      authorization_encrypted_response_alg = None,
      authorization_encrypted_response_enc = None,
      security_policy = default_client_security_policy\<rparr>"

definition sample_client :: oauth_client where
  "sample_client =
     \<lparr>oc_id = 11, oc_tenant_id = 1, oc_realm_id = 1, oc_organization_id = 1,
      registration = sample_registration, require_mtls_bound_tokens = False, oc_is_active = True\<rparr>"

lemma sample_client_simps [simp]:
  "oc_is_active sample_client" "reg_client_id sample_registration = ''tv''"
  "registration sample_client = sample_registration"
  by (simp_all add: sample_client_def sample_registration_def)

end
