(* ===== verification/Device.thy ===== *)
theory Device
  imports Client Authorization_Details
begin

text \<open>
  The device authorization grant
  (\<open>src/crates/authorization-server-core/src/device.rs\<close>): the request policy, the pure
  polling decision, and the service over its two ports, the state store and the grant repository.
  A port is a record of operations on the world \<open>'w\<close>; an \<open>await\<close> on it is a
  step of the world in which other workers may act as well. \<open>current_time\<close> and
  \<open>Uuid::now_v7\<close> are operations on the world too. The retry loops recurse on the number
  of attempts left.
\<close>

subsection \<open>Data\<close>

record device_authorization_payload =
  dp_client_id :: string
  dp_client_name :: string
  dp_scopes :: "string list"
  dp_resource_indicators :: "string list"
  dp_authorization_details :: json
  dp_interval_seconds :: nat
  dp_issued_at :: time
  dp_expires_at :: time

record device_authorization_approval =
  da_user_id :: uuid
  da_subject :: string
  da_auth_time :: int
  da_amr :: "string list"
  da_oidc_sid :: "string option"

datatype device_authorization_state =
    DevicePending device_authorization_payload "time option" nat
  | DeviceApproving device_authorization_payload device_authorization_approval uuid bool time
  | DeviceApproved device_authorization_payload device_authorization_approval time
  | DeviceDenied device_authorization_payload time
  | DeviceConsumed time

fun device_authorization_payload_of ::
  "device_authorization_state \<Rightarrow> device_authorization_payload option"
where
  "device_authorization_payload_of (DevicePending p _ _) = Some p"
| "device_authorization_payload_of (DeviceApproving p _ _ _ _) = Some p"
| "device_authorization_payload_of (DeviceApproved p _ _) = Some p"
| "device_authorization_payload_of (DeviceDenied p _) = Some p"
| "device_authorization_payload_of (DeviceConsumed _) = None"

text \<open>What deserialising guarantees of a state: the payload is acceptable and the 32-bit counter
  is in range.\<close>

fun device_state_ok ::
  "(device_authorization_payload \<Rightarrow> bool) \<Rightarrow> device_authorization_state \<Rightarrow> bool"
where
  "device_state_ok ok (DevicePending p _ n) \<longleftrightarrow> ok p \<and> n \<le> u32_max"
| "device_state_ok ok (DeviceApproving p _ _ _ _) \<longleftrightarrow> ok p"
| "device_state_ok ok (DeviceApproved p _ _) \<longleftrightarrow> ok p"
| "device_state_ok ok (DeviceDenied p _) \<longleftrightarrow> ok p"
| "device_state_ok ok (DeviceConsumed _) \<longleftrightarrow> True"

subsection \<open>The authorization request\<close>

record device_authorization_request_policy =
  drp_enabled :: bool
  drp_client_active :: bool
  drp_client_supports_grant :: bool
  drp_client_id :: string
  drp_client_name :: string
  drp_requested_scopes :: "string list"
  drp_allowed_scopes :: "string list"
  drp_requested_resources :: "string list"
  drp_allowed_resources :: "string list"
  drp_default_resource :: string
  drp_interval_seconds :: nat
  drp_ttl_seconds :: nat
  drp_now :: time

datatype device_authorization_request_error =
    DeviceRequestDisabled
  | DeviceRequestUnauthorizedClient
  | DeviceRequestInvalidScope
  | DeviceRequestInvalidTarget

text \<open>\<open>None\<close> is the panic of \<open>Duration::seconds\<close> on a number of seconds it
  cannot represent.\<close>

definition device_authorization_request_payload ::
  "chrono \<Rightarrow> device_authorization_request_policy \<Rightarrow>
     (device_authorization_request_error + device_authorization_payload) option"
where
  "device_authorization_request_payload ch input =
     (if \<not> drp_enabled input then Some (Inl DeviceRequestDisabled)
      else if \<not> drp_client_active input \<or> \<not> drp_client_supports_grant input
      then Some (Inl DeviceRequestUnauthorizedClient)
      else if \<not> list_all (\<lambda>s. s \<in> set (drp_allowed_scopes input)) (drp_requested_scopes input)
      then Some (Inl DeviceRequestInvalidScope)
      else
        let resource_indicators =
              (if drp_requested_resources input = [] then [drp_default_resource input]
               else drp_requested_resources input)
        in
        if \<not> list_all (\<lambda>r. r \<in> set (drp_allowed_resources input)) resource_indicators
        then Some (Inl DeviceRequestInvalidTarget)
        else
          let ttl = (case i64_of_u64 (drp_ttl_seconds input) of
                       Some n \<Rightarrow> n | None \<Rightarrow> i64_max div 1000)
          in
          if \<not> duration_seconds_ok ch ttl then None
          else
            Some (Inr
              \<lparr>dp_client_id = drp_client_id input,
               dp_client_name = drp_client_name input,
               dp_scopes = drp_requested_scopes input,
               dp_resource_indicators = resource_indicators,
               dp_authorization_details = JArray [],
               dp_interval_seconds = drp_interval_seconds input,
               dp_issued_at = drp_now input,
               dp_expires_at =
                 (case checked_add_seconds ch (drp_now input) ttl of
                    Some t \<Rightarrow> t | None \<Rightarrow> max_utc ch)\<rparr>))"

subsection \<open>Ports\<close>

definition DEVICE_TRANSITION_MAX_ATTEMPTS :: nat where
  "DEVICE_TRANSITION_MAX_ATTEMPTS = 5"

definition DEVICE_SLOW_DOWN_INCREMENT_SECONDS :: nat where
  "DEVICE_SLOW_DOWN_INCREMENT_SECONDS = 5"

definition DEVICE_APPROVAL_CLAIM_TIMEOUT_SECONDS :: int where
  "DEVICE_APPROVAL_CLAIM_TIMEOUT_SECONDS = 30"

datatype device_atomic_result = DeviceApplied | DeviceConflict | DeviceDeadlineElapsed

datatype device_create_result =
    DeviceCreateApplied
  | DeviceCodeCollision
  | UserCodeCollision
  | DeviceCreateDeadlineElapsed

datatype device_state_port_error = DeviceUnavailable | DeviceCorruptData | DeviceUnexpected

datatype device_grant_port_error =
    DeviceGrantUnavailable
  | DeviceGrantConflict
  | DeviceGrantCorruptData
  | DeviceGrantUnexpected

record device_grant_write =
  dgw_device_code_hash :: string
  dgw_expires_at :: time
  dgw_tenant_id :: uuid
  dgw_user_id :: uuid
  dgw_client_id :: uuid
  dgw_scopes :: "string list"
  dgw_resource_indicators :: "string list"
  dgw_authorization_details :: json

record 'w device_grant_repository =
  dr_upsert_grant :: "device_grant_write \<Rightarrow> ('w, device_grant_port_error, unit) io"

record 'v stored_device_authorization =
  sda_state :: device_authorization_state
  sda_version :: 'v

record 'v prepared_device_decision =
  pdd_user_code :: string
  pdd_device_hash :: string
  pdd_stored :: "'v stored_device_authorization"

datatype 'v device_state_replacement =
    DeviceReplaced 'v
  | DeviceReplaceConflict
  | DeviceReplaceDeadlineElapsed

record ('w, 'v) device_state_store =
  ds_create :: "string \<Rightarrow> string \<Rightarrow> device_authorization_state \<Rightarrow> nat \<Rightarrow>
    ('w, device_state_port_error, device_create_result) io"
  ds_load_by_device_code :: "string \<Rightarrow>
    ('w, device_state_port_error, 'v stored_device_authorization option) io"
  ds_load_by_device_hash :: "string \<Rightarrow>
    ('w, device_state_port_error, 'v stored_device_authorization option) io"
  ds_resolve_user_code :: "string \<Rightarrow> ('w, device_state_port_error, string option) io"
  ds_replace_by_device_code :: "string \<Rightarrow> 'v \<Rightarrow> device_authorization_state \<Rightarrow>
    ('w, device_state_port_error, device_atomic_result) io"
  ds_replace_by_device_hash :: "string \<Rightarrow> 'v \<Rightarrow> device_authorization_state \<Rightarrow>
    ('w, device_state_port_error, 'v device_state_replacement) io"
  ds_claim_decision :: "string \<Rightarrow> string \<Rightarrow> 'v \<Rightarrow> device_authorization_state \<Rightarrow>
    ('w, device_state_port_error, device_atomic_result) io"
  ds_complete_decision :: "string \<Rightarrow> string \<Rightarrow> 'v \<Rightarrow> device_authorization_state \<Rightarrow>
    ('w, device_state_port_error, device_atomic_result) io"
  ds_delete_user_code_if_matches :: "string \<Rightarrow> string \<Rightarrow>
    ('w, device_state_port_error, device_atomic_result) io"

subsection \<open>Polling decision\<close>

datatype device_poll_transition =
    PollAuthorizationPending device_authorization_state
  | PollAuthorizationPendingUnchanged
  | PollSlowDown device_authorization_state
  | PollApproved device_authorization_payload device_authorization_approval
  | PollAccessDenied
  | PollExpired
  | PollConsumed

definition device_approval_claim_is_stale :: "chrono \<Rightarrow> time \<Rightarrow> time \<Rightarrow> bool" where
  "device_approval_claim_is_stale ch started_at now \<longleftrightarrow>
     whole_seconds_since ch now started_at \<ge> DEVICE_APPROVAL_CLAIM_TIMEOUT_SECONDS"

definition device_required_wait :: "device_authorization_payload \<Rightarrow> nat \<Rightarrow> nat" where
  "device_required_wait payload slow_down_count =
     saturating_add_u64 (dp_interval_seconds payload)
       (saturating_mul_u64 slow_down_count DEVICE_SLOW_DOWN_INCREMENT_SECONDS)"

definition device_poll_too_early ::
  "chrono \<Rightarrow> device_authorization_payload \<Rightarrow> time option \<Rightarrow> nat \<Rightarrow> time \<Rightarrow> bool"
where
  "device_poll_too_early ch payload last_poll_at slow_down_count now =
     is_some_and
       (\<lambda>last. let elapsed = whole_seconds_since ch now last
               in elapsed < 0 \<or>
                  is_some_and (\<lambda>e. e < device_required_wait payload slow_down_count)
                    (u64_of_i64 elapsed))
       last_poll_at"

definition evaluate_device_poll ::
  "chrono \<Rightarrow> device_authorization_state \<Rightarrow> time \<Rightarrow> device_poll_transition"
where
  "evaluate_device_poll ch state now =
     (if is_some_and (\<lambda>payload. now \<ge> dp_expires_at payload)
           (device_authorization_payload_of state)
      then PollExpired
      else case state of
        DevicePending payload last_poll_at slow_down_count \<Rightarrow>
          (let too_early = device_poll_too_early ch payload last_poll_at slow_down_count now;
               next = DevicePending payload (Some now)
                 (if too_early then saturating_add_u32 slow_down_count 1 else slow_down_count)
           in if too_early then PollSlowDown next else PollAuthorizationPending next)
      | DeviceApproved payload approval _ \<Rightarrow> PollApproved payload approval
      | DeviceApproving _ _ _ _ _ \<Rightarrow> PollAuthorizationPendingUnchanged
      | DeviceDenied _ _ \<Rightarrow> PollAccessDenied
      | DeviceConsumed _ \<Rightarrow> PollConsumed)"

end
