(* ===== verification/Device_Service.thy ===== *)
theory Device_Service
  imports Device
begin

text \<open>
  \<open>DeviceGrantService\<close>
  (\<open>src/crates/authorization-server-core/src/device.rs\<close>) over the store and repository
  ports, and what it guarantees under interference. The locale \<open>device_contract\<close> states
  what the service needs of its ports: loads observe the entry at some instant of the call, writes
  are compare-and-swap on the version, and everybody else who writes device entries follows the
  same transitions. Its lemmas hold for every such store and repository.
\<close>

datatype device_create_failure =
    DeviceCreateFailedDeadline
  | DeviceCreateFailedStorage device_state_port_error
  | DeviceCollisionLimit

datatype device_poll_commit =
    CommitAuthorizationPending
  | CommitSlowDown
  | CommitApproved device_authorization_payload device_authorization_approval
  | CommitAccessDenied
  | CommitExpired
  | CommitConsumed

datatype device_poll_failure =
    DevicePollMissing
  | DevicePollClientMismatch
  | DevicePollStorage device_state_port_error
  | DevicePollContended

datatype device_decision_failure =
    DeviceDecisionMissing
  | DeviceDecisionAlreadyHandled
  | DeviceDecisionExpired
  | DeviceDecisionStorage device_state_port_error
  | DeviceDecisionRepository device_grant_port_error
  | DeviceDecisionContended

subsection \<open>Creation\<close>

fun create_unique_loop ::
  "('w, 'v) device_state_store \<Rightarrow> device_authorization_state \<Rightarrow> nat \<Rightarrow>
     ('w \<Rightarrow> string \<times> 'w) \<Rightarrow> ('w \<Rightarrow> string \<times> 'w) \<Rightarrow> nat \<Rightarrow>
     ('w, device_create_failure, string \<times> string) io"
where
  "create_unique_loop st pending ttl gen_device gen_user 0 w = (Inl DeviceCollisionLimit, w)"
| "create_unique_loop st pending ttl gen_device gen_user (Suc n) w =
     (case gen_device w of (device_code, w1) \<Rightarrow>
     (case gen_user w1 of (user_code, w2) \<Rightarrow>
     (case ds_create st device_code user_code pending ttl w2 of
        (Inl e, w3) \<Rightarrow> (Inl (DeviceCreateFailedStorage e), w3)
      | (Inr DeviceCreateApplied, w3) \<Rightarrow> (Inr (device_code, user_code), w3)
      | (Inr DeviceCodeCollision, w3) \<Rightarrow>
          create_unique_loop st pending ttl gen_device gen_user n w3
      | (Inr UserCodeCollision, w3) \<Rightarrow>
          create_unique_loop st pending ttl gen_device gen_user n w3
      | (Inr DeviceCreateDeadlineElapsed, w3) \<Rightarrow> (Inl DeviceCreateFailedDeadline, w3))))"

definition create_unique ::
  "('w, 'v) device_state_store \<Rightarrow> device_authorization_payload \<Rightarrow> nat \<Rightarrow>
     ('w \<Rightarrow> string \<times> 'w) \<Rightarrow> ('w \<Rightarrow> string \<times> 'w) \<Rightarrow>
     ('w, device_create_failure, string \<times> string) io"
where
  "create_unique st payload ttl gen_device gen_user w =
     (if ttl = 0 \<or> dp_expires_at payload \<le> dp_issued_at payload
      then (Inl DeviceCreateFailedDeadline, w)
      else create_unique_loop st (DevicePending payload None 0) ttl gen_device gen_user
             DEVICE_TRANSITION_MAX_ATTEMPTS w)"

subsection \<open>Polling\<close>

definition poll_commit_write ::
  "('w, 'v) device_state_store \<Rightarrow> string \<Rightarrow> 'v \<Rightarrow> device_authorization_state \<Rightarrow>
     device_poll_commit \<Rightarrow> 'w \<Rightarrow>
     (device_poll_failure + device_poll_commit, unit) flow \<times> 'w"
where
  "poll_commit_write st device_code version next applied w =
     (case ds_replace_by_device_code st device_code version next w of
        (Inl e, w1) \<Rightarrow> (Return (Inl (DevicePollStorage e)), w1)
      | (Inr DeviceApplied, w1) \<Rightarrow> (Return (Inr applied), w1)
      | (Inr DeviceConflict, w1) \<Rightarrow> (Continue (), w1)
      | (Inr DeviceDeadlineElapsed, w1) \<Rightarrow> (Return (Inr CommitExpired), w1))"

definition poll_attempt ::
  "chrono \<Rightarrow> ('w, 'v) device_state_store \<Rightarrow> ('w \<Rightarrow> time \<times> 'w) \<Rightarrow> string \<Rightarrow> string \<Rightarrow>
     'w \<Rightarrow> (device_poll_failure + device_poll_commit, unit) flow \<times> 'w"
where
  "poll_attempt ch st current_time device_code expected_client_id w =
     (case ds_load_by_device_code st device_code w of
        (Inl e, w1) \<Rightarrow> (Return (Inl (DevicePollStorage e)), w1)
      | (Inr None, w1) \<Rightarrow> (Return (Inl DevicePollMissing), w1)
      | (Inr (Some stored), w1) \<Rightarrow>
          if is_some_and (\<lambda>p. dp_client_id p \<noteq> expected_client_id)
               (device_authorization_payload_of (sda_state stored))
          then (Return (Inl DevicePollClientMismatch), w1)
          else case current_time w1 of (now, w2) \<Rightarrow>
           (case evaluate_device_poll ch (sda_state stored) now of
              PollAuthorizationPending next \<Rightarrow>
                poll_commit_write st device_code (sda_version stored) next
                  CommitAuthorizationPending w2
            | PollAuthorizationPendingUnchanged \<Rightarrow>
                (Return (Inr CommitAuthorizationPending), w2)
            | PollSlowDown next \<Rightarrow>
                poll_commit_write st device_code (sda_version stored) next CommitSlowDown w2
            | PollApproved payload approval \<Rightarrow>
                (Return (Inr (CommitApproved payload approval)), w2)
            | PollAccessDenied \<Rightarrow> (Return (Inr CommitAccessDenied), w2)
            | PollExpired \<Rightarrow> (Return (Inr CommitExpired), w2)
            | PollConsumed \<Rightarrow> (Return (Inr CommitConsumed), w2)))"

fun poll_loop ::
  "chrono \<Rightarrow> ('w, 'v) device_state_store \<Rightarrow> ('w \<Rightarrow> time \<times> 'w) \<Rightarrow> string \<Rightarrow> string \<Rightarrow>
     nat \<Rightarrow> ('w, device_poll_failure, device_poll_commit) io"
where
  "poll_loop ch st current_time device_code client_id 0 w = (Inl DevicePollContended, w)"
| "poll_loop ch st current_time device_code client_id (Suc n) w =
     (case poll_attempt ch st current_time device_code client_id w of
        (Return r, w1) \<Rightarrow> (r, w1)
      | (Continue _, w1) \<Rightarrow> poll_loop ch st current_time device_code client_id n w1)"

definition poll ::
  "chrono \<Rightarrow> ('w, 'v) device_state_store \<Rightarrow> ('w \<Rightarrow> time \<times> 'w) \<Rightarrow> string \<Rightarrow> string \<Rightarrow>
     ('w, device_poll_failure, device_poll_commit) io"
where
  "poll ch st current_time device_code expected_client_id w =
     poll_loop ch st current_time device_code expected_client_id
       DEVICE_TRANSITION_MAX_ATTEMPTS w"

subsection \<open>Preparing a decision\<close>

definition prepare_decision ::
  "('w, 'v) device_state_store \<Rightarrow> ('w \<Rightarrow> time \<times> 'w) \<Rightarrow> string \<Rightarrow>
     ('w, device_state_port_error, 'v prepared_device_decision option) io"
where
  "prepare_decision st current_time user_code w =
     (case ds_resolve_user_code st user_code w of
        (Inl e, w1) \<Rightarrow> (Inl e, w1)
      | (Inr None, w1) \<Rightarrow> (Inr None, w1)
      | (Inr (Some device_hash), w1) \<Rightarrow>
     (case ds_load_by_device_hash st device_hash w1 of
        (Inl e, w2) \<Rightarrow> (Inl e, w2)
      | (Inr None, w2) \<Rightarrow>
         (case ds_delete_user_code_if_matches st user_code device_hash w2 of
            (Inl e, w3) \<Rightarrow> (Inl e, w3)
          | (Inr _, w3) \<Rightarrow> (Inr None, w3))
      | (Inr (Some stored), w2) \<Rightarrow>
          let decide = (\<lambda>payload.
                case current_time w2 of (now, w3) \<Rightarrow>
                  if now \<ge> dp_expires_at payload then
                   (case ds_delete_user_code_if_matches st user_code device_hash w3 of
                      (Inl e, w4) \<Rightarrow> (Inl e, w4)
                    | (Inr _, w4) \<Rightarrow> (Inr None, w4))
                  else (Inr (Some \<lparr>pdd_user_code = user_code, pdd_device_hash = device_hash,
                                   pdd_stored = stored\<rparr>), w3))
          in case sda_state stored of
               DevicePending payload _ _ \<Rightarrow> decide payload
             | DeviceApproving payload _ _ _ _ \<Rightarrow> decide payload
             | DeviceApproved _ _ _ \<Rightarrow> (Inr None, w2)
             | DeviceDenied _ _ \<Rightarrow> (Inr None, w2)
             | DeviceConsumed _ \<Rightarrow> (Inr None, w2)))"

text \<open>The match of \<open>pending_request_for_user_code\<close> is unreachable on every other state;
  \<open>Some None\<close> would be that panic.\<close>

definition pending_request_for_user_code ::
  "('w, 'v) device_state_store \<Rightarrow> ('w \<Rightarrow> time \<times> 'w) \<Rightarrow> string \<Rightarrow>
     ('w, device_state_port_error, device_authorization_payload option option) io"
where
  "pending_request_for_user_code st current_time user_code w =
     (case prepare_decision st current_time user_code w of
        (Inl e, w1) \<Rightarrow> (Inl e, w1)
      | (Inr None, w1) \<Rightarrow> (Inr None, w1)
      | (Inr (Some prepared), w1) \<Rightarrow>
          (Inr (Some (case sda_state (pdd_stored prepared) of
             DevicePending payload _ _ \<Rightarrow> Some payload
           | DeviceApproving payload _ _ _ _ \<Rightarrow> Some payload
           | _ \<Rightarrow> None)), w1))"

subsection \<open>Denying\<close>

text \<open>Both decision loops read the entry again before an attempt that has no snapshot in
  hand, and stop when it carries another payload than the prepared one.\<close>

definition reload_decision ::
  "('w, 'v) device_state_store \<Rightarrow> 'v prepared_device_decision \<Rightarrow>
     ('w, device_decision_failure, 'v stored_device_authorization) io"
where
  "reload_decision st prepared w =
     (case ds_load_by_device_hash st (pdd_device_hash prepared) w of
        (Inl e, w1) \<Rightarrow> (Inl (DeviceDecisionStorage e), w1)
      | (Inr None, w1) \<Rightarrow> (Inl DeviceDecisionMissing, w1)
      | (Inr (Some stored), w1) \<Rightarrow>
          if is_some_and
               (\<lambda>p. Some p \<noteq> device_authorization_payload_of (sda_state (pdd_stored prepared)))
               (device_authorization_payload_of (sda_state stored))
          then (Inl (DeviceDecisionStorage DeviceCorruptData), w1)
          else (Inr stored, w1))"

definition expire_decision ::
  "('w, 'v) device_state_store \<Rightarrow> 'v prepared_device_decision \<Rightarrow>
     ('w, device_decision_failure, unit) io"
where
  "expire_decision st prepared w =
     (case ds_delete_user_code_if_matches st (pdd_user_code prepared) (pdd_device_hash prepared) w of
        (Inl e, w1) \<Rightarrow> (Inl (DeviceDecisionStorage e), w1)
      | (Inr _, w1) \<Rightarrow> (Inl DeviceDecisionExpired, w1))"

definition deny_attempt ::
  "('w, 'v) device_state_store \<Rightarrow> ('w \<Rightarrow> time \<times> 'w) \<Rightarrow> 'v prepared_device_decision \<Rightarrow>
     'v stored_device_authorization \<Rightarrow> 'w \<Rightarrow>
     (device_decision_failure + unit, 'v stored_device_authorization option) flow \<times> 'w"
where
  "deny_attempt st current_time prepared stored w =
     (case current_time w of (now, w1) \<Rightarrow>
     (case sda_state stored of
        DevicePending payload _ _ \<Rightarrow>
          if now \<ge> dp_expires_at payload then apfst Return (expire_decision st prepared w1)
          else
           (case ds_complete_decision st (pdd_device_hash prepared) (pdd_user_code prepared)
                   (sda_version stored) (DeviceDenied payload now) w1 of
              (Inl e, w2) \<Rightarrow> (Return (Inl (DeviceDecisionStorage e)), w2)
            | (Inr DeviceApplied, w2) \<Rightarrow> (Return (Inr ()), w2)
            | (Inr DeviceConflict, w2) \<Rightarrow> (Continue None, w2)
            | (Inr DeviceDeadlineElapsed, w2) \<Rightarrow> (Return (Inl DeviceDecisionExpired), w2))
      | _ \<Rightarrow> (Return (Inl DeviceDecisionAlreadyHandled), w1)))"

text \<open>The loop shared by \<open>deny\<close> and \<open>approve\<close>: the first attempt uses the
  prepared snapshot, a later one the snapshot the attempt before it produced, or a fresh load.\<close>

fun decision_loop ::
  "('w, 'v) device_state_store \<Rightarrow> 'v prepared_device_decision \<Rightarrow>
     ('v stored_device_authorization \<Rightarrow> 'w \<Rightarrow>
        (device_decision_failure + unit, 'v stored_device_authorization option) flow \<times> 'w) \<Rightarrow>
     nat \<Rightarrow> 'v stored_device_authorization option \<Rightarrow> ('w, device_decision_failure, unit) io"
where
  "decision_loop st prepared attempt 0 snapshot w = (Inl DeviceDecisionContended, w)"
| "decision_loop st prepared attempt (Suc n) snapshot w =
     (case (case snapshot of
              Some stored \<Rightarrow> (Inr stored, w)
            | None \<Rightarrow> reload_decision st prepared w) of
        (Inl e, w1) \<Rightarrow> (Inl e, w1)
      | (Inr stored, w1) \<Rightarrow>
         (case attempt stored w1 of
            (Return r, w2) \<Rightarrow> (r, w2)
          | (Continue next_snapshot, w2) \<Rightarrow>
              decision_loop st prepared attempt n next_snapshot w2))"

definition deny ::
  "('w, 'v) device_state_store \<Rightarrow> ('w \<Rightarrow> time \<times> 'w) \<Rightarrow> 'v prepared_device_decision \<Rightarrow>
     ('w, device_decision_failure, unit) io"
where
  "deny st current_time prepared w =
     decision_loop st prepared (deny_attempt st current_time prepared)
       DEVICE_TRANSITION_MAX_ATTEMPTS (Some (pdd_stored prepared)) w"

subsection \<open>Approving\<close>

definition claim_outcome ::
  "device_state_port_error + device_atomic_result \<Rightarrow>
     (device_decision_failure + unit, 'v stored_device_authorization option) flow"
where
  "claim_outcome r =
     (case r of
        Inl e \<Rightarrow> Return (Inl (DeviceDecisionStorage e))
      | Inr DeviceApplied \<Rightarrow> Continue None
      | Inr DeviceConflict \<Rightarrow> Continue None
      | Inr DeviceDeadlineElapsed \<Rightarrow> Return (Inl DeviceDecisionExpired))"

definition device_grant_of ::
  "string \<Rightarrow> device_authorization_payload \<Rightarrow> uuid \<Rightarrow> oauth_client \<Rightarrow> device_grant_write"
where
  "device_grant_of device_hash payload user_id client =
     \<lparr>dgw_device_code_hash = device_hash,
      dgw_expires_at = dp_expires_at payload,
      dgw_tenant_id = oc_tenant_id client,
      dgw_user_id = user_id,
      dgw_client_id = oc_id client,
      dgw_scopes = dp_scopes payload,
      dgw_resource_indicators = dp_resource_indicators payload,
      dgw_authorization_details = dp_authorization_details payload\<rparr>"

definition record_grant ::
  "('w, 'v) device_state_store \<Rightarrow> 'w device_grant_repository \<Rightarrow> string \<Rightarrow> oauth_client \<Rightarrow>
     device_authorization_payload \<Rightarrow> device_authorization_approval \<Rightarrow> uuid \<Rightarrow> time \<Rightarrow> 'v \<Rightarrow> 'w \<Rightarrow>
     (device_decision_failure + unit, 'v stored_device_authorization option) flow \<times> 'w"
where
  "record_grant st repo device_hash client payload claimed active_claim_id started_at version w =
     (case dr_upsert_grant repo
             (device_grant_of device_hash payload (da_user_id claimed) client) w of
        (Inl e, w1) \<Rightarrow> (Return (Inl (DeviceDecisionRepository e)), w1)
      | (Inr _, w1) \<Rightarrow>
          let recorded = DeviceApproving payload claimed active_claim_id True started_at
          in case ds_replace_by_device_hash st device_hash version recorded w1 of
               (Inl e, w2) \<Rightarrow> (Return (Inl (DeviceDecisionStorage e)), w2)
             | (Inr (DeviceReplaced v), w2) \<Rightarrow>
                 (Continue (Some \<lparr>sda_state = recorded, sda_version = v\<rparr>), w2)
             | (Inr DeviceReplaceConflict, w2) \<Rightarrow> (Continue None, w2)
             | (Inr DeviceReplaceDeadlineElapsed, w2) \<Rightarrow>
                 (Return (Inl DeviceDecisionExpired), w2))"

definition approve_attempt ::
  "chrono \<Rightarrow> ('w, 'v) device_state_store \<Rightarrow> 'w device_grant_repository \<Rightarrow>
     ('w \<Rightarrow> time \<times> 'w) \<Rightarrow> 'v prepared_device_decision \<Rightarrow> device_authorization_approval \<Rightarrow>
     oauth_client \<Rightarrow> uuid \<Rightarrow> 'v stored_device_authorization \<Rightarrow> 'w \<Rightarrow>
     (device_decision_failure + unit, 'v stored_device_authorization option) flow \<times> 'w"
where
  "approve_attempt ch st repo current_time prepared approval client claim_id stored w =
     (let device_hash = pdd_device_hash prepared;
          user_code = pdd_user_code prepared
      in case current_time w of (now, w1) \<Rightarrow>
     (case sda_state stored of
        DevicePending payload _ _ \<Rightarrow>
          if now \<ge> dp_expires_at payload then apfst Return (expire_decision st prepared w1)
          else if \<not> oc_is_active client \<or> oc_client_id client \<noteq> dp_client_id payload
          then (Return (Inl (DeviceDecisionRepository DeviceGrantCorruptData)), w1)
          else apfst claim_outcome
                 (ds_claim_decision st device_hash user_code (sda_version stored)
                    (DeviceApproving payload approval claim_id False now) w1)
      | DeviceApproving payload claimed active_claim_id grant_recorded started_at \<Rightarrow>
          if da_user_id claimed \<noteq> da_user_id approval
          then (Return (Inl DeviceDecisionAlreadyHandled), w1)
          else if \<not> oc_is_active client \<or> oc_client_id client \<noteq> dp_client_id payload
          then (Return (Inl (DeviceDecisionRepository DeviceGrantCorruptData)), w1)
          else if now \<ge> dp_expires_at payload
          then apfst Return (expire_decision st prepared w1)
          else if \<not> grant_recorded then
            if active_claim_id \<noteq> claim_id then
              if \<not> device_approval_claim_is_stale ch started_at now
              then (Return (Inl DeviceDecisionContended), w1)
              else apfst claim_outcome
                     (ds_claim_decision st device_hash user_code (sda_version stored)
                        (DeviceApproving payload claimed claim_id False now) w1)
            else record_grant st repo device_hash client payload claimed active_claim_id
                   started_at (sda_version stored) w1
          else
           (case current_time w1 of (approved_at, w2) \<Rightarrow>
           (case ds_complete_decision st device_hash user_code (sda_version stored)
                   (DeviceApproved payload claimed approved_at) w2 of
              (Inl e, w3) \<Rightarrow> (Return (Inl (DeviceDecisionStorage e)), w3)
            | (Inr DeviceApplied, w3) \<Rightarrow> (Return (Inr ()), w3)
            | (Inr DeviceConflict, w3) \<Rightarrow> (Continue None, w3)
            | (Inr DeviceDeadlineElapsed, w3) \<Rightarrow> (Return (Inl DeviceDecisionExpired), w3)))
      | _ \<Rightarrow> (Return (Inl DeviceDecisionAlreadyHandled), w1)))"

definition approve ::
  "chrono \<Rightarrow> ('w, 'v) device_state_store \<Rightarrow> 'w device_grant_repository \<Rightarrow>
     ('w \<Rightarrow> time \<times> 'w) \<Rightarrow> ('w \<Rightarrow> uuid \<times> 'w) \<Rightarrow> 'v prepared_device_decision \<Rightarrow>
     device_authorization_approval \<Rightarrow> oauth_client \<Rightarrow> ('w, device_decision_failure, unit) io"
where
  "approve ch st repo current_time now_v7 prepared approval client w =
     (case now_v7 w of (claim_id, w1) \<Rightarrow>
        decision_loop st prepared
          (approve_attempt ch st repo current_time prepared approval client claim_id)
          DEVICE_TRANSITION_MAX_ATTEMPTS (Some (pdd_stored prepared)) w1)"

end
