(* ===== verification/Device_Contract.thy ===== *)
theory Device_Contract
  imports Device_Service
begin

text \<open>
  What the device authorization service guarantees when many workers run it on one store.
  \<open>device_step\<close> is one atomic step of the whole system as seen through the entries and
  the recorded grants: a creation, a write that follows \<open>device_trans\<close>, an expiry or
  deletion, or the commit of a grant. The locale \<open>device_contract\<close> is the interface the
  service relies on; inside it every operation is shown to be a sequence of such steps, whatever the
  others do in between, and the results it reports are tied to instants of its execution.
\<close>

subsection \<open>The transitions of an entry\<close>

definition grant_matches ::
  "string \<Rightarrow> device_authorization_payload \<Rightarrow> device_authorization_approval \<Rightarrow>
     device_grant_write \<Rightarrow> bool"
where
  "grant_matches h p a g \<longleftrightarrow>
     dgw_device_code_hash g = h \<and> dgw_user_id g = da_user_id a \<and>
     dgw_expires_at g = dp_expires_at p \<and> dgw_scopes g = dp_scopes p \<and>
     dgw_resource_indicators g = dp_resource_indicators p \<and>
     dgw_authorization_details g = dp_authorization_details p"

definition device_granted ::
  "device_grant_write set \<Rightarrow> string \<Rightarrow> device_authorization_payload \<Rightarrow>
     device_authorization_approval \<Rightarrow> bool"
where
  "device_granted gs h p a \<longleftrightarrow> (\<exists>g \<in> gs. grant_matches h p a g)"

lemma device_grant_of_matches [simp]:
  "grant_matches h p a (device_grant_of h p (da_user_id a) client)"
  by (simp add: grant_matches_def device_grant_of_def)

inductive device_trans ::
  "device_grant_write set \<Rightarrow> string \<Rightarrow>
     device_authorization_state \<Rightarrow> device_authorization_state \<Rightarrow> bool"
  for gs h
where
  trans_poll: "n \<le> n' \<Longrightarrow> n' \<le> u32_max \<Longrightarrow>
    device_trans gs h (DevicePending p l n) (DevicePending p (Some t) n')"
| trans_deny: "device_trans gs h (DevicePending p l n) (DeviceDenied p t)"
| trans_claim: "device_trans gs h (DevicePending p l n) (DeviceApproving p a c False t)"
| trans_reclaim:
    "device_trans gs h (DeviceApproving p a c False t) (DeviceApproving p a c' False t')"
| trans_record: "device_granted gs h p a \<Longrightarrow>
    device_trans gs h (DeviceApproving p a c False t) (DeviceApproving p a c True t)"
| trans_finish: "device_trans gs h (DeviceApproving p a c True t) (DeviceApproved p a t')"

declare device_trans.intros [evolve_intros]

inductive_cases device_trans_pendingE: "device_trans gs h (DevicePending p l n) s"
inductive_cases device_trans_approvingE: "device_trans gs h (DeviceApproving p a c r t) s"
inductive_simps device_trans_terminal [simp]:
  "device_trans gs h (DeviceApproved p a t) s"
  "device_trans gs h (DeviceDenied p t) s"
  "device_trans gs h (DeviceConsumed t) s"

lemma device_granted_mono: "device_granted gs h p a \<Longrightarrow> gs \<subseteq> gs' \<Longrightarrow> device_granted gs' h p a"
  by (auto simp: device_granted_def)

lemma device_trans_mono:
  assumes "device_trans gs h s s'" and "gs \<subseteq> gs'"
  shows "device_trans gs' h s s'"
  using assms
proof (induction rule: device_trans.induct)
  case (trans_record p a c t)
  then show ?case by (simp add: device_granted_mono device_trans.trans_record)
qed (simp_all add: evolve_intros)

lemma device_trans_payload:
  "device_trans gs h s s' \<Longrightarrow>
     device_authorization_payload_of s' = device_authorization_payload_of s"
  by (induction rule: device_trans.induct) auto

lemma device_trans_ok:
  "device_trans gs h s s' \<Longrightarrow> device_state_ok ok s \<Longrightarrow> device_state_ok ok s'"
  by (induction rule: device_trans.induct) auto

subsection \<open>The steps of the system\<close>

type_synonym 'v device_view =
  "(string \<Rightarrow> (device_authorization_state \<times> 'v) option) \<times> device_grant_write set"

inductive device_step :: "'v device_view \<Rightarrow> 'v device_view \<Rightarrow> bool" where
  step_write: "e h = Some (s, v) \<Longrightarrow> device_trans gs h s s' \<Longrightarrow>
    device_step (e, gs) (e(h \<mapsto> (s', v')), gs)"
| step_create: "e h = None \<Longrightarrow>
    device_step (e, gs) (e(h \<mapsto> (DevicePending p None 0, v)), gs)"
| step_drop: "device_step (e, gs) (e(h := None), gs)"
| step_grant: "device_step (e, gs) (e, insert g gs)"

declare device_step.intros [evolve_intros]

text \<open>An entry whose state says that its grant is recorded has that grant.\<close>

fun state_granted ::
  "device_grant_write set \<Rightarrow> string \<Rightarrow> device_authorization_state \<Rightarrow> bool"
where
  "state_granted gs h (DeviceApproving p a c r t) \<longleftrightarrow> (r \<longrightarrow> device_granted gs h p a)"
| "state_granted gs h (DeviceApproved p a t) \<longleftrightarrow> device_granted gs h p a"
| "state_granted gs h _ \<longleftrightarrow> True"

definition device_inv :: "'v device_view \<Rightarrow> bool" where
  "device_inv x \<longleftrightarrow> (\<forall>h s v. fst x h = Some (s, v) \<longrightarrow> state_granted (snd x) h s)"

lemma state_granted_mono: "state_granted gs h s \<Longrightarrow> gs \<subseteq> gs' \<Longrightarrow> state_granted gs' h s"
  by (cases s) (simp_all, (blast intro: device_granted_mono)+)

lemma state_granted_insert: "state_granted gs h s \<Longrightarrow> state_granted (insert g gs) h s"
  by (rule state_granted_mono) auto

lemma state_granted_trans:
  "device_trans gs h s s' \<Longrightarrow> state_granted gs h s \<Longrightarrow> state_granted gs h s'"
  by (induction rule: device_trans.induct) auto

lemma device_step_grants: "device_step x y \<Longrightarrow> snd x \<subseteq> snd y"
  by (induction rule: device_step.induct) auto

lemma device_steps_grants: "device_step\<^sup>*\<^sup>* x y \<Longrightarrow> snd x \<subseteq> snd y"
  by (induction rule: rtranclp_induct) (auto dest: device_step_grants)

lemma device_step_inv: "device_step x y \<Longrightarrow> device_inv x \<Longrightarrow> device_inv y"
proof (induction rule: device_step.induct)
  case (step_write e h s v gs s' v')
  then show ?case using state_granted_trans [OF step_write.hyps(2)]
    by (auto simp: device_inv_def)
next
  case (step_grant e gs g)
  then show ?case by (auto simp: device_inv_def intro: state_granted_insert)
qed (auto simp: device_inv_def)

lemma device_steps_inv: "device_step\<^sup>*\<^sup>* x y \<Longrightarrow> device_inv x \<Longrightarrow> device_inv y"
  by (induction rule: rtranclp_induct) (auto intro: device_step_inv)

text \<open>The history of one entry while it is not dropped: its states follow the transitions.\<close>

definition device_step_keeping :: "string \<Rightarrow> 'v device_view \<Rightarrow> 'v device_view \<Rightarrow> bool" where
  "device_step_keeping h x y \<longleftrightarrow> device_step x y \<and> (fst x h \<noteq> None \<longrightarrow> fst y h \<noteq> None)"

definition any_trans :: "string \<Rightarrow> device_authorization_state \<Rightarrow> device_authorization_state \<Rightarrow> bool"
where
  "any_trans h s s' \<longleftrightarrow> (\<exists>gs. device_trans gs h s s')"

lemma device_step_keeping_entry:
  assumes "device_step_keeping h x y" and entry: "fst x h = Some (s, v)"
  shows "\<exists>s' v'. fst y h = Some (s', v') \<and> (s' = s \<or> any_trans h s s')"
proof -
  from assms have "device_step x y" and kept: "fst y h \<noteq> None"
    by (auto simp: device_step_keeping_def)
  from this(1) show ?thesis
  proof cases
    case (step_write e h' s0 v0 gs s' v')
    then show ?thesis using entry by (cases "h' = h") (auto simp: any_trans_def)
  next
    case (step_create e h' gs p v0)
    then show ?thesis using entry by (cases "h' = h") auto
  next
    case (step_drop e gs h')
    then show ?thesis using entry kept by (cases "h' = h") auto
  next
    case (step_grant e gs g)
    then show ?thesis using entry by auto
  qed
qed

lemma device_steps_keeping_entry:
  assumes "(device_step_keeping h)\<^sup>*\<^sup>* x y" and entry: "fst x h = Some (s, v)"
  shows "\<exists>s' v'. fst y h = Some (s', v') \<and> (any_trans h)\<^sup>*\<^sup>* s s'"
  using assms(1)
proof (induction rule: rtranclp_induct)
  case base
  then show ?case using entry by auto
next
  case (step y z)
  from step.IH obtain s1 v1 where y: "fst y h = Some (s1, v1)" and reach: "(any_trans h)\<^sup>*\<^sup>* s s1"
    by (elim exE conjE)
  from device_step_keeping_entry [OF step.hyps(2) y] obtain s2 v2
    where z: "fst z h = Some (s2, v2)" and "s2 = s1 \<or> any_trans h s1 s2"
    by (elim exE conjE)
  then have "(any_trans h)\<^sup>*\<^sup>* s s2"
    using reach by (auto intro: rtranclp.rtrancl_into_rtrancl)
  with z show ?case by blast
qed

lemma any_trans_steps_payload:
  "(any_trans h)\<^sup>*\<^sup>* s s' \<Longrightarrow>
     device_authorization_payload_of s' = device_authorization_payload_of s"
  by (induction rule: rtranclp_induct) (auto simp: any_trans_def dest: device_trans_payload)

fun device_terminal :: "device_authorization_state \<Rightarrow> bool" where
  "device_terminal (DevicePending _ _ _) = False"
| "device_terminal (DeviceApproving _ _ _ _ _) = False"
| "device_terminal _ = True"

lemma any_trans_terminal: "device_terminal s \<Longrightarrow> \<not> any_trans h s s'"
  by (cases s) (auto simp: any_trans_def)

lemma any_trans_steps_terminal:
  "(any_trans h)\<^sup>*\<^sup>* s s' \<Longrightarrow> device_terminal s \<Longrightarrow> s' = s"
  by (erule converse_rtranclpE) (simp_all add: any_trans_terminal)

fun decided_approval :: "device_authorization_state \<Rightarrow> device_authorization_approval option" where
  "decided_approval (DeviceApproving _ a _ _ _) = Some a"
| "decided_approval (DeviceApproved _ a _) = Some a"
| "decided_approval _ = None"

lemma any_trans_approval:
  "any_trans h s s' \<Longrightarrow> decided_approval s = Some a \<Longrightarrow> decided_approval s' = Some a"
  unfolding any_trans_def by (auto elim!: device_trans.cases)

lemma any_trans_steps_approval:
  "(any_trans h)\<^sup>*\<^sup>* s s' \<Longrightarrow> decided_approval s = Some a \<Longrightarrow> decided_approval s' = Some a"
  by (induction rule: rtranclp_induct) (auto dest: any_trans_approval)

subsection \<open>The interface of the service\<close>

locale device_contract =
  fixes st :: "('w, 'v) device_state_store"
    and repo :: "'w device_grant_repository"
    and current_time :: "'w \<Rightarrow> time \<times> 'w"
    and now_v7 :: "'w \<Rightarrow> uuid \<times> 'w"
    and hash_of :: "string \<Rightarrow> string"
    and entry :: "'w \<Rightarrow> string \<Rightarrow> (device_authorization_state \<times> 'v) option"
    and granted :: "'w \<Rightarrow> device_grant_write set"
    and env :: "'w \<Rightarrow> 'w \<Rightarrow> bool"
    and version_state :: "'v \<Rightarrow> device_authorization_state option"
    and payload_ok :: "device_authorization_payload \<Rightarrow> bool"
  assumes env_steps: "env w w' \<Longrightarrow> device_step\<^sup>*\<^sup>* (entry w, granted w) (entry w', granted w')"
    and clock: "current_time w = (t, w') \<Longrightarrow> env w w'"
    and fresh_id: "now_v7 w = (c, w') \<Longrightarrow> env w w'"
    and version_reads: "entry w h = Some (s, v) \<Longrightarrow> version_state v = Some s"
    and version_ok: "version_state v = Some s \<Longrightarrow> device_state_ok payload_ok s"
    and load_hash: "ds_load_by_device_hash st h w = (r, w') \<Longrightarrow>
      \<exists>w1. env w w1 \<and> env w1 w' \<and>
        (\<forall>x. r = Inr x \<longrightarrow> entry w1 h = map_option (\<lambda>y. (sda_state y, sda_version y)) x)"
    and load_code: "ds_load_by_device_code st d w = (r, w') \<Longrightarrow>
      \<exists>w1. env w w1 \<and> env w1 w' \<and>
        (\<forall>x. r = Inr x \<longrightarrow> entry w1 (hash_of d) = map_option (\<lambda>y. (sda_state y, sda_version y)) x)"
    and resolve: "ds_resolve_user_code st u w = (ru, w') \<Longrightarrow> env w w'"
    and forget: "ds_delete_user_code_if_matches st u h w = (rf, w') \<Longrightarrow>
      device_step\<^sup>*\<^sup>* (entry w, granted w) (entry w', granted w')"
    and create: "payload_ok p \<Longrightarrow> ds_create st d u (DevicePending p None 0) n w = (rc, w') \<Longrightarrow>
      \<exists>w1 w2. env w w1 \<and> env w2 w' \<and> granted w2 = granted w1 \<and>
        (entry w2 = entry w1 \<or> (entry w1 (hash_of d) = None \<and>
           (\<exists>v. entry w2 = (entry w1)(hash_of d \<mapsto> (DevicePending p None 0, v))))) \<and>
        (rc = Inr DeviceCreateApplied \<longrightarrow> entry w1 (hash_of d) = None \<and>
           (\<exists>v. entry w2 = (entry w1)(hash_of d \<mapsto> (DevicePending p None 0, v))))"
    and replace_code: "version_state v = Some s0 \<Longrightarrow> device_state_ok payload_ok s \<Longrightarrow>
      ds_replace_by_device_code st d v s w = (ra, w') \<Longrightarrow>
      \<exists>w1 w2. env w w1 \<and> env w2 w' \<and> granted w2 = granted w1 \<and>
        cas_effect (entry w1) (hash_of d) v s (entry w2) \<and>
        (ra = Inr DeviceApplied \<longrightarrow> (\<exists>v'. cas_written (entry w1) (hash_of d) v s v' (entry w2)))"
    and replace_hash: "version_state v = Some s0 \<Longrightarrow> device_state_ok payload_ok s \<Longrightarrow>
      ds_replace_by_device_hash st h v s w = (rr, w') \<Longrightarrow>
      \<exists>w1 w2. env w w1 \<and> env w2 w' \<and> granted w2 = granted w1 \<and>
        cas_effect (entry w1) h v s (entry w2) \<and>
        (\<forall>v'. rr = Inr (DeviceReplaced v') \<longrightarrow> cas_written (entry w1) h v s v' (entry w2))"
    and claim: "version_state v = Some s0 \<Longrightarrow> device_state_ok payload_ok s \<Longrightarrow>
      ds_claim_decision st h u v s w = (ra, w') \<Longrightarrow>
      \<exists>w1 w2. env w w1 \<and> env w2 w' \<and> granted w2 = granted w1 \<and>
        cas_effect (entry w1) h v s (entry w2) \<and>
        (ra = Inr DeviceApplied \<longrightarrow> (\<exists>v'. cas_written (entry w1) h v s v' (entry w2)))"
    and complete: "version_state v = Some s0 \<Longrightarrow> device_state_ok payload_ok s \<Longrightarrow>
      ds_complete_decision st h u v s w = (ra, w') \<Longrightarrow>
      \<exists>w1 w2. env w w1 \<and> env w2 w' \<and> granted w2 = granted w1 \<and>
        cas_effect (entry w1) h v s (entry w2) \<and>
        (ra = Inr DeviceApplied \<longrightarrow> (\<exists>v'. cas_written (entry w1) h v s v' (entry w2)))"
    and upsert: "dr_upsert_grant repo g w = (rg, w') \<Longrightarrow>
      device_step\<^sup>*\<^sup>* (entry w, granted w) (entry w', granted w') \<and> (rg = Inr () \<longrightarrow> g \<in> granted w')"
begin

abbreviation reaches :: "'w \<Rightarrow> 'w \<Rightarrow> bool" where
  "reaches w w' \<equiv> device_step\<^sup>*\<^sup>* (entry w, granted w) (entry w', granted w')"

abbreviation genuine :: "'v stored_device_authorization \<Rightarrow> bool" where
  "genuine y \<equiv> version_state (sda_version y) = Some (sda_state y)"

lemma reaches_trans: "reaches w1 w2 \<Longrightarrow> reaches w2 w3 \<Longrightarrow> reaches w1 w3"
  by (rule rtranclp_trans)

lemma reaches_grants: "reaches w w' \<Longrightarrow> granted w \<subseteq> granted w'"
  using device_steps_grants by fastforce

lemma env_reaches: "env w w' \<Longrightarrow> reaches w w'"
  by (rule env_steps)

text \<open>The one argument behind every write of the service: if the replacement is a legal
  successor of the state the version stands for, the call is a sequence of steps of the system, and
  when it reports success there is an instant at which exactly that transition happened.\<close>

lemma cas_reaches:
  assumes "env w w1" and "env w2 w'" and gr: "granted w2 = granted w1"
    and eff: "cas_effect (entry w1) h v s' (entry w2)"
    and ver: "version_state v = Some s" and tr: "device_trans (granted w) h s s'"
  shows "reaches w w1" and "reaches w1 w2" and "reaches w2 w'"
proof -
  show r1: "reaches w w1" and "reaches w2 w'" using assms(1,2) by (simp_all add: env_steps)
  have tr1: "device_trans (granted w1) h s s'"
    using device_trans_mono [OF tr reaches_grants [OF r1]] .
  show "reaches w1 w2"
    using eff unfolding cas_effect_def
  proof (elim disjE exE)
    assume "entry w2 = entry w1"
    then show ?thesis using gr by simp
  next
    assume "entry w2 = (entry w1)(h := None)"
    then show ?thesis using gr by (simp add: r_into_rtranclp step_drop)
  next
    fix v' assume "cas_written (entry w1) h v s' v' (entry w2)"
    then obtain s0 where s0: "entry w1 h = Some (s0, v)" and e2: "entry w2 = (entry w1)(h \<mapsto> (s', v'))"
      by (auto simp: cas_written_def)
    from version_reads [OF s0] ver have "s0 = s" by simp
    with s0 tr1 have "device_step (entry w1, granted w1) (entry w2, granted w2)"
      unfolding e2 gr by (auto intro: step_write)
    then show ?thesis by (rule r_into_rtranclp)
  qed
qed

lemma cas_writtenD:
  assumes "cas_written (entry w1) h v s' v' (entry w2)" and "version_state v = Some s"
  shows "entry w1 h = Some (s, v)" and "entry w2 h = Some (s', v')" and "version_state v' = Some s'"
proof -
  from assms(1) obtain s0 where s0: "entry w1 h = Some (s0, v)" and e2: "entry w2 = (entry w1)(h \<mapsto> (s', v'))"
    by (auto simp: cas_written_def)
  show "entry w1 h = Some (s, v)" using s0 version_reads [OF s0] assms(2) by simp
  show w2: "entry w2 h = Some (s', v')" unfolding e2 by simp
  show "version_state v' = Some s'" by (rule version_reads [OF w2])
qed

text \<open>A transition of entry \<open>h\<close> between two instants of a run.\<close>

definition transits ::
  "'w \<Rightarrow> 'w \<Rightarrow> string \<Rightarrow> device_authorization_state \<Rightarrow> device_authorization_state \<Rightarrow> bool"
where
  "transits w w' h s s' \<longleftrightarrow>
     (\<exists>w1 w2 v v'. reaches w w1 \<and> entry w1 h = Some (s, v) \<and> reaches w1 w2 \<and>
        entry w2 h = Some (s', v') \<and> reaches w2 w')"

lemma transits_prefix: "reaches w0 w \<Longrightarrow> transits w w' h s s' \<Longrightarrow> transits w0 w' h s s'"
  unfolding transits_def by (meson reaches_trans)

lemma cas_transits:
  assumes "env w w1" and "env w2 w'" and "granted w2 = granted w1"
    and "cas_effect (entry w1) h v s' (entry w2)"
    and "cas_written (entry w1) h v s' v' (entry w2)"
    and "version_state v = Some s" and "device_trans (granted w) h s s'"
  shows "transits w w' h s s'"
  unfolding transits_def
  using cas_reaches [OF assms(1-4) assms(6,7)] cas_writtenD [OF assms(5,6)] by blast

end

end
