(* ===== verification/Device_Guarantee.thy ===== *)
theory Device_Guarantee
  imports Device_Contract
begin

text \<open>
  The service's operations under the contract: every call is a sequence of legal steps of the
  system, and a call that reports success caused the transition it reports.
\<close>

context device_contract
begin

lemma clock_reaches: "current_time w = (t, w') \<Longrightarrow> reaches w w'"
  using clock env_steps by blast

lemma forget_reaches: "ds_delete_user_code_if_matches st u h w = (r, w') \<Longrightarrow> reaches w w'"
  by (rule forget)

lemma version_trans_ok:
  "version_state v = Some s \<Longrightarrow> device_trans gs h s s' \<Longrightarrow> device_state_ok payload_ok s'"
  using version_ok device_trans_ok by blast

lemma load_hash_genuine:
  assumes "ds_load_by_device_hash st h w = (Inr (Some y), w')"
  shows "reaches w w'" and "genuine y"
proof -
  from load_hash [OF assms] obtain w1 where w1: "env w w1" "env w1 w'"
    and e: "entry w1 h = Some (sda_state y, sda_version y)" by auto
  show "reaches w w'" using w1 env_steps reaches_trans by blast
  show "genuine y" by (rule version_reads [OF e])
qed

lemma load_hash_reaches: "ds_load_by_device_hash st h w = (r, w') \<Longrightarrow> reaches w w'"
  by (drule load_hash) (blast intro: env_steps reaches_trans)

lemma load_code_reaches: "ds_load_by_device_code st d w = (r, w') \<Longrightarrow> reaches w w'"
  by (drule load_code) (blast intro: env_steps reaches_trans)

lemma expire_decision_reaches:
  assumes "expire_decision st prepared w = (r, w')"
  shows "reaches w w'" and "r \<noteq> Inr ()"
  using assms forget_reaches unfolding expire_decision_def
  by (auto split: prod.splits sum.splits)

abbreviation same_payload ::
  "'v prepared_device_decision \<Rightarrow> 'v stored_device_authorization \<Rightarrow> bool"
where
  "same_payload prepared y \<equiv>
     is_none_or (\<lambda>p. device_authorization_payload_of (sda_state (pdd_stored prepared)) = Some p)
       (device_authorization_payload_of (sda_state y))"

lemma reload_decision_genuine:
  assumes "reload_decision st prepared w = (Inr y, w')"
  shows "genuine y" and "same_payload prepared y"
  using assms load_hash_genuine(2) unfolding reload_decision_def
  by (auto simp: is_none_or_iff is_some_and_iff split: prod.splits sum.splits option.splits if_splits)

lemma reload_decision_reaches:
  assumes "reload_decision st prepared w = (r, w')"
  shows "reaches w w'"
  using assms load_hash_reaches unfolding reload_decision_def
  by (auto split: prod.splits sum.splits option.splits if_splits)

text \<open>The four writes, each with its law turned into steps of the system.\<close>

lemma complete_write:
  assumes run: "ds_complete_decision st h u v s' w = (r, w')"
    and ver: "version_state v = Some s" and tr: "device_trans (granted w) h s s'"
  shows "reaches w w'" and "r = Inr DeviceApplied \<Longrightarrow> transits w w' h s s'"
proof -
  from complete [OF ver version_trans_ok [OF ver tr] run]
  obtain w1 w2 where steps: "env w w1" "env w2 w'" "granted w2 = granted w1"
      "cas_effect (entry w1) h v s' (entry w2)"
    and app: "r = Inr DeviceApplied \<longrightarrow> (\<exists>v'. cas_written (entry w1) h v s' v' (entry w2))"
    by blast
  show "reaches w w'" using cas_reaches [OF steps ver tr] by (blast intro: reaches_trans)
  show "transits w w' h s s'" if "r = Inr DeviceApplied"
    using app that cas_transits [OF steps _ ver tr] by blast
qed

lemma claim_write:
  assumes run: "ds_claim_decision st h u v s' w = (r, w')"
    and ver: "version_state v = Some s" and tr: "device_trans (granted w) h s s'"
  shows "reaches w w'" and "r = Inr DeviceApplied \<Longrightarrow> transits w w' h s s'"
proof -
  from claim [OF ver version_trans_ok [OF ver tr] run]
  obtain w1 w2 where steps: "env w w1" "env w2 w'" "granted w2 = granted w1"
      "cas_effect (entry w1) h v s' (entry w2)"
    and app: "r = Inr DeviceApplied \<longrightarrow> (\<exists>v'. cas_written (entry w1) h v s' v' (entry w2))"
    by blast
  show "reaches w w'" using cas_reaches [OF steps ver tr] by (blast intro: reaches_trans)
  show "transits w w' h s s'" if "r = Inr DeviceApplied"
    using app that cas_transits [OF steps _ ver tr] by blast
qed

lemma replace_code_write:
  assumes run: "ds_replace_by_device_code st d v s' w = (r, w')"
    and ver: "version_state v = Some s" and tr: "device_trans (granted w) (hash_of d) s s'"
  shows "reaches w w'" and "r = Inr DeviceApplied \<Longrightarrow> transits w w' (hash_of d) s s'"
proof -
  from replace_code [OF ver version_trans_ok [OF ver tr] run]
  obtain w1 w2 where steps: "env w w1" "env w2 w'" "granted w2 = granted w1"
      "cas_effect (entry w1) (hash_of d) v s' (entry w2)"
    and app: "r = Inr DeviceApplied \<longrightarrow>
      (\<exists>v'. cas_written (entry w1) (hash_of d) v s' v' (entry w2))"
    by blast
  show "reaches w w'" using cas_reaches [OF steps ver tr] by (blast intro: reaches_trans)
  show "transits w w' (hash_of d) s s'" if "r = Inr DeviceApplied"
    using app that cas_transits [OF steps _ ver tr] by blast
qed

lemma replace_hash_write:
  assumes run: "ds_replace_by_device_hash st h v s' w = (r, w')"
    and ver: "version_state v = Some s" and tr: "device_trans (granted w) h s s'"
  shows "reaches w w'" and "r = Inr (DeviceReplaced v') \<Longrightarrow> version_state v' = Some s'"
proof -
  from replace_hash [OF ver version_trans_ok [OF ver tr] run]
  obtain w1 w2 where steps: "env w w1" "env w2 w'" "granted w2 = granted w1"
      "cas_effect (entry w1) h v s' (entry w2)"
    and app: "\<forall>v'. r = Inr (DeviceReplaced v') \<longrightarrow> cas_written (entry w1) h v s' v' (entry w2)"
    by blast
  show "reaches w w'" using cas_reaches [OF steps ver tr] by (blast intro: reaches_trans)
  show "version_state v' = Some s'" if "r = Inr (DeviceReplaced v')"
    using app that cas_writtenD(3) [OF _ ver] by blast
qed

text \<open>The rule for the two decision loops.\<close>

lemma decision_loop_rule:
  assumes attempt: "\<And>y w out w'. genuine y \<Longrightarrow> same_payload prepared y \<Longrightarrow>
      attempt y w = (out, w') \<Longrightarrow>
      reaches w w' \<and>
      (\<forall>y'. out = Continue (Some y') \<longrightarrow> genuine y' \<and> same_payload prepared y') \<and>
      (out = Return (Inr ()) \<longrightarrow> Q w w')"
    and prefix: "\<And>w0 w w'. reaches w0 w \<Longrightarrow> Q w w' \<Longrightarrow> Q w0 w'"
  shows "decision_loop st prepared attempt n snapshot w = (r, w') \<Longrightarrow>
      is_none_or (\<lambda>y. genuine y \<and> same_payload prepared y) snapshot \<Longrightarrow>
      reaches w w' \<and> (r = Inr () \<longrightarrow> Q w w')"
proof (induction n arbitrary: snapshot w)
  case 0
  then show ?case by auto
next
  case (Suc n)
  obtain o1 w1 where load: "(case snapshot of Some stored \<Rightarrow> (Inr stored, w)
      | None \<Rightarrow> reload_decision st prepared w) = (o1, w1)" by fastforce
  then have r1: "reaches w w1" using reload_decision_reaches by (auto split: option.splits)
  show ?case
  proof (cases o1)
    case (Inl e)
    then show ?thesis using Suc.prems(1) load r1 by auto
  next
    case (Inr y)
    have y: "genuine y" "same_payload prepared y"
      using Suc.prems(2) load reload_decision_genuine unfolding Inr by (auto split: option.splits)
    obtain out w2 where att: "attempt y w1 = (out, w2)" by fastforce
    note att' = attempt [OF y att]
    have r2: "reaches w w2" using r1 att' reaches_trans by blast
    show ?thesis
    proof (cases out)
      case (Return r')
      then have "r' = r" and "w2 = w'" using Suc.prems(1) load Inr att by auto
      then show ?thesis using r2 att' Return prefix [OF r1] by auto
    next
      case (Continue s2)
      then have rest: "decision_loop st prepared attempt n s2 w2 = (r, w')"
        using Suc.prems(1) load Inr att by auto
      have "is_none_or (\<lambda>y. genuine y \<and> same_payload prepared y) s2"
        using att' Continue by (auto simp: is_none_or_iff)
      from Suc.IH [OF rest this] show ?thesis using r2 prefix [OF r2] reaches_trans by blast
    qed
  qed
qed

subsection \<open>Denying\<close>

definition denied_in ::
  "'v prepared_device_decision \<Rightarrow> 'w \<Rightarrow> 'w \<Rightarrow> bool"
where
  "denied_in prepared w w' \<longleftrightarrow>
     (\<exists>p l n t. device_authorization_payload_of (sda_state (pdd_stored prepared)) = Some p \<and>
        t < dp_expires_at p \<and>
        transits w w' (pdd_device_hash prepared) (DevicePending p l n) (DeviceDenied p t))"

lemma deny_attempt_ok:
  assumes y: "genuine y" "same_payload prepared y"
    and run: "deny_attempt st current_time prepared y w = (out, w')"
  shows "reaches w w' \<and> (\<forall>y'. out \<noteq> Continue (Some y')) \<and>
    (out = Return (Inr ()) \<longrightarrow> denied_in prepared w w')"
proof -
  obtain now w1 where t: "current_time w = (now, w1)" by fastforce
  have r1: "reaches w w1" by (rule clock_reaches [OF t])
  show ?thesis
  proof (cases "sda_state y")
    case (DevicePending p l n)
    have pl: "device_authorization_payload_of (sda_state (pdd_stored prepared)) = Some p"
      using y(2) DevicePending by simp
    show ?thesis
    proof (cases "dp_expires_at p \<le> now")
      case True
      obtain r0 where ex: "expire_decision st prepared w1 = (r0, w')" and out: "out = Return r0"
        using run t DevicePending True
        by (cases "expire_decision st prepared w1") (auto simp: deny_attempt_def)
      from expire_decision_reaches [OF ex] show ?thesis
        using r1 reaches_trans unfolding out by auto
    next
      case False
      obtain rc w2 where c: "ds_complete_decision st (pdd_device_hash prepared)
          (pdd_user_code prepared) (sda_version y) (DeviceDenied p now) w1 = (rc, w2)"
        by fastforce
      have out: "w2 = w'" "out = (case rc of Inl e \<Rightarrow> Return (Inl (DeviceDecisionStorage e))
          | Inr DeviceApplied \<Rightarrow> Return (Inr ()) | Inr DeviceConflict \<Rightarrow> Continue None
          | Inr DeviceDeadlineElapsed \<Rightarrow> Return (Inl DeviceDecisionExpired))"
        using run t DevicePending False c
        by (auto simp: deny_attempt_def split: sum.splits device_atomic_result.splits)
      have tr: "device_trans (granted w1) (pdd_device_hash prepared) (sda_state y) (DeviceDenied p now)"
        by (simp add: DevicePending trans_deny)
      note wr = complete_write [OF c y(1) tr]
      have "reaches w w2" using r1 wr(1) by (rule reaches_trans)
      moreover have "denied_in prepared w w2" if "rc = Inr DeviceApplied"
        using transits_prefix [OF r1 wr(2) [OF that]] pl False DevicePending
        unfolding denied_in_def by (auto simp: not_le)
      ultimately show ?thesis
        unfolding out by (auto split: sum.splits device_atomic_result.splits)
    qed
  qed (use run t r1 in \<open>auto simp: deny_attempt_def\<close>)
qed

lemma deny_ok:
  assumes "deny st current_time prepared w = (r, w')" and "genuine (pdd_stored prepared)"
  shows "reaches w w'" and "r = Inr () \<Longrightarrow> denied_in prepared w w'"
proof -
  have pre: "is_none_or (\<lambda>y. genuine y \<and> same_payload prepared y) (Some (pdd_stored prepared))"
    using assms(2) by (simp add: is_none_or_iff)
  have prefix: "denied_in prepared w0 w'" if "reaches w0 w" and "denied_in prepared w w'" for w0 w w'
    using that transits_prefix unfolding denied_in_def by blast
  have "reaches w w' \<and> (r = Inr () \<longrightarrow> denied_in prepared w w')"
    using assms(1) unfolding deny_def
    by (rule decision_loop_rule [where attempt = "deny_attempt st current_time prepared", rotated 2])
       (use pre prefix deny_attempt_ok in blast)+
  then show "reaches w w'" and "r = Inr () \<Longrightarrow> denied_in prepared w w'" by simp_all
qed

subsection \<open>Approving\<close>

definition approved_in ::
  "'v prepared_device_decision \<Rightarrow> device_authorization_approval \<Rightarrow> oauth_client \<Rightarrow>
     'w \<Rightarrow> 'w \<Rightarrow> bool"
where
  "approved_in prepared approval client w w' \<longleftrightarrow>
     (\<exists>p a c t0 t. device_authorization_payload_of (sda_state (pdd_stored prepared)) = Some p \<and>
        da_user_id a = da_user_id approval \<and>
        oc_is_active client \<and> oc_client_id client = dp_client_id p \<and>
        transits w w' (pdd_device_hash prepared)
          (DeviceApproving p a c True t0) (DeviceApproved p a t))"

lemma claim_outcome_cases:
  "claim_outcome r \<noteq> Return (Inr ())" "claim_outcome r \<noteq> Continue (Some y)"
  by (auto simp: claim_outcome_def split: sum.splits device_atomic_result.splits)

lemma record_grant_ok:
  assumes ver: "version_state v = Some (DeviceApproving p a c False t)"
    and run: "record_grant st repo h client p a c t v w = (out, w')"
  shows "reaches w w' \<and> out \<noteq> Return (Inr ()) \<and>
    (\<forall>y. out = Continue (Some y) \<longrightarrow> genuine y \<and> sda_state y = DeviceApproving p a c True t)"
proof -
  obtain rg w1 where up: "dr_upsert_grant repo (device_grant_of h p (da_user_id a) client) w = (rg, w1)"
    by fastforce
  note ups = upsert [OF up]
  show ?thesis
  proof (cases rg)
    case (Inl e)
    then show ?thesis using run up ups by (auto simp: record_grant_def)
  next
    case (Inr x)
    obtain rr w2 where wr: "ds_replace_by_device_hash st h v (DeviceApproving p a c True t) w1 = (rr, w2)"
      by fastforce
    have "device_granted (granted w1) h p a"
      using ups Inr unfolding device_granted_def by (metis device_grant_of_matches old.unit.exhaust)
    then have tr: "device_trans (granted w1) h (DeviceApproving p a c False t) (DeviceApproving p a c True t)"
      by (rule trans_record)
    note wr' = replace_hash_write [OF wr ver tr]
    have "reaches w w2" using ups wr'(1) reaches_trans by blast
    moreover have "(out, w') = (case rr of Inl e \<Rightarrow> (Return (Inl (DeviceDecisionStorage e)), w2)
        | Inr (DeviceReplaced v) \<Rightarrow>
            (Continue (Some \<lparr>sda_state = DeviceApproving p a c True t, sda_version = v\<rparr>), w2)
        | Inr DeviceReplaceConflict \<Rightarrow> (Continue None, w2)
        | Inr DeviceReplaceDeadlineElapsed \<Rightarrow> (Return (Inl DeviceDecisionExpired), w2))"
      using run by (simp add: record_grant_def up Inr wr split: sum.splits device_state_replacement.splits)
    ultimately show ?thesis
      using wr'(2) by (auto split: sum.splits device_state_replacement.splits)
  qed
qed

lemma approve_pending_ok:
  assumes y: "genuine y" and state: "sda_state y = DevicePending p l n"
    and run: "approve_attempt ch st repo current_time prepared approval client claim_id y w = (out, w')"
  shows "reaches w w' \<and> out \<noteq> Return (Inr ()) \<and> (\<forall>y'. out \<noteq> Continue (Some y'))"
proof -
  obtain now w1 where t: "current_time w = (now, w1)" by fastforce
  have r1: "reaches w w1" by (rule clock_reaches [OF t])
  obtain rc w2 where c: "ds_claim_decision st (pdd_device_hash prepared) (pdd_user_code prepared)
      (sda_version y) (DeviceApproving p approval claim_id False now) w1 = (rc, w2)" by fastforce
  obtain re w3 where ex: "expire_decision st prepared w1 = (re, w3)" by fastforce
  have tr: "device_trans (granted w1) (pdd_device_hash prepared) (sda_state y)
      (DeviceApproving p approval claim_id False now)" by (simp add: state trans_claim)
  have "reaches w w2" using r1 claim_write(1) [OF c y tr] by (rule reaches_trans)
  moreover have "reaches w w3" using r1 expire_decision_reaches(1) [OF ex] by (rule reaches_trans)
  ultimately show ?thesis
    using run t state c ex r1 expire_decision_reaches(2) [OF ex] claim_outcome_cases
    by (auto simp: approve_attempt_def Let_def split: if_splits)
qed

lemma approve_approving_ok:
  assumes y: "genuine y" "same_payload prepared y"
    and state: "sda_state y = DeviceApproving p a c g t0"
    and run: "approve_attempt ch st repo current_time prepared approval client claim_id y w = (out, w')"
  shows "reaches w w' \<and>
    (\<forall>y'. out = Continue (Some y') \<longrightarrow> genuine y' \<and> sda_state y' = DeviceApproving p a c True t0) \<and>
    (out = Return (Inr ()) \<longrightarrow> approved_in prepared approval client w w')"
proof -
  let ?h = "pdd_device_hash prepared"
  obtain now w1 where t: "current_time w = (now, w1)" by fastforce
  have r1: "reaches w w1" by (rule clock_reaches [OF t])
  obtain re w2 where ex: "expire_decision st prepared w1 = (re, w2)" by fastforce
  have r2: "reaches w w2" using r1 expire_decision_reaches(1) [OF ex] by (rule reaches_trans)
  consider
      (leave) "reaches w w'" "out \<noteq> Return (Inr ())" "\<forall>y'. out \<noteq> Continue (Some y')"
    | (reclaim) "g = False"
        "apfst claim_outcome (ds_claim_decision st ?h (pdd_user_code prepared) (sda_version y)
           (DeviceApproving p a claim_id False now) w1) = (out, w')"
    | (store) "g = False" "record_grant st repo ?h client p a c t0 (sda_version y) w1 = (out, w')"
    | (finish) w3 t3 rc where "g = True" "current_time w1 = (t3, w3)"
        "da_user_id a = da_user_id approval" "oc_is_active client"
        "oc_client_id client = dp_client_id p"
        "ds_complete_decision st ?h (pdd_user_code prepared) (sda_version y)
           (DeviceApproved p a t3) w3 = (rc, w')"
        "out = Return (Inr ()) \<longrightarrow> rc = Inr DeviceApplied" "\<forall>y'. out \<noteq> Continue (Some y')"
    using run t state ex r1 r2 expire_decision_reaches(2) [OF ex]
    by (auto simp: approve_attempt_def Let_def
          split: if_splits prod.splits sum.splits device_atomic_result.splits)
  then show ?thesis
  proof cases
    case leave
    then show ?thesis by simp
  next
    case reclaim
    obtain rc w3 where c: "ds_claim_decision st ?h (pdd_user_code prepared) (sda_version y)
        (DeviceApproving p a claim_id False now) w1 = (rc, w3)" by fastforce
    have tr: "device_trans (granted w1) ?h (sda_state y) (DeviceApproving p a claim_id False now)"
      using reclaim(1) by (simp add: state trans_reclaim)
    show ?thesis
      using reclaim c claim_outcome_cases reaches_trans [OF r1 claim_write(1) [OF c y(1) tr]] by auto
  next
    case store
    from record_grant_ok [OF _ store(2)] y(1) state store(1) r1 reaches_trans
    show ?thesis by auto
  next
    case (finish w3 t3 rc)
    have r3: "reaches w w3" using r1 clock_reaches [OF finish(2)] by (rule reaches_trans)
    have tr: "device_trans (granted w3) ?h (sda_state y) (DeviceApproved p a t3)"
      using finish(1) by (simp add: state trans_finish)
    note wr = complete_write [OF finish(6) y(1) tr]
    have "approved_in prepared approval client w w'" if "rc = Inr DeviceApplied"
      using transits_prefix [OF r3 wr(2) [OF that]] y(2) finish(1,3-5) state
      unfolding approved_in_def by auto
    then show ?thesis using finish(7,8) r3 wr(1) reaches_trans by blast
  qed
qed

lemma approve_attempt_ok:
  assumes y: "genuine y" "same_payload prepared y"
    and run: "approve_attempt ch st repo current_time prepared approval client claim_id y w = (out, w')"
  shows "reaches w w' \<and>
    (\<forall>y'. out = Continue (Some y') \<longrightarrow> genuine y' \<and> same_payload prepared y') \<and>
    (out = Return (Inr ()) \<longrightarrow> approved_in prepared approval client w w')"
proof (cases "sda_state y")
  case (DevicePending p l n)
  then show ?thesis using approve_pending_ok [OF y(1) _ run] by blast
next
  case (DeviceApproving p a c g t)
  then show ?thesis using approve_approving_ok [OF y _ run] y(2) by auto
qed (use run clock_reaches in \<open>auto simp: approve_attempt_def Let_def split: prod.splits\<close>)

lemma approve_ok:
  assumes run: "approve ch st repo current_time now_v7 prepared approval client w = (r, w')"
    and gen: "genuine (pdd_stored prepared)"
  shows "reaches w w'" and "r = Inr () \<Longrightarrow> approved_in prepared approval client w w'"
proof -
  obtain claim_id w1 where id: "now_v7 w = (claim_id, w1)" by fastforce
  have r1: "reaches w w1" using env_steps fresh_id [OF id] by blast
  have pre: "is_none_or (\<lambda>y. genuine y \<and> same_payload prepared y) (Some (pdd_stored prepared))"
    using gen by (simp add: is_none_or_iff)
  have prefix: "approved_in prepared approval client w0 w'"
    if "reaches w0 w" and "approved_in prepared approval client w w'" for w0 w w'
    using that transits_prefix unfolding approved_in_def by blast
  have loop: "decision_loop st prepared
      (approve_attempt ch st repo current_time prepared approval client claim_id)
      DEVICE_TRANSITION_MAX_ATTEMPTS (Some (pdd_stored prepared)) w1 = (r, w')"
    using run id by (simp add: approve_def)
  have "reaches w1 w' \<and> (r = Inr () \<longrightarrow> approved_in prepared approval client w1 w')"
    by (rule decision_loop_rule [OF _ _ loop pre]) (use prefix approve_attempt_ok in blast)+
  then show "reaches w w'" and "r = Inr () \<Longrightarrow> approved_in prepared approval client w w'"
    using r1 prefix reaches_trans by blast+
qed

lemma approved_in_granted:
  assumes "approved_in prepared approval client w w'" and inv: "device_inv (entry w, granted w)"
  obtains p where "device_authorization_payload_of (sda_state (pdd_stored prepared)) = Some p"
    and "device_granted (granted w') (pdd_device_hash prepared) p approval"
proof -
  from assms(1) obtain p a c t0 t w1 w2 v v' where
    p: "device_authorization_payload_of (sda_state (pdd_stored prepared)) = Some p"
    and user: "da_user_id a = da_user_id approval"
    and run: "reaches w w1" "reaches w1 w2" "reaches w2 w'"
    and e1: "entry w1 (pdd_device_hash prepared) = Some (DeviceApproving p a c True t0, v)"
    unfolding approved_in_def transits_def by blast
  have "device_inv (entry w1, granted w1)" using device_steps_inv [OF run(1) inv] .
  then have "state_granted (granted w1) (pdd_device_hash prepared) (DeviceApproving p a c True t0)"
    using e1 unfolding device_inv_def by fastforce
  then have "device_granted (granted w1) (pdd_device_hash prepared) p a" by simp
  moreover have "granted w1 \<subseteq> granted w'"
    using reaches_grants [OF reaches_trans [OF run(2,3)]] .
  ultimately have "device_granted (granted w') (pdd_device_hash prepared) p a"
    by (rule device_granted_mono)
  then have "device_granted (granted w') (pdd_device_hash prepared) p approval"
    using user by (simp add: device_granted_def grant_matches_def)
  with p that show thesis by blast
qed

subsection \<open>Preparing a decision\<close>

lemma prepare_decision_cases:
  assumes run: "prepare_decision st current_time user_code w = (Inr (Some prepared), w')"
  obtains h w1 y w2 p now w3 where
    "ds_load_by_device_hash st h w1 = (Inr (Some y), w2)" and "current_time w2 = (now, w3)"
    and "now < dp_expires_at p" and "device_authorization_payload_of (sda_state y) = Some p"
    and "\<not> device_terminal (sda_state y)"
    and "prepared = \<lparr>pdd_user_code = user_code, pdd_device_hash = h, pdd_stored = y\<rparr>"
proof -
  obtain h w1 where res: "ds_resolve_user_code st user_code w = (Inr (Some h), w1)"
    using run by (auto simp: prepare_decision_def split: prod.splits sum.splits option.splits)
  obtain r2 w2 where load: "ds_load_by_device_hash st h w1 = (r2, w2)" by fastforce
  obtain now w3 where t: "current_time w2 = (now, w3)" by fastforce
  obtain r4 w4 where del: "ds_delete_user_code_if_matches st user_code h w2 = (r4, w4)" by fastforce
  obtain r5 w5 where del2: "ds_delete_user_code_if_matches st user_code h w3 = (r5, w5)" by fastforce
  note body = run [unfolded prepare_decision_def res prod.case sum.case option.case load Let_def t del del2]
  obtain y where y: "r2 = Inr (Some y)"
    using body by (cases r2; cases "projr r2"; cases r4) auto
  show thesis
  proof (cases "sda_state y")
    case (DevicePending p l n)
    then have "now < dp_expires_at p"
      and "prepared = \<lparr>pdd_user_code = user_code, pdd_device_hash = h, pdd_stored = y\<rparr>"
      using body y by (cases r5; simp split: if_splits)+
    then show ?thesis using DevicePending by (intro that [OF load [unfolded y] t]) simp_all
  next
    case (DeviceApproving p a c g t')
    then have "now < dp_expires_at p"
      and "prepared = \<lparr>pdd_user_code = user_code, pdd_device_hash = h, pdd_stored = y\<rparr>"
      using body y by (cases r5; simp split: if_splits)+
    then show ?thesis using DeviceApproving by (intro that [OF load [unfolded y] t]) simp_all
  qed (use body y in simp_all)
qed

lemma prepare_decision_ok:
  assumes run: "prepare_decision st current_time user_code w = (Inr (Some prepared), w')"
  shows "genuine (pdd_stored prepared)" and "pdd_user_code prepared = user_code"
  by (rule prepare_decision_cases [OF run], simp add: load_hash_genuine(2))+

subsection \<open>Polling\<close>

lemma evaluate_device_poll_trans:
  assumes "evaluate_device_poll ch s now = PollAuthorizationPending s' \<or>
      evaluate_device_poll ch s now = PollSlowDown s'"
    and "device_state_ok ok s"
  shows "device_trans gs h s s'"
  using assms saturating_add_u32_ge [of _ 1] saturating_add_u32_le [of _ 1]
  by (cases s) (auto simp: evaluate_device_poll_def Let_def trans_poll split: if_splits)

lemma evaluate_device_poll_approved:
  assumes "evaluate_device_poll ch s now = PollApproved p a"
  shows "\<exists>t. s = DeviceApproved p a t" and "now < dp_expires_at p"
  using assms by (cases s; auto simp: evaluate_device_poll_def Let_def split: if_splits)+

text \<open>What a poll that answered \<open>r\<close> observed: an approval is reported only for an
  entry that was approved, for the polling client, and unexpired at a clock reading of the call.\<close>

definition poll_observed ::
  "string \<Rightarrow> string \<Rightarrow> device_poll_failure + device_poll_commit \<Rightarrow> 'w \<Rightarrow> 'w \<Rightarrow> bool"
where
  "poll_observed d client r w w' \<longleftrightarrow>
     (\<forall>p a. r = Inr (CommitApproved p a) \<longrightarrow>
        dp_client_id p = client \<and>
        (\<exists>w1 t v w2 now w3. reaches w w1 \<and> entry w1 (hash_of d) = Some (DeviceApproved p a t, v) \<and>
           reaches w1 w2 \<and> current_time w2 = (now, w3) \<and> now < dp_expires_at p \<and> reaches w3 w'))"

lemma poll_observed_prefix:
  assumes "reaches w0 w" and "poll_observed d client r w w'"
  shows "poll_observed d client r w0 w'"
  unfolding poll_observed_def
proof (intro allI impI conjI)
  fix p a assume r: "r = Inr (CommitApproved p a)"
  then show "dp_client_id p = client" using assms(2) unfolding poll_observed_def by simp
  from r assms(2) obtain w1 t v w2 now w3 where "reaches w w1"
    and rest: "entry w1 (hash_of d) = Some (DeviceApproved p a t, v)" "reaches w1 w2"
      "current_time w2 = (now, w3)" "now < dp_expires_at p" "reaches w3 w'"
    unfolding poll_observed_def by blast
  then have "reaches w0 w1" using assms(1) reaches_trans by blast
  with rest show "\<exists>w1 t v w2 now w3. reaches w0 w1 \<and>
      entry w1 (hash_of d) = Some (DeviceApproved p a t, v) \<and> reaches w1 w2 \<and>
      current_time w2 = (now, w3) \<and> now < dp_expires_at p \<and> reaches w3 w'" by blast
qed

lemma poll_commit_write_ok:
  assumes run: "poll_commit_write st d v s' c w = (out, w')"
    and ver: "version_state v = Some s" and tr: "device_trans (granted w) (hash_of d) s s'"
    and c: "\<forall>p a. c \<noteq> CommitApproved p a"
  shows "reaches w w'" and "\<forall>p a. out \<noteq> Return (Inr (CommitApproved p a))"
proof -
  obtain r w1 where wr: "ds_replace_by_device_code st d v s' w = (r, w1)" by fastforce
  show "reaches w w'" and "\<forall>p a. out \<noteq> Return (Inr (CommitApproved p a))"
    using run wr c replace_code_write(1) [OF wr ver tr]
    by (auto simp: poll_commit_write_def split: sum.splits device_atomic_result.splits)
qed

lemma poll_attempt_ok:
  assumes run: "poll_attempt ch st current_time d client w = (out, w')"
  shows "reaches w w' \<and> (\<forall>r. out = Return r \<longrightarrow> poll_observed d client r w w')"
proof -
  obtain rl w1 where load: "ds_load_by_device_code st d w = (rl, w1)" by fastforce
  have r1: "reaches w w1" by (rule load_code_reaches [OF load])
  obtain now w2 where t: "current_time w1 = (now, w2)" by fastforce
  have r2: "reaches w w2" using r1 clock_reaches [OF t] by (rule reaches_trans)
  show ?thesis
  proof (cases "\<exists>y. rl = Inr (Some y) \<and> \<not> is_some_and (\<lambda>p. dp_client_id p \<noteq> client)
      (device_authorization_payload_of (sda_state y))")
    case False
    then show ?thesis using run load r1
      by (auto simp: poll_attempt_def poll_observed_def split: sum.splits option.splits if_splits)
  next
    case True
    then obtain y where y: "rl = Inr (Some y)" and same: "\<not> is_some_and (\<lambda>p. dp_client_id p \<noteq> client)
        (device_authorization_payload_of (sda_state y))" by blast
    from load_code [OF load] y obtain w0 where w0: "env w w0" "env w0 w1"
      and e0: "entry w0 (hash_of d) = Some (sda_state y, sda_version y)" by auto
    have ver: "version_state (sda_version y) = Some (sda_state y)" by (rule version_reads [OF e0])
    note body = run [unfolded poll_attempt_def load prod.case y sum.case option.case t if_not_P [OF same]]
    have written: ?thesis
      if "evaluate_device_poll ch (sda_state y) now = PollAuthorizationPending s' \<or>
          evaluate_device_poll ch (sda_state y) now = PollSlowDown s'"
        and w: "poll_commit_write st d (sda_version y) s' c w2 = (out, w')"
        and c: "\<forall>p a. c \<noteq> CommitApproved p a" for s' c
      using poll_commit_write_ok [OF w ver evaluate_device_poll_trans [OF that(1) version_ok [OF ver]] c]
        r2 reaches_trans unfolding poll_observed_def by blast
    show ?thesis
    proof (cases "evaluate_device_poll ch (sda_state y) now")
      case (PollApproved p a)
      note ev = evaluate_device_poll_approved [OF PollApproved]
      have "w' = w2" and "out = Return (Inr (CommitApproved p a))"
        using body PollApproved by simp_all
      moreover have "reaches w w0" and "reaches w0 w1" using w0 env_steps by blast+
      moreover from ev(1) obtain ta where "sda_state y = DeviceApproved p a ta" by blast
      ultimately show ?thesis
        using ev(2) e0 t r2 same unfolding poll_observed_def by auto
    qed (use body written r2 in \<open>auto simp: poll_observed_def\<close>)
  qed
qed

lemma poll_loop_ok:
  "poll_loop ch st current_time d client n w = (r, w') \<Longrightarrow>
     reaches w w' \<and> poll_observed d client r w w'"
proof (induction n arbitrary: w)
  case 0
  then show ?case by (auto simp: poll_observed_def)
next
  case (Suc n)
  obtain out w1 where att: "poll_attempt ch st current_time d client w = (out, w1)" by fastforce
  note step = poll_attempt_ok [OF att]
  show ?case
  proof (cases out)
    case (Return r')
    then show ?thesis using Suc.prems att step by auto
  next
    case (Continue x)
    then have "poll_loop ch st current_time d client n w1 = (r, w')" using Suc.prems att by simp
    from Suc.IH [OF this] show ?thesis using step poll_observed_prefix reaches_trans by blast
  qed
qed

subsection \<open>Creating\<close>

definition created_in :: "device_authorization_payload \<Rightarrow> string \<Rightarrow> 'w \<Rightarrow> 'w \<Rightarrow> bool" where
  "created_in p d w w' \<longleftrightarrow>
     (\<exists>w1 w2 v. reaches w w1 \<and> entry w1 (hash_of d) = None \<and> reaches w1 w2 \<and>
        entry w2 (hash_of d) = Some (DevicePending p None 0, v) \<and> reaches w2 w')"

lemma created_in_prefix: "reaches w0 w \<Longrightarrow> created_in p d w w' \<Longrightarrow> created_in p d w0 w'"
  unfolding created_in_def by (meson reaches_trans)

lemma create_reaches:
  assumes "payload_ok p" and run: "ds_create st d u (DevicePending p None 0) n w = (r, w')"
  shows "reaches w w'" and "r = Inr DeviceCreateApplied \<Longrightarrow> created_in p d w w'"
proof -
  from create [OF assms] obtain w1 w2 where env: "env w w1" "env w2 w'"
    and gr: "granted w2 = granted w1"
    and eff: "entry w2 = entry w1 \<or> (entry w1 (hash_of d) = None \<and>
        (\<exists>v. entry w2 = (entry w1)(hash_of d \<mapsto> (DevicePending p None 0, v))))"
    and app: "r = Inr DeviceCreateApplied \<longrightarrow> entry w1 (hash_of d) = None \<and>
        (\<exists>v. entry w2 = (entry w1)(hash_of d \<mapsto> (DevicePending p None 0, v)))" by blast
  have r1: "reaches w w1" and r3: "reaches w2 w'" using env env_steps by blast+
  have r2: "reaches w1 w2"
    using eff
  proof (elim disjE conjE exE)
    fix v assume "entry w1 (hash_of d) = None"
      and "entry w2 = (entry w1)(hash_of d \<mapsto> (DevicePending p None 0, v))"
    then show ?thesis unfolding gr by (simp add: r_into_rtranclp step_create)
  qed (simp add: gr)
  show "reaches w w'" using r1 r2 r3 reaches_trans by blast
  show "created_in p d w w'" if "r = Inr DeviceCreateApplied"
    using app that r1 r2 r3 unfolding created_in_def by fastforce
qed

lemma create_unique_loop_ok:
  assumes ok: "payload_ok p"
    and gd: "\<And>w d w'. gen_device w = (d, w') \<Longrightarrow> env w w'"
    and gu: "\<And>w u w'. gen_user w = (u, w') \<Longrightarrow> env w w'"
  shows "create_unique_loop st (DevicePending p None 0) ttl gen_device gen_user n w = (r, w') \<Longrightarrow>
    reaches w w' \<and> (\<forall>d u. r = Inr (d, u) \<longrightarrow> created_in p d w w')"
proof (induction n arbitrary: w)
  case 0
  then show ?case by auto
next
  case (Suc n)
  obtain d w1 where d: "gen_device w = (d, w1)" by fastforce
  obtain u w2 where u: "gen_user w1 = (u, w2)" by fastforce
  obtain rc w3 where c: "ds_create st d u (DevicePending p None 0) ttl w2 = (rc, w3)" by fastforce
  note cr = create_reaches [OF ok c]
  have r2: "reaches w w2" using gd [OF d] gu [OF u] env_steps reaches_trans by blast
  have r3: "reaches w w3" using r2 cr(1) by (rule reaches_trans)
  show ?case
  proof (cases "rc = Inr DeviceCodeCollision \<or> rc = Inr UserCodeCollision")
    case True
    then have "create_unique_loop st (DevicePending p None 0) ttl gen_device gen_user n w3 = (r, w')"
      using Suc.prems d u c by auto
    from Suc.IH [OF this] show ?thesis using r3 created_in_prefix reaches_trans by blast
  next
    case False
    then have "w' = w3" and "\<forall>d' u'. r = Inr (d', u') \<longrightarrow> d' = d \<and> rc = Inr DeviceCreateApplied"
      using Suc.prems d u c by (auto split: sum.splits device_create_result.splits)
    then show ?thesis using r3 cr(2) created_in_prefix [OF r2] by auto
  qed
qed

end

end
