(* ===== verification/Device_Valkey.thy ===== *)
theory Device_Valkey
  imports Device_Guarantee Valkey_Keys
begin

text \<open>
  The Valkey adapter of the device store
  (\<open>src/crates/state-store-valkey/src/device.rs\<close>): the Lua scripts as functions on the
  server's state, the adapter's operations around them, and the proof that the adapter fulfils the
  contract of the device service on every server that fulfils \<open>valkey_server\<close>.
\<close>

subsection \<open>Scripts\<close>

definition CREATE_DEVICE_SCRIPT ::
  "'w valkey \<Rightarrow> string \<Rightarrow> string \<Rightarrow> string \<Rightarrow> string \<Rightarrow> nat \<Rightarrow> 'w \<Rightarrow> vk_reply \<times> 'w"
where
  "CREATE_DEVICE_SCRIPT vk device_key user_key raw device_hash ttl w =
     (if vk_exists vk device_key w then (ReplyBulk ''device_collision'', w)
      else if vk_exists vk user_key w then (ReplyBulk ''user_collision'', w)
      else case vk_set_ex vk device_key raw ttl w of
        None \<Rightarrow> (ReplyError ''ERR invalid expire time'', w)
      | Some w1 \<Rightarrow>
         (case vk_set_ex vk user_key device_hash ttl w1 of
            None \<Rightarrow> (ReplyError ''ERR invalid expire time'', w1)
          | Some w2 \<Rightarrow> (ReplyBulk ''applied'', w2)))"

definition SNAPSHOT_DEVICE_SCRIPT :: "'w valkey \<Rightarrow> string \<Rightarrow> 'w \<Rightarrow> vk_reply \<times> 'w" where
  "SNAPSHOT_DEVICE_SCRIPT vk key w =
     (case vk_get vk key w of
        None \<Rightarrow> (ReplyNil, w)
      | Some v \<Rightarrow> (ReplyArray [ReplyBulk v, ReplyInt (vk_pexpiretime vk key w)], w))"

text \<open>\<open>now\<close> in the scripts: the server's clock in milliseconds.\<close>

definition script_now_ms :: "'w valkey \<Rightarrow> 'w \<Rightarrow> int" where
  "script_now_ms vk w = (case vk_time vk w of (s, us) \<Rightarrow> int s * 1000 + int (us div 1000))"

definition COMPARE_SET_DEVICE_SCRIPT ::
  "'w valkey \<Rightarrow> string \<Rightarrow> (string \<times> string) option \<Rightarrow> string \<Rightarrow> string \<Rightarrow> 'w \<Rightarrow> vk_reply \<times> 'w"
where
  "COMPARE_SET_DEVICE_SCRIPT vk key mapping expected replacement w =
     (if vk_get vk key w \<noteq> Some expected then (ReplyBulk ''conflict'', w)
      else if is_some_and (\<lambda>(user_key, device_hash). vk_get vk user_key w \<noteq> Some device_hash) mapping
      then (ReplyBulk ''conflict'', w)
      else
        let deadline = vk_pexpiretime vk key w in
        if deadline = -2 then (ReplyBulk ''deadline_elapsed'', w)
        else if deadline = -1 then (ReplyBulk ''invalid_deadline'', w)
        else if script_now_ms vk w \<ge> deadline
        then (ReplyBulk ''deadline_elapsed'', vk_del vk key w)
        else (ReplyBulk ''applied'',
              vk_pexpireat vk key deadline (vk_set vk key replacement w)))"

definition COMPLETE_DEVICE_DECISION_SCRIPT ::
  "'w valkey \<Rightarrow> string \<Rightarrow> string \<Rightarrow> string \<Rightarrow> string \<Rightarrow> string \<Rightarrow> 'w \<Rightarrow> vk_reply \<times> 'w"
where
  "COMPLETE_DEVICE_DECISION_SCRIPT vk key user_key expected replacement device_hash w =
     (if vk_get vk key w \<noteq> Some expected then (ReplyBulk ''conflict'', w)
      else if vk_get vk user_key w \<noteq> Some device_hash then (ReplyBulk ''conflict'', w)
      else
        let deadline = vk_pexpiretime vk key w in
        if deadline = -2 then (ReplyBulk ''deadline_elapsed'', vk_del vk user_key w)
        else if deadline = -1 then (ReplyBulk ''invalid_deadline'', w)
        else if script_now_ms vk w \<ge> deadline
        then (ReplyBulk ''deadline_elapsed'', vk_del vk user_key (vk_del vk key w))
        else (ReplyBulk ''applied'',
              vk_del vk user_key (vk_pexpireat vk key deadline (vk_set vk key replacement w))))"

definition DELETE_USER_CODE_IF_MATCHES_SCRIPT ::
  "'w valkey \<Rightarrow> string \<Rightarrow> string \<Rightarrow> 'w \<Rightarrow> vk_reply \<times> 'w"
where
  "DELETE_USER_CODE_IF_MATCHES_SCRIPT vk user_key device_hash w =
     (if vk_get vk user_key w \<noteq> Some device_hash then (ReplyBulk ''conflict'', w)
      else (ReplyBulk ''applied'', vk_del vk user_key w))"

subsection \<open>Operations\<close>

fun device_port_error :: "vk_error_kind \<Rightarrow> device_state_port_error" where
  "device_port_error VkTimeout = DeviceUnavailable"
| "device_port_error VkUnavailable = DeviceUnavailable"
| "device_port_error VkProtocol = DeviceCorruptData"
| "device_port_error VkCorruptData = DeviceCorruptData"
| "device_port_error VkUnexpectedResult = DeviceUnexpected"

definition device_serialize_state ::
  "device_authorization_state codec \<Rightarrow> device_authorization_state \<Rightarrow> vk_error_kind + string"
where
  "device_serialize_state cd state = ok_or VkProtocol (encode cd state)"

definition device_parse_atomic_result :: "string \<Rightarrow> vk_error_kind + device_atomic_result" where
  "device_parse_atomic_result reply =
     (if reply = ''applied'' then Inr DeviceApplied
      else if reply = ''conflict'' then Inr DeviceConflict
      else if reply = ''deadline_elapsed'' then Inr DeviceDeadlineElapsed
      else if reply = ''invalid_deadline'' then Inl VkProtocol
      else Inl VkUnexpectedResult)"

definition vk_device_create ::
  "'w valkey \<Rightarrow> device_authorization_state codec \<Rightarrow> (string \<Rightarrow> string) \<Rightarrow> string \<Rightarrow>
     string \<Rightarrow> string \<Rightarrow> device_authorization_state \<Rightarrow> nat \<Rightarrow>
     ('w, vk_error_kind, device_create_result) io"
where
  "vk_device_create vk cd digest ns device_code user_code state ttl w =
     (case device_serialize_state cd state of
        Inl e \<Rightarrow> (Inl e, w)
      | Inr raw \<Rightarrow>
          let device_hash = digest device_code in
          case eval_string vk (CREATE_DEVICE_SCRIPT vk
                 (state_key ns (key_device_code_hash device_hash))
                 (state_key ns (key_device_user_code digest user_code))
                 raw device_hash ttl) w of
            (Inl e, w1) \<Rightarrow> (Inl e, w1)
          | (Inr reply, w1) \<Rightarrow>
              (if reply = ''applied'' then Inr DeviceCreateApplied
               else if reply = ''device_collision'' then Inr DeviceCodeCollision
               else if reply = ''user_collision'' then Inr UserCodeCollision
               else Inl VkUnexpectedResult, w1))"

definition vk_device_load_snapshot ::
  "'w valkey \<Rightarrow> device_authorization_state codec \<Rightarrow> string \<Rightarrow> string \<Rightarrow>
     ('w, vk_error_kind, string stored_device_authorization option) io"
where
  "vk_device_load_snapshot vk cd ns key w =
     (case vk_send vk (SNAPSHOT_DEVICE_SCRIPT vk (state_key ns key)) w of
        (Inl e, w1) \<Rightarrow> (Inl (from_fred e), w1)
      | (Inr reply, w1) \<Rightarrow>
     (case vk_to_snapshot vk reply of
        Inl e \<Rightarrow> (Inl (from_fred e), w1)
      | Inr None \<Rightarrow> (Inr None, w1)
      | Inr (Some (raw, deadline)) \<Rightarrow>
          if deadline = -2 then (Inr None, w1)
          else if deadline = -1 then (Inl VkProtocol, w1)
          else case decode cd raw of
            None \<Rightarrow> (Inl VkProtocol, w1)
          | Some value \<Rightarrow> (Inr (Some \<lparr>sda_state = value, sda_version = raw\<rparr>), w1)))"

definition vk_device_replace_snapshot ::
  "'w valkey \<Rightarrow> (string \<Rightarrow> string) \<Rightarrow> string \<Rightarrow> string \<Rightarrow> string \<Rightarrow> string \<Rightarrow>
     (string \<times> string) option \<Rightarrow> ('w, vk_error_kind, device_atomic_result) io"
where
  "vk_device_replace_snapshot vk digest ns key expected replacement user_code_mapping w =
     (case eval_string vk (COMPARE_SET_DEVICE_SCRIPT vk (state_key ns key)
             (map_option (\<lambda>(user_code, device_hash).
                (state_key ns (key_device_user_code digest user_code), device_hash))
                user_code_mapping)
             expected replacement) w of
        (Inl e, w1) \<Rightarrow> (Inl e, w1)
      | (Inr reply, w1) \<Rightarrow> (device_parse_atomic_result reply, w1))"

definition vk_device_complete_decision ::
  "'w valkey \<Rightarrow> device_authorization_state codec \<Rightarrow> (string \<Rightarrow> string) \<Rightarrow> string \<Rightarrow>
     string \<Rightarrow> string \<Rightarrow> string \<Rightarrow> device_authorization_state \<Rightarrow>
     ('w, vk_error_kind, device_atomic_result) io"
where
  "vk_device_complete_decision vk cd digest ns device_hash user_code expected replacement w =
     (case device_serialize_state cd replacement of
        Inl e \<Rightarrow> (Inl e, w)
      | Inr raw \<Rightarrow>
     (case eval_string vk (COMPLETE_DEVICE_DECISION_SCRIPT vk
             (state_key ns (key_device_code_hash device_hash))
             (state_key ns (key_device_user_code digest user_code))
             expected raw device_hash) w of
        (Inl e, w1) \<Rightarrow> (Inl e, w1)
      | (Inr reply, w1) \<Rightarrow> (device_parse_atomic_result reply, w1)))"

definition vk_device_replace ::
  "'w valkey \<Rightarrow> device_authorization_state codec \<Rightarrow> (string \<Rightarrow> string) \<Rightarrow> string \<Rightarrow>
     string \<Rightarrow> string \<Rightarrow> device_authorization_state \<Rightarrow> (string \<times> string) option \<Rightarrow>
     ('w, device_state_port_error, device_atomic_result) io"
where
  "vk_device_replace vk cd digest ns key version replacement user_code_mapping w =
     (case device_serialize_state cd replacement of
        Inl e \<Rightarrow> (Inl (device_port_error e), w)
      | Inr raw \<Rightarrow>
          apfst (map_err device_port_error)
            (vk_device_replace_snapshot vk digest ns key version raw user_code_mapping w))"

definition vk_device_replace_by_hash ::
  "'w valkey \<Rightarrow> device_authorization_state codec \<Rightarrow> (string \<Rightarrow> string) \<Rightarrow> string \<Rightarrow>
     string \<Rightarrow> string \<Rightarrow> device_authorization_state \<Rightarrow>
     ('w, device_state_port_error, string device_state_replacement) io"
where
  "vk_device_replace_by_hash vk cd digest ns device_hash version replacement w =
     (case device_serialize_state cd replacement of
        Inl e \<Rightarrow> (Inl (device_port_error e), w)
      | Inr raw \<Rightarrow>
     (case vk_device_replace_snapshot vk digest ns (key_device_code_hash device_hash) version raw
             None w of
        (Inl e, w1) \<Rightarrow> (Inl (device_port_error e), w1)
      | (Inr DeviceApplied, w1) \<Rightarrow> (Inr (DeviceReplaced raw), w1)
      | (Inr DeviceConflict, w1) \<Rightarrow> (Inr DeviceReplaceConflict, w1)
      | (Inr DeviceDeadlineElapsed, w1) \<Rightarrow> (Inr DeviceReplaceDeadlineElapsed, w1)))"

definition vk_device_delete_user_code ::
  "'w valkey \<Rightarrow> (string \<Rightarrow> string) \<Rightarrow> string \<Rightarrow> string \<Rightarrow> string \<Rightarrow>
     ('w, device_state_port_error, device_atomic_result) io"
where
  "vk_device_delete_user_code vk digest ns user_code device_hash w =
     (case eval_string vk (DELETE_USER_CODE_IF_MATCHES_SCRIPT vk
             (state_key ns (key_device_user_code digest user_code)) device_hash) w of
        (Inl e, w1) \<Rightarrow> (Inl (device_port_error e), w1)
      | (Inr reply, w1) \<Rightarrow> (map_err device_port_error (device_parse_atomic_result reply), w1))"

definition valkey_device_store ::
  "'w valkey \<Rightarrow> device_authorization_state codec \<Rightarrow> (string \<Rightarrow> string) \<Rightarrow> string \<Rightarrow>
     ('w, string) device_state_store"
where
  "valkey_device_store vk cd digest ns =
     \<lparr>ds_create = (\<lambda>device_code user_code state ttl w.
        apfst (map_err device_port_error)
          (vk_device_create vk cd digest ns device_code user_code state ttl w)),
      ds_load_by_device_code = (\<lambda>device_code w.
        apfst (map_err device_port_error)
          (vk_device_load_snapshot vk cd ns (key_device_code digest device_code) w)),
      ds_load_by_device_hash = (\<lambda>device_hash w.
        apfst (map_err device_port_error)
          (vk_device_load_snapshot vk cd ns (key_device_code_hash device_hash) w)),
      ds_resolve_user_code = (\<lambda>user_code w.
        apfst (map_err device_port_error)
          (command_get vk ns (key_device_user_code digest user_code) w)),
      ds_replace_by_device_code = (\<lambda>device_code version replacement.
        vk_device_replace vk cd digest ns (key_device_code digest device_code) version
          replacement None),
      ds_replace_by_device_hash = vk_device_replace_by_hash vk cd digest ns,
      ds_claim_decision = (\<lambda>device_hash user_code version replacement.
        vk_device_replace vk cd digest ns (key_device_code_hash device_hash) version
          replacement (Some (user_code, device_hash))),
      ds_complete_decision = (\<lambda>device_hash user_code version replacement w.
        apfst (map_err device_port_error)
          (vk_device_complete_decision vk cd digest ns device_hash user_code version
             replacement w)),
      ds_delete_user_code_if_matches = vk_device_delete_user_code vk digest ns\<rparr>"

subsection \<open>The adapter fulfils the contract\<close>

text \<open>The device entries in a view of the server: values under the device keys that carry a
  deadline and parse. The version of an entry is the stored text itself.\<close>

definition device_entry ::
  "('w \<Rightarrow> string \<Rightarrow> (string \<times> int option) option) \<Rightarrow> device_authorization_state codec \<Rightarrow> string \<Rightarrow>
     'w \<Rightarrow> string \<Rightarrow> (device_authorization_state \<times> string) option"
where
  "device_entry view cd ns w h =
     (case view w (state_key ns (key_device_code_hash h)) of
        Some (raw, Some _) \<Rightarrow> map_option (\<lambda>s. (s, raw)) (decode cd raw)
      | _ \<Rightarrow> None)"

locale device_valkey = valkey_server vk view clock_ms env
  for vk :: "'w valkey"
    and view :: "'w \<Rightarrow> string \<Rightarrow> (string \<times> int option) option"
    and clock_ms :: "'w \<Rightarrow> int"
    and env :: "'w \<Rightarrow> 'w \<Rightarrow> bool" +
  fixes cd :: "device_authorization_state codec"
    and payload_ok :: "device_authorization_payload \<Rightarrow> bool"
    and digest :: "string \<Rightarrow> string"
    and ns :: string
    and granted :: "'w \<Rightarrow> device_grant_write set"
    and repo :: "'w device_grant_repository"
    and current_time :: "'w \<Rightarrow> time \<times> 'w"
    and now_v7 :: "'w \<Rightarrow> uuid \<times> 'w"
  assumes state_codec: "codec_for (device_state_ok payload_ok) cd"
    and others_follow: "env w w' \<Longrightarrow>
      device_step\<^sup>*\<^sup>* (device_entry view cd ns w, granted w) (device_entry view cd ns w', granted w')"
    and clock_step: "current_time w = (t, w') \<Longrightarrow> env w w'"
    and id_step: "now_v7 w = (c, w') \<Longrightarrow> env w w'"
    and repository: "dr_upsert_grant repo g w = (rg, w') \<Longrightarrow>
      device_step\<^sup>*\<^sup>* (device_entry view cd ns w, granted w) (device_entry view cd ns w', granted w') \<and>
      (rg = Inr () \<longrightarrow> g \<in> granted w')"
    and grants_kept: "granted (vk_set vk k v w) = granted w" "granted (vk_del vk k w) = granted w"
      "granted (vk_pexpireat vk k d w) = granted w"
      "vk_set_ex vk k v n w = Some w' \<Longrightarrow> granted w' = granted w"
begin

abbreviation entries :: "'w \<Rightarrow> string \<Rightarrow> (device_authorization_state \<times> string) option" where
  "entries \<equiv> device_entry view cd ns"

abbreviation dkey :: "string \<Rightarrow> string" where
  "dkey h \<equiv> state_key ns (key_device_code_hash h)"

abbreviation ukey :: "string \<Rightarrow> string" where
  "ukey u \<equiv> state_key ns (key_device_user_code digest u)"

lemma now_ms: "script_now_ms vk w = clock_ms w"
  by (auto simp: script_now_ms_def time split: prod.splits)

lemma entries_ukey: "view w' = (view w)(ukey u := x) \<Longrightarrow> entries w' = entries w"
  by (auto simp: device_entry_def fun_eq_iff)

lemma entries_drop: "view w' = (view w)(dkey h := None) \<Longrightarrow> entries w' = (entries w)(h := None)"
  by (auto simp: device_entry_def fun_eq_iff)

lemma entries_put:
  "view w' = (view w)(dkey h \<mapsto> (raw, Some d)) \<Longrightarrow> decode cd raw = Some s \<Longrightarrow>
     entries w' = (entries w)(h \<mapsto> (s, raw))"
  by (auto simp: device_entry_def fun_eq_iff)

lemma view_live:
  assumes "vk_get vk k w = Some v" and "vk_pexpiretime vk k w \<noteq> -2" and "vk_pexpiretime vk k w \<noteq> -1"
  shows "view w k = Some (v, Some (vk_pexpiretime vk k w))"
  using assms by (auto simp: get pexpiretime split: option.splits)

text \<open>What a compare-and-swap script did and answered.\<close>

definition cas_result ::
  "string \<Rightarrow> string \<Rightarrow> device_authorization_state \<Rightarrow> string \<Rightarrow> vk_reply \<Rightarrow> 'w \<Rightarrow> 'w \<Rightarrow> bool"
where
  "cas_result h v s raw x w w' \<longleftrightarrow>
     granted w' = granted w \<and> cas_effect (entries w) h v s (entries w') \<and>
     (\<exists>reply. x = ReplyBulk reply \<and>
        (reply = ''applied'' \<longrightarrow> cas_written (entries w) h v s raw (entries w')))"

lemma cas_result_other:
  assumes "granted w' = granted w" and "entries w' = entries w \<or> entries w' = (entries w)(h := None)"
    and "reply \<noteq> ''applied''"
  shows "cas_result h v s raw (ReplyBulk reply) w w'"
  using assms unfolding cas_result_def cas_effect_def by blast

lemma cas_result_put:
  assumes "vk_get vk (dkey h) w = Some v" and "vk_pexpiretime vk (dkey h) w \<noteq> -2"
    and "vk_pexpiretime vk (dkey h) w \<noteq> -1"
    and ver: "decode cd v = Some s0" and "granted w' = granted w"
    and put: "entries w' = (entries w)(h \<mapsto> (s, raw))"
  shows "cas_result h v s raw (ReplyBulk ''applied'') w w'"
proof -
  have "entries w h = Some (s0, v)"
    using view_live [OF assms(1-3)] ver by (simp add: device_entry_def)
  then have "cas_written (entries w) h v s raw (entries w')"
    using put by (simp add: cas_written_def)
  then show ?thesis unfolding cas_result_def cas_effect_def using assms(5) by blast
qed

lemma put_entries:
  assumes "clock_ms w < d" and "decode cd raw = Some s"
  shows "entries (vk_pexpireat vk (dkey h) d (vk_set vk (dkey h) raw w)) =
    (entries w)(h \<mapsto> (s, raw))"
  by (rule entries_put [OF set_keeping_deadline [OF assms(1)] assms(2)])

lemma del_entries:
  "entries (vk_del vk (dkey h) w) = (entries w)(h := None)" "entries (vk_del vk (ukey u) w) = entries w"
  by (rule entries_drop entries_ukey, rule del)+

lemma compare_set_effect:
  assumes run: "COMPARE_SET_DEVICE_SCRIPT vk (dkey h) mapping v raw w = (x, w')"
    and ver: "decode cd v = Some s0" and raw: "decode cd raw = Some s"
  shows "cas_result h v s raw x w w'"
proof -
  let ?d = "vk_pexpiretime vk (dkey h) w"
  note body = run [unfolded COMPARE_SET_DEVICE_SCRIPT_def Let_def now_ms]
  show ?thesis
  proof (cases "vk_get vk (dkey h) w = Some v \<and> \<not> is_some_and (\<lambda>(user_key, device_hash).
      vk_get vk user_key w \<noteq> Some device_hash) mapping \<and> ?d \<noteq> -2 \<and> ?d \<noteq> -1")
    case True
    show ?thesis
    proof (cases "clock_ms w < ?d")
      case True': True
      have "x = ReplyBulk ''applied''"
        and w': "w' = vk_pexpireat vk (dkey h) ?d (vk_set vk (dkey h) raw w)"
        using body True True' by simp_all
      then show ?thesis
        using True ver put_entries [OF True' raw] by (auto intro!: cas_result_put simp: grants_kept)
    next
      case False
      then have "x = ReplyBulk ''deadline_elapsed''" and "w' = vk_del vk (dkey h) w"
        using body True by simp_all
      then show ?thesis by (simp add: cas_result_other grants_kept del_entries)
    qed
  next
    case False
    then have "w' = w" and "x \<in> {ReplyBulk ''conflict'', ReplyBulk ''deadline_elapsed'',
        ReplyBulk ''invalid_deadline''}"
      using body by (simp_all split: if_split_asm)
    then show ?thesis using cas_result_other [of w w] by auto
  qed
qed

lemma complete_effect:
  assumes run: "COMPLETE_DEVICE_DECISION_SCRIPT vk (dkey h) (ukey u) v raw h' w = (x, w')"
    and ver: "decode cd v = Some s0" and raw: "decode cd raw = Some s"
  shows "cas_result h v s raw x w w'"
proof -
  let ?d = "vk_pexpiretime vk (dkey h) w"
  note body = run [unfolded COMPLETE_DEVICE_DECISION_SCRIPT_def Let_def now_ms]
  show ?thesis
  proof (cases "vk_get vk (dkey h) w = Some v \<and> vk_get vk (ukey u) w = Some h' \<and> ?d \<noteq> -2 \<and> ?d \<noteq> -1")
    case True
    show ?thesis
    proof (cases "clock_ms w < ?d")
      case True': True
      have "x = ReplyBulk ''applied''"
        and w': "w' = vk_del vk (ukey u) (vk_pexpireat vk (dkey h) ?d (vk_set vk (dkey h) raw w))"
        using body True True' by simp_all
      then show ?thesis
        using True ver put_entries [OF True' raw]
        by (auto intro!: cas_result_put simp: grants_kept del_entries)
    next
      case False
      then have "x = ReplyBulk ''deadline_elapsed''"
        and "w' = vk_del vk (ukey u) (vk_del vk (dkey h) w)"
        using body True by simp_all
      then show ?thesis by (simp add: cas_result_other grants_kept del_entries)
    qed
  next
    case False
    then have "w' = w \<or> w' = vk_del vk (ukey u) w" and "x \<in> {ReplyBulk ''conflict'',
        ReplyBulk ''deadline_elapsed'', ReplyBulk ''invalid_deadline''}"
      using body by (simp_all split: if_split_asm)
    then show ?thesis using cas_result_other [of w' w] by (auto simp: grants_kept del_entries)
  qed
qed

text \<open>From the scripts to the operations of the adapter.\<close>

definition cas_call ::
  "string \<Rightarrow> string \<Rightarrow> device_authorization_state \<Rightarrow> string \<Rightarrow> bool \<Rightarrow> 'w \<Rightarrow> 'w \<Rightarrow> bool"
where
  "cas_call h v s raw applied w w' \<longleftrightarrow>
     (\<exists>w1 w2. env w w1 \<and> env w2 w' \<and> granted w2 = granted w1 \<and>
        cas_effect (entries w1) h v s (entries w2) \<and>
        (applied \<longrightarrow> cas_written (entries w1) h v s raw (entries w2)))"

lemma eval_cas_call:
  assumes run: "eval_string vk script w = (r, w')"
    and effect: "\<And>w1 x w2. script w1 = (x, w2) \<Longrightarrow> cas_result h v s raw x w1 w2"
  shows "cas_call h v s raw (r = Inr ''applied'') w w'"
  using run
proof (cases rule: eval_string_runs)
  case (ran w1 w2 x)
  from effect [OF ran(2)] obtain reply where "granted w2 = granted w1"
    and "cas_effect (entries w1) h v s (entries w2)" and x: "x = ReplyBulk reply"
    and "reply = ''applied'' \<longrightarrow> cas_written (entries w1) h v s raw (entries w2)"
    unfolding cas_result_def by blast
  moreover have "reply = ''applied''" if "r = Inr ''applied''" using ran(4) [OF x] that by auto
  ultimately show ?thesis using ran(1,3) unfolding cas_call_def by blast
next
  case (not_run e)
  then have "cas_call h v s raw False w w'"
    unfolding cas_call_def cas_effect_def using env_refl by blast
  then show ?thesis using not_run by simp
qed

lemma parse_atomic_applied [simp]:
  "device_parse_atomic_result reply = Inr DeviceApplied \<longleftrightarrow> reply = ''applied''"
  by (simp add: device_parse_atomic_result_def)

lemma cas_call_weaken: "cas_call h v s raw a w w' \<Longrightarrow> (b \<Longrightarrow> a) \<Longrightarrow> cas_call h v s raw b w w'"
  unfolding cas_call_def by blast

lemma no_call: "cas_call h v s raw False w w"
  unfolding cas_call_def cas_effect_def using env_refl by blast

lemma serialize_ok:
  assumes "device_serialize_state cd s = Inr raw" and "device_state_ok payload_ok s"
  shows "decode cd raw = Some s"
  using assms codec_for_round [OF state_codec] by (cases "encode cd s") (auto simp: device_serialize_state_def)

lemma replace_snapshot_call:
  assumes run: "vk_device_replace_snapshot vk digest ns (key_device_code_hash h) v raw m w = (r, w')"
    and ver: "decode cd v = Some s0" and raw: "decode cd raw = Some s"
  shows "cas_call h v s raw (r = Inr DeviceApplied) w w'"
proof -
  obtain re w1 where ev: "eval_string vk (COMPARE_SET_DEVICE_SCRIPT vk (dkey h)
      (map_option (\<lambda>(user_code, device_hash). (ukey user_code, device_hash)) m) v raw) w = (re, w1)"
    by fastforce
  have call: "cas_call h v s raw (re = Inr ''applied'') w w1"
    using ev compare_set_effect [OF _ ver raw] by (rule eval_cas_call)
  have w1: "w1 = w'" and "r = Inr DeviceApplied \<Longrightarrow> re = Inr ''applied''"
    using run ev by (auto simp: vk_device_replace_snapshot_def split: sum.splits)
  then show ?thesis using cas_call_weaken [OF call] by simp
qed

lemma replace_call:
  assumes run: "vk_device_replace vk cd digest ns (key_device_code_hash h) v s m w = (r, w')"
    and ver: "decode cd v = Some s0" and ok: "device_state_ok payload_ok s"
  shows "\<exists>raw. cas_call h v s raw (r = Inr DeviceApplied) w w'"
proof (cases "device_serialize_state cd s")
  case (Inl e)
  then show ?thesis using run no_call by (auto simp: vk_device_replace_def)
next
  case (Inr raw)
  obtain r1 w1 where rs: "vk_device_replace_snapshot vk digest ns (key_device_code_hash h) v raw m w = (r1, w1)"
    by fastforce
  have "w1 = w'" and "r = map_err device_port_error r1"
    using run Inr rs by (auto simp: vk_device_replace_def)
  with replace_snapshot_call [OF rs ver serialize_ok [OF Inr ok]]
  have "cas_call h v s raw (r = Inr DeviceApplied) w w'" by simp
  then show ?thesis ..
qed

lemma replace_by_hash_call:
  assumes run: "vk_device_replace_by_hash vk cd digest ns h v s w = (r, w')"
    and ver: "decode cd v = Some s0" and ok: "device_state_ok payload_ok s"
  shows "\<exists>raw. cas_call h v s raw (\<exists>v'. r = Inr (DeviceReplaced v')) w w' \<and>
    (\<forall>v'. r = Inr (DeviceReplaced v') \<longrightarrow> v' = raw)"
proof (cases "device_serialize_state cd s")
  case (Inl e)
  then show ?thesis using run no_call by (auto simp: vk_device_replace_by_hash_def)
next
  case (Inr raw)
  obtain r1 w1 where rs: "vk_device_replace_snapshot vk digest ns (key_device_code_hash h) v raw None w = (r1, w1)"
    by fastforce
  have w1: "w1 = w'" and imp: "\<forall>v'. r = Inr (DeviceReplaced v') \<longrightarrow> r1 = Inr DeviceApplied \<and> v' = raw"
    using run Inr rs
    by (auto simp: vk_device_replace_by_hash_def split: sum.splits device_atomic_result.splits)
  have "cas_call h v s raw (\<exists>v'. r = Inr (DeviceReplaced v')) w w'"
    using imp unfolding w1 [symmetric]
    by (intro cas_call_weaken [OF replace_snapshot_call [OF rs ver serialize_ok [OF Inr ok]]]) auto
  with imp show ?thesis by (intro exI [of _ raw]) simp
qed

lemma complete_call:
  assumes run: "vk_device_complete_decision vk cd digest ns h u v s w = (r, w')"
    and ver: "decode cd v = Some s0" and ok: "device_state_ok payload_ok s"
  shows "\<exists>raw. cas_call h v s raw (r = Inr DeviceApplied) w w'"
proof (cases "device_serialize_state cd s")
  case (Inl e)
  then show ?thesis using run no_call by (auto simp: vk_device_complete_decision_def)
next
  case (Inr raw)
  obtain re w1 where ev: "eval_string vk (COMPLETE_DEVICE_DECISION_SCRIPT vk (dkey h) (ukey u) v raw h) w = (re, w1)"
    by fastforce
  have call: "cas_call h v s raw (re = Inr ''applied'') w w1"
    using ev complete_effect [OF _ ver serialize_ok [OF Inr ok]] by (rule eval_cas_call)
  have "w1 = w'" and "r = Inr DeviceApplied \<Longrightarrow> re = Inr ''applied''"
    using run Inr ev by (auto simp: vk_device_complete_decision_def split: sum.splits)
  then have "cas_call h v s raw (r = Inr DeviceApplied) w w'"
    using cas_call_weaken [OF call] by simp
  then show ?thesis ..
qed

lemma load_snapshot_call:
  assumes run: "vk_device_load_snapshot vk cd ns (key_device_code_hash h) w = (r, w')"
  shows "\<exists>w1. env w w1 \<and> env w1 w' \<and>
    (\<forall>x. r = Inr x \<longrightarrow> entries w1 h = map_option (\<lambda>y. (sda_state y, sda_version y)) x)"
proof -
  obtain rs w0 where sn: "vk_send vk (SNAPSHOT_DEVICE_SCRIPT vk (dkey h)) w = (rs, w0)" by fastforce
  have w0: "w0 = w'"
    using run sn by (auto simp: vk_device_load_snapshot_def split: sum.splits option.splits if_splits)
  obtain w1 where w1: "env w w1" "env w1 w'"
    and x: "\<And>x. rs = Inr x \<Longrightarrow> SNAPSHOT_DEVICE_SCRIPT vk (dkey h) w1 = (x, w1)"
    by (rule send_reads [OF sn [unfolded w0]])
       (auto simp: SNAPSHOT_DEVICE_SCRIPT_def split: option.splits)
  have "entries w1 h = map_option (\<lambda>y. (sda_state y, sda_version y)) y" if r: "r = Inr y" for y
  proof -
    obtain x0 where rs: "rs = Inr x0"
      using run sn r by (cases rs) (auto simp: vk_device_load_snapshot_def)
    note snap = x [OF rs, unfolded SNAPSHOT_DEVICE_SCRIPT_def get pexpiretime]
    note body = run [unfolded vk_device_load_snapshot_def sn rs prod.case sum.case r]
    show ?thesis
    proof (cases "view w1 (dkey h)")
      case None
      then show ?thesis using snap body by (auto simp: to_snapshot device_entry_def)
    next
      case (Some z)
      obtain raw d where z: "z = (raw, d)" by fastforce
      show ?thesis
        using snap body Some z deadline_nonneg [of w1 "dkey h" raw]
        by (cases d) (auto simp: to_snapshot device_entry_def split: option.splits if_splits)
    qed
  qed
  with w1 show ?thesis by blast
qed

lemma create_effect:
  assumes run: "CREATE_DEVICE_SCRIPT vk (dkey h) (ukey u) raw h' n w = (x, w')"
    and raw: "decode cd raw = Some s"
  shows "granted w' = granted w \<and>
    (entries w' = entries w \<or> entries w h = None \<and> entries w' = (entries w)(h \<mapsto> (s, raw))) \<and>
    (x = ReplyBulk ''applied'' \<longrightarrow> entries w h = None \<and> entries w' = (entries w)(h \<mapsto> (s, raw))) \<and>
    (\<exists>s. x = ReplyBulk s \<or> x = ReplyError s)"
proof (cases "vk_exists vk (dkey h) w \<or> vk_exists vk (ukey u) w")
  case True
  then show ?thesis using run by (auto simp: CREATE_DEVICE_SCRIPT_def to_string split: if_splits)
next
  case False
  then have free: "entries w h = None" by (cases "view w (dkey h)") (simp_all add: exists device_entry_def)
  show ?thesis
  proof (cases "vk_set_ex vk (dkey h) raw n w")
    case None
    then show ?thesis using run False by (auto simp: CREATE_DEVICE_SCRIPT_def)
  next
    case (Some w1)
    have e1: "entries w1 = (entries w)(h \<mapsto> (s, raw))"
      using set_ex [OF Some] raw by (intro entries_put) auto
    have g1: "granted w1 = granted w" by (rule grants_kept(4) [OF Some])
    show ?thesis
    proof (cases "vk_set_ex vk (ukey u) h' n w1")
      case None
      then show ?thesis using run False Some e1 g1 free by (auto simp: CREATE_DEVICE_SCRIPT_def)
    next
      case Some': (Some w2)
      have "entries w2 = entries w1" using set_ex [OF Some'] by (intro entries_ukey) auto
      then show ?thesis
        using run False Some Some' e1 g1 free grants_kept(4) [OF Some']
        by (auto simp: CREATE_DEVICE_SCRIPT_def)
    qed
  qed
qed

lemma create_call:
  assumes run: "vk_device_create vk cd digest ns d u s n w = (r, w')"
    and ok: "device_state_ok payload_ok s"
  shows "\<exists>w1 w2. env w w1 \<and> env w2 w' \<and> granted w2 = granted w1 \<and>
    (entries w2 = entries w1 \<or> (entries w1 (digest d) = None \<and>
       (\<exists>v. entries w2 = (entries w1)(digest d \<mapsto> (s, v))))) \<and>
    (r = Inr DeviceCreateApplied \<longrightarrow> entries w1 (digest d) = None \<and>
       (\<exists>v. entries w2 = (entries w1)(digest d \<mapsto> (s, v))))"
proof (cases "device_serialize_state cd s")
  case (Inl e)
  then show ?thesis using run env_refl by (auto simp: vk_device_create_def)
next
  case (Inr raw)
  obtain re w0 where ev: "eval_string vk (CREATE_DEVICE_SCRIPT vk (dkey (digest d)) (ukey u) raw
      (digest d) n) w = (re, w0)" by fastforce
  have w0: "w0 = w'" and app: "r = Inr DeviceCreateApplied \<Longrightarrow> re = Inr ''applied''"
    using run Inr ev by (auto simp: vk_device_create_def Let_def split: sum.splits if_splits)
  from ev [unfolded w0] show ?thesis
  proof (cases rule: eval_string_runs)
    case (ran w1 w2 x)
    note eff = create_effect [OF ran(2) serialize_ok [OF Inr ok]]
    have "x = ReplyBulk ''applied''" if "re = Inr ''applied''"
      using ran(4,5) that eff by (auto simp: to_string)
    then show ?thesis using ran(1,3) eff app by blast
  next
    case (not_run e)
    then have "r \<noteq> Inr DeviceCreateApplied" using app by auto
    then show ?thesis using not_run(1) env_refl by blast
  qed
qed

lemma resolve_call:
  assumes "command_get vk ns key w = (r, w')"
  shows "env w w'"
proof -
  obtain rs w0 where sn: "vk_send vk (vk_get_command vk (state_key ns key)) w = (rs, w0)" by fastforce
  have w0: "w0 = w'" using assms sn by (auto simp: command_get_def split: sum.splits)
  show ?thesis
    by (rule send_reads [OF sn [unfolded w0]]) (auto simp: vk_get_command_def intro: env_trans)
qed

lemma forget_call:
  assumes "vk_device_delete_user_code vk digest ns u h w = (r, w')"
  shows "device_step\<^sup>*\<^sup>* (entries w, granted w) (entries w', granted w')"
proof -
  obtain re w0 where ev: "eval_string vk (DELETE_USER_CODE_IF_MATCHES_SCRIPT vk (ukey u) h) w = (re, w0)"
    by fastforce
  have w0: "w0 = w'" using assms ev by (auto simp: vk_device_delete_user_code_def split: sum.splits)
  from ev [unfolded w0] show ?thesis
  proof (cases rule: eval_string_runs)
    case (ran w1 w2 x)
    have "(entries w2, granted w2) = (entries w1, granted w1)"
      using ran(2) by (auto simp: DELETE_USER_CODE_IF_MATCHES_SCRIPT_def del_entries grants_kept
          split: if_splits)
    then show ?thesis
      using rtranclp_trans [OF others_follow [OF ran(1)]] others_follow [OF ran(3)] by metis
  next
    case (not_run e)
    then show ?thesis by (simp add: others_follow)
  qed
qed

lemmas store_simps = valkey_device_store_def key_device_code_def

end

subsection \<open>The service on the adapter\<close>

sublocale device_valkey \<subseteq> device: device_contract
  "valkey_device_store vk cd digest ns" repo current_time now_v7 digest
  "device_entry view cd ns" granted env "decode cd" payload_ok
proof unfold_locales
  fix w w' h s v
  show "env w w' \<Longrightarrow> device_step\<^sup>*\<^sup>* (entries w, granted w) (entries w', granted w')"
    by (rule others_follow)
  show "entries w h = Some (s, v) \<Longrightarrow> decode cd v = Some s"
    by (auto simp: device_entry_def split: option.splits)
  show "decode cd v = Some s \<Longrightarrow> device_state_ok payload_ok s"
    by (rule codec_for_decode [OF state_codec])
next
  fix w t w' show "current_time w = (t, w') \<Longrightarrow> env w w'" by (rule clock_step)
next
  fix w c w' show "now_v7 w = (c, w') \<Longrightarrow> env w w'" by (rule id_step)
next
  fix h w r w'
  assume "ds_load_by_device_hash (valkey_device_store vk cd digest ns) h w = (r, w')"
  then obtain r0 where "vk_device_load_snapshot vk cd ns (key_device_code_hash h) w = (r0, w')"
      and r: "r = map_err device_port_error r0"
    by (cases "vk_device_load_snapshot vk cd ns (key_device_code_hash h) w") (auto simp: store_simps)
  from load_snapshot_call [OF this(1)] show "\<exists>w1. env w w1 \<and> env w1 w' \<and>
      (\<forall>x. r = Inr x \<longrightarrow> entries w1 h = map_option (\<lambda>y. (sda_state y, sda_version y)) x)"
    unfolding r by simp
next
  fix d w r w'
  assume "ds_load_by_device_code (valkey_device_store vk cd digest ns) d w = (r, w')"
  then obtain r0 where "vk_device_load_snapshot vk cd ns (key_device_code_hash (digest d)) w = (r0, w')"
      and r: "r = map_err device_port_error r0"
    by (cases "vk_device_load_snapshot vk cd ns (key_device_code_hash (digest d)) w")
       (auto simp: store_simps)
  from load_snapshot_call [OF this(1)] show "\<exists>w1. env w w1 \<and> env w1 w' \<and>
      (\<forall>x. r = Inr x \<longrightarrow> entries w1 (digest d) = map_option (\<lambda>y. (sda_state y, sda_version y)) x)"
    unfolding r by simp
next
  fix u w r w'
  assume "ds_resolve_user_code (valkey_device_store vk cd digest ns) u w = (r, w')"
  then show "env w w'"
    by (cases "command_get vk ns (key_device_user_code digest u) w")
       (auto simp: store_simps dest: resolve_call)
next
  fix u h w r w'
  assume "ds_delete_user_code_if_matches (valkey_device_store vk cd digest ns) u h w = (r, w')"
  then show "device_step\<^sup>*\<^sup>* (entries w, granted w) (entries w', granted w')"
    by (intro forget_call) (simp add: store_simps)
next
  fix p d u n w r w'
  assume ok: "payload_ok p"
    and "ds_create (valkey_device_store vk cd digest ns) d u (DevicePending p None 0) n w = (r, w')"
  then obtain r0 where "vk_device_create vk cd digest ns d u (DevicePending p None 0) n w = (r0, w')"
      and r: "r = map_err device_port_error r0"
    by (cases "vk_device_create vk cd digest ns d u (DevicePending p None 0) n w")
       (auto simp: store_simps)
  from create_call [OF this(1)] ok show "\<exists>w1 w2. env w w1 \<and> env w2 w' \<and> granted w2 = granted w1 \<and>
      (entries w2 = entries w1 \<or> (entries w1 (digest d) = None \<and>
         (\<exists>v. entries w2 = (entries w1)(digest d \<mapsto> (DevicePending p None 0, v))))) \<and>
      (r = Inr DeviceCreateApplied \<longrightarrow> entries w1 (digest d) = None \<and>
         (\<exists>v. entries w2 = (entries w1)(digest d \<mapsto> (DevicePending p None 0, v))))"
    unfolding r by simp
next
  fix v s0 s d w r w'
  assume ver: "decode cd v = Some s0" and ok: "device_state_ok payload_ok s"
    and "ds_replace_by_device_code (valkey_device_store vk cd digest ns) d v s w = (r, w')"
  then have run: "vk_device_replace vk cd digest ns (key_device_code_hash (digest d)) v s None w = (r, w')" by (simp add: store_simps)
  from replace_call [OF run ver ok] show "\<exists>w1 w2. env w w1 \<and> env w2 w' \<and> granted w2 = granted w1 \<and>
      cas_effect (entries w1) (digest d) v s (entries w2) \<and>
      (r = Inr DeviceApplied \<longrightarrow> (\<exists>v'. cas_written (entries w1) (digest d) v s v' (entries w2)))"
    unfolding cas_call_def by blast
next
  fix v s0 s h w r w'
  assume ver: "decode cd v = Some s0" and ok: "device_state_ok payload_ok s"
    and "ds_replace_by_device_hash (valkey_device_store vk cd digest ns) h v s w = (r, w')"
  then have run: "vk_device_replace_by_hash vk cd digest ns h v s w = (r, w')" by (simp add: store_simps)
  from replace_by_hash_call [OF run ver ok] show "\<exists>w1 w2. env w w1 \<and> env w2 w' \<and> granted w2 = granted w1 \<and>
      cas_effect (entries w1) h v s (entries w2) \<and>
      (\<forall>v'. r = Inr (DeviceReplaced v') \<longrightarrow> cas_written (entries w1) h v s v' (entries w2))"
    unfolding cas_call_def by blast
next
  fix v s0 s h u w r w'
  assume ver: "decode cd v = Some s0" and ok: "device_state_ok payload_ok s"
    and "ds_claim_decision (valkey_device_store vk cd digest ns) h u v s w = (r, w')"
  then have run: "vk_device_replace vk cd digest ns (key_device_code_hash h) v s (Some (u, h)) w = (r, w')" by (simp add: store_simps)
  from replace_call [OF run ver ok] show "\<exists>w1 w2. env w w1 \<and> env w2 w' \<and> granted w2 = granted w1 \<and>
      cas_effect (entries w1) h v s (entries w2) \<and>
      (r = Inr DeviceApplied \<longrightarrow> (\<exists>v'. cas_written (entries w1) h v s v' (entries w2)))"
    unfolding cas_call_def by blast
next
  fix v s0 s h u w r w'
  assume ver: "decode cd v = Some s0" and ok: "device_state_ok payload_ok s"
    and "ds_complete_decision (valkey_device_store vk cd digest ns) h u v s w = (r, w')"
  then obtain r0 where "vk_device_complete_decision vk cd digest ns h u v s w = (r0, w')"
      and r: "r = map_err device_port_error r0"
    by (cases "vk_device_complete_decision vk cd digest ns h u v s w") (auto simp: store_simps)
  from complete_call [OF this(1) ver ok] show "\<exists>w1 w2. env w w1 \<and> env w2 w' \<and>
      granted w2 = granted w1 \<and> cas_effect (entries w1) h v s (entries w2) \<and>
      (r = Inr DeviceApplied \<longrightarrow> (\<exists>v'. cas_written (entries w1) h v s v' (entries w2)))"
    unfolding r cas_call_def map_err_eq_Inr by blast
next
  fix g w rg w'
  show "dr_upsert_grant repo g w = (rg, w') \<Longrightarrow>
      device_step\<^sup>*\<^sup>* (entries w, granted w) (entries w', granted w') \<and> (rg = Inr () \<longrightarrow> g \<in> granted w')"
    by (rule repository)
qed

context device_valkey
begin

lemma adapter_contract:
  "device_contract (valkey_device_store vk cd digest ns) repo current_time now_v7 digest
     (device_entry view cd ns) granted env (decode cd) payload_ok"
  by (rule device.device_contract_axioms)

end

subsection \<open>A quiet server\<close>

text \<open>When the server answers every command and nobody interferes, decisions go through.\<close>

locale quiet_device_valkey = device_valkey +
  assumes quiet: "vk_send vk cmd w =
      (case cmd w of (ReplyError _, w') \<Rightarrow> (Inl FredOther, w') | (x, w') \<Rightarrow> (Inr x, w'))"
    and clock_inert: "current_time w = (t, w') \<Longrightarrow> view w' = view w \<and> clock_ms w' = clock_ms w"
    and id_inert: "now_v7 w = (c, w') \<Longrightarrow> view w' = view w \<and> clock_ms w' = clock_ms w"
    and repository_answers: "\<exists>w'. dr_upsert_grant repo g w = (Inr (), w') \<and>
      view w' = view w \<and> clock_ms w' = clock_ms w"
begin

text \<open>The entry \<open>h\<close> is live with text \<open>v\<close> and deadline \<open>d\<close>, and the user
  code \<open>u\<close> maps to it.\<close>

definition open_at :: "'a \<Rightarrow> string \<Rightarrow> string \<Rightarrow> string \<Rightarrow> int \<Rightarrow> bool" where
  "open_at w h u v d \<longleftrightarrow> view w (dkey h) = Some (v, Some d) \<and> clock_ms w < d \<and>
     map_option fst (view w (ukey u)) = Some h"

lemma open_at_reads:
  assumes "open_at w h u v d"
  shows "vk_get vk (dkey h) w = Some v" and "vk_get vk (ukey u) w = Some h"
    and "vk_pexpiretime vk (dkey h) w = d" and "d \<noteq> -2" and "d \<noteq> -1" and "\<not> d \<le> script_now_ms vk w"
  using assms deadline_nonneg [of w "dkey h" v d]
  by (auto simp: open_at_def get pexpiretime now_ms)

lemma open_at_inert: "open_at w h u v d \<Longrightarrow> view w' = view w \<Longrightarrow> clock_ms w' = clock_ms w \<Longrightarrow>
    open_at w' h u v d"
  by (simp add: open_at_def)

lemma open_at_put:
  assumes "open_at w h u v d"
  shows "open_at (vk_pexpireat vk (dkey h) d (vk_set vk (dkey h) raw w)) h u raw d"
  using assms set_keeping_deadline by (simp add: open_at_def clock_kept)

lemma quiet_load:
  assumes "open_at w h u v d" and "decode cd v = Some s"
  shows "ds_load_by_device_hash (valkey_device_store vk cd digest ns) h w =
    (Inr (Some \<lparr>sda_state = s, sda_version = v\<rparr>), w)"
  using open_at_reads [OF assms(1)] assms(2)
  by (simp add: store_simps vk_device_load_snapshot_def quiet SNAPSHOT_DEVICE_SCRIPT_def to_snapshot)

lemma quiet_compare_set:
  assumes "open_at w h u v d" and "m = None \<or> m = Some (u, h)"
  shows "vk_device_replace_snapshot vk digest ns (key_device_code_hash h) v raw m w =
    (Inr DeviceApplied, vk_pexpireat vk (dkey h) d (vk_set vk (dkey h) raw w))"
  using open_at_reads [OF assms(1)] assms(2)
  by (auto simp: vk_device_replace_snapshot_def eval_string_def quiet COMPARE_SET_DEVICE_SCRIPT_def
      to_string device_parse_atomic_result_def)

lemma quiet_claim:
  assumes "open_at w h u v d" and "encode cd s = Some raw"
  obtains w' where "ds_claim_decision (valkey_device_store vk cd digest ns) h u v s w = (Inr DeviceApplied, w')"
    and "open_at w' h u raw d"
  using quiet_compare_set [OF assms(1), of "Some (u, h)" raw] open_at_put [OF assms(1)] assms(2)
  by (simp add: store_simps vk_device_replace_def device_serialize_state_def)

lemma quiet_replace:
  assumes "open_at w h u v d" and "encode cd s = Some raw"
  obtains w' where "ds_replace_by_device_hash (valkey_device_store vk cd digest ns) h v s w =
      (Inr (DeviceReplaced raw), w')"
    and "open_at w' h u raw d"
  using quiet_compare_set [OF assms(1), of None raw] open_at_put [OF assms(1)] assms(2)
  by (simp add: store_simps vk_device_replace_by_hash_def device_serialize_state_def)

lemma quiet_complete:
  assumes "open_at w h u v d" and "encode cd s = Some raw"
  obtains w' where "ds_complete_decision (valkey_device_store vk cd digest ns) h u v s w =
      (Inr DeviceApplied, w')"
  using open_at_reads [OF assms(1)] assms(2)
  by (simp add: store_simps vk_device_complete_decision_def device_serialize_state_def eval_string_def
      quiet COMPLETE_DEVICE_DECISION_SCRIPT_def to_string device_parse_atomic_result_def)

text \<open>One attempt of an approval for each of the three states it passes.\<close>

abbreviation store :: "('a, string) device_state_store" where
  "store \<equiv> valkey_device_store vk cd digest ns"

lemma quiet_approve_pending:
  assumes "open_at w (pdd_device_hash pr) (pdd_user_code pr) v d" and "payload_ok p"
    and "oc_is_active client" and "oc_client_id client = dp_client_id p"
    and early: "\<forall>w t w'. current_time w = (t, w') \<longrightarrow> t < dp_expires_at p"
  obtains w' t raw where "approve_attempt ch store repo current_time pr a client c
      \<lparr>sda_state = DevicePending p l n, sda_version = v\<rparr> w = (Continue None, w')"
    and "open_at w' (pdd_device_hash pr) (pdd_user_code pr) raw d"
    and "decode cd raw = Some (DeviceApproving p a c False t)"
proof -
  obtain t w1 where t: "current_time w = (t, w1)" by fastforce
  have o1: "open_at w1 (pdd_device_hash pr) (pdd_user_code pr) v d"
    using open_at_inert [OF assms(1)] clock_inert [OF t] by blast
  obtain raw where raw: "encode cd (DeviceApproving p a c False t) = Some raw"
      "decode cd raw = Some (DeviceApproving p a c False t)"
    using codec_for_encode [OF state_codec, of "DeviceApproving p a c False t"] assms(2) by auto
  obtain w2 where "ds_claim_decision store (pdd_device_hash pr) (pdd_user_code pr) v
      (DeviceApproving p a c False t) w1 = (Inr DeviceApplied, w2)"
    and "open_at w2 (pdd_device_hash pr) (pdd_user_code pr) raw d"
    using quiet_claim [OF o1 raw(1)] by blast
  moreover have "\<not> dp_expires_at p \<le> t" using early t by (metis not_le)
  ultimately show thesis
    using that [of w2 raw t] t assms(3,4) raw(2)
    by (simp add: approve_attempt_def claim_outcome_def)
qed

lemma quiet_approve_claimed:
  assumes "open_at w (pdd_device_hash pr) (pdd_user_code pr) v d" and "payload_ok p"
    and "oc_is_active client" and "oc_client_id client = dp_client_id p"
    and early: "\<forall>w t w'. current_time w = (t, w') \<longrightarrow> t < dp_expires_at p"
  obtains w' raw where "approve_attempt ch store repo current_time pr a client c
      \<lparr>sda_state = DeviceApproving p a c False t0, sda_version = v\<rparr> w =
        (Continue (Some \<lparr>sda_state = DeviceApproving p a c True t0, sda_version = raw\<rparr>), w')"
    and "open_at w' (pdd_device_hash pr) (pdd_user_code pr) raw d"
proof -
  obtain t w1 where t: "current_time w = (t, w1)" by fastforce
  have o1: "open_at w1 (pdd_device_hash pr) (pdd_user_code pr) v d"
    using open_at_inert [OF assms(1)] clock_inert [OF t] by blast
  obtain w2 where up: "dr_upsert_grant repo (device_grant_of (pdd_device_hash pr) p (da_user_id a) client) w1
      = (Inr (), w2)" and "view w2 = view w1" "clock_ms w2 = clock_ms w1"
    using repository_answers by blast
  then have o2: "open_at w2 (pdd_device_hash pr) (pdd_user_code pr) v d"
    using open_at_inert [OF o1] by blast
  obtain raw where raw: "encode cd (DeviceApproving p a c True t0) = Some raw"
    using codec_for_encode [OF state_codec, of "DeviceApproving p a c True t0"] assms(2) by auto
  obtain w3 where "ds_replace_by_device_hash store (pdd_device_hash pr) v
      (DeviceApproving p a c True t0) w2 = (Inr (DeviceReplaced raw), w3)"
    and "open_at w3 (pdd_device_hash pr) (pdd_user_code pr) raw d"
    using quiet_replace [OF o2 raw] by blast
  moreover have "\<not> dp_expires_at p \<le> t" using early t by (metis not_le)
  ultimately show thesis
    using that [of raw w3] t up assms(3,4) by (simp add: approve_attempt_def record_grant_def)
qed

lemma quiet_approve_recorded:
  assumes "open_at w (pdd_device_hash pr) (pdd_user_code pr) v d" and "payload_ok p"
    and "oc_is_active client" and "oc_client_id client = dp_client_id p"
    and early: "\<forall>w t w'. current_time w = (t, w') \<longrightarrow> t < dp_expires_at p"
  obtains w' where "approve_attempt ch store repo current_time pr a client c
      \<lparr>sda_state = DeviceApproving p a c True t0, sda_version = v\<rparr> w = (Return (Inr ()), w')"
proof -
  obtain t w1 where t: "current_time w = (t, w1)" by fastforce
  obtain t' w2 where t': "current_time w1 = (t', w2)" by fastforce
  have o2: "open_at w2 (pdd_device_hash pr) (pdd_user_code pr) v d"
    using open_at_inert [OF assms(1)] clock_inert [OF t] clock_inert [OF t'] by simp
  obtain raw where raw: "encode cd (DeviceApproved p a t') = Some raw"
    using codec_for_encode [OF state_codec, of "DeviceApproved p a t'"] assms(2) by auto
  obtain w3 where "ds_complete_decision store (pdd_device_hash pr) (pdd_user_code pr) v
      (DeviceApproved p a t') w2 = (Inr DeviceApplied, w3)"
    using quiet_complete [OF o2 raw] by blast
  moreover have "\<not> dp_expires_at p \<le> t" using early t by (metis not_le)
  ultimately show thesis
    using that [of w3] t t' assms(3,4) by (simp add: approve_attempt_def)
qed

lemma quiet_approve:
  assumes op: "open_at w (pdd_device_hash pr) (pdd_user_code pr) v d"
    and st: "pdd_stored pr = \<lparr>sda_state = DevicePending p l n, sda_version = v\<rparr>" and "payload_ok p"
    and "oc_is_active client" and "oc_client_id client = dp_client_id p"
    and "\<forall>w t w'. current_time w = (t, w') \<longrightarrow> t < dp_expires_at p"
  shows "\<exists>w'. approve ch store repo current_time now_v7 pr a client w = (Inr (), w')"
proof -
  note cond = assms(3-5)
  obtain c w1 where c: "now_v7 w = (c, w1)" by fastforce
  have o1: "open_at w1 (pdd_device_hash pr) (pdd_user_code pr) v d"
    using open_at_inert [OF op] id_inert [OF c] by blast
  obtain w2 t raw where a1: "approve_attempt ch store repo current_time pr a client c
      \<lparr>sda_state = DevicePending p l n, sda_version = v\<rparr> w1 = (Continue None, w2)"
    and o2: "open_at w2 (pdd_device_hash pr) (pdd_user_code pr) raw d"
    and raw: "decode cd raw = Some (DeviceApproving p a c False t)"
    using quiet_approve_pending [OF o1 cond assms(6)] by blast
  have load: "reload_decision store pr w2 =
      (Inr \<lparr>sda_state = DeviceApproving p a c False t, sda_version = raw\<rparr>, w2)"
    using quiet_load [OF o2 raw] st by (simp add: reload_decision_def)
  obtain w3 raw' where a2: "approve_attempt ch store repo current_time pr a client c
      \<lparr>sda_state = DeviceApproving p a c False t, sda_version = raw\<rparr> w2 =
        (Continue (Some \<lparr>sda_state = DeviceApproving p a c True t, sda_version = raw'\<rparr>), w3)"
    and o3: "open_at w3 (pdd_device_hash pr) (pdd_user_code pr) raw' d"
    using quiet_approve_claimed [OF o2 cond assms(6)] by blast
  obtain w4 where a3: "approve_attempt ch store repo current_time pr a client c
      \<lparr>sda_state = DeviceApproving p a c True t, sda_version = raw'\<rparr> w3 = (Return (Inr ()), w4)"
    using quiet_approve_recorded [OF o3 cond assms(6)] by blast
  obtain k where attempts: "DEVICE_TRANSITION_MAX_ATTEMPTS = Suc (Suc (Suc k))"
    using that [of 2] by (simp add: DEVICE_TRANSITION_MAX_ATTEMPTS_def)
  show ?thesis unfolding approve_def c prod.case st attempts by (simp add: a1 load a2 a3)
qed

end

end
