(* ===== verification/Device_Reference.thy ===== *)
theory Device_Reference
  imports Device_Valkey
begin

text \<open>
  A concrete system under the device service: the server in memory, a repository that keeps every
  grant it is given, a fixed clock, and a codec that numbers the states. It fulfils the laws of
  \<open>device_valkey\<close> and \<open>quiet_device_valkey\<close>, so that they are consistent, and the
  examples below run the service on it.
\<close>

subsection \<open>The states are countable\<close>

instance device_authorization_payload_ext :: (countable) countable
proof
  show "\<exists>f :: 'a device_authorization_payload_scheme \<Rightarrow> nat. inj f"
    by (rule exI [of _ "\<lambda>p. to_nat (dp_client_id p, dp_client_name p, dp_scopes p,
          dp_resource_indicators p, dp_authorization_details p, dp_interval_seconds p,
          dp_issued_at p, dp_expires_at p, device_authorization_payload.more p)"])
       (auto intro!: injI)
qed

instance device_authorization_approval_ext :: (countable) countable
proof
  show "\<exists>f :: 'a device_authorization_approval_scheme \<Rightarrow> nat. inj f"
    by (rule exI [of _ "\<lambda>a. to_nat (da_user_id a, da_subject a, da_auth_time a, da_amr a,
          da_oidc_sid a, device_authorization_approval.more a)"])
       (auto intro!: injI)
qed

instance device_authorization_state :: countable
  by countable_datatype

subsection \<open>The system\<close>

record device_world = vk_world +
  dw_grants :: "device_grant_write list"

definition device_payload_ok :: "(string \<Rightarrow> bool) \<Rightarrow> device_authorization_payload \<Rightarrow> bool" where
  "device_payload_ok url_ok p \<longleftrightarrow>
     authorization_details_valid url_ok (dp_authorization_details p) \<and>
     dp_interval_seconds p \<le> u64_max"

abbreviation ref_payload_ok :: "device_authorization_payload \<Rightarrow> bool" where
  "ref_payload_ok \<equiv> device_payload_ok (\<lambda>_. True)"

definition device_ref_codec :: "device_authorization_state codec" where
  "device_ref_codec = unary_codec (device_state_ok ref_payload_ok)"

definition device_ref_repo :: "device_world device_grant_repository" where
  "device_ref_repo =
     \<lparr>dr_upsert_grant = (\<lambda>g w. (Inr (), w\<lparr>dw_grants := g # dw_grants w\<rparr>))\<rparr>"

definition device_ref_time :: "device_world \<Rightarrow> time \<times> device_world" where
  "device_ref_time w = (1000000000, w)"

definition device_ref_id :: "device_world \<Rightarrow> uuid \<times> device_world" where
  "device_ref_id w = (7, w)"

interpretation device_ref: quiet_device_valkey valkey_ref vk_ref_view "\<lambda>w. int (vw_ms w)" "(=)"
  device_ref_codec ref_payload_ok "\<lambda>s. s" "''nazo:''" "\<lambda>w. set (dw_grants w)"
  device_ref_repo device_ref_time device_ref_id
proof unfold_locales
  show "codec_for (device_state_ok ref_payload_ok) device_ref_codec"
    unfolding device_ref_codec_def by (rule unary_codec_for)
  fix g rg and w w' :: device_world
  assume "dr_upsert_grant device_ref_repo g w = (rg, w')"
  then have w': "w' = w\<lparr>dw_grants := g # dw_grants w\<rparr>" by (simp add: device_ref_repo_def)
  have "vk_ref_view w' = vk_ref_view w"
    unfolding w' by (auto simp: vk_ref_view_def fun_eq_iff split: option.splits)
  then have same: "device_entry vk_ref_view device_ref_codec ''nazo:'' w' =
      device_entry vk_ref_view device_ref_codec ''nazo:'' w"
    by (simp add: device_entry_def fun_eq_iff)
  have "device_step\<^sup>*\<^sup>* (device_entry vk_ref_view device_ref_codec ''nazo:'' w, set (dw_grants w))
      (device_entry vk_ref_view device_ref_codec ''nazo:'' w', set (dw_grants w'))"
    unfolding same by (simp add: w' r_into_rtranclp step_grant)
  then show "device_step\<^sup>*\<^sup>* (device_entry vk_ref_view device_ref_codec ''nazo:'' w, set (dw_grants w))
      (device_entry vk_ref_view device_ref_codec ''nazo:'' w', set (dw_grants w')) \<and>
    (rg = Inr () \<longrightarrow> g \<in> set (dw_grants w'))"
    unfolding w' by simp
qed (auto simp: valkey_ref_def device_ref_time_def device_ref_id_def device_ref_repo_def
      vk_ref_view_def fun_eq_iff split: option.splits if_splits)

text \<open>A pending request, its prepared decision, and the world that holds them.\<close>

definition ref_payload :: device_authorization_payload where
  "ref_payload =
     \<lparr>dp_client_id = ''tv'', dp_client_name = ''TV'', dp_scopes = [''openid''],
      dp_resource_indicators = [''urn:api''], dp_authorization_details = JArray [],
      dp_interval_seconds = 5, dp_issued_at = 0, dp_expires_at = 600000000000\<rparr>"

definition ref_approval :: device_authorization_approval where
  "ref_approval =
     \<lparr>da_user_id = 3, da_subject = ''alice'', da_auth_time = 0, da_amr = [''pwd''],
      da_oidc_sid = None\<rparr>"

definition ref_text :: "device_authorization_state \<Rightarrow> string" where
  "ref_text s = replicate (to_nat s) CHR ''1''"

definition ref_world :: "device_authorization_state \<Rightarrow> device_world" where
  "ref_world s =
     \<lparr>vw_keys = (\<lambda>_. None)
        (''nazo:oauth:device:code:d'' \<mapsto> (ref_text s, Some 600000),
         ''nazo:oauth:device:user_code:U'' \<mapsto> (''d'', Some 600000)),
      vw_ms = 1000, dw_grants = []\<rparr>"

definition ref_prepared :: "device_authorization_state \<Rightarrow> string prepared_device_decision" where
  "ref_prepared s =
     \<lparr>pdd_user_code = ''u'', pdd_device_hash = ''d'',
      pdd_stored = \<lparr>sda_state = s, sda_version = ref_text s\<rparr>\<rparr>"

lemma ref_prepared_simps [simp]:
  "pdd_user_code (ref_prepared s) = ''u''" "pdd_device_hash (ref_prepared s) = ''d''"
  "pdd_stored (ref_prepared s) = \<lparr>sda_state = s, sda_version = ref_text s\<rparr>"
  by (simp_all add: ref_prepared_def)

lemma ref_payload_valid [simp]: "ref_payload_ok ref_payload"
  by (simp add: device_payload_ok_def ref_payload_def u64_max_def
      validate_authorization_details_def)

lemma ref_payload_fields [simp]:
  "dp_client_id ref_payload = ''tv''" "dp_expires_at ref_payload = 600000000000"
  by (simp_all add: ref_payload_def)

lemma ref_encode [simp]: "encode device_ref_codec s = Some (ref_text s)"
  by (simp add: device_ref_codec_def unary_codec_def ref_text_def)

lemma ref_decode [simp]:
  "decode device_ref_codec (ref_text s) = (if device_state_ok ref_payload_ok s then Some s else None)"
  by (simp add: device_ref_codec_def unary_codec_def ref_text_def Let_def)

lemma ref_open:
  "device_ref.open_at (ref_world s) ''d'' ''u'' (ref_text s) 600000"
proof -
  have "normalize_user_code ''u'' = ''U''"
    by code_simp
  then show ?thesis
    by (simp add: device_ref.open_at_def ref_world_def vk_ref_view_def state_key_def
        key_device_code_hash_def key_device_user_code_def)
qed

abbreviation ref_store :: "(device_world, string) device_state_store" where
  "ref_store \<equiv> valkey_device_store valkey_ref device_ref_codec (\<lambda>s. s) ''nazo:''"

abbreviation ref_entries :: "device_world \<Rightarrow> string \<Rightarrow> (device_authorization_state \<times> string) option" where
  "ref_entries \<equiv> device_entry vk_ref_view device_ref_codec ''nazo:''"

abbreviation ref_pending :: device_authorization_state where
  "ref_pending \<equiv> DevicePending ref_payload None 0"

lemma ref_entries_world:
  "ref_entries (ref_world s) = (\<lambda>h. if h = ''d'' \<and> device_state_ok ref_payload_ok s
     then Some (s, ref_text s) else None)"
  by (auto simp: fun_eq_iff device_entry_def ref_world_def vk_ref_view_def state_key_def
      key_device_code_hash_def)

lemma ref_prepare:
  "prepare_decision ref_store device_ref_time ''u'' (ref_world ref_pending) =
     (Inr (Some (ref_prepared ref_pending)), ref_world ref_pending)"
proof -
  have res: "ds_resolve_user_code ref_store ''u'' (ref_world s) = (Inr (Some ''d''), ref_world s)" for s
    using device_ref.open_at_reads(2) [OF ref_open]
    by (simp add: valkey_device_store_def command_get_def vk_get_command_def device_ref.quiet
        vk_ref.to_optional_string)
  have load: "ds_load_by_device_hash ref_store ''d'' (ref_world ref_pending) =
      (Inr (Some \<lparr>sda_state = ref_pending, sda_version = ref_text ref_pending\<rparr>), ref_world ref_pending)"
    by (rule device_ref.quiet_load [OF ref_open]) (simp add: u32_max_def)
  show ?thesis
    by (simp add: prepare_decision_def res load device_ref_time_def ref_prepared_def)
qed

lemma ref_time_early: "\<forall>w t w'. device_ref_time w = (t, w') \<longrightarrow> t < dp_expires_at ref_payload"
  by (simp add: device_ref_time_def ref_payload_def)

lemma ref_inv:
  assumes "decided_approval s = None"
  shows "device_inv (ref_entries (ref_world s), set (dw_grants (ref_world s)))"
  using assms by (cases s) (simp_all add: device_inv_def ref_entries_world)

end
