(* ===== verification/Device_Properties.thy ===== *)
theory Device_Properties
  imports Device_Reference
begin




subsection \<open>Decisions under concurrency\<close>



text \<open>
  C2. When nobody interferes and every command is answered, an approval of a pending, unexpired
  request by its own active client succeeds within the bounded number of attempts.
\<close>

theorem device_approve_succeeds:
  assumes sys: "quiet_device_valkey vk view clock_ms env cd payload_ok ns granted repo
      current_time now_v7"
    and entry: "view w (state_key ns (key_device_code_hash (pdd_device_hash prepared))) = Some (v, Some d)"
    and live: "clock_ms w < d"
    and code: "map_option fst (view w (state_key ns (key_device_user_code digest (pdd_user_code prepared))))
      = Some (pdd_device_hash prepared)"
    and stored: "pdd_stored prepared = \<lparr>sda_state = DevicePending p l n, sda_version = v\<rparr>"
    and "payload_ok p" and "oc_is_active client" and "oc_client_id client = dp_client_id p"
    and "\<forall>w t w'. current_time w = (t, w') \<longrightarrow> t < dp_expires_at p"
  shows "\<exists>w'. approve ch (valkey_device_store vk cd digest ns) repo current_time now_v7 prepared
    approval client w = (Inr (), w')"
proof (rule quiet_device_valkey.quiet_approve [OF sys _ stored assms(6-9)])
  show "quiet_device_valkey.open_at view clock_ms digest ns w (pdd_device_hash prepared)
      (pdd_user_code prepared) v d"
    using entry live code by (simp add: quiet_device_valkey.open_at_def [OF sys])
qed

theorem device_approve_succeeds_witness:
  "\<exists>w'. approve chrono_ref ref_store device_ref_repo device_ref_time device_ref_id
     (ref_prepared ref_pending) ref_approval sample_client (ref_world ref_pending) = (Inr (), w')"
  using device_approve_succeeds [OF device_ref.quiet_device_valkey_axioms,
      of "ref_world ref_pending" "ref_prepared ref_pending" "ref_text ref_pending" 600000 "\<lambda>s. s"
        ref_payload None 0 sample_client chrono_ref ref_approval]
    ref_open [of ref_pending] ref_time_early
  by (simp add: device_ref.open_at_def)









subsection \<open>Creating and claiming\<close>


definition empty_world :: device_world where
  "empty_world = \<lparr>vw_keys = (\<lambda>_. None), vw_ms = 1000, dw_grants = []\<rparr>"


text \<open>
  An approval that finds somebody else's claim younger than the recovery window, before the
  request expires, is refused with nothing but the clock read: neither the store nor the grant
  repository is touched, so two workers never record the same approval at once.
\<close>

theorem device_live_claim_kept:
  assumes ch: "chrono_time ch"
    and stored: "sda_state (pdd_stored prepared) = DeviceApproving p claimed c False started_at"
    and cid: "now_v7 w = (claim_id, w1)" and other: "claim_id \<noteq> c"
    and now: "current_time w1 = (now, w2)" and live: "now < dp_expires_at p"
    and young: "now - started_at < 30 * 1000000000"
  shows "\<exists>e. approve ch st repo current_time now_v7 prepared approval client w = (Inl e, w2) \<and>
    e \<in> {DeviceDecisionAlreadyHandled, DeviceDecisionRepository DeviceGrantCorruptData,
         DeviceDecisionContended}"
proof -
  obtain k where attempts: "DEVICE_TRANSITION_MAX_ATTEMPTS = Suc k"
    using that [of 4] by (simp add: DEVICE_TRANSITION_MAX_ATTEMPTS_def)
  have "whole_seconds_since ch now started_at < 30"
  proof (cases "started_at \<le> now")
    case True
    then have "(now - started_at) div 1000000000 < 30" using young by simp
    with True show ?thesis using chrono_time.seconds_forward [OF ch] by simp
  next
    case False
    then have "0 \<le> (started_at - now) div 1000000000" by (simp add: pos_imp_zdiv_nonneg_iff)
    with False show ?thesis using chrono_time.seconds_backward [OF ch] by simp
  qed
  then have "\<not> device_approval_claim_is_stale ch started_at now"
    by (simp add: device_approval_claim_is_stale_def DEVICE_APPROVAL_CLAIM_TIMEOUT_SECONDS_def)
  then show ?thesis
    unfolding approve_def attempts
    using stored cid now other live by (auto simp: approve_attempt_def Let_def)
qed

theorem device_live_claim_kept_witness:
  "\<exists>e. approve chrono_ref ref_store device_ref_repo device_ref_time device_ref_id
       (ref_prepared (DeviceApproving ref_payload ref_approval 8 False 0)) ref_approval sample_client
       empty_world = (Inl e, empty_world)"
  using device_live_claim_kept [OF chrono_ref.chrono_time_axioms,
      of "ref_prepared (DeviceApproving ref_payload ref_approval 8 False 0)" ref_payload ref_approval
        8 0 device_ref_id empty_world 7 empty_world device_ref_time 1000000000 empty_world
        ref_store device_ref_repo ref_approval sample_client]
  by (auto simp: device_ref_id_def device_ref_time_def)

subsection \<open>Polling\<close>

text \<open>
  C9. Pacing: a pending request that was polled before is answered \<open>slow_down\<close> exactly when
  less than its current interval has passed (a clock that went back counts as too early), every such
  answer raises the interval by five seconds up to the 64-bit bound, and the first poll is never
  slowed down.
\<close>

theorem device_poll_pacing:
  assumes ch: "chrono_time ch" and live: "now < dp_expires_at p" and pos: "0 < dp_interval_seconds p"
  shows "evaluate_device_poll ch (DevicePending p (Some prev) n) now =
      (if now - prev < int (device_required_wait p n) * 1000000000
       then PollSlowDown (DevicePending p (Some now) (min u32_max (n + 1)))
       else PollAuthorizationPending (DevicePending p (Some now) n)) \<and>
    evaluate_device_poll ch (DevicePending p None n) now =
      PollAuthorizationPending (DevicePending p (Some now) n) \<and>
    device_required_wait p n = min u64_max (dp_interval_seconds p + 5 * n)"
proof -
  have wait: "device_required_wait p n = min u64_max (dp_interval_seconds p + 5 * n)"
    by (simp add: device_required_wait_def saturating_add_u64_def saturating_mul_u64_def
        DEVICE_SLOW_DOWN_INCREMENT_SECONDS_def)
  have wait_pos: "0 < device_required_wait p n" using pos by (simp add: wait u64_max_def)
  have early: "device_poll_too_early ch p (Some prev) n now \<longleftrightarrow>
      now - prev < int (device_required_wait p n) * 1000000000"
  proof (cases "prev \<le> now")
    case True
    then have "0 \<le> (now - prev) div 1000000000" by (simp add: pos_imp_zdiv_nonneg_iff)
    moreover have "(now - prev) div 1000000000 < int (device_required_wait p n) \<longleftrightarrow>
        now - prev < int (device_required_wait p n) * 1000000000" by linarith
    ultimately show ?thesis
      using True chrono_time.seconds_forward [OF ch True]
      by (auto simp: device_poll_too_early_def u64_of_i64_def Let_def)
  next
    case False
    then have "0 \<le> (prev - now) div 1000000000" by (simp add: pos_imp_zdiv_nonneg_iff)
    moreover have "now - prev < int (device_required_wait p n) * 1000000000" using False wait_pos by simp
    ultimately show ?thesis
      using False wait_pos chrono_time.seconds_backward [OF ch, of now prev]
      by (auto simp: device_poll_too_early_def u64_of_i64_def Let_def)
  qed
  show ?thesis
    using live wait early
    by (simp add: evaluate_device_poll_def device_poll_too_early_def [of _ _ None]
        saturating_add_u32_def)
qed

theorem device_poll_pacing_witness:
  "evaluate_device_poll chrono_ref (DevicePending ref_payload (Some 0) 0) 4000000000 =
     PollSlowDown (DevicePending ref_payload (Some 4000000000) 1)"
  using device_poll_pacing [OF chrono_ref.chrono_time_axioms, of 4000000000 ref_payload 0 0]
  by (simp add: ref_payload_def u64_max_def u32_max_def)

subsection \<open>The request\<close>

text \<open>
  A device authorization request that is accepted came from an enabled endpoint and an active
  client with the grant, asks only for allowed scopes and resources (at least one resource, the default
  one if none was named), starts now, and expires after its lifetime or at the last instant the clock
  can represent.
\<close>

theorem device_request_accepted:
  assumes ch: "chrono_time ch"
    and run: "device_authorization_request_payload ch input = Some (Inr p)"
  shows "drp_enabled input \<and> drp_client_active input \<and> drp_client_supports_grant input \<and>
    set (dp_scopes p) \<subseteq> set (drp_allowed_scopes input) \<and>
    dp_resource_indicators p \<noteq> [] \<and>
    set (dp_resource_indicators p) \<subseteq> set (drp_allowed_resources input) \<and>
    dp_issued_at p = drp_now input \<and>
    (let lifetime = (if int (drp_ttl_seconds input) \<le> i64_max then int (drp_ttl_seconds input)
                     else i64_max div 1000)
     in dp_expires_at p = min (max_utc ch) (drp_now input + lifetime * 1000000000))"
proof -
  define ttl where "ttl = (case i64_of_u64 (drp_ttl_seconds input) of Some n \<Rightarrow> n | None \<Rightarrow> i64_max div 1000)"
  have ttl: "ttl = (if int (drp_ttl_seconds input) \<le> i64_max then int (drp_ttl_seconds input)
      else i64_max div 1000)" and nonneg: "0 \<le> ttl"
    by (simp_all add: ttl_def i64_of_u64_def i64_max_def)
  have "(case checked_add_seconds ch (drp_now input) ttl of Some t \<Rightarrow> t | None \<Rightarrow> max_utc ch) =
      min (max_utc ch) (drp_now input + ttl * 1000000000)"
  proof (cases "checked_add_seconds ch (drp_now input) ttl")
    case None
    then have "\<not> drp_now input + ttl * 1000000000 \<le> max_utc ch"
      using chrono_time.add_defined [OF ch nonneg] by blast
    with None show ?thesis by simp
  next
    case (Some u)
    then show ?thesis
      using chrono_time.add_exact [OF ch Some] chrono_time.add_bounded [OF ch Some] by simp
  qed
  then show ?thesis
    using run
    by (auto simp: device_authorization_request_payload_def Let_def list_all_iff
        ttl_def [symmetric] ttl [symmetric] split: if_splits)
qed

definition ref_request :: "nat \<Rightarrow> device_authorization_request_policy" where
  "ref_request ttl =
     \<lparr>drp_enabled = True, drp_client_active = True, drp_client_supports_grant = True,
      drp_client_id = ''tv'', drp_client_name = ''TV'', drp_requested_scopes = [''openid''],
      drp_allowed_scopes = [''openid'', ''profile''], drp_requested_resources = [],
      drp_allowed_resources = [''urn:api''], drp_default_resource = ''urn:api'',
      drp_interval_seconds = 5, drp_ttl_seconds = ttl, drp_now = 0\<rparr>"

theorem device_request_accepted_witness:
  "device_authorization_request_payload chrono_ref (ref_request 600) = Some (Inr ref_payload) \<and>
   dp_expires_at ref_payload = 600000000000 \<and>
   set (dp_scopes ref_payload) \<subseteq> set (drp_allowed_scopes (ref_request 600))"
proof -
  have run: "device_authorization_request_payload chrono_ref (ref_request 600) = Some (Inr ref_payload)"
    by (simp add: device_authorization_request_payload_def ref_request_def chrono_ref_def
        ref_payload_def i64_of_u64_def i64_max_def)
  show ?thesis
    using run device_request_accepted [OF chrono_ref.chrono_time_axioms run] by simp
qed

text \<open>
  C11. The lifetime is clamped only above the range of a 64-bit signed integer: a valid request with a
  lifetime between the largest duration and that range panics, although a larger one is accepted with
  the clamped lifetime.
\<close>

theorem device_request_lifetime_gap:
  assumes ch: "chrono_time ch"
    and "drp_enabled input" "drp_client_active input" "drp_client_supports_grant input"
    and "set (drp_requested_scopes input) \<subseteq> set (drp_allowed_scopes input)"
    and "drp_requested_resources input \<noteq> []"
    and "set (drp_requested_resources input) \<subseteq> set (drp_allowed_resources input)"
  shows "(device_authorization_request_payload ch input = None) =
    (i64_max div 1000 < int (drp_ttl_seconds input) \<and> int (drp_ttl_seconds input) \<le> i64_max)"
  using assms chrono_time.duration_range [OF ch]
  by (auto simp: device_authorization_request_payload_def Let_def list_all_iff i64_of_u64_def
      i64_max_def split: if_splits)

theorem device_request_lifetime_gap_witness:
  "device_authorization_request_payload chrono_ref
     ((ref_request 9223372036854776)\<lparr>drp_requested_resources := [''urn:api'']\<rparr>) = None \<and>
   device_authorization_request_payload chrono_ref
     ((ref_request 9223372036854775808)\<lparr>drp_requested_resources := [''urn:api'']\<rparr>) \<noteq> None"
  using device_request_lifetime_gap [OF chrono_ref.chrono_time_axioms,
      of "(ref_request 9223372036854776)\<lparr>drp_requested_resources := [''urn:api'']\<rparr>"]
    device_request_lifetime_gap [OF chrono_ref.chrono_time_axioms,
      of "(ref_request 9223372036854775808)\<lparr>drp_requested_resources := [''urn:api'']\<rparr>"]
  by (simp add: ref_request_def i64_max_def)

text \<open>
  C12. The Valkey adapter refines the store contract: on every server that fulfils the documented laws
  its operations have the effects the service relies on, with the stored text as version.
\<close>

theorem device_adapter_refines_contract:
  assumes "device_valkey vk view clock_ms env cd payload_ok ns granted repo current_time now_v7"
  shows "device_contract (valkey_device_store vk cd digest ns) repo current_time now_v7 digest
    (device_entry view cd ns) granted env (decode cd) payload_ok"
  by (rule device_valkey.adapter_contract [OF assms])

theorem device_adapter_refines_contract_witness:
  "device_contract ref_store device_ref_repo device_ref_time device_ref_id (\<lambda>s. s) ref_entries
     (\<lambda>w. set (dw_grants w)) (=) (decode device_ref_codec) ref_payload_ok"
  by (rule device_adapter_refines_contract [OF device_ref.device_valkey_axioms])

end
