(* ===== verification/Jose.thy ===== *)
theory Jose
  imports Client Base64
begin

text \<open>
  Keys and signed tokens: the JWT boundary (\<open>src/crates/crypto/src\<close>: \<open>jwt.rs\<close>,
  \<open>lib.rs\<close>) and the key policies of
  \<open>src/crates/authorization-server-core/src/client_jwe_policy.rs\<close>. The
  \<open>jsonwebtoken\<close> crate is the parameter \<open>'c jwt_lib\<close>: what it returns for a
  token whose claims deserialise as \<open>'c\<close>. A key is known by the constructor of
  \<open>DecodingKey\<close> it was built with. The lemmas relate the byte-wise RSA checks to the numbers
  the bytes stand for.
\<close>

subsection \<open>Tokens\<close>

datatype crypto_error =
    CryptoUnsupportedAlgorithm | CryptoInvalidKey | CryptoInvalidInput | CryptoInvalidSignature
  | CryptoAuthenticationFailed | CryptoInvalidToken | CryptoOperationFailed

datatype jwt_algorithm =
    HS256 | HS384 | HS512 | ES256 | ES384 | RS256 | RS384 | RS512 | PS256 | PS384 | PS512 | EdDSA

datatype jwt_error_kind =
    JwtInvalidSignature | JwtInvalidAlgorithm | JwtInvalidKeyFormat | JwtProvider | JwtOther

record jwt_header =
  jh_alg :: jwt_algorithm
  jh_kid :: "string option"
  jh_crit :: "string list option"

datatype verification_key = KeyEdDer string | KeyEcDer string | KeyRsaRaw string string

definition from_ed25519_bytes :: "string \<Rightarrow> verification_key" where
  "from_ed25519_bytes bs = KeyEdDer bs"

definition from_rsa_raw_components :: "string \<Rightarrow> string \<Rightarrow> verification_key" where
  "from_rsa_raw_components n e = KeyRsaRaw n e"

definition from_ec_sec1 :: "string \<Rightarrow> verification_key" where
  "from_ec_sec1 point = KeyEcDer point"

definition from_p256_coordinates :: "string \<Rightarrow> string \<Rightarrow> verification_key" where
  "from_p256_coordinates x y = from_ec_sec1 (char_of (4 :: nat) # x @ y)"

record 'c jwt_lib =
  jw_decode_header :: "string \<Rightarrow> jwt_error_kind + jwt_header"
  jw_decode :: "string \<Rightarrow> verification_key \<Rightarrow> jwt_algorithm \<Rightarrow> jwt_error_kind + (jwt_header \<times> 'c)"
  jw_insecure_decode :: "string \<Rightarrow> jwt_error_kind + (jwt_header \<times> 'c)"

fun token_error :: "jwt_error_kind \<Rightarrow> crypto_error" where
  "token_error JwtInvalidSignature = CryptoInvalidSignature"
| "token_error JwtInvalidAlgorithm = CryptoUnsupportedAlgorithm"
| "token_error JwtInvalidKeyFormat = CryptoInvalidKey"
| "token_error JwtProvider = CryptoOperationFailed"
| "token_error JwtOther = CryptoInvalidToken"

definition reject_unsupported_extensions :: "jwt_header \<Rightarrow> crypto_error + unit" where
  "reject_unsupported_extensions h =
     (if jh_crit h \<noteq> None then Inl CryptoInvalidToken else Inr ())"

definition decode_header :: "'c jwt_lib \<Rightarrow> string \<Rightarrow> crypto_error + jwt_header" where
  "decode_header jl token =
     and_then (map_err token_error (jw_decode_header jl token)) (\<lambda>h.
     and_then (reject_unsupported_extensions h) (\<lambda>_. Inr h))"

definition jwt_decode ::
  "'c jwt_lib \<Rightarrow> string \<Rightarrow> verification_key \<Rightarrow> jwt_algorithm \<Rightarrow> crypto_error + (jwt_header \<times> 'c)"
where
  "jwt_decode jl token key alg =
     and_then (map_err token_error (jw_decode jl token key alg)) (\<lambda>(h, c).
     and_then (reject_unsupported_extensions h) (\<lambda>_. Inr (h, c)))"

definition insecure_decode :: "'c jwt_lib \<Rightarrow> string \<Rightarrow> crypto_error + (jwt_header \<times> 'c)" where
  "insecure_decode jl token = map_err token_error (jw_insecure_decode jl token)"

text \<open>Raw signatures (\<open>signature.rs\<close>). The parameter \<open>sig_lib\<close> holds what
  \<open>jsonwebtoken\<close> says of a key (its algorithm family and its bytes) and the verification
  backends.\<close>

record sig_lib =
  sl_same_family :: "verification_key \<Rightarrow> jwt_algorithm \<Rightarrow> bool"
  sl_key_bytes :: "verification_key \<Rightarrow> string option"
  sl_verify_bytes :: "jwt_algorithm \<Rightarrow> string \<Rightarrow> string \<Rightarrow> string \<Rightarrow> bool"
  sl_verify_rsa :: "jwt_algorithm \<Rightarrow> verification_key \<Rightarrow> string \<Rightarrow> string \<Rightarrow> bool"

definition signature_verify ::
  "sig_lib \<Rightarrow> jwt_algorithm \<Rightarrow> verification_key \<Rightarrow> string \<Rightarrow> string \<Rightarrow> crypto_error + unit"
where
  "signature_verify sl alg key message signature =
     (if alg \<notin> {EdDSA, RS256, PS256, ES256} then Inl CryptoUnsupportedAlgorithm
      else if \<not> sl_same_family sl key alg then Inl CryptoInvalidInput
      else and_then
        (if alg \<in> {EdDSA, ES256} then
           and_then (ok_or CryptoInvalidInput (sl_key_bytes sl key))
             (\<lambda>bs. Inr (sl_verify_bytes sl alg bs message signature))
         else Inr (sl_verify_rsa sl alg key message signature))
        (\<lambda>ok. if ok then Inr () else Inl CryptoInvalidSignature))"

subsection \<open>Public key policy\<close>

text \<open>\<open>Value::get\<close> with a member name, and with \<open>and_then(Value::as_str)\<close>.\<close>

definition json_get :: "json \<Rightarrow> string \<Rightarrow> json option" where
  "json_get v k = Option.bind (as_object v) (\<lambda>object. map_of object k)"

definition json_get_str :: "json \<Rightarrow> string \<Rightarrow> string option" where
  "json_get_str v k = Option.bind (json_get v k) as_str"

definition RSA_PUBLIC_KEY_MIN_BITS :: nat where "RSA_PUBLIC_KEY_MIN_BITS = 2048"
definition RSA_PUBLIC_KEY_MAX_BITS :: nat where "RSA_PUBLIC_KEY_MAX_BITS = 8192"

text \<open>\<open>u8::BITS - leading_zeros()\<close>.\<close>

fun byte_bits :: "nat \<Rightarrow> nat" where
  "byte_bits n = (if n = 0 then 0 else Suc (byte_bits (n div 2)))"

declare byte_bits.simps [simp del]

text \<open>\<open>bytes.iter().enumerate().find(|b| b != 0)\<close> followed by the rest of the bytes.\<close>

definition significant_bytes :: "string \<Rightarrow> string" where
  "significant_bytes bs = dropWhile (\<lambda>c. byte c = 0) bs"

definition unsigned_integer_bit_length :: "string \<Rightarrow> nat" where
  "unsigned_integer_bit_length bs =
     (case significant_bytes bs of
        [] \<Rightarrow> 0
      | first # rest \<Rightarrow> length rest * 8 + byte_bits (byte first))"

definition valid_rsa_public_exponent :: "string \<Rightarrow> bool" where
  "valid_rsa_public_exponent bs =
     (let v = significant_bytes bs in
      v \<noteq> [] \<and> (length v > 1 \<or> byte (hd v) \<ge> 3) \<and> byte (last v) mod 2 = 1)"

definition rsa_public_key_components_are_safe :: "string \<Rightarrow> string \<Rightarrow> bool" where
  "rsa_public_key_components_are_safe modulus exponent =
     (let bits = unsigned_integer_bit_length modulus in
      RSA_PUBLIC_KEY_MIN_BITS \<le> bits \<and> bits \<le> RSA_PUBLIC_KEY_MAX_BITS \<and>
      valid_rsa_public_exponent exponent)"

datatype client_jwe_key_management = RsaOaep256 | EcdhEsDirect | EcdhEsA128Kw | EcdhEsA256Kw

fun client_jwe_key_management_name :: "client_jwe_key_management \<Rightarrow> string" where
  "client_jwe_key_management_name RsaOaep256 = ''RSA-OAEP-256''"
| "client_jwe_key_management_name EcdhEsDirect = ''ECDH-ES''"
| "client_jwe_key_management_name EcdhEsA128Kw = ''ECDH-ES+A128KW''"
| "client_jwe_key_management_name EcdhEsA256Kw = ''ECDH-ES+A256KW''"

definition client_jwe_key_management_from_name :: "string \<Rightarrow> client_jwe_key_management option" where
  "client_jwe_key_management_from_name v =
     (if v = ''RSA-OAEP-256'' then Some RsaOaep256
      else if v = ''ECDH-ES'' then Some EcdhEsDirect
      else if v = ''ECDH-ES+A128KW'' then Some EcdhEsA128Kw
      else if v = ''ECDH-ES+A256KW'' then Some EcdhEsA256Kw
      else None)"

definition valid_rsa_jwe_encryption_key :: "base64 \<Rightarrow> json \<Rightarrow> bool" where
  "valid_rsa_jwe_encryption_key b64 key =
     (if json_get_str key ''kty'' \<noteq> Some ''RSA'' \<or> json_get key ''d'' \<noteq> None then False
      else case (json_get_str key ''n'', json_get_str key ''e'') of
        (Some n, Some e) \<Rightarrow>
          (case (b64_decode b64 n, b64_decode b64 e) of
             (Some modulus, Some exponent) \<Rightarrow> rsa_public_key_components_are_safe modulus exponent
           | _ \<Rightarrow> False)
      | _ \<Rightarrow> False)"

text \<open>\<open>normalize_p256\<close> stands for \<open>nazo_crypto::ec::normalize_p256_public_key\<close>
  succeeding: the point is on the curve.\<close>

definition valid_p256_jwe_encryption_key :: "base64 \<Rightarrow> (string \<Rightarrow> bool) \<Rightarrow> json \<Rightarrow> bool" where
  "valid_p256_jwe_encryption_key b64 normalize_p256 key =
     (if json_get_str key ''kty'' \<noteq> Some ''EC'' \<or> json_get_str key ''crv'' \<noteq> Some ''P-256''
         \<or> json_get key ''d'' \<noteq> None then False
      else case (json_get_str key ''x'', json_get_str key ''y'') of
        (Some x, Some y) \<Rightarrow>
          (case (b64_decode b64 x, b64_decode b64 y) of
             (Some xb, Some yb) \<Rightarrow>
               length xb = 32 \<and> length yb = 32 \<and> normalize_p256 (char_of (4 :: nat) # xb @ yb)
           | _ \<Rightarrow> False)
      | _ \<Rightarrow> False)"

definition client_jwe_encryption_key_matches_alg ::
  "base64 \<Rightarrow> (string \<Rightarrow> bool) \<Rightarrow> json \<Rightarrow> string \<Rightarrow> bool"
where
  "client_jwe_encryption_key_matches_alg b64 normalize_p256 key alg =
     (json_get_str key ''use'' = Some ''enc'' \<and> json_get_str key ''alg'' = Some alg \<and>
      (case client_jwe_key_management_from_name alg of
         None \<Rightarrow> False
       | Some RsaOaep256 \<Rightarrow> valid_rsa_jwe_encryption_key b64 key
       | Some _ \<Rightarrow> valid_p256_jwe_encryption_key b64 normalize_p256 key))"

subsection \<open>What the RSA checks mean for the numbers\<close>

fun be_value :: "nat \<Rightarrow> string \<Rightarrow> nat" where
  "be_value acc [] = acc"
| "be_value acc (c # s) = be_value (acc * 256 + byte c) s"

text \<open>The big-endian number of a byte string.\<close>

definition be_nat :: "string \<Rightarrow> nat" where
  "be_nat bs = be_value 0 bs"

lemma be_value_acc: "be_value acc s = acc * 256 ^ length s + be_nat s"
proof (induction s arbitrary: acc)
  case (Cons c s)
  have "be_nat (c # s) = byte c * 256 ^ length s + be_nat s"
    using Cons [of "byte c"] by (simp add: be_nat_def)
  with Cons [of "acc * 256 + byte c"] show ?case by (simp add: algebra_simps)
qed (simp add: be_nat_def)

lemma be_nat_Cons: "be_nat (c # s) = byte c * 256 ^ length s + be_nat s"
proof -
  have "be_nat (c # s) = be_value (byte c) s" by (simp add: be_nat_def)
  then show ?thesis by (simp only: be_value_acc)
qed

lemma be_nat_Nil [simp]: "be_nat [] = 0"
  by (simp add: be_nat_def)

lemma be_nat_less: "be_nat s < 256 ^ length s"
proof (induction s)
  case (Cons c s)
  have "byte c \<le> 255" using byte_less [of c] by simp
  then have "byte c * 256 ^ length s \<le> 255 * 256 ^ length s" by simp
  moreover have "(256 :: nat) ^ length (c # s) = 255 * 256 ^ length s + 256 ^ length s" by simp
  ultimately show ?case using Cons unfolding be_nat_Cons by linarith
qed simp

lemma be_nat_significant: "be_nat (significant_bytes bs) = be_nat bs"
  unfolding significant_bytes_def by (induction bs) (simp_all add: be_nat_Cons)

lemma byte_bits_0 [simp]: "byte_bits 0 = 0"
  by (subst byte_bits.simps) simp

lemma byte_bits_pos: "0 < n \<Longrightarrow> byte_bits n = Suc (byte_bits (n div 2))"
  by (subst byte_bits.simps) simp

lemma byte_bits_bounds: "0 < n \<Longrightarrow> 2 ^ (byte_bits n - 1) \<le> n \<and> n < 2 ^ byte_bits n"
proof (induction n rule: byte_bits.induct)
  case (1 n)
  show ?case
  proof (cases "n div 2 = 0")
    case True
    with 1 have "n = 1" by simp
    then show ?thesis by (simp add: byte_bits_pos)
  next
    case False
    then have "0 < n div 2" by simp
    then obtain k where k: "byte_bits (n div 2) = Suc k" by (metis byte_bits_pos)
    have ih: "2 ^ k \<le> n div 2" "n div 2 < 2 * 2 ^ k"
      using 1(1) [OF _ \<open>0 < n div 2\<close>] 1(2) k by simp_all
    have "byte_bits n = Suc (Suc k)" using byte_bits_pos [OF 1(2)] k by simp
    moreover have "2 * 2 ^ k \<le> n" using ih(1) by simp
    moreover have "n < 2 * (2 * 2 ^ k)" using ih(2) by simp
    ultimately show ?thesis by simp
  qed
qed

lemma significant_first: "significant_bytes bs = first # rest \<Longrightarrow> 0 < byte first"
  unfolding significant_bytes_def using hd_dropWhile [of "\<lambda>c. byte c = 0" bs] by simp

lemma bit_length_zero: "be_nat bs = 0 \<Longrightarrow> unsigned_integer_bit_length bs = 0"
proof (cases "significant_bytes bs")
  case (Cons first rest)
  assume zero: "be_nat bs = 0"
  have "be_nat bs = byte first * 256 ^ length rest + be_nat rest"
    by (simp only: be_nat_significant [symmetric, of bs] Cons be_nat_Cons)
  with significant_first [OF Cons] zero show ?thesis by simp
qed (simp add: unsigned_integer_bit_length_def)

lemma bit_length_bounds:
  assumes pos: "0 < be_nat bs"
  shows "2 ^ (unsigned_integer_bit_length bs - 1) \<le> be_nat bs"
    and "be_nat bs < 2 ^ unsigned_integer_bit_length bs"
    and "0 < unsigned_integer_bit_length bs"
proof -
  obtain first rest where sig: "significant_bytes bs = first # rest"
    using pos be_nat_significant [of bs] by (cases "significant_bytes bs") simp_all
  let ?b = "byte_bits (byte first)" and ?n = "length rest"
  note first = significant_first [OF sig]
  have bounds: "2 ^ (?b - 1) \<le> byte first" "byte first < 2 ^ ?b"
    using byte_bits_bounds [OF first] by auto
  have b: "0 < ?b" using first by (simp add: byte_bits_pos)
  have len: "unsigned_integer_bit_length bs = ?n * 8 + ?b"
    by (simp add: unsigned_integer_bit_length_def sig)
  have val: "be_nat bs = byte first * 256 ^ ?n + be_nat rest"
    by (simp only: be_nat_significant [symmetric, of bs] sig be_nat_Cons)
  have pow: "(256 :: nat) ^ ?n = 2 ^ (?n * 8)"
    by (simp only: mult.commute [of _ 8] power_mult) simp
  have "be_nat bs < (byte first + 1) * 256 ^ ?n" using val be_nat_less [of rest] by simp
  also have "\<dots> \<le> 2 ^ ?b * 256 ^ ?n" using bounds(2) by (intro mult_right_mono) simp_all
  finally show "be_nat bs < 2 ^ unsigned_integer_bit_length bs"
    by (simp add: len pow power_add mult.commute)
  have "2 ^ (?b - 1) * 256 ^ ?n \<le> byte first * 256 ^ ?n"
    using bounds(1) by (intro mult_right_mono) simp_all
  also have "\<dots> \<le> be_nat bs" using val by simp
  finally have "2 ^ (?n * 8 + (?b - 1)) \<le> be_nat bs" by (simp add: pow power_add mult.commute)
  moreover have "?n * 8 + ?b - 1 = ?n * 8 + (?b - 1)" using b by simp
  ultimately show "2 ^ (unsigned_integer_bit_length bs - 1) \<le> be_nat bs" using len by simp
  show "0 < unsigned_integer_bit_length bs" using len b by simp
qed

lemma bit_length_le_iff: "unsigned_integer_bit_length bs \<le> k \<longleftrightarrow> be_nat bs < 2 ^ k"
proof (cases "be_nat bs = 0")
  case False
  then have pos: "0 < be_nat bs" by simp
  let ?l = "unsigned_integer_bit_length bs"
  show ?thesis
  proof
    assume "?l \<le> k"
    then have "(2 :: nat) ^ ?l \<le> 2 ^ k" by simp
    with bit_length_bounds(2) [OF pos] show "be_nat bs < 2 ^ k" by linarith
  next
    assume "be_nat bs < 2 ^ k"
    with bit_length_bounds(1) [OF pos] have "(2 :: nat) ^ (?l - 1) < 2 ^ k" by linarith
    then have "?l - 1 < k" by simp
    then show "?l \<le> k" by simp
  qed
qed (simp add: bit_length_zero)

lemma be_value_snoc: "be_value acc (s @ [c]) = be_value acc s * 256 + byte c"
  by (induction s arbitrary: acc) simp_all

lemma be_nat_odd:
  assumes "bs \<noteq> []"
  shows "be_nat bs mod 2 = byte (last bs) mod 2"
proof -
  have "be_nat bs = be_nat (butlast bs) * 256 + byte (last bs)"
    using be_value_snoc [of 0 "butlast bs" "last bs"] assms by (simp add: be_nat_def)
  then show ?thesis by presburger
qed

lemma valid_exponent_iff:
  "valid_rsa_public_exponent bs \<longleftrightarrow> 3 \<le> be_nat bs \<and> be_nat bs mod 2 = 1"
proof (cases "significant_bytes bs")
  case Nil
  then show ?thesis
    using be_nat_significant [of bs] by (simp add: valid_rsa_public_exponent_def)
next
  case (Cons first rest)
  have val: "be_nat bs = byte first * 256 ^ length rest + be_nat rest"
    by (simp only: be_nat_significant [symmetric, of bs] Cons be_nat_Cons)
  have odd: "be_nat bs mod 2 = byte (last (first # rest)) mod 2"
    using be_nat_odd [of "first # rest"] be_nat_significant [of bs] Cons by simp
  have "length rest > 0 \<Longrightarrow> 3 \<le> be_nat bs"
  proof -
    assume "length rest > 0"
    then have "(256 :: nat) ^ 1 \<le> 256 ^ length rest"
      by (intro power_increasing) (simp_all add: Suc_le_eq)
    moreover have "256 ^ length rest \<le> byte first * 256 ^ length rest"
      using significant_first [OF Cons] by simp
    ultimately have "256 \<le> byte first * 256 ^ length rest" by (metis order_trans power_one_right)
    then show ?thesis unfolding val by (simp add: trans_le_add1)
  qed
  moreover have "rest = [] \<Longrightarrow> be_nat bs = byte first" using val by simp
  ultimately show ?thesis
    using odd by (cases rest) (auto simp: valid_rsa_public_exponent_def Let_def Cons)
qed

end
