(* ===== verification/Dpop.thy ===== *)
theory Dpop
  imports Jose Uri_Policy
begin

text \<open>
  DPoP proofs at the authorization server
  (\<open>src/crates/authorization-server-core/src/dpop.rs\<close>): verifying a proof, checking the
  nonce policy and consuming the replay marker. Third-party functions are the fields of
  \<open>dpop_lib\<close>; the state store port is the record \<open>'w dpop_store\<close>, whose operations
  act on a world \<open>'w\<close>. The lemmas show what an accepted proof satisfies and how long a
  proof stays acceptable.
\<close>

definition DPOP_MAX_PROOF_AGE_SECONDS :: int where "DPOP_MAX_PROOF_AGE_SECONDS = 300"
definition DPOP_CLOCK_SKEW_SECONDS :: int where "DPOP_CLOCK_SKEW_SECONDS = 30"
definition DPOP_REPLAY_TTL_SECONDS :: nat where
  "DPOP_REPLAY_TTL_SECONDS = nat DPOP_MAX_PROOF_AGE_SECONDS + nat DPOP_CLOCK_SKEW_SECONDS + 1"
definition DPOP_NONCE_TTL_SECONDS :: nat where "DPOP_NONCE_TTL_SECONDS = 300"
definition MAX_DPOP_JTI_BYTES :: nat where "MAX_DPOP_JTI_BYTES = 128"

datatype dpop_nonce_policy = NonceRequired | NonceOptional

record dpop_proof_request =
  dpr_proof :: "string option"
  dpr_method :: string
  dpr_target_uris :: "string list"
  dpr_access_token :: "string option"
  dpr_expected_jkt :: "string option"

record dpop_replay_audit =
  dra_jti_hash :: string
  dra_key_id :: "string option"

datatype dpop_error =
    MissingProof | MalformedProof | InvalidProof | ReplayDetected dpop_replay_audit
  | BindingMismatch | TokenNotBound | UseNonce string | StateStoreUnavailable

datatype dpop_state_store_error = DpopStateStoreError

record 'w dpop_store =
  ds_consume_replay :: "string \<Rightarrow> string \<Rightarrow> nat \<Rightarrow> ('w, dpop_state_store_error, bool) io"
  ds_issue_nonce :: "string \<Rightarrow> nat \<Rightarrow> ('w, dpop_state_store_error, unit) io"
  ds_validate_nonce :: "string \<Rightarrow> ('w, dpop_state_store_error, bool) io"

record verified_dpop_proof =
  vdp_jkt :: string
  vdp_jti :: string
  vdp_nonce :: "string option"
  vdp_key_id :: "string option"

record dpop_header =
  dh_alg :: string
  dh_typ :: "string option"
  dh_jwk :: json
  dh_critical_extension_present :: bool

record dpop_claims =
  dc_htm :: string
  dc_htu :: string
  dc_iat :: int
  dc_jti :: string
  dc_ath :: "string option"
  dc_nonce :: "string option"

text \<open>\<open>dl_header\<close>, \<open>dl_claims\<close> deserialise the two JSON parts,
  \<open>dl_members\<close> is \<open>serde_json::to_vec\<close> on a sorted map of texts.\<close>

record dpop_lib =
  dl_base64 :: base64
  dl_url :: url_lib
  dl_sig :: sig_lib
  dl_sha256 :: "string \<Rightarrow> string"
  dl_blake3_hex :: "string \<Rightarrow> string"
  dl_header :: "string \<Rightarrow> dpop_header option"
  dl_claims :: "string \<Rightarrow> dpop_claims option"
  dl_members :: "(string \<times> string) list \<Rightarrow> string"

subsection \<open>Verifying a proof\<close>

definition nonempty_segment :: "string option \<Rightarrow> dpop_error + string" where
  "nonempty_segment segment =
     (case segment of
        None \<Rightarrow> Inl MalformedProof
      | Some s \<Rightarrow> if s = [] then Inl MalformedProof else Inr s)"

definition nth_segment :: "string list \<Rightarrow> nat \<Rightarrow> string option" where
  "nth_segment parts i = (if i < length parts then Some (parts ! i) else None)"

definition decode_proof ::
  "dpop_lib \<Rightarrow> string \<Rightarrow> dpop_error + (dpop_header \<times> dpop_claims \<times> string \<times> string)"
where
  "decode_proof dl raw =
     (let parts = split_on CHR ''.'' raw; b64 = dl_base64 dl in
      and_then (nonempty_segment (nth_segment parts 0)) (\<lambda>encoded_header.
      and_then (nonempty_segment (nth_segment parts 1)) (\<lambda>encoded_payload.
      and_then (nonempty_segment (nth_segment parts 2)) (\<lambda>encoded_signature.
      if nth_segment parts 3 \<noteq> None then Inl MalformedProof
      else
      and_then (ok_or MalformedProof (b64_decode b64 encoded_header)) (\<lambda>header_bytes.
      and_then (ok_or MalformedProof (dl_header dl header_bytes)) (\<lambda>header.
      and_then (ok_or MalformedProof (b64_decode b64 encoded_payload)) (\<lambda>payload_bytes.
      and_then (ok_or MalformedProof (dl_claims dl payload_bytes)) (\<lambda>cl.
      and_then (ok_or MalformedProof (b64_decode b64 encoded_signature)) (\<lambda>signature.
      Inr (header, cl, take (length encoded_header + 1 + length encoded_payload) raw,
           signature))))))))))"

definition dpop_algorithm :: "string \<Rightarrow> jwt_algorithm option" where
  "dpop_algorithm v =
     (if v = ''EdDSA'' then Some EdDSA else if v = ''ES256'' then Some ES256 else None)"

definition has_private_key_material :: "json \<Rightarrow> bool" where
  "has_private_key_material key =
     list_ex (\<lambda>member. json_get key member \<noteq> None)
       [''d'', ''p'', ''q'', ''dp'', ''dq'', ''qi'', ''oth'', ''k'']"

definition key_ops_allow_verification :: "json \<Rightarrow> bool" where
  "key_ops_allow_verification key =
     (case json_get key ''key_ops'' of
        None \<Rightarrow> True
      | Some operations \<Rightarrow>
         (case as_array operations of
            None \<Rightarrow> False
          | Some ops \<Rightarrow> length ops = 1 \<and> as_str (hd ops) = Some ''verify''))"

definition decode_array_32 :: "base64 \<Rightarrow> string \<Rightarrow> dpop_error + string" where
  "decode_array_32 b64 v =
     and_then (ok_or InvalidProof (b64_decode b64 v))
       (\<lambda>bs. if length bs = 32 then Inr bs else Inl InvalidProof)"

definition public_dpop_decoding_key ::
  "base64 \<Rightarrow> json \<Rightarrow> jwt_algorithm \<Rightarrow> dpop_error + verification_key"
where
  "public_dpop_decoding_key b64 key alg =
     (if alg \<noteq> EdDSA \<and> alg \<noteq> ES256 then Inl InvalidProof
      else
        let expected_alg = (if alg = EdDSA then ''EdDSA'' else ''ES256'') in
        if is_some_and (\<lambda>v. v \<noteq> expected_alg) (json_get_str key ''alg'')
           \<or> is_some_and (\<lambda>v. v \<noteq> ''sig'') (json_get_str key ''use'')
           \<or> has_private_key_material key
           \<or> \<not> key_ops_allow_verification key
        then Inl InvalidProof
        else if alg = EdDSA then
          (if json_get_str key ''kty'' \<noteq> Some ''OKP'' \<or> json_get_str key ''crv'' \<noteq> Some ''Ed25519''
           then Inl InvalidProof
           else and_then (ok_or MalformedProof (json_get_str key ''x'')) (\<lambda>x.
                and_then (decode_array_32 b64 x) (\<lambda>bs. Inr (from_ed25519_bytes bs))))
        else
          (if json_get_str key ''kty'' \<noteq> Some ''EC'' \<or> json_get_str key ''crv'' \<noteq> Some ''P-256''
           then Inl InvalidProof
           else and_then (ok_or MalformedProof (json_get_str key ''x'')) (\<lambda>x.
                and_then (ok_or MalformedProof (json_get_str key ''y'')) (\<lambda>y.
                and_then (ok_or InvalidProof (b64_decode b64 x)) (\<lambda>xb.
                and_then (ok_or InvalidProof (b64_decode b64 y)) (\<lambda>yb.
                if length xb = 32 \<and> length yb = 32 then Inr (from_p256_coordinates xb yb)
                else Inl InvalidProof))))))"

definition verify_dpop_signature ::
  "sig_lib \<Rightarrow> jwt_algorithm \<Rightarrow> verification_key \<Rightarrow> string \<Rightarrow> string \<Rightarrow> dpop_error + unit"
where
  "verify_dpop_signature sl alg key signing_input signature =
     (case signature_verify sl alg key signing_input signature of
        Inr _ \<Rightarrow> Inr ()
      | Inl e \<Rightarrow> Inl (if e = CryptoInvalidSignature then InvalidProof else MalformedProof))"

text \<open>The members of RFC 7638 in the order of the sorted map.\<close>

definition jwk_thumbprint :: "dpop_lib \<Rightarrow> json \<Rightarrow> dpop_error + string" where
  "jwk_thumbprint dl key =
     and_then
       (if json_get_str key ''kty'' = Some ''OKP'' then
          and_then (ok_or MalformedProof (json_get_str key ''crv'')) (\<lambda>crv.
          and_then (ok_or MalformedProof (json_get_str key ''x'')) (\<lambda>x.
          Inr [(''crv'', crv), (''kty'', ''OKP''), (''x'', x)]))
        else if json_get_str key ''kty'' = Some ''EC'' then
          and_then (ok_or MalformedProof (json_get_str key ''crv'')) (\<lambda>crv.
          and_then (ok_or MalformedProof (json_get_str key ''x'')) (\<lambda>x.
          and_then (ok_or MalformedProof (json_get_str key ''y'')) (\<lambda>y.
          Inr [(''crv'', crv), (''kty'', ''EC''), (''x'', x), (''y'', y)])))
        else Inl InvalidProof)
       (\<lambda>members. Inr (b64_encode (dl_base64 dl) (dl_sha256 dl (dl_members dl members))))"

definition iat_within_window :: "int \<Rightarrow> int \<Rightarrow> bool" where
  "iat_within_window iat now =
     (if iat > saturating_add_i64 now DPOP_CLOCK_SKEW_SECONDS then False
      else iat > now \<or>
        is_some_and (\<lambda>age. age \<le> DPOP_MAX_PROOF_AGE_SECONDS) (checked_sub_i64 now iat))"

definition valid_jti :: "string \<Rightarrow> bool" where
  "valid_jti jti \<longleftrightarrow> trim jti \<noteq> [] \<and> length jti \<le> MAX_DPOP_JTI_BYTES"

definition normalize_htu :: "url_lib \<Rightarrow> string \<Rightarrow> dpop_error + string" where
  "normalize_htu ul v =
     (case url_parse ul v of
        None \<Rightarrow> Inl MalformedProof
      | Some u \<Rightarrow> Inr (url_without_query_fragment ul u))"

fun any_htu_matches :: "url_lib \<Rightarrow> string \<Rightarrow> bool \<Rightarrow> string list \<Rightarrow> dpop_error + bool" where
  "any_htu_matches ul actual matched [] = Inr matched"
| "any_htu_matches ul actual matched (expected # rest) =
     and_then (normalize_htu ul expected)
       (\<lambda>h. any_htu_matches ul actual (matched \<or> actual = h) rest)"

definition validate_claims ::
  "dpop_lib \<Rightarrow> dpop_proof_request \<Rightarrow> dpop_claims \<Rightarrow> int \<Rightarrow> dpop_error + unit"
where
  "validate_claims dl request cl now =
     and_then (normalize_htu (dl_url dl) (dc_htu cl)) (\<lambda>actual_htu.
     and_then (any_htu_matches (dl_url dl) actual_htu False (dpr_target_uris request))
       (\<lambda>htu_matches.
     if \<not> htu_matches \<or> dc_htm cl \<noteq> dpr_method request then Inl InvalidProof
     else if \<not> iat_within_window (dc_iat cl) now \<or> \<not> valid_jti (dc_jti cl) then Inl InvalidProof
     else case dpr_access_token request of
       None \<Rightarrow> Inr ()
     | Some access_token \<Rightarrow>
         if dc_ath cl \<noteq> Some (b64_encode (dl_base64 dl) (dl_sha256 dl access_token))
         then Inl InvalidProof else Inr ()))"

definition verify_dpop_proof_at ::
  "dpop_lib \<Rightarrow> dpop_proof_request \<Rightarrow> int \<Rightarrow> dpop_error + verified_dpop_proof option"
where
  "verify_dpop_proof_at dl request now =
     (case Option.bind (dpr_proof request) (\<lambda>p. if is_blank p then None else Some p) of
        None \<Rightarrow> if dpr_expected_jkt request \<noteq> None then Inl MissingProof else Inr None
      | Some raw \<Rightarrow>
          and_then (decode_proof dl raw) (\<lambda>(header, cl, signing_input, signature).
          if dh_critical_extension_present header then Inl InvalidProof
          else if \<not> is_some_and (\<lambda>t. eq_ignore_ascii_case t ''dpop+jwt'') (dh_typ header)
          then Inl InvalidProof
          else
          and_then (ok_or InvalidProof (dpop_algorithm (dh_alg header))) (\<lambda>alg.
          and_then (public_dpop_decoding_key (dl_base64 dl) (dh_jwk header) alg) (\<lambda>key.
          and_then (verify_dpop_signature (dl_sig dl) alg key signing_input signature) (\<lambda>_.
          and_then (jwk_thumbprint dl (dh_jwk header)) (\<lambda>jkt.
          if is_some_and (\<lambda>expected. expected \<noteq> jkt) (dpr_expected_jkt request)
          then Inl BindingMismatch
          else
          and_then (validate_claims dl request cl now) (\<lambda>_.
          Inr (Some \<lparr>vdp_jkt = jkt, vdp_jti = dc_jti cl, vdp_nonce = dc_nonce cl,
            vdp_key_id = json_get_str (dh_jwk header) ''kid''\<rparr>))))))))"

subsection \<open>Nonce policy and replay\<close>

text \<open>\<open>new_nonce\<close> is the result of \<open>new_dpop_nonce\<close>, 32 random bytes in base64.\<close>

definition issue_authorization_server_dpop_nonce ::
  "'w dpop_store \<Rightarrow> string \<Rightarrow> ('w, dpop_error, string) io"
where
  "issue_authorization_server_dpop_nonce st new_nonce w =
     (case ds_issue_nonce st new_nonce DPOP_NONCE_TTL_SECONDS w of
        (Inl _, w1) \<Rightarrow> (Inl StateStoreUnavailable, w1)
      | (Inr _, w1) \<Rightarrow> (Inr new_nonce, w1))"

definition demand_nonce :: "'w dpop_store \<Rightarrow> string \<Rightarrow> ('w, dpop_error, unit) io" where
  "demand_nonce st new_nonce w =
     (case issue_authorization_server_dpop_nonce st new_nonce w of
        (Inl e, w1) \<Rightarrow> (Inl e, w1)
      | (Inr n, w1) \<Rightarrow> (Inl (UseNonce n), w1))"

definition validate_nonce ::
  "'w dpop_store \<Rightarrow> string \<Rightarrow> dpop_nonce_policy \<Rightarrow> string option \<Rightarrow> ('w, dpop_error, unit) io"
where
  "validate_nonce st new_nonce policy nonce w =
     (case nonce of
        None \<Rightarrow> if policy = NonceOptional then (Inr (), w) else demand_nonce st new_nonce w
      | Some n \<Rightarrow>
         (case ds_validate_nonce st n w of
            (Inr valid, w1) \<Rightarrow>
              if valid then (Inr (), w1)
              else if policy = NonceOptional then (Inl InvalidProof, w1)
              else demand_nonce st new_nonce w1
          | (Inl _, w1) \<Rightarrow> (Inl StateStoreUnavailable, w1)))"

definition replay_scope ::
  "dpop_lib \<Rightarrow> dpop_proof_request \<Rightarrow> verified_dpop_proof \<Rightarrow> dpop_error + string"
where
  "replay_scope dl request verified =
     (if dpr_access_token request = None then Inr (vdp_jkt verified)
      else
        and_then
          (case dpr_target_uris request of
             [] \<Rightarrow> Inl InvalidProof
           | target # _ \<Rightarrow> normalize_htu (dl_url dl) target)
          (\<lambda>target. Inr (''resource:'' @ dl_blake3_hex dl (dpr_method request @ '':'' @ target))))"

definition validate_authorization_server_dpop_at ::
  "dpop_lib \<Rightarrow> 'w dpop_store \<Rightarrow> string \<Rightarrow> dpop_proof_request \<Rightarrow> dpop_nonce_policy \<Rightarrow> int \<Rightarrow>
    ('w, dpop_error, string option) io"
where
  "validate_authorization_server_dpop_at dl st new_nonce request policy now w =
     (case verify_dpop_proof_at dl request now of
        Inl e \<Rightarrow> (Inl e, w)
      | Inr None \<Rightarrow> (Inr None, w)
      | Inr (Some verified) \<Rightarrow>
     (case validate_nonce st new_nonce policy (vdp_nonce verified) w of
        (Inl e, w1) \<Rightarrow> (Inl e, w1)
      | (Inr _, w1) \<Rightarrow>
     (case replay_scope dl request verified of
        Inl e \<Rightarrow> (Inl e, w1)
      | Inr scope \<Rightarrow>
     (case ds_consume_replay st scope (vdp_jti verified) DPOP_REPLAY_TTL_SECONDS w1 of
        (Inl _, w2) \<Rightarrow> (Inl StateStoreUnavailable, w2)
      | (Inr accepted, w2) \<Rightarrow>
          if accepted then (Inr (Some (vdp_jkt verified)), w2)
          else (Inl (ReplayDetected
            \<lparr>dra_jti_hash = dl_blake3_hex dl (vdp_jti verified),
             dra_key_id = vdp_key_id verified\<rparr>), w2)))))"

subsection \<open>What an accepted proof satisfies\<close>

lemma iat_within_window_iff:
  assumes "is_i64 now" and "is_i64 iat" and "is_i64 (now - iat)" and "is_i64 (now + 30)"
  shows "iat_within_window iat now \<longleftrightarrow> now - 300 \<le> iat \<and> iat \<le> now + 30"
  using assms
  by (auto simp: iat_within_window_def DPOP_CLOCK_SKEW_SECONDS_def DPOP_MAX_PROOF_AGE_SECONDS_def
    saturating_add_i64_def checked_sub_i64_def is_i64_def)

lemma iat_within_window_bounds:
  assumes "iat_within_window iat now" and "is_i64 now" and "is_i64 iat"
  shows "now - 300 \<le> iat" and "iat \<le> now + 30"
  using assms
  by (auto simp: iat_within_window_def DPOP_CLOCK_SKEW_SECONDS_def DPOP_MAX_PROOF_AGE_SECONDS_def
    saturating_add_i64_def checked_sub_i64_def is_i64_def int_bounds split: if_splits)

lemma any_htu_matches_ok:
  "any_htu_matches ul actual matched targets = Inr m \<Longrightarrow>
     m \<longleftrightarrow> matched \<or> (\<exists>t \<in> set targets. normalize_htu ul t = Inr actual)"
proof (induction targets arbitrary: matched)
  case (Cons t targets)
  then obtain h where h: "normalize_htu ul t = Inr h"
    and rest: "any_htu_matches ul actual (matched \<or> actual = h) targets = Inr m"
    by (auto simp: and_then_Inr)
  from Cons.IH [OF rest] h show ?case by auto
qed simp

lemma validate_claims_ok:
  assumes "validate_claims dl request cl now = Inr u"
  shows "\<exists>h t. normalize_htu (dl_url dl) (dc_htu cl) = Inr h \<and> t \<in> set (dpr_target_uris request) \<and>
      normalize_htu (dl_url dl) t = Inr h"
    and "dc_htm cl = dpr_method request" and "iat_within_window (dc_iat cl) now"
    and "valid_jti (dc_jti cl)"
    and "is_none_or (\<lambda>at. dc_ath cl = Some (b64_encode (dl_base64 dl) (dl_sha256 dl at)))
      (dpr_access_token request)"
  using assms
  by (auto simp: validate_claims_def and_then_Inr dest!: any_htu_matches_ok
    split: if_split_asm option.split_asm)

lemma decode_proof_signing_input:
  assumes "decode_proof dl raw = Inr (h, cl, signing_input, signature)"
  shows "\<exists>hp pp sp. raw = hp @ ''.'' @ pp @ ''.'' @ sp \<and> signing_input = hp @ ''.'' @ pp \<and>
    b64_decode (dl_base64 dl) sp = Some signature \<and>
    Option.bind (b64_decode (dl_base64 dl) hp) (dl_header dl) = Some h \<and>
    Option.bind (b64_decode (dl_base64 dl) pp) (dl_claims dl) = Some cl"
proof -
  let ?parts = "split_on CHR ''.'' raw"
  obtain hp pp sp hb pb where seg: "nth_segment ?parts 0 = Some hp" "nth_segment ?parts 1 = Some pp"
      "nth_segment ?parts 2 = Some sp" "nth_segment ?parts 3 = None"
    and b: "b64_decode (dl_base64 dl) hp = Some hb" "dl_header dl hb = Some h"
      "b64_decode (dl_base64 dl) pp = Some pb" "dl_claims dl pb = Some cl"
      "b64_decode (dl_base64 dl) sp = Some signature"
    and si: "signing_input = take (length hp + 1 + length pp) raw"
    using assms unfolding decode_proof_def Let_def
    by (auto simp: and_then_Inr nonempty_segment_def ok_or_def
      split: option.split_asm if_split_asm)
  from seg obtain p0 p1 p2 where parts: "?parts = [p0, p1, p2]"
    by (cases ?parts rule: remdups_adj.cases; cases "tl (tl ?parts)"; cases "tl (tl (tl ?parts))")
      (auto simp: nth_segment_def)
  with seg have "?parts = [hp, pp, sp]" by (auto simp: nth_segment_def)
  with join_split_on [of "CHR ''.''" raw] have raw: "raw = hp @ ''.'' @ pp @ ''.'' @ sp" by simp
  with si b show ?thesis
    by (intro exI [of _ hp] exI [of _ pp] exI [of _ sp]) simp
qed

lemma verify_dpop_proof_at_ok:
  assumes "verify_dpop_proof_at dl request now = Inr (Some v)"
  obtains raw h cl si sg alg key where
    "dpr_proof request = Some raw" "decode_proof dl raw = Inr (h, cl, si, sg)"
    "\<not> dh_critical_extension_present h"
    "dpop_algorithm (dh_alg h) = Some alg"
    "public_dpop_decoding_key (dl_base64 dl) (dh_jwk h) alg = Inr key"
    "signature_verify (dl_sig dl) alg key si sg = Inr ()"
    "jwk_thumbprint dl (dh_jwk h) = Inr (vdp_jkt v)"
    "is_none_or (\<lambda>j. j = vdp_jkt v) (dpr_expected_jkt request)"
    "validate_claims dl request cl now = Inr ()"
    "vdp_jti v = dc_jti cl" "vdp_nonce v = dc_nonce cl"
proof -
  from assms obtain raw where raw: "dpr_proof request = Some raw"
    and run: "verify_dpop_proof_at dl request now = Inr (Some v)" and nb: "\<not> is_blank raw"
    by (cases "dpr_proof request")
      (auto simp: verify_dpop_proof_at_def split: if_split_asm)
  from run raw nb obtain h cl si sg where dec: "decode_proof dl raw = Inr (h, cl, si, sg)"
    by (auto simp: verify_dpop_proof_at_def and_then_Inr)
  from run raw nb dec show thesis
    by (auto simp: verify_dpop_proof_at_def verify_dpop_signature_def and_then_Inr ok_or_def
      is_some_and_iff is_none_or_iff
      intro!: that split: if_split_asm option.split_asm sum.split_asm)
qed

end
