(* ===== verification/Token_Policy.thy ===== *)
theory Token_Policy
  imports Client Base64
begin

text \<open>
  Who may use the token endpoint, and with which proof
  (\<open>src/crates/authorization-server-core/src\<close>: \<open>grant.rs\<close>,
  \<open>error.rs\<close>, \<open>profile.rs\<close>, \<open>sender_constraint.rs\<close>,
  \<open>client.rs\<close>, \<open>client_authentication.rs\<close>, \<open>token_endpoint.rs\<close>,
  \<open>pkce.rs\<close>, \<open>client_attestation.rs\<close>). The lemmas characterise the accepted
  inputs of each policy exactly; the properties are in \<open>Token_Properties\<close>.
\<close>

subsection \<open>Grant types, error codes, profiles\<close>

datatype grant_type =
    AuthorizationCode | RefreshToken | ClientCredentials | DeviceCode | TokenExchange | JwtBearer
  | Ciba

datatype unsupported_grant_type = UnsupportedGrantType

fun grant_type_as_str :: "grant_type \<Rightarrow> string" where
  "grant_type_as_str AuthorizationCode = ''authorization_code''"
| "grant_type_as_str RefreshToken = ''refresh_token''"
| "grant_type_as_str ClientCredentials = ''client_credentials''"
| "grant_type_as_str DeviceCode = ''urn:ietf:params:oauth:grant-type:device_code''"
| "grant_type_as_str TokenExchange = ''urn:ietf:params:oauth:grant-type:token-exchange''"
| "grant_type_as_str JwtBearer = ''urn:ietf:params:oauth:grant-type:jwt-bearer''"
| "grant_type_as_str Ciba = ''urn:openid:params:grant-type:ciba''"

definition grant_type_try_from :: "string \<Rightarrow> unsupported_grant_type + grant_type" where
  "grant_type_try_from v =
     (if v = ''authorization_code'' then Inr AuthorizationCode
      else if v = ''refresh_token'' then Inr RefreshToken
      else if v = ''client_credentials'' then Inr ClientCredentials
      else if v = ''urn:ietf:params:oauth:grant-type:device_code'' then Inr DeviceCode
      else if v = ''urn:ietf:params:oauth:grant-type:token-exchange'' then Inr TokenExchange
      else if v = ''urn:ietf:params:oauth:grant-type:jwt-bearer'' then Inr JwtBearer
      else if v = ''urn:openid:params:grant-type:ciba'' then Inr Ciba
      else Inl UnsupportedGrantType)"

datatype protocol_error_code =
    PInvalidRequest | PInvalidClient | PInvalidGrant | PUnauthorizedClient
  | PUnsupportedGrantType | PInvalidScope | PAccessDenied | PServerError
  | PTemporarilyUnavailable

fun protocol_error_code_as_str :: "protocol_error_code \<Rightarrow> string" where
  "protocol_error_code_as_str PInvalidRequest = ''invalid_request''"
| "protocol_error_code_as_str PInvalidClient = ''invalid_client''"
| "protocol_error_code_as_str PInvalidGrant = ''invalid_grant''"
| "protocol_error_code_as_str PUnauthorizedClient = ''unauthorized_client''"
| "protocol_error_code_as_str PUnsupportedGrantType = ''unsupported_grant_type''"
| "protocol_error_code_as_str PInvalidScope = ''invalid_scope''"
| "protocol_error_code_as_str PAccessDenied = ''access_denied''"
| "protocol_error_code_as_str PServerError = ''server_error''"
| "protocol_error_code_as_str PTemporarilyUnavailable = ''temporarily_unavailable''"

record protocol_error =
  pe_code :: protocol_error_code
  pe_description :: string

datatype security_profile = ProfileBaseline | Fapi2Security | Fapi2MessageSigning

fun profile_requires_fapi2_security :: "security_profile \<Rightarrow> bool" where
  "profile_requires_fapi2_security ProfileBaseline = False"
| "profile_requires_fapi2_security Fapi2Security = True"
| "profile_requires_fapi2_security Fapi2MessageSigning = True"

subsection \<open>Sender constraints\<close>

datatype sender_constraint_policy = BearerAllowed | DpopRequired | MtlsRequired | DpopOrMtls

definition is_sender_constrained :: "sender_constraint_policy \<Rightarrow> bool" where
  "is_sender_constrained p \<longleftrightarrow> p \<noteq> BearerAllowed"

definition is_valid_dpop_jkt :: "base64 \<Rightarrow> string \<Rightarrow> bool" where
  "is_valid_dpop_jkt b64 v \<longleftrightarrow>
     length v = 43 \<and> is_some_and (\<lambda>bs. length bs = 32) (b64_decode_slice b64 32 v)"

text \<open>The loop that fills the 32 bytes: the number of bytes to fill, the digits not read yet.
  It leaves the bytes and the remaining digits.\<close>

fun hex_bytes :: "nat \<Rightarrow> string \<Rightarrow> (string \<times> string) option" where
  "hex_bytes 0 s = Some ([], s)"
| "hex_bytes (Suc n) (c # d # s) =
     (case hex_digit c of None \<Rightarrow> None | Some h \<Rightarrow>
     (case hex_digit d of None \<Rightarrow> None | Some l \<Rightarrow>
      map_option (\<lambda>(bs, r). (char_of (h * 16 + l) # bs, r)) (hex_bytes n s)))"
| "hex_bytes (Suc n) _ = None"

definition normalize_sha256_thumbprint :: "base64 \<Rightarrow> string \<Rightarrow> string option" where
  "normalize_sha256_thumbprint b64 v =
     (let trimmed = trim v in
      if is_valid_dpop_jkt b64 trimmed then Some trimmed
      else
        let hex = filter (\<lambda>c. \<not> byte c \<in> {58, 32, 9, 13, 10}) trimmed
        in case hex_bytes 32 hex of
             None \<Rightarrow> None
           | Some (bs, r) \<Rightarrow> if r = [] then Some (b64_encode b64 bs) else None)"

subsection \<open>The security profile of a token request\<close>

record client_profile =
  cp_client_type :: string
  cp_authentication_method :: string
  cp_sender_constraint :: sender_constraint_policy

definition strong_authentication_method :: "string \<Rightarrow> bool" where
  "strong_authentication_method m \<longleftrightarrow>
     m = ''private_key_jwt'' \<or> m = ''tls_client_auth'' \<or> m = ''self_signed_tls_client_auth''"

definition validate_token_request_profile ::
  "security_profile \<Rightarrow> client_profile \<Rightarrow> protocol_error + unit"
where
  "validate_token_request_profile profile client =
     (if \<not> profile_requires_fapi2_security profile then Inr ()
      else if cp_client_type client \<noteq> ''confidential'' then
        Inl \<lparr>pe_code = PUnauthorizedClient,
             pe_description = ''FAPI2 profiles require confidential clients.''\<rparr>
      else if \<not> strong_authentication_method (cp_authentication_method client) then
        Inl \<lparr>pe_code = PInvalidClient,
             pe_description =
               ''FAPI2 profiles require private_key_jwt or mTLS client authentication.''\<rparr>
      else if \<not> is_sender_constrained (cp_sender_constraint client) then
        Inl \<lparr>pe_code = PInvalidRequest,
             pe_description = ''FAPI2 profiles require sender-constrained access tokens.''\<rparr>
      else Inr ())"

subsection \<open>Client authentication\<close>

datatype client_authentication_method =
    AuthNone | ClientSecretBasic | ClientSecretPost | PrivateKeyJwt | TlsClientAuth
  | SelfSignedTlsClientAuth

fun client_authentication_method_as_str :: "client_authentication_method \<Rightarrow> string" where
  "client_authentication_method_as_str AuthNone = ''none''"
| "client_authentication_method_as_str ClientSecretBasic = ''client_secret_basic''"
| "client_authentication_method_as_str ClientSecretPost = ''client_secret_post''"
| "client_authentication_method_as_str PrivateKeyJwt = ''private_key_jwt''"
| "client_authentication_method_as_str TlsClientAuth = ''tls_client_auth''"
| "client_authentication_method_as_str SelfSignedTlsClientAuth = ''self_signed_tls_client_auth''"

datatype client_authentication_policy_error =
  AuthInvalidClient | PublicClientCredentialsForbidden

definition client_authentication_method_try_from ::
  "string \<Rightarrow> client_authentication_policy_error + client_authentication_method"
where
  "client_authentication_method_try_from v =
     (if v = ''none'' then Inr AuthNone
      else if v = ''client_secret_basic'' then Inr ClientSecretBasic
      else if v = ''client_secret_post'' then Inr ClientSecretPost
      else if v = ''private_key_jwt'' then Inr PrivateKeyJwt
      else if v = ''tls_client_auth'' then Inr TlsClientAuth
      else if v = ''self_signed_tls_client_auth'' then Inr SelfSignedTlsClientAuth
      else Inl AuthInvalidClient)"

record presented_client_credentials =
  pcc_client_id :: "string option"
  pcc_client_secret :: "string option"
  pcc_client_assertion :: "string option"
  pcc_method :: string

datatype client_authentication_context = ConfidentialOnly | AllowPublicNone

datatype client_auth_requirement =
    RequirePublicClient
  | RequireClientSecret client_authentication_method string
  | RequirePrivateKeyJwt string
  | RequireMutualTls client_authentication_method

definition transport_method_matches ::
  "client_authentication_method \<Rightarrow> client_authentication_method \<Rightarrow> bool"
where
  "transport_method_matches registered presented \<longleftrightarrow>
     registered = presented \<or> (registered = SelfSignedTlsClientAuth \<and> presented = TlsClientAuth)"

text \<open>The operation for the registered method of a confidential client.\<close>

fun registered_requirement ::
  "client_authentication_method \<Rightarrow> presented_client_credentials \<Rightarrow>
    client_authentication_policy_error + client_auth_requirement"
where
  "registered_requirement AuthNone creds = Inl AuthInvalidClient"
| "registered_requirement PrivateKeyJwt creds =
     (case pcc_client_assertion creds of
        None \<Rightarrow> Inl AuthInvalidClient
      | Some assertion \<Rightarrow>
          if assertion = [] then Inl AuthInvalidClient
          else if pcc_client_secret creds \<noteq> None then Inl AuthInvalidClient
          else Inr (RequirePrivateKeyJwt assertion))"
| "registered_requirement TlsClientAuth creds =
     (if pcc_client_secret creds \<noteq> None \<or> pcc_client_assertion creds \<noteq> None
      then Inl AuthInvalidClient else Inr (RequireMutualTls TlsClientAuth))"
| "registered_requirement SelfSignedTlsClientAuth creds =
     (if pcc_client_secret creds \<noteq> None \<or> pcc_client_assertion creds \<noteq> None
      then Inl AuthInvalidClient else Inr (RequireMutualTls SelfSignedTlsClientAuth))"
| "registered_requirement m creds =
     (case pcc_client_secret creds of
        None \<Rightarrow> Inl AuthInvalidClient
      | Some secret \<Rightarrow>
          if secret = [] then Inl AuthInvalidClient
          else if pcc_client_assertion creds \<noteq> None then Inl AuthInvalidClient
          else Inr (RequireClientSecret m secret))"

definition client_authentication_requirement ::
  "oauth_client \<Rightarrow> presented_client_credentials \<Rightarrow> client_authentication_context \<Rightarrow>
    client_authentication_policy_error + client_auth_requirement"
where
  "client_authentication_requirement client creds context =
     (let reg = registration client in
      if pcc_client_id creds \<noteq> Some (oc_client_id client) then Inl AuthInvalidClient
      else case client_authentication_method_try_from (pcc_method creds) of
        Inl e \<Rightarrow> Inl e
      | Inr presented \<Rightarrow>
          if client_type reg = ''public'' then
            if token_endpoint_auth_method reg \<noteq> ''none'' then Inl AuthInvalidClient
            else if context = AllowPublicNone \<and> presented = AuthNone
              \<and> pcc_client_secret creds = None \<and> pcc_client_assertion creds = None
            then Inr RequirePublicClient
            else Inl PublicClientCredentialsForbidden
          else if client_type reg \<noteq> ''confidential'' then Inl AuthInvalidClient
          else case client_authentication_method_try_from (token_endpoint_auth_method reg) of
            Inl e \<Rightarrow> Inl e
          | Inr registered \<Rightarrow>
              if \<not> transport_method_matches registered presented then Inl AuthInvalidClient
              else registered_requirement registered creds)"

subsection \<open>Token endpoint admission\<close>

datatype token_endpoint_error =
    TInvalidRequest | TInvalidClient | TInvalidGrant | TInvalidScope | TInvalidTarget
  | TUnauthorizedClient | TUnsupportedGrantType | TServerError

fun token_endpoint_oauth_error :: "token_endpoint_error \<Rightarrow> string" where
  "token_endpoint_oauth_error TInvalidRequest = ''invalid_request''"
| "token_endpoint_oauth_error TInvalidClient = ''invalid_client''"
| "token_endpoint_oauth_error TInvalidGrant = ''invalid_grant''"
| "token_endpoint_oauth_error TInvalidScope = ''invalid_scope''"
| "token_endpoint_oauth_error TInvalidTarget = ''invalid_target''"
| "token_endpoint_oauth_error TUnauthorizedClient = ''unauthorized_client''"
| "token_endpoint_oauth_error TUnsupportedGrantType = ''unsupported_grant_type''"
| "token_endpoint_oauth_error TServerError = ''server_error''"

record token_client_auth_presentation =
  pres_http_basic :: bool
  pres_form_client_id :: bool
  pres_form_client_secret :: bool
  pres_client_assertion_type :: bool
  pres_client_assertion :: bool

record token_client_authentication_context =
  ctx_http_basic :: bool
  ctx_has_assertion :: bool
  ctx_has_any_client_auth_material :: bool

definition token_client_authentication_context_of ::
  "token_client_auth_presentation \<Rightarrow> token_endpoint_error + token_client_authentication_context"
where
  "token_client_authentication_context_of p =
     (let has_assertion = pres_client_assertion_type p \<or> pres_client_assertion p in
      if pres_http_basic p \<and>
           (pres_form_client_id p \<or> pres_form_client_secret p \<or> has_assertion)
         \<or> has_assertion \<and> pres_form_client_secret p
      then Inl TInvalidRequest
      else Inr
        \<lparr>ctx_http_basic = pres_http_basic p,
         ctx_has_assertion = has_assertion,
         ctx_has_any_client_auth_material =
           pres_http_basic p \<or> pres_form_client_id p \<or> pres_form_client_secret p
           \<or> has_assertion\<rparr>)"

record token_client_policy =
  tcp_active :: bool
  tcp_client_type :: string
  tcp_enabled_grants :: "string list"
  tcp_authentication_method :: string
  tcp_require_dpop_bound_tokens :: bool
  tcp_require_mtls_bound_tokens :: bool

record admitted_token_client =
  atc_grant_type :: grant_type
  atc_authentication_method :: client_authentication_method
  atc_sender_constraint :: sender_constraint_policy

fun sender_constraint_policy_of :: "bool \<Rightarrow> bool \<Rightarrow> sender_constraint_policy" where
  "sender_constraint_policy_of False False = BearerAllowed"
| "sender_constraint_policy_of True False = DpopRequired"
| "sender_constraint_policy_of False True = MtlsRequired"
| "sender_constraint_policy_of True True = DpopOrMtls"

definition admit_token_client ::
  "grant_type \<Rightarrow> security_profile \<Rightarrow> token_client_policy \<Rightarrow>
    token_endpoint_error + admitted_token_client"
where
  "admit_token_client grant profile client =
     (if \<not> tcp_active client
         \<or> \<not> list_ex (\<lambda>enabled. enabled = grant_type_as_str grant) (tcp_enabled_grants client)
      then Inl TUnauthorizedClient
      else case client_authentication_method_try_from (tcp_authentication_method client) of
        Inl _ \<Rightarrow> Inl TInvalidClient
      | Inr method \<Rightarrow>
          let constraint = sender_constraint_policy_of
                (tcp_require_dpop_bound_tokens client) (tcp_require_mtls_bound_tokens client)
          in case validate_token_request_profile profile
                    \<lparr>cp_client_type = tcp_client_type client,
                     cp_authentication_method = tcp_authentication_method client,
                     cp_sender_constraint = constraint\<rparr> of
               Inl e \<Rightarrow> Inl
                 (case pe_code e of
                    PUnauthorizedClient \<Rightarrow> TUnauthorizedClient
                  | PInvalidClient \<Rightarrow> TInvalidClient
                  | PInvalidRequest \<Rightarrow> TInvalidRequest
                  | _ \<Rightarrow> TServerError)
             | Inr _ \<Rightarrow> Inr
                 \<lparr>atc_grant_type = grant, atc_authentication_method = method,
                  atc_sender_constraint = constraint\<rparr>)"

record presented_sender_constraint =
  psc_dpop_jkt :: "string option"
  psc_mtls_x5t_s256 :: "string option"

datatype applied_sender_constraint = AppliedBearer | AppliedDpop string | AppliedMutualTls string

fun sender_constraint_allowed ::
  "sender_constraint_policy \<Rightarrow> applied_sender_constraint \<Rightarrow> bool"
where
  "sender_constraint_allowed BearerAllowed _ = True"
| "sender_constraint_allowed DpopRequired (AppliedDpop _) = True"
| "sender_constraint_allowed MtlsRequired (AppliedMutualTls _) = True"
| "sender_constraint_allowed DpopOrMtls (AppliedDpop _) = True"
| "sender_constraint_allowed DpopOrMtls (AppliedMutualTls _) = True"
| "sender_constraint_allowed _ _ = False"

definition apply_sender_constraint ::
  "sender_constraint_policy \<Rightarrow> presented_sender_constraint \<Rightarrow>
    token_endpoint_error + applied_sender_constraint"
where
  "apply_sender_constraint policy presented =
     (case (psc_dpop_jkt presented, psc_mtls_x5t_s256 presented) of
        (Some _, Some _) \<Rightarrow> Inl TInvalidRequest
      | (Some jkt, None) \<Rightarrow>
          if sender_constraint_allowed policy (AppliedDpop jkt) then Inr (AppliedDpop jkt)
          else Inl TInvalidRequest
      | (None, Some x5t) \<Rightarrow>
          if sender_constraint_allowed policy (AppliedMutualTls x5t) then Inr (AppliedMutualTls x5t)
          else Inl TInvalidRequest
      | (None, None) \<Rightarrow>
          if sender_constraint_allowed policy AppliedBearer then Inr AppliedBearer
          else Inl TInvalidRequest)"

subsection \<open>Stored PKCE challenges\<close>

record s256_pkce =
  s256_code_challenge :: "string option"

record stored_pkce =
  sp_s256_code_challenge :: "string option"
  sp_code_challenge :: "string option"
  sp_code_challenge_method :: "string option"

definition s256_pkce_from :: "string option \<Rightarrow> s256_pkce" where
  "s256_pkce_from c = \<lparr>s256_code_challenge = c\<rparr>"

definition s256_pkce_try_from :: "stored_pkce \<Rightarrow> string + s256_pkce" where
  "s256_pkce_try_from v =
     (case (sp_s256_code_challenge v, sp_code_challenge v, sp_code_challenge_method v) of
        (challenge, None, None) \<Rightarrow> Inr (s256_pkce_from challenge)
      | (None, Some challenge, Some m) \<Rightarrow>
          if m = ''S256'' then Inr (s256_pkce_from (Some challenge))
          else Inl ''stored PKCE must have one S256 challenge authority''
      | _ \<Rightarrow> Inl ''stored PKCE must have one S256 challenge authority'')"

definition pkce_challenge :: "s256_pkce \<Rightarrow> string option" where
  "pkce_challenge p = s256_code_challenge p"

subsection \<open>Client attestation\<close>

record client_attestation_proof_window =
  window_not_before :: int
  window_expires_at :: int

definition FUTURE_TOLERANCE_SECONDS :: int where "FUTURE_TOLERANCE_SECONDS = 60"
definition MAX_AGE_SECONDS :: int where "MAX_AGE_SECONDS = 300"

definition from_verified_issued_at :: "int \<Rightarrow> client_attestation_proof_window option" where
  "from_verified_issued_at iat =
     (case checked_sub_i64 iat FUTURE_TOLERANCE_SECONDS of None \<Rightarrow> None | Some nbf \<Rightarrow>
     (case checked_add_i64 iat MAX_AGE_SECONDS of None \<Rightarrow> None | Some last_accepted \<Rightarrow>
     (case checked_add_i64 last_accepted 1 of None \<Rightarrow> None | Some exp \<Rightarrow>
      Some \<lparr>window_not_before = nbf, window_expires_at = exp\<rparr>)))"

definition window_accepts :: "client_attestation_proof_window \<Rightarrow> int \<Rightarrow> bool" where
  "window_accepts w now \<longleftrightarrow> window_not_before w \<le> now \<and> now < window_expires_at w"

subsection \<open>What the policies accept\<close>

lemma grant_type_try_from_iff: "grant_type_try_from v = Inr g \<longleftrightarrow> v = grant_type_as_str g"
  by (cases g) (auto simp: grant_type_try_from_def)

lemma client_authentication_method_try_from_iff:
  "client_authentication_method_try_from v = Inr m \<longleftrightarrow> v = client_authentication_method_as_str m"
  by (cases m) (auto simp: client_authentication_method_try_from_def)

lemma validate_token_request_profile_iff:
  "validate_token_request_profile profile client = Inr u \<longleftrightarrow>
     (profile_requires_fapi2_security profile \<longrightarrow>
        cp_client_type client = ''confidential'' \<and>
        strong_authentication_method (cp_authentication_method client) \<and>
        is_sender_constrained (cp_sender_constraint client))"
  by (auto simp: validate_token_request_profile_def)

lemma admit_token_client_iff:
  "admit_token_client grant profile client = Inr a \<longleftrightarrow>
     tcp_active client \<and> grant_type_as_str grant \<in> set (tcp_enabled_grants client) \<and>
     tcp_authentication_method client =
       client_authentication_method_as_str (atc_authentication_method a) \<and>
     atc_grant_type a = grant \<and>
     atc_sender_constraint a = sender_constraint_policy_of
       (tcp_require_dpop_bound_tokens client) (tcp_require_mtls_bound_tokens client) \<and>
     (profile_requires_fapi2_security profile \<longrightarrow>
        tcp_client_type client = ''confidential'' \<and>
        strong_authentication_method (tcp_authentication_method client) \<and>
        is_sender_constrained (atc_sender_constraint a))"
  (is "_ \<longleftrightarrow> ?ok")
proof (cases "client_authentication_method_try_from (tcp_authentication_method client)")
  case (Inl e)
  then have "tcp_authentication_method client \<noteq> client_authentication_method_as_str m" for m
    using client_authentication_method_try_from_iff [of "tcp_authentication_method client" m]
    by auto
  with Inl show ?thesis by (simp add: admit_token_client_def)
next
  case (Inr m)
  then have "tcp_authentication_method client = client_authentication_method_as_str m'
      \<longleftrightarrow> m' = m" for m'
    by (metis client_authentication_method_try_from_iff sum.inject(2))
  with Inr show ?thesis
    by (cases a) (auto simp: admit_token_client_def Let_def list_ex_iff
      validate_token_request_profile_def)
qed

text \<open>The presentation that yields an applied constraint: exactly its own proof.\<close>

fun presentation_of :: "applied_sender_constraint \<Rightarrow> presented_sender_constraint" where
  "presentation_of AppliedBearer = \<lparr>psc_dpop_jkt = None, psc_mtls_x5t_s256 = None\<rparr>"
| "presentation_of (AppliedDpop jkt) = \<lparr>psc_dpop_jkt = Some jkt, psc_mtls_x5t_s256 = None\<rparr>"
| "presentation_of (AppliedMutualTls x) = \<lparr>psc_dpop_jkt = None, psc_mtls_x5t_s256 = Some x\<rparr>"

lemma apply_sender_constraint_iff:
  "apply_sender_constraint policy presented = Inr a \<longleftrightarrow>
     presented = presentation_of a \<and> sender_constraint_allowed policy a"
  by (cases presented; cases a) (auto simp: apply_sender_constraint_def split: option.splits)

lemma allowed_not_bearer:
  "is_sender_constrained policy \<Longrightarrow> sender_constraint_allowed policy a \<Longrightarrow> a \<noteq> AppliedBearer"
  by (cases policy) (auto simp: is_sender_constrained_def)

lemma registered_requirement_iff:
  "registered_requirement m creds = Inr r \<longleftrightarrow>
     (case r of
        RequirePublicClient \<Rightarrow> False
      | RequireClientSecret m' secret \<Rightarrow>
          m' = m \<and> m \<in> {ClientSecretBasic, ClientSecretPost} \<and> secret \<noteq> [] \<and>
          pcc_client_secret creds = Some secret \<and> pcc_client_assertion creds = None
      | RequirePrivateKeyJwt assertion \<Rightarrow>
          m = PrivateKeyJwt \<and> assertion \<noteq> [] \<and>
          pcc_client_assertion creds = Some assertion \<and> pcc_client_secret creds = None
      | RequireMutualTls m' \<Rightarrow>
          m' = m \<and> m \<in> {TlsClientAuth, SelfSignedTlsClientAuth} \<and>
          pcc_client_secret creds = None \<and> pcc_client_assertion creds = None)"
  by (cases m; cases r) (auto split: option.splits if_splits)

lemma from_verified_issued_at_iff:
  "from_verified_issued_at iat = Some w \<longleftrightarrow>
     is_i64 (iat - 60) \<and> is_i64 (iat + 300) \<and> is_i64 (iat + 301) \<and>
     w = \<lparr>window_not_before = iat - 60, window_expires_at = iat + 301\<rparr>"
  by (auto simp: from_verified_issued_at_def FUTURE_TOLERANCE_SECONDS_def MAX_AGE_SECONDS_def
    checked_sub_i64_def checked_add_i64_def ac_simps)

lemma hex_bytes_length: "hex_bytes n s = Some (bs, r) \<Longrightarrow> length bs = n"
  by (induction n s arbitrary: bs r rule: hex_bytes.induct) (auto split: option.splits)

context base64_engine
begin

lemma valid_jkt_encode: "length bs = 32 \<Longrightarrow> is_valid_dpop_jkt b64 (b64_encode b64 bs)"
  by (simp add: is_valid_dpop_jkt_def encode_length decode_slice_encode)

lemma valid_jkt_trim: "is_valid_dpop_jkt b64 v \<Longrightarrow> trim v = v"
  by (rule trim_printable)
    (auto simp: is_valid_dpop_jkt_def is_some_and_iff decode_slice
      dest!: decode_alphabet intro: alphabet_printable)

lemma normalize_valid:
  "normalize_sha256_thumbprint b64 v = Some t \<Longrightarrow> is_valid_dpop_jkt b64 t"
  by (auto simp: normalize_sha256_thumbprint_def Let_def
    intro!: valid_jkt_encode dest!: hex_bytes_length split: if_splits option.splits)

lemma normalize_id: "is_valid_dpop_jkt b64 t \<Longrightarrow> normalize_sha256_thumbprint b64 t = Some t"
  by (simp add: normalize_sha256_thumbprint_def valid_jkt_trim)

end

end
