(* ===== verification/Replay_Store.thy ===== *)
theory Replay_Store
  imports Valkey_Commands Valkey_Keys Dpop Token_Policy
begin

text \<open>
  The replay store of the Valkey adapter
  (\<open>src/crates/state-store-valkey/src/replay.rs\<close>) and the time window of an HTTP message signature
  (\<open>src/crates/http-signatures/src/verify.rs\<close>).

  The locale \<open>replay_server\<close> adds to the server's laws what replay detection relies on:
  the server's clock does not go back, and nobody removes a live marker before its deadline.
  Its lemmas show that a marker set for a time admits no second consumption within that time.
\<close>

subsection \<open>The store\<close>

text \<open>The connection with its namespace, and the functions of \<open>blake3\<close>, \<open>uuid\<close> and
  the server's Lua that the store uses: \<open>rs_lua_number\<close> is \<open>tonumber\<close> of the decimal
  text of an integer.\<close>

record 'w replay_store =
  rs_vk :: "'w valkey"
  rs_namespace :: string
  rs_digest :: "string \<Rightarrow> string"
  rs_uuid_text :: "uuid \<Rightarrow> string"
  rs_fingerprint_hex :: "string \<Rightarrow> string"
  rs_lua_number :: "int \<Rightarrow> int"

definition CLIENT_ATTESTATION_PROOF_SCRIPT ::
  "'w replay_store \<Rightarrow> string \<Rightarrow> int \<Rightarrow> int \<Rightarrow> 'w \<Rightarrow> vk_reply \<times> 'w"
where
  "CLIENT_ATTESTATION_PROOF_SCRIPT rs key not_before_arg expires_at_arg w =
     (let now = int (fst (vk_time (rs_vk rs) w));
          not_before = rs_lua_number rs not_before_arg;
          expires_at = rs_lua_number rs expires_at_arg
      in if now < not_before \<or> now \<ge> expires_at then (ReplyBulk ''rejected'', w)
         else case vk_set_nx_exat (rs_vk rs) key ''1'' expires_at w of
           None \<Rightarrow> (ReplyError ''ERR invalid expire time in 'set' command'', w)
         | Some (result, w1) \<Rightarrow>
             if result then (ReplyBulk ''accepted'', w1) else (ReplyBulk ''rejected'', w1))"

definition REQUEST_OBJECT_REPLAY_SCRIPT ::
  "'w replay_store \<Rightarrow> string \<Rightarrow> int \<Rightarrow> 'w \<Rightarrow> vk_reply \<times> 'w"
where
  "REQUEST_OBJECT_REPLAY_SCRIPT rs key expires_at_arg w =
     (let now = int (fst (vk_time (rs_vk rs) w));
          expires_at = rs_lua_number rs expires_at_arg
      in if now \<ge> expires_at then (ReplyBulk ''rejected'', w)
         else case vk_set_nx_exat (rs_vk rs) key ''1'' expires_at_arg w of
           None \<Rightarrow> (ReplyError ''ERR invalid expire time in 'set' command'', w)
         | Some (result, w1) \<Rightarrow>
             if result then (ReplyBulk ''accepted'', w1) else (ReplyBulk ''rejected'', w1))"

definition FAPI_HTTP_SIGNATURE_FUTURE_SKEW_SECONDS :: int where
  "FAPI_HTTP_SIGNATURE_FUTURE_SKEW_SECONDS = 5"

definition consume_fapi_http_signature ::
  "'w replay_store \<Rightarrow> uuid \<Rightarrow> string \<Rightarrow> int \<Rightarrow> ('w, vk_error_kind, bool) io"
where
  "consume_fapi_http_signature rs tenant_id fingerprint max_age_seconds w =
     (case Option.bind
        (checked_add_i64 max_age_seconds FAPI_HTTP_SIGNATURE_FUTURE_SKEW_SECONDS)
        (\<lambda>ttl. if ttl < 0 then None else Some (nat ttl)) of
        None \<Rightarrow> (Inl VkUnexpectedResult, w)
      | Some ttl_seconds \<Rightarrow>
          set_ex_nx (rs_vk rs) (rs_namespace rs)
            (key_fapi_http_signature_replay (rs_uuid_text rs) (rs_fingerprint_hex rs) tenant_id
              fingerprint) ''1'' ttl_seconds w)"

definition consume_key ::
  "'w replay_store \<Rightarrow> string \<Rightarrow> nat \<Rightarrow> ('w, vk_error_kind, bool) io"
where
  "consume_key rs key ttl_seconds = set_ex_nx (rs_vk rs) (rs_namespace rs) key ''1'' ttl_seconds"

definition consume_dpop ::
  "'w replay_store \<Rightarrow> string \<Rightarrow> string \<Rightarrow> nat \<Rightarrow> ('w, vk_error_kind, bool) io"
where
  "consume_dpop rs jkt jti = consume_key rs (key_dpop_replay (rs_digest rs) jkt jti)"

definition issue_dpop_nonce ::
  "'w replay_store \<Rightarrow> string \<Rightarrow> nat \<Rightarrow> ('w, vk_error_kind, unit) io"
where
  "issue_dpop_nonce rs nonce ttl_seconds =
     set_ex (rs_vk rs) (rs_namespace rs) (key_dpop_nonce (rs_digest rs) nonce) ''1'' ttl_seconds"

definition validate_dpop_nonce ::
  "'w replay_store \<Rightarrow> string \<Rightarrow> ('w, vk_error_kind, bool) io"
where
  "validate_dpop_nonce rs nonce w =
     (case command_get (rs_vk rs) (rs_namespace rs) (key_dpop_nonce (rs_digest rs) nonce) w of
        (Inl e, w1) \<Rightarrow> (Inl e, w1)
      | (Inr v, w1) \<Rightarrow> (Inr (v \<noteq> None), w1))"

definition replay_reply :: "string \<Rightarrow> vk_error_kind + bool" where
  "replay_reply reply =
     (if reply = ''accepted'' then Inr True
      else if reply = ''rejected'' then Inr False
      else Inl VkUnexpectedResult)"

definition consume_client_attestation_proof ::
  "'w replay_store \<Rightarrow> string \<Rightarrow> string \<Rightarrow> client_attestation_proof_window \<Rightarrow>
    ('w, vk_error_kind, bool) io"
where
  "consume_client_attestation_proof rs client_id jti window w =
     (case eval_string (rs_vk rs)
        (CLIENT_ATTESTATION_PROOF_SCRIPT rs
          (state_key (rs_namespace rs)
            (key_client_attestation_replay (rs_digest rs) client_id jti))
          (window_not_before window) (window_expires_at window)) w of
        (Inl e, w1) \<Rightarrow> (Inl e, w1)
      | (Inr reply, w1) \<Rightarrow> (replay_reply reply, w1))"

definition consume_private_key_jwt ::
  "'w replay_store \<Rightarrow> string \<Rightarrow> string \<Rightarrow> nat \<Rightarrow> ('w, vk_error_kind, bool) io"
where
  "consume_private_key_jwt rs client_id jti =
     consume_key rs (key_private_key_jwt_replay (rs_digest rs) client_id jti)"

definition consume_jwt_bearer ::
  "'w replay_store \<Rightarrow> string \<Rightarrow> string \<Rightarrow> nat \<Rightarrow> ('w, vk_error_kind, bool) io"
where
  "consume_jwt_bearer rs client_id jti =
     consume_key rs (key_jwt_bearer_replay (rs_digest rs) client_id jti)"

definition consume_request_object_key ::
  "'w replay_store \<Rightarrow> string \<Rightarrow> int \<Rightarrow> ('w, vk_error_kind, bool) io"
where
  "consume_request_object_key rs key expires_at w =
     (case eval_string (rs_vk rs)
        (REQUEST_OBJECT_REPLAY_SCRIPT rs (state_key (rs_namespace rs) key) expires_at) w of
        (Inl e, w1) \<Rightarrow> (Inl e, w1)
      | (Inr reply, w1) \<Rightarrow> (replay_reply reply, w1))"

definition consume_jar ::
  "'w replay_store \<Rightarrow> string \<Rightarrow> string \<Rightarrow> int \<Rightarrow> ('w, vk_error_kind, bool) io"
where
  "consume_jar rs client_id jti =
     consume_request_object_key rs (key_jar_replay (rs_digest rs) client_id jti)"

definition consume_ciba_request_object ::
  "'w replay_store \<Rightarrow> string \<Rightarrow> string \<Rightarrow> int \<Rightarrow> ('w, vk_error_kind, bool) io"
where
  "consume_ciba_request_object rs client_id jti =
     consume_request_object_key rs (key_ciba_request_object_replay (rs_digest rs) client_id jti)"

subsection \<open>Ports\<close>

definition port_result :: "'e \<Rightarrow> (vk_error_kind + 'a) \<times> 'w \<Rightarrow> ('e + 'a) \<times> 'w" where
  "port_result e r = (map_err (\<lambda>_. e) (fst r), snd r)"

definition replay_dpop_store :: "'w replay_store \<Rightarrow> 'w dpop_store" where
  "replay_dpop_store rs =
     \<lparr>ds_consume_replay = (\<lambda>jkt jti ttl w.
        port_result DpopStateStoreError (consume_dpop rs jkt jti ttl w)),
      ds_issue_nonce = (\<lambda>nonce ttl w.
        port_result DpopStateStoreError (issue_dpop_nonce rs nonce ttl w)),
      ds_validate_nonce = (\<lambda>nonce w.
        port_result DpopStateStoreError (validate_dpop_nonce rs nonce w))\<rparr>"

text \<open>The resource server's ports give an absolute expiry; \<open>now\<close> is \<open>Utc::now()\<close> in
  seconds at the call.\<close>

record dpop_replay_key =
  drk_jkt :: string
  drk_jti :: string
  drk_expires_at :: int

datatype dpop_replay_consumption_result = DpopConsumed | DpopReplayed
datatype dpop_nonce_validation_result = DpopNonceAccepted | DpopNonceUnknown

datatype protected_resource_dependency_error =
    PrInvalidTenantBoundary | PrRevocationLookupUnavailable | PrDpopReplayStoreUnavailable
  | PrDpopNonceStoreUnavailable

definition ttl_until :: "int \<Rightarrow> int \<Rightarrow> nat" where
  "ttl_until expires_at now = nat (max (saturating_sub_i64 expires_at now) 1)"

definition replay_consume ::
  "'w replay_store \<Rightarrow> int \<Rightarrow> dpop_replay_key \<Rightarrow>
    ('w, protected_resource_dependency_error, dpop_replay_consumption_result) io"
where
  "replay_consume rs now key w =
     (case consume_dpop rs (drk_jkt key) (drk_jti key) (ttl_until (drk_expires_at key) now) w of
        (Inl _, w1) \<Rightarrow> (Inl PrDpopReplayStoreUnavailable, w1)
      | (Inr accepted, w1) \<Rightarrow> (Inr (if accepted then DpopConsumed else DpopReplayed), w1))"

definition nonce_storage_issue ::
  "'w replay_store \<Rightarrow> int \<Rightarrow> string \<Rightarrow> int \<Rightarrow>
    ('w, protected_resource_dependency_error, unit) io"
where
  "nonce_storage_issue rs now nonce expires_at w =
     port_result PrDpopNonceStoreUnavailable
       (issue_dpop_nonce rs nonce (ttl_until expires_at now) w)"

definition nonce_storage_validate ::
  "'w replay_store \<Rightarrow> string \<Rightarrow>
    ('w, protected_resource_dependency_error, dpop_nonce_validation_result) io"
where
  "nonce_storage_validate rs nonce w =
     (case validate_dpop_nonce rs nonce w of
        (Inl _, w1) \<Rightarrow> (Inl PrDpopNonceStoreUnavailable, w1)
      | (Inr valid, w1) \<Rightarrow> (Inr (if valid then DpopNonceAccepted else DpopNonceUnknown), w1))"

subsection \<open>The time window of an HTTP message signature\<close>

record verification_policy =
  vp_now :: int
  vp_max_age_seconds :: int
  vp_future_skew_seconds :: int

datatype http_verify_error =
    MissingSignature | MalformedSignature | AmbiguousSignature | UnsupportedAlgorithm | InvalidTag
  | MissingComponent | InvalidCreated | DigestMismatch

datatype sfv_item = SfvInteger int | SfvOther

text \<open>\<open>expires\<close> is the parameter of that name of the signature's inner list.\<close>

definition validate_time ::
  "sfv_item option \<Rightarrow> int \<Rightarrow> verification_policy \<Rightarrow> http_verify_error + unit"
where
  "validate_time expires_param created policy =
     (if vp_max_age_seconds policy < 0 \<or> vp_future_skew_seconds policy < 0
         \<or> created < saturating_sub_i64 (vp_now policy) (vp_max_age_seconds policy)
         \<or> created > saturating_add_i64 (vp_now policy) (vp_future_skew_seconds policy)
      then Inl InvalidCreated
      else (case expires_param of
        None \<Rightarrow> Inr ()
      | Some SfvOther \<Rightarrow> Inl InvalidCreated
      | Some (SfvInteger expires) \<Rightarrow>
          if expires < created \<or> expires < vp_now policy then Inl InvalidCreated else Inr ()))"

subsection \<open>A live marker admits no second consumption\<close>

text \<open>The keys of replay markers. Nothing but a consumption writes them and nothing deletes
  them.\<close>

definition REPLAY_PREFIXES :: "string list" where
  "REPLAY_PREFIXES =
     [''fapi_http_signature_replay:'', ''oauth:dpop:jti:'', ''oauth:client_assertion:jti:'',
      ''oauth:jar:jti:'', ''oauth:jwt_bearer:jti:'', ''oauth:ciba:request_object:jti:'']"

definition marker_key :: "string \<Rightarrow> string \<Rightarrow> bool" where
  "marker_key namespace key \<longleftrightarrow>
     list_ex (\<lambda>p. strip_prefix key (state_key namespace p) \<noteq> None) REPLAY_PREFIXES"

lemma marker_key_prefix:
  assumes "p \<in> set REPLAY_PREFIXES"
  shows "marker_key ns (state_key ns (p @ s))"
  using assms by (auto simp: marker_key_def list_ex_iff state_key_def intro!: bexI [of _ p])

lemma marker_keys [simp]:
  "marker_key ns (state_key ns (key_fapi_http_signature_replay u h tenant_id fingerprint))"
  "marker_key ns (state_key ns (key_dpop_replay d jkt jti))"
  "marker_key ns (state_key ns (key_private_key_jwt_replay d client_id jti))"
  "marker_key ns (state_key ns (key_client_attestation_replay d client_id jti))"
  "marker_key ns (state_key ns (key_jar_replay d client_id jti))"
  "marker_key ns (state_key ns (key_jwt_bearer_replay d client_id jti))"
  "marker_key ns (state_key ns (key_ciba_request_object_replay d client_id jti))"
  unfolding key_fapi_http_signature_replay_def key_dpop_replay_def key_client_attestation_replay_def
    key_private_key_jwt_replay_def key_jar_replay_def key_jwt_bearer_replay_def
    key_ciba_request_object_replay_def
  by (rule marker_key_prefix; simp add: REPLAY_PREFIXES_def)+

locale replay_server = valkey_server vk view clock_ms env
  for vk :: "'w valkey" and view clock_ms env +
  fixes namespace :: string
  assumes clock_mono: "env w w' \<Longrightarrow> clock_ms w \<le> clock_ms w'"
    and marker_kept: "env w w' \<Longrightarrow> marker_key namespace k \<Longrightarrow> view w k = Some (v, Some d) \<Longrightarrow>
      clock_ms w' < d \<Longrightarrow> view w' k = Some (v, Some d)"
    and time_us: "vk_time vk w = (sec, us) \<Longrightarrow> us < 1000000"
begin

lemma clock_second: "int (fst (vk_time vk w)) < d \<longleftrightarrow> clock_ms w < d * 1000"
  using clock_seconds time_us by (cases "vk_time vk w") simp

text \<open>A consumption of a key at server time \<open>t\<close> with deadline \<open>d\<close>, without the way it
  was done.\<close>

definition marked :: "string \<Rightarrow> int \<Rightarrow> int \<Rightarrow> 'w \<Rightarrow> 'w \<Rightarrow> bool" where
  "marked k t d w w' \<longleftrightarrow>
     (\<exists>w1 w2 v. env w w1 \<and> view w1 k = None \<and> clock_ms w1 = t \<and>
        view w2 k = Some (v, Some d) \<and> clock_ms w2 = t \<and> env w2 w')"

lemma marked_after: "marked k t d w w' \<Longrightarrow> clock_ms w \<le> t \<and> t \<le> clock_ms w'"
  unfolding marked_def by (auto dest!: clock_mono)

lemma marked_lasts:
  assumes "marked k t d w w'" and "env w' w2" and "clock_ms w2 < d" and "marker_key namespace k"
  shows "\<exists>v. view w2 k = Some (v, Some d)"
proof -
  from assms(1) obtain w1 v where "view w1 k = Some (v, Some d)" and "env w1 w'"
    unfolding marked_def by blast
  with assms(2-4) have "view w2 k = Some (v, Some d)"
    by (intro marker_kept [of w1 w2]) (auto intro: env_trans)
  then show ?thesis ..
qed

lemma marked_once:
  assumes first: "marked k t d w w1" and between: "env w1 w2" and second: "marked k t' d' w2 w3"
    and key: "marker_key namespace k"
  shows "d \<le> t'"
proof (rule ccontr)
  assume early: "\<not> d \<le> t'"
  from second obtain wa where wa: "env w2 wa" "view wa k = None" "clock_ms wa = t'"
    unfolding marked_def by blast
  with marked_lasts [OF first env_trans [OF between wa(1)]] early key show False by simp
qed

lemma set_ex_nx_marks:
  assumes run: "set_ex_nx vk ns k v n w = (Inr True, w')" and n: "int n \<le> i64_max"
  obtains t where "marked (state_key ns k) t (t + 1000 * int n) w w'"
proof -
  let ?cmd = "vk_set_nx_ex_command vk (state_key ns k) v n"
  have min: "min n (nat i64_max) = n" using n by (simp add: i64_max_def)
  from run obtain x where x: "vk_send vk ?cmd w = (Inr x, w')"
    and ok: "vk_to_optional_string vk x = Inr (Some ''OK'')"
    unfolding set_ex_nx_def min
    by (auto simp: and_then_Inr map_err_def split: prod.splits sum.splits option.split_asm if_split_asm)
  from sent [OF x] obtain w1 w2 where steps: "env w w1" "?cmd w1 = (x, w2)" "env w2 w'"
    and no_error: "\<And>m. x \<noteq> ReplyError m" by blast
  from steps(2) ok no_error have new: "vk_set_ex vk (state_key ns k) v n w1 = Some w2"
    and "\<not> vk_exists vk (state_key ns k) w1"
    by (auto simp: vk_set_nx_ex_command_def to_optional_string
      split: option.split_asm if_split_asm)
  with steps set_ex [OF new] not_exists
  have "marked (state_key ns k) (clock_ms w1) (clock_ms w1 + 1000 * int n) w w'"
    unfolding marked_def by (metis fun_upd_same)
  then show thesis by (rule that)
qed

lemma exat_marks:
  assumes "vk_set_nx_exat vk k v e w1 = Some (True, w2)" and "clock_ms w1 < e * 1000"
    and "env w w1" and "env w2 w'"
  shows "marked k (clock_ms w1) (e * 1000) w w'"
proof -
  have w2: "w2 = vk_pexpireat vk k (e * 1000) (vk_set vk k v w1)" and "view w1 k = None"
    using assms(1) by (auto simp: vk_set_nx_exat_def not_exists [symmetric] split: if_split_asm)
  moreover have "view w2 k = Some (v, Some (e * 1000))" and "clock_ms w2 = clock_ms w1"
    unfolding w2 using assms(2) by (simp_all add: set_keeping_deadline clock_kept)
  ultimately show ?thesis using assms(3,4) unfolding marked_def by blast
qed

end

text \<open>The store on such a server; Lua numbers are exact below \<open>2\<^sup>53\<close>.\<close>

locale replay_adapter = replay_server "rs_vk rs" view clock_ms env "rs_namespace rs"
  for rs :: "'w replay_store" and view clock_ms env +
  assumes lua_exact: "0 \<le> i \<Longrightarrow> i < 2 ^ 53 \<Longrightarrow> rs_lua_number rs i = i"
begin

lemma replay_reply_True: "replay_reply s = Inr True \<longleftrightarrow> s = ''accepted''"
  by (simp add: replay_reply_def)

lemma request_object_marks:
  assumes run: "consume_request_object_key rs k e w = (Inr True, w')"
    and e: "0 \<le> e" "e < 2 ^ 53"
  obtains t where "t < e * 1000"
    and "marked (state_key (rs_namespace rs) k) t (e * 1000) w w'"
proof -
  let ?k = "state_key (rs_namespace rs) k"
  let ?script = "REQUEST_OBJECT_REPLAY_SCRIPT rs ?k e"
  from run have ev: "eval_string (rs_vk rs) ?script w = (Inr ''accepted'', w')"
    by (auto simp: consume_request_object_key_def replay_reply_True
      split: prod.splits sum.split_asm)
  from script_answered [OF ev] obtain w1 x w2 where steps: "env w w1" "?script w1 = (x, w2)"
    "env w2 w'" and x: "vk_to_string (rs_vk rs) x = Inr ''accepted''" "\<forall>m. x \<noteq> ReplyError m" .
  have "int (fst (vk_time (rs_vk rs) w1)) < e"
    "vk_set_nx_exat (rs_vk rs) ?k ''1'' e w1 = Some (True, w2)"
    using steps(2) x
    by (auto simp: REQUEST_OBJECT_REPLAY_SCRIPT_def Let_def lua_exact [OF e] to_string
      split: if_split_asm option.split_asm)
  then show thesis
    using exat_marks steps(1,3) that [of "clock_ms w1"] by (simp add: clock_second)
qed

lemma client_attestation_marks:
  assumes run: "consume_client_attestation_proof rs client_id jti window w = (Inr True, w')"
    and e: "0 \<le> window_expires_at window" "window_expires_at window < 2 ^ 53"
    and b: "0 \<le> window_not_before window" "window_not_before window < 2 ^ 53"
  obtains t where "window_not_before window * 1000 \<le> t" and "t < window_expires_at window * 1000"
    and "marked (state_key (rs_namespace rs)
      (key_client_attestation_replay (rs_digest rs) client_id jti)) t
      (window_expires_at window * 1000) w w'"
proof -
  let ?k = "state_key (rs_namespace rs) (key_client_attestation_replay (rs_digest rs) client_id jti)"
  let ?e = "window_expires_at window"
  let ?script = "CLIENT_ATTESTATION_PROOF_SCRIPT rs ?k (window_not_before window) ?e"
  from run have ev: "eval_string (rs_vk rs) ?script w = (Inr ''accepted'', w')"
    by (auto simp: consume_client_attestation_proof_def replay_reply_True
      split: prod.splits sum.split_asm)
  from script_answered [OF ev] obtain w1 x w2 where steps: "env w w1" "?script w1 = (x, w2)"
    "env w2 w'" and x: "vk_to_string (rs_vk rs) x = Inr ''accepted''" "\<forall>m. x \<noteq> ReplyError m" .
  have "\<not> int (fst (vk_time (rs_vk rs) w1)) < window_not_before window"
    "int (fst (vk_time (rs_vk rs) w1)) < ?e"
    "vk_set_nx_exat (rs_vk rs) ?k ''1'' ?e w1 = Some (True, w2)"
    using steps(2) x
    by (auto simp: CLIENT_ATTESTATION_PROOF_SCRIPT_def Let_def lua_exact [OF e] lua_exact [OF b]
      to_string split: if_split_asm option.split_asm)
  then show thesis
    using exat_marks steps(1,3) that [of "clock_ms w1"] by (simp add: clock_second)
qed

end

subsection \<open>A server in memory whose time passes\<close>

definition vk_elapses :: "'a vk_world_scheme \<Rightarrow> 'a vk_world_scheme \<Rightarrow> bool" where
  "vk_elapses w w' \<longleftrightarrow> vw_ms w \<le> vw_ms w' \<and> w' = w\<lparr>vw_ms := vw_ms w'\<rparr>"

definition replay_ref :: "vk_world replay_store" where
  "replay_ref =
     \<lparr>rs_vk = valkey_ref, rs_namespace = ''nazo:'', rs_digest = (\<lambda>s. s),
      rs_uuid_text = (\<lambda>_. ''t''), rs_fingerprint_hex = (\<lambda>s. s), rs_lua_number = (\<lambda>i. i)\<rparr>"

lemma replay_ref_sel [simp]:
  "rs_vk replay_ref = valkey_ref" "rs_namespace replay_ref = ''nazo:''"
  "rs_digest replay_ref = (\<lambda>s. s)" "rs_uuid_text replay_ref = (\<lambda>_. ''t'')"
  "rs_fingerprint_hex replay_ref = (\<lambda>s. s)" "rs_lua_number replay_ref = (\<lambda>i. i)"
  by (simp_all add: replay_ref_def)

lemma vk_elapses_refl [simp]: "vk_elapses w w"
  by (simp add: vk_elapses_def)

lemma vk_elapses_keys: "vk_elapses w w' \<Longrightarrow> vw_keys w' = vw_keys w"
  by (cases w; cases w') (simp add: vk_elapses_def)

lemma vk_elapses_trans: "vk_elapses w1 w2 \<Longrightarrow> vk_elapses w2 w3 \<Longrightarrow> vk_elapses w1 w3"
  by (cases w1; cases w2; cases w3) (simp add: vk_elapses_def)

lemma valkey_ref_sends:
  assumes "vk_send valkey_ref cmd w = (r, w')"
  shows "case r of Inl x \<Rightarrow> \<exists>x w2. cmd w = (x, w2) \<and> w2 = w'
     | Inr x \<Rightarrow> (\<forall>m. x \<noteq> ReplyError m) \<and> cmd w = (x, w')"
  using assms by (auto simp: valkey_ref_def split: prod.splits vk_reply.splits sum.splits)

lemma valkey_ref_elapses:
  "valkey_server valkey_ref vk_ref_view (\<lambda>w. int (vw_ms w)) vk_elapses"
proof
  fix cmd r and w w' :: "'a vk_world_scheme"
  assume "vk_send valkey_ref cmd w = (r, w')"
  from valkey_ref_sends [OF this] show "\<exists>w1. vk_elapses w w1 \<and>
      (case r of Inl x \<Rightarrow> vk_elapses w1 w' \<or> (\<exists>x w2. cmd w1 = (x, w2) \<and> vk_elapses w2 w')
       | Inr x \<Rightarrow> (\<forall>m. x \<noteq> ReplyError m) \<and> (\<exists>w2. cmd w1 = (x, w2) \<and> vk_elapses w2 w'))"
    by (intro exI [of _ w]) (auto split: sum.splits)
qed (rule vk_elapses_refl vk_elapses_trans vk_ref.deadline_nonneg vk_ref.get vk_ref.exists
  vk_ref.pexpiretime vk_ref.set vk_ref.clock_kept vk_ref.set_ex vk_ref.del vk_ref.pexpireat
  vk_ref.time vk_ref.to_string vk_ref.to_optional_string vk_ref.to_snapshot vk_ref.to_integer; assumption)+

interpretation replay_ref: replay_adapter replay_ref vk_ref_view "\<lambda>w. int (vw_ms w)" vk_elapses
proof (intro replay_adapter.intro replay_server.intro replay_server_axioms.intro
    replay_adapter_axioms.intro)
  show "valkey_server (rs_vk replay_ref) vk_ref_view (\<lambda>w. int (vw_ms w)) vk_elapses"
    unfolding replay_ref_sel by (rule valkey_ref_elapses)
  fix w w' :: vk_world and k v d sec us
  show "vk_elapses w w' \<Longrightarrow> int (vw_ms w) \<le> int (vw_ms w')" by (simp add: vk_elapses_def)
  show "vk_elapses w w' \<Longrightarrow> marker_key (rs_namespace replay_ref) k \<Longrightarrow>
      vk_ref_view w k = Some (v, Some d) \<Longrightarrow> int (vw_ms w') < d \<Longrightarrow>
      vk_ref_view w' k = Some (v, Some d)"
    by (auto simp: vk_ref_view_def vk_elapses_keys split: option.splits if_splits)
  show "vk_time (rs_vk replay_ref) w = (sec, us) \<Longrightarrow> us < 1000000"
    by (auto simp: valkey_ref_def)
qed simp

end
