(* ===== verification/Rate_Limit.thy ===== *)
theory Rate_Limit
  imports Replay_Store
begin

text \<open>
  Request counters and attempt throttles: \<open>RateLimitStore\<close>
  (\<open>src/crates/state-store-valkey/src/rate_limit.rs\<close>) with the ports it implements
  (\<open>src/crates/authorization-server-core/src/rate_limit.rs\<close>, and the login and MFA throttles of
  \<open>src/crates/identity/src/ports/authentication.rs\<close>).

  The locale \<open>rate_server\<close> states what the counters rely on; its lemmas show that the counts
  answered within one window strictly increase.
\<close>

subsection \<open>The script\<close>

text \<open>INCR accepts the canonical decimal text of a 64-bit integer; \<open>None\<close> is the error.\<close>

definition vk_incr :: "'w valkey \<Rightarrow> string \<Rightarrow> 'w \<Rightarrow> (int \<times> 'w) option" where
  "vk_incr vk key w =
     (case vk_get vk key w of
        None \<Rightarrow> Some (1, vk_set vk key (int_text 1) w)
      | Some raw \<Rightarrow>
         (case parse_i64 raw of
            None \<Rightarrow> None
          | Some i \<Rightarrow>
              if int_text i \<noteq> raw \<or> i = i64_max then None
              else Some (i + 1, vk_set_keepttl vk key (int_text (i + 1)) w)))"

text \<open>EXPIRE in whole seconds: an argument or a deadline out of range is an error, zero removes the
  key.\<close>

definition vk_expire :: "'w valkey \<Rightarrow> string \<Rightarrow> nat \<Rightarrow> 'w \<Rightarrow> 'w option" where
  "vk_expire vk key seconds w =
     (let (sec, us) = vk_time vk w;
          deadline = int sec * 1000 + int (us div 1000) + 1000 * int seconds
      in if int seconds > i64_max div 1000 \<or> deadline > i64_max then None
         else if seconds = 0 then Some (vk_del vk key w)
         else Some (vk_pexpireat vk key deadline w))"

text \<open>\<open>rl_lua_tostring\<close> is \<open>tostring\<close> of an integer in the server's Lua.\<close>

record 'w rate_limit_store =
  rl_vk :: "'w valkey"
  rl_namespace :: string
  rl_digest :: "string \<Rightarrow> string"
  rl_uuid_text :: "uuid \<Rightarrow> string"
  rl_lua_tostring :: "int \<Rightarrow> string"

definition INCREMENT_SCRIPT ::
  "'w rate_limit_store \<Rightarrow> string \<Rightarrow> nat \<Rightarrow> 'w \<Rightarrow> vk_reply \<times> 'w"
where
  "INCREMENT_SCRIPT rl key window w =
     (case vk_incr (rl_vk rl) key w of
        None \<Rightarrow> (ReplyError ''ERR value is not an integer or out of range'', w)
      | Some (count, w1) \<Rightarrow>
          if count = 1 then
           (case vk_expire (rl_vk rl) key window w1 of
              None \<Rightarrow> (ReplyError ''ERR invalid expire time in 'expire' command'', w1)
            | Some w2 \<Rightarrow> (ReplyBulk (rl_lua_tostring rl count), w2))
          else (ReplyBulk (rl_lua_tostring rl count), w1))"

subsection \<open>The store\<close>

datatype rate_dimension = RateAuth | RateToken | RateTokenManagement

fun rate_dimension_name :: "rate_dimension \<Rightarrow> string" where
  "rate_dimension_name RateAuth = ''auth''"
| "rate_dimension_name RateToken = ''token''"
| "rate_dimension_name RateTokenManagement = ''token_management''"

datatype login_failure_dimension = LoginIpEmail

fun login_failure_dimension_name :: "login_failure_dimension \<Rightarrow> string" where
  "login_failure_dimension_name LoginIpEmail = ''ip_email''"

text \<open>\<open>str::parse::<u64>\<close>.\<close>

fun parse_u64 :: "string \<Rightarrow> nat option" where
  "parse_u64 [] = None"
| "parse_u64 (c # s) =
     (let digits = (if c = CHR ''+'' then s else c # s) in
      if digits = [] then None
      else case parse_digits 0 digits of
        None \<Rightarrow> None
      | Some n \<Rightarrow> if n < 2 ^ 64 then Some n else None)"

definition increment_key ::
  "'w rate_limit_store \<Rightarrow> string \<Rightarrow> nat \<Rightarrow> ('w, vk_error_kind, nat) io"
where
  "increment_key rl key window w =
     (case eval_string (rl_vk rl)
        (INCREMENT_SCRIPT rl (state_key (rl_namespace rl) key) window) w of
        (Inl e, w1) \<Rightarrow> (Inl e, w1)
      | (Inr reply, w1) \<Rightarrow> (ok_or VkProtocol (parse_u64 reply), w1))"

definition rate_increment ::
  "'w rate_limit_store \<Rightarrow> rate_dimension \<Rightarrow> string \<Rightarrow> nat \<Rightarrow> ('w, vk_error_kind, nat) io"
where
  "rate_increment rl dimension subject =
     increment_key rl (key_rate (rl_digest rl) (rate_dimension_name dimension) subject)"

definition increment_login_failure ::
  "'w rate_limit_store \<Rightarrow> login_failure_dimension \<Rightarrow> string \<Rightarrow> nat \<Rightarrow> ('w, vk_error_kind, nat) io"
where
  "increment_login_failure rl dimension subject =
     increment_key rl
       (key_login_failure (rl_digest rl) (login_failure_dimension_name dimension) subject)"

definition login_failure_count ::
  "'w rate_limit_store \<Rightarrow> login_failure_dimension \<Rightarrow> string \<Rightarrow> ('w, vk_error_kind, nat) io"
where
  "login_failure_count rl dimension subject w =
     (case command_get (rl_vk rl) (rl_namespace rl)
        (key_login_failure (rl_digest rl) (login_failure_dimension_name dimension) subject) w of
        (Inl e, w1) \<Rightarrow> (Inl e, w1)
      | (Inr (Some raw), w1) \<Rightarrow> (ok_or VkProtocol (parse_u64 raw), w1)
      | (Inr None, w1) \<Rightarrow> (Inr 0, w1))"

definition clear_login_failure ::
  "'w rate_limit_store \<Rightarrow> login_failure_dimension \<Rightarrow> string \<Rightarrow> ('w, vk_error_kind, int) io"
where
  "clear_login_failure rl dimension subject =
     command_delete (rl_vk rl) (rl_namespace rl)
       (key_login_failure (rl_digest rl) (login_failure_dimension_name dimension) subject)"

definition increment_mfa_failure ::
  "'w rate_limit_store \<Rightarrow> string \<Rightarrow> nat \<Rightarrow> ('w, vk_error_kind, nat) io"
where
  "increment_mfa_failure rl subject = increment_key rl (key_mfa_failure (rl_digest rl) subject)"

definition clear_mfa_failure :: "'w rate_limit_store \<Rightarrow> string \<Rightarrow> ('w, vk_error_kind, int) io" where
  "clear_mfa_failure rl subject =
     command_delete (rl_vk rl) (rl_namespace rl) (key_mfa_failure (rl_digest rl) subject)"

subsection \<open>Ports\<close>

datatype request_rate_limit_bucket = BucketAuthentication | BucketToken | BucketTokenManagement
datatype request_rate_limit_error = RequestRateLimitError

fun rate_dimension_of_bucket :: "request_rate_limit_bucket \<Rightarrow> rate_dimension" where
  "rate_dimension_of_bucket BucketAuthentication = RateAuth"
| "rate_dimension_of_bucket BucketToken = RateToken"
| "rate_dimension_of_bucket BucketTokenManagement = RateTokenManagement"

definition request_rate_limit_increment ::
  "'w rate_limit_store \<Rightarrow> request_rate_limit_bucket \<Rightarrow> string \<Rightarrow> nat \<Rightarrow>
    ('w, request_rate_limit_error, nat) io"
where
  "request_rate_limit_increment rl bucket subject window_seconds w =
     port_result RequestRateLimitError
       (rate_increment rl (rate_dimension_of_bucket bucket) subject window_seconds w)"

text \<open>The repository errors of the identity ports, without their diagnostic texts.\<close>

datatype repository_error =
    RepositoryUnavailable | RepositoryConflict | RepositoryAlreadyProcessed | RepositoryNotFound
  | RepositoryConsistency | RepositoryUnexpected

fun identity_repository_error :: "vk_error_kind \<Rightarrow> repository_error" where
  "identity_repository_error VkTimeout = RepositoryUnavailable"
| "identity_repository_error VkUnavailable = RepositoryUnavailable"
| "identity_repository_error VkCorruptData = RepositoryConsistency"
| "identity_repository_error VkProtocol = RepositoryUnexpected"
| "identity_repository_error VkUnexpectedResult = RepositoryUnexpected"

definition identity_result ::
  "(vk_error_kind + 'a) \<times> 'w \<Rightarrow> ('a \<Rightarrow> 'b) \<Rightarrow> (repository_error + 'b) \<times> 'w"
where
  "identity_result r f =
     (and_then (map_err identity_repository_error (fst r)) (\<lambda>x. Inr (f x)), snd r)"

definition login_subject :: "string \<Rightarrow> string \<Rightarrow> string" where
  "login_subject email source_ip = source_ip @ '':'' @ email"

definition failure_count ::
  "'w rate_limit_store \<Rightarrow> string \<Rightarrow> string \<Rightarrow> ('w, repository_error, nat) io"
where
  "failure_count rl email source_ip w =
     identity_result (login_failure_count rl LoginIpEmail (login_subject email source_ip) w) (\<lambda>n. n)"

definition record_failure ::
  "'w rate_limit_store \<Rightarrow> string \<Rightarrow> string \<Rightarrow> nat \<Rightarrow> ('w, repository_error, unit) io"
where
  "record_failure rl email source_ip window_seconds w =
     identity_result
       (increment_login_failure rl LoginIpEmail (login_subject email source_ip) window_seconds w)
       (\<lambda>_. ())"

definition clear_failure ::
  "'w rate_limit_store \<Rightarrow> string \<Rightarrow> string \<Rightarrow> ('w, repository_error, unit) io"
where
  "clear_failure rl email source_ip w =
     identity_result (clear_login_failure rl LoginIpEmail (login_subject email source_ip) w)
       (\<lambda>_. ())"

datatype mfa_attempt_throttle_decision = MfaAllowed | MfaLimited nat

definition mfa_subject :: "'w rate_limit_store \<Rightarrow> uuid \<Rightarrow> uuid \<Rightarrow> string" where
  "mfa_subject rl tenant_id user_id = rl_uuid_text rl tenant_id @ '':'' @ rl_uuid_text rl user_id"

definition reserve_attempt ::
  "'w rate_limit_store \<Rightarrow> uuid \<Rightarrow> uuid \<Rightarrow> nat \<Rightarrow> nat \<Rightarrow>
    ('w, repository_error, mfa_attempt_throttle_decision) io"
where
  "reserve_attempt rl tenant_id user_id window_seconds max_attempts w =
     identity_result
       (increment_mfa_failure rl (mfa_subject rl tenant_id user_id) window_seconds w)
       (\<lambda>count. if count > max_attempts then MfaLimited window_seconds else MfaAllowed)"

definition clear_attempts ::
  "'w rate_limit_store \<Rightarrow> uuid \<Rightarrow> uuid \<Rightarrow> ('w, repository_error, unit) io"
where
  "clear_attempts rl tenant_id user_id w =
     identity_result (clear_mfa_failure rl (mfa_subject rl tenant_id user_id) w) (\<lambda>_. ())"

subsection \<open>Counts within a window\<close>

text \<open>The keys of request counters are touched by \<open>increment\<close> only. \<open>tostring\<close> prints
  with at most 14 significant digits: smaller integers in full, larger ones with an exponent.\<close>

definition rate_key :: "string \<Rightarrow> string \<Rightarrow> bool" where
  "rate_key namespace key \<longleftrightarrow> strip_prefix key (state_key namespace ''oauth:rate:'') \<noteq> None"

lemma rate_key_rate [simp]: "rate_key ns (state_key ns (key_rate d dim subject))"
  by (auto simp: rate_key_def key_rate_def state_key_def)

lemma parse_digits_char: "parse_digits n s = Some m \<Longrightarrow> c \<in> set s \<Longrightarrow> decimal_digit c \<noteq> None"
  by (induction s arbitrary: n) (auto split: option.splits)

lemma parse_u64_no_exponent: "CHR ''e'' \<in> set s \<Longrightarrow> parse_u64 s = None"
  by (cases s) (auto simp: Let_def decimal_digit_def byte_def dest: parse_digits_char
    split: option.splits)

lemma parse_u64_minus: "parse_u64 (CHR ''-'' # s) = None"
  by (simp add: decimal_digit_def byte_def Let_def)

lemma parse_u64_int_text: "parse_u64 (int_text i) = Some c \<Longrightarrow> int c = i"
proof (cases "i < 0")
  case False
  obtain ch s where cs: "nat_text (nat i) = ch # s" by (meson nat_text_nonempty list.exhaust)
  moreover have "ch \<noteq> CHR ''+''"
    using nat_text_hd [of "nat i"] cs by (auto simp: decimal_digit_def byte_def)
  moreover have "parse_digits 0 (ch # s) = Some (nat i)" using cs by (metis parse_nat_text)
  moreover assume "parse_u64 (int_text i) = Some c"
  ultimately show ?thesis
    using False by (auto simp: int_text_def Let_def simp del: parse_digits.simps split: if_splits)
qed (simp add: int_text_def parse_u64_minus del: parse_u64.simps)

lemma int_text_inj: "is_i64 i \<Longrightarrow> is_i64 j \<Longrightarrow> int_text i = int_text j \<longleftrightarrow> i = j"
  by (metis option.inject parse_int_text)

locale rate_server = valkey_server "rl_vk rl" view clock_ms env
  for rl :: "'w rate_limit_store" and view clock_ms env +
  assumes clock_mono: "env w w' \<Longrightarrow> clock_ms w \<le> clock_ms w'"
    and live: "view w k = Some (v, Some d) \<Longrightarrow> clock_ms w < d"
    and counter_kept: "env w w' \<Longrightarrow> rate_key (rl_namespace rl) k \<Longrightarrow>
      view w k = Some (int_text n, Some d) \<Longrightarrow> is_i64 n \<Longrightarrow> clock_ms w' < d \<Longrightarrow>
      \<exists>m. n \<le> m \<and> is_i64 m \<and> view w' k = Some (int_text m, Some d)"
    and lua_small: "\<bar>n\<bar> < 10 ^ 14 \<Longrightarrow> rl_lua_tostring rl n = int_text n"
    and lua_large: "10 ^ 14 \<le> \<bar>n\<bar> \<Longrightarrow> CHR ''e'' \<in> set (rl_lua_tostring rl n)"
begin

text \<open>A counter that stands at \<open>n\<close> until \<open>d\<close>.\<close>

definition counts :: "string \<Rightarrow> int \<Rightarrow> int \<Rightarrow> 'w \<Rightarrow> bool" where
  "counts k n d w \<longleftrightarrow> 0 < n \<and> is_i64 n \<and> view w k = Some (int_text n, Some d)"

lemma counts_env:
  assumes "counts k n d w" and "env w w'" and "clock_ms w' < d" and "rate_key (rl_namespace rl) k"
  shows "\<exists>m. n \<le> m \<and> counts k m d w'"
  using counter_kept [OF assms(2,4) _ _ assms(3)] assms(1) unfolding counts_def by fastforce

lemma incr_counts:
  assumes "counts k n d w" and "vk_incr (rl_vk rl) k w = Some (c, w')"
  shows "c = n + 1 \<and> counts k c d w' \<and> clock_ms w' = clock_ms w"
proof -
  from assms have c: "c = n + 1" "n \<noteq> i64_max"
    and w': "w' = vk_set_keepttl (rl_vk rl) k (int_text (n + 1)) w"
    by (auto simp: vk_incr_def counts_def get parse_int_text split: if_split_asm)
  have v: "view w k = Some (int_text n, Some d)" using assms(1) by (simp add: counts_def)
  have "is_i64 (n + 1)" "0 < n" using assms(1) c by (auto simp: counts_def is_i64_def int_bounds)
  then show ?thesis
    using c w' set_keepttl [OF v live [OF v]]
    by (auto simp: counts_def vk_set_keepttl_def Let_def clock_kept)
qed

lemma incr_clock: "vk_incr (rl_vk rl) k w = Some (c, w') \<Longrightarrow> clock_ms w' = clock_ms w"
  by (auto simp: vk_incr_def vk_set_keepttl_def Let_def clock_kept
    split: option.split_asm if_split_asm)

lemma expire_clock: "vk_expire (rl_vk rl) k n w = Some w' \<Longrightarrow> clock_ms w' = clock_ms w"
  by (auto simp: vk_expire_def Let_def clock_kept split: prod.split_asm if_split_asm)

lemma script_clock: "INCREMENT_SCRIPT rl k window w = (x, w') \<Longrightarrow> clock_ms w' = clock_ms w"
  by (auto simp: INCREMENT_SCRIPT_def dest!: incr_clock expire_clock
    split: option.split_asm prod.split_asm if_split_asm)

lemma script_counts:
  assumes "counts k n d w" and "INCREMENT_SCRIPT rl k window w = (x, w')"
  shows "(\<exists>m. n \<le> m \<and> counts k m d w') \<and> clock_ms w' = clock_ms w \<and>
    ((\<forall>e. x \<noteq> ReplyError e) \<longrightarrow>
      x = ReplyBulk (rl_lua_tostring rl (n + 1)) \<and> counts k (n + 1) d w')"
proof (cases "vk_incr (rl_vk rl) k w")
  case None
  then show ?thesis using assms by (auto simp: INCREMENT_SCRIPT_def)
next
  case (Some p)
  obtain c w1 where p: "p = (c, w1)" by fastforce
  from incr_counts [OF assms(1) Some [unfolded p]]
  have "c = n + 1" "counts k (n + 1) d w1" "clock_ms w1 = clock_ms w" by auto
  moreover have "0 < n" using assms(1) by (simp add: counts_def)
  ultimately show ?thesis
    using assms(2) Some p by (auto simp: INCREMENT_SCRIPT_def intro: exI [of _ "n + 1"])
qed

lemma lua_count: "parse_u64 (rl_lua_tostring rl n) = Some c \<Longrightarrow> int c = n"
  using lua_large [of n] lua_small [of n] parse_u64_no_exponent parse_u64_int_text
  by (cases "10 ^ 14 \<le> \<bar>n\<bar>") fastforce+

lemma increment_runs:
  assumes "increment_key rl k window w = (r, w')"
  obtains (ran) w1 x w2 where "env w w1" and "env w2 w'"
      and "INCREMENT_SCRIPT rl (state_key (rl_namespace rl) k) window w1 = (x, w2)"
      and "\<And>c. r = Inr c \<Longrightarrow> (\<forall>m. x \<noteq> ReplyError m) \<and>
        (\<forall>s. x = ReplyBulk s \<longrightarrow> parse_u64 s = Some c)"
    | (not_run) e where "env w w'" and "r = Inl e"
proof -
  let ?script = "INCREMENT_SCRIPT rl (state_key (rl_namespace rl) k) window"
  obtain rs where ev: "eval_string (rl_vk rl) ?script w = (rs, w')"
    using assms by (auto simp: increment_key_def split: prod.split_asm sum.split_asm)
  with assms have r: "r = and_then rs (\<lambda>s. ok_or VkProtocol (parse_u64 s))"
    by (auto simp: increment_key_def and_then_def split: sum.splits)
  show thesis
  proof (rule eval_string_runs [OF ev])
    fix w1 w2 x
    assume steps: "env w w1" "?script w1 = (x, w2)" "env w2 w'"
      and x: "\<And>s. rs = Inr s \<Longrightarrow> vk_to_string (rl_vk rl) x = Inr s \<and> (\<forall>m. x \<noteq> ReplyError m)"
    show thesis
    proof (rule ran [OF steps(1,3,2)])
      fix c assume "r = Inr c"
      with r obtain s where "rs = Inr s" "parse_u64 s = Some c"
        by (auto simp: and_then_def ok_or_def split: option.split_asm sum.split_asm)
      with x [of s] show "(\<forall>m. x \<noteq> ReplyError m) \<and>
        (\<forall>s. x = ReplyBulk s \<longrightarrow> parse_u64 s = Some c)" by (auto simp: to_string)
    qed
  next
    fix e assume "env w w'" "rs = Inl e"
    then show thesis using r not_run by simp
  qed
qed

text \<open>A call on a live counter answers a larger count, and the counter does not fall behind it.\<close>

lemma increment_counts:
  assumes k: "K = state_key (rl_namespace rl) k" "rate_key (rl_namespace rl) K"
    and n: "counts K n d w" and run: "increment_key rl k window w = (r, w')" and d: "clock_ms w' < d"
  shows "\<exists>m. n \<le> m \<and> counts K m d w' \<and> (\<forall>c. r = Inr c \<longrightarrow> n < int c \<and> int c \<le> m)"
  using run
proof (cases rule: increment_runs)
  case (ran w1 x w2)
  have early: "clock_ms w1 < d" using clock_mono [OF ran(2)] script_clock [OF ran(3)] d by simp
  from counts_env [OF n ran(1) early k(2)] obtain m1 where m1: "n \<le> m1" "counts K m1 d w1" by blast
  note script = script_counts [OF m1(2) ran(3) [folded k(1)]]
  then obtain m2 where m2: "m1 \<le> m2" "counts K m2 d w2"
    "(\<forall>e. x \<noteq> ReplyError e) \<longrightarrow> m2 = m1 + 1 \<and> x = ReplyBulk (rl_lua_tostring rl (m1 + 1))"
    by (cases "\<forall>e. x \<noteq> ReplyError e") auto
  from counts_env [OF m2(2) ran(2) d k(2)] obtain m3 where "m2 \<le> m3" "counts K m3 d w'" by blast
  moreover have "int c = m1 + 1 \<and> m2 = m1 + 1" if "r = Inr c" for c
    using ran(4) [OF that] m2(3) lua_count by auto
  ultimately show ?thesis using m1(1) m2(1) by (intro exI [of _ m3]) fastforce
next
  case (not_run e)
  then show ?thesis using counts_env [OF n _ d k(2)] by auto
qed

text \<open>The call that answers one opens a window of the given length.\<close>

lemma incr_first:
  assumes "vk_incr (rl_vk rl) k w = Some (1, w')"
  shows "\<exists>t. view w' k = Some (int_text 1, t)"
proof (cases "view w k")
  case None
  then show ?thesis using assms by (auto simp: vk_incr_def get set)
next
  case (Some p)
  then have "w' = vk_set_keepttl (rl_vk rl) k (int_text 1) w"
    using assms by (auto simp: vk_incr_def get split: option.split_asm if_split_asm)
  then show ?thesis using set_keepttl_value [of w k "int_text 1"] Some live by fastforce
qed

lemma script_first:
  assumes "INCREMENT_SCRIPT rl k window w = (ReplyBulk s, w')" and "parse_u64 s = Some 1"
    and "0 < window"
  shows "counts k 1 (clock_ms w + 1000 * int window) w'"
proof -
  obtain c w1 where i: "vk_incr (rl_vk rl) k w = Some (c, w1)" and s: "s = rl_lua_tostring rl c"
    using assms(1) by (auto simp: INCREMENT_SCRIPT_def split: option.split_asm if_split_asm)
  have c: "c = 1" using lua_count [OF assms(2) [unfolded s]] by simp
  with assms(1) i have e: "vk_expire (rl_vk rl) k window w1 = Some w'"
    by (auto simp: INCREMENT_SCRIPT_def split: option.split_asm)
  obtain sec us where t: "vk_time (rl_vk rl) w1 = (sec, us)" by fastforce
  have "w' = vk_pexpireat (rl_vk rl) k (clock_ms w1 + 1000 * int window) w1"
    using e t time [OF t] assms(3) by (auto simp: vk_expire_def Let_def split: if_split_asm)
  moreover obtain t' where "view w1 k = Some (int_text 1, t')" using incr_first i c by blast
  ultimately show ?thesis
    using incr_clock [OF i] assms(3) by (simp add: counts_def pexpireat is_i64_def int_bounds)
qed

lemma increment_first:
  assumes k: "K = state_key (rl_namespace rl) k" "rate_key (rl_namespace rl) K"
    and run: "increment_key rl k window w = (Inr 1, w')"
    and d: "clock_ms w' < clock_ms w + 1000 * int window"
  obtains n d where "clock_ms w + 1000 * int window \<le> d" and "counts K n d w'"
  using run
proof (cases rule: increment_runs)
  case (ran w1 x w2)
  note clocks = clock_mono [OF ran(1)] clock_mono [OF ran(2)] script_clock [OF ran(3)]
  from ran(3) ran(4) [of 1] obtain s where "x = ReplyBulk s" "parse_u64 s = Some 1"
    by (auto simp: INCREMENT_SCRIPT_def split: option.split_asm prod.split_asm if_split_asm)
  moreover have "0 < window" using clocks d by (cases window) auto
  ultimately have "counts K 1 (clock_ms w1 + 1000 * int window) w2"
    using script_first ran(3) k(1) by blast
  from counts_env [OF this ran(2) _ k(2)] clocks d obtain m
    where "counts K m (clock_ms w1 + 1000 * int window) w'" by auto
  then show thesis using that [of "clock_ms w1 + 1000 * int window" m] clocks by simp
qed simp

end

text \<open>A sequence of calls for one counter, with other activity between them: the counts that were
  answered.\<close>

inductive rate_run ::
  "'w rate_limit_store \<Rightarrow> ('w \<Rightarrow> 'w \<Rightarrow> bool) \<Rightarrow> rate_dimension \<Rightarrow> string \<Rightarrow> nat \<Rightarrow>
    'w \<Rightarrow> nat list \<Rightarrow> 'w \<Rightarrow> bool"
  for rl env dimension subject window
where
  rate_idle: "env w w1 \<Longrightarrow> rate_run rl env dimension subject window w [] w1"
| rate_other: "env w w1 \<Longrightarrow> rate_run rl env dimension subject window w1 cs w2 \<Longrightarrow>
    rate_run rl env dimension subject window w cs w2"
| rate_failed: "rate_increment rl dimension subject window w = (Inl e, w1) \<Longrightarrow>
    rate_run rl env dimension subject window w1 cs w2 \<Longrightarrow>
    rate_run rl env dimension subject window w cs w2"
| rate_answered: "rate_increment rl dimension subject window w = (Inr c, w1) \<Longrightarrow>
    rate_run rl env dimension subject window w1 cs w2 \<Longrightarrow>
    rate_run rl env dimension subject window w (c # cs) w2"

lemma sorted_below:
  assumes "sorted_wrt (<) cs" and "\<forall>c \<in> set cs. 0 < c"
  shows "length (filter (\<lambda>c. c \<le> limit) cs) \<le> (limit :: nat)"
proof -
  let ?ds = "filter (\<lambda>c. c \<le> limit) cs"
  have "distinct cs" using assms(1) strict_sorted_iff by blast
  then have "length ?ds = card (set ?ds)" using distinct_card [of ?ds] by simp
  also have "\<dots> \<le> card {1..limit}" using assms(2) by (intro card_mono) (auto simp: Suc_le_eq)
  finally show ?thesis by simp
qed

context rate_server
begin

lemma increment_clock:
  assumes "increment_key rl k window w = (r, w')"
  shows "clock_ms w \<le> clock_ms w'"
  using assms
proof (cases rule: increment_runs)
  case (ran w1 x w2)
  then show ?thesis using clock_mono [of w w1] clock_mono [of w2 w'] script_clock by fastforce
qed (rule clock_mono)

lemma rate_run_clock:
  "rate_run rl env dimension subject window w cs w' \<Longrightarrow> clock_ms w \<le> clock_ms w'"
  by (induction rule: rate_run.induct)
    (auto simp: rate_increment_def dest!: increment_clock clock_mono)

lemma rate_run_counts:
  assumes "rate_run rl env dimension subject window w cs w'"
    and "counts (state_key (rl_namespace rl)
      (key_rate (rl_digest rl) (rate_dimension_name dimension) subject)) n d w"
    and "clock_ms w' < d"
  shows "sorted_wrt (<) cs \<and> (\<forall>c \<in> set cs. n < int c)"
  using assms
proof (induction arbitrary: n rule: rate_run.induct)
  case (rate_other w w1 cs w2)
  have "clock_ms w1 < d" using rate_run_clock [OF rate_other.hyps(2)] rate_other.prems by simp
  from counts_env [OF rate_other.prems(1) rate_other.hyps(1) this] rate_other show ?case by force
next
  case (rate_failed w e w1 cs w2)
  have "clock_ms w1 < d" using rate_run_clock [OF rate_failed.hyps(2)] rate_failed.prems by simp
  from increment_counts [OF refl _ rate_failed.prems(1)
    rate_failed.hyps(1) [unfolded rate_increment_def] this] rate_failed show ?case by force
next
  case (rate_answered w c w1 cs w2)
  have "clock_ms w1 < d" using rate_run_clock [OF rate_answered.hyps(2)] rate_answered.prems by simp
  from increment_counts [OF refl _ rate_answered.prems(1)
    rate_answered.hyps(1) [unfolded rate_increment_def] this] obtain m
    where m: "n < int c" "int c \<le> m" and "counts (state_key (rl_namespace rl)
      (key_rate (rl_digest rl) (rate_dimension_name dimension) subject)) m d w1" by auto
  with rate_answered have "sorted_wrt (<) cs" "\<forall>c' \<in> set cs. m < int c'" by blast+
  with m show ?case by fastforce
qed simp

end

definition rate_ref :: "vk_world rate_limit_store" where
  "rate_ref =
     \<lparr>rl_vk = valkey_ref, rl_namespace = ''nazo:'', rl_digest = (\<lambda>s. s), rl_uuid_text = (\<lambda>_. ''t''),
      rl_lua_tostring = (\<lambda>n. if \<bar>n\<bar> < 10 ^ 14 then int_text n else ''1e+14'')\<rparr>"

interpretation rate_ref: rate_server rate_ref vk_ref_view "\<lambda>w. int (vw_ms w)" vk_elapses
proof (intro rate_server.intro rate_server_axioms.intro)
  show "valkey_server (rl_vk rate_ref) vk_ref_view (\<lambda>w. int (vw_ms w)) vk_elapses"
    using valkey_ref_elapses by (simp add: rate_ref_def)
  fix w w' :: vk_world and k v d and n :: int
  show "vk_elapses w w' \<Longrightarrow> int (vw_ms w) \<le> int (vw_ms w')" by (simp add: vk_elapses_def)
  show "vk_ref_view w k = Some (v, Some d) \<Longrightarrow> int (vw_ms w) < d"
    by (auto simp: vk_ref_view_def split: option.splits if_splits)
  show "vk_elapses w w' \<Longrightarrow> rate_key (rl_namespace rate_ref) k \<Longrightarrow>
      vk_ref_view w k = Some (int_text n, Some d) \<Longrightarrow> is_i64 n \<Longrightarrow> int (vw_ms w') < d \<Longrightarrow>
      \<exists>m. n \<le> m \<and> is_i64 m \<and> vk_ref_view w' k = Some (int_text m, Some d)"
    by (intro exI [of _ n])
      (auto simp: vk_ref_view_def vk_elapses_keys split: option.splits if_splits)
qed (auto simp: rate_ref_def)

end
