(* ===== verification/Claims.thy ===== *)
theory Claims
  imports Token_Policy Uri_Policy Authorization_Details
begin

text \<open>
  Token claims (\<open>src/crates/authorization-server-core/src\<close>: \<open>claims.rs\<close>,
  \<open>claim_selection.rs\<close>). The text of a UUID (\<open>uuid\<close> crate) is the argument
  \<open>uuid_text\<close>; a claim set built as a JSON map is the list of its members, with
  \<open>map_insert\<close> for \<open>Map::insert\<close>.
\<close>

definition SUPPORTED_USER_CLAIMS :: "string list" where
  "SUPPORTED_USER_CLAIMS =
     [''preferred_username'', ''name'', ''given_name'', ''family_name'', ''middle_name'',
      ''nickname'', ''profile'', ''picture'', ''website'', ''gender'', ''birthdate'', ''zoneinfo'',
      ''locale'', ''updated_at'', ''email'', ''email_verified'', ''address'', ''phone_number'',
      ''phone_number_verified'']"

definition supported_user_claim :: "string \<Rightarrow> bool" where
  "supported_user_claim claim \<longleftrightarrow> claim \<in> set SUPPORTED_USER_CLAIMS"

record confirmation_claims =
  cnf_jkt :: "string option"
  cnf_x5t_s256 :: "string option"

record oidc_claim_request =
  cr_name :: string
  cr_essential :: bool
  cr_value :: "json option"
  cr_values :: "json list"

definition matches_value :: "oidc_claim_request \<Rightarrow> json \<Rightarrow> bool" where
  "matches_value r actual =
     (case (cr_value r, cr_values r) of
        (Some expected, _) \<Rightarrow> expected = actual
      | (None, []) \<Rightarrow> True
      | (None, vs) \<Rightarrow> actual \<in> set vs)"

definition claim_named :: "string \<Rightarrow> oidc_claim_request" where
  "claim_named name =
     \<lparr>cr_name = name, cr_essential = False, cr_value = None, cr_values = []\<rparr>"

subsection \<open>One claim request per name\<close>

text \<open>\<open>merge_legacy_names\<close> adds a bare request for each legacy name that has none; the
  two selections decode through it.\<close>

fun merge_legacy_names :: "string list \<Rightarrow> oidc_claim_request list \<Rightarrow> oidc_claim_request list" where
  "merge_legacy_names [] requests = requests"
| "merge_legacy_names (name # names) requests =
     merge_legacy_names names
       (if list_ex (\<lambda>r. cr_name r = name) requests then requests
        else requests @ [claim_named name])"

record legacy_userinfo_selection =
  legacy_userinfo_claims :: "string list"
  legacy_userinfo_claim_requests :: "oidc_claim_request list"

definition userinfo_claim_requests_from :: "legacy_userinfo_selection \<Rightarrow> oidc_claim_request list" where
  "userinfo_claim_requests_from l =
     merge_legacy_names (legacy_userinfo_claims l) (legacy_userinfo_claim_requests l)"

record legacy_id_token_selection =
  legacy_id_token_claims :: "string list"
  legacy_id_token_claim_requests :: "oidc_claim_request list"

definition id_token_claim_requests_from :: "legacy_id_token_selection \<Rightarrow> oidc_claim_request list" where
  "id_token_claim_requests_from l =
     merge_legacy_names (legacy_id_token_claims l) (legacy_id_token_claim_requests l)"

definition claim_request_names :: "oidc_claim_request list \<Rightarrow> string list" where
  "claim_request_names requests = map cr_name requests"

subsection \<open>Access tokens\<close>

record claims =
  c_authorization_id :: "uuid option"
  c_client_epoch :: "int option"
  c_user_epoch :: "int option"
  c_iss :: string
  c_sub :: string
  c_tenant_id :: string
  c_user_id :: "string option"
  c_subject_type :: string
  c_aud :: json
  c_client_id :: string
  c_scope :: string
  c_authorization_details :: json
  c_token_use :: string
  c_jti :: string
  c_iat :: int
  c_nbf :: int
  c_exp :: int
  c_cnf :: "confirmation_claims option"
  c_act :: "json option"
  c_userinfo_claim_requests :: "oidc_claim_request list"

record access_token_claims_input =
  ati_authorization_id :: "uuid option"
  ati_client_epoch :: "int option"
  ati_user_epoch :: "int option"
  ati_tenant_id :: uuid
  ati_subject :: string
  ati_user_id :: "uuid option"
  ati_subject_type :: string
  ati_client_id :: string
  ati_audiences :: "string list"
  ati_scopes :: "string list"
  ati_authorization_details :: json
  ati_userinfo_claim_requests :: "oidc_claim_request list"
  ati_ttl :: int
  ati_sender_constraint :: applied_sender_constraint
  ati_actor :: "json option"

definition access_token_public_user_id ::
  "(uuid \<Rightarrow> string) \<Rightarrow> uuid option \<Rightarrow> string \<Rightarrow> string option"
where
  "access_token_public_user_id uuid_text user_id subject =
     (case user_id of
        None \<Rightarrow> None
      | Some u \<Rightarrow> if subject = uuid_text u then Some (uuid_text u) else None)"

fun token_audience_claim :: "string list \<Rightarrow> json" where
  "token_audience_claim [audience] = JString audience"
| "token_audience_claim audiences = JArray (map JString audiences)"

definition sorted_scope_string :: "string list \<Rightarrow> string" where
  "sorted_scope_string scopes = join '' '' (sort_dedup scopes)"

fun confirmation_of :: "applied_sender_constraint \<Rightarrow> confirmation_claims option" where
  "confirmation_of (AppliedDpop jkt) = Some \<lparr>cnf_jkt = Some jkt, cnf_x5t_s256 = None\<rparr>"
| "confirmation_of (AppliedMutualTls x5t) = Some \<lparr>cnf_jkt = None, cnf_x5t_s256 = Some x5t\<rparr>"
| "confirmation_of AppliedBearer = None"

definition access_token_claims ::
  "(uuid \<Rightarrow> string) \<Rightarrow> string \<Rightarrow> access_token_claims_input \<Rightarrow> int \<Rightarrow> string \<Rightarrow> claims"
where
  "access_token_claims uuid_text issuer input now jti =
     \<lparr>c_authorization_id = ati_authorization_id input,
      c_client_epoch = ati_client_epoch input,
      c_user_epoch = ati_user_epoch input,
      c_iss = issuer,
      c_sub = ati_subject input,
      c_tenant_id = uuid_text (ati_tenant_id input),
      c_user_id = access_token_public_user_id uuid_text (ati_user_id input) (ati_subject input),
      c_subject_type = ati_subject_type input,
      c_aud = token_audience_claim (ati_audiences input),
      c_client_id = ati_client_id input,
      c_scope = sorted_scope_string (ati_scopes input),
      c_authorization_details = ati_authorization_details input,
      c_token_use = ''access'',
      c_jti = jti,
      c_iat = now,
      c_nbf = now,
      c_exp = wrapping_add_i64 now (ati_ttl input),
      c_cnf = confirmation_of (ati_sender_constraint input),
      c_act = ati_actor input,
      c_userinfo_claim_requests = ati_userinfo_claim_requests input\<rparr>"

subsection \<open>ID, logout and authorization-response tokens\<close>

fun map_insert :: "string \<Rightarrow> json \<Rightarrow> (string \<times> json) list \<Rightarrow> (string \<times> json) list" where
  "map_insert k v [] = [(k, v)]"
| "map_insert k v ((k', v') # m) = (if k' = k then (k, v) # m else (k', v') # map_insert k v m)"

definition insert_some ::
  "string \<Rightarrow> json option \<Rightarrow> (string \<times> json) list \<Rightarrow> (string \<times> json) list"
where
  "insert_some k v m = (case v of None \<Rightarrow> m | Some x \<Rightarrow> map_insert k x m)"

definition registered_claims ::
  "string \<Rightarrow> string \<Rightarrow> string option \<Rightarrow> string \<Rightarrow> int \<Rightarrow> int \<Rightarrow> (string \<times> json) list"
where
  "registered_claims jti issuer subject audience now ttl =
     (let m = map_insert ''iss'' (JString issuer) [];
          m = insert_some ''sub'' (map_option JString subject) m;
          m = map_insert ''aud'' (JString audience) m;
          m = map_insert ''iat'' (JInt now) m;
          m = map_insert ''nbf'' (JInt now) m;
          m = map_insert ''exp'' (JInt (wrapping_add_i64 now ttl)) m
      in map_insert ''jti'' (JString jti) m)"

record id_token_claims_input =
  iti_subject :: string
  iti_client_id :: string
  iti_nonce :: "string option"
  iti_auth_time :: "int option"
  iti_amr :: "string list"
  iti_sid :: "string option"
  iti_acr :: "string option"
  iti_extra_claims :: "json option"
  iti_ttl :: int

definition RESERVED_ID_TOKEN_CLAIMS :: "string list" where
  "RESERVED_ID_TOKEN_CLAIMS =
     [''iss'', ''sub'', ''aud'', ''iat'', ''nbf'', ''exp'', ''jti'', ''nonce'', ''auth_time'',
      ''azp'', ''amr'', ''sid'', ''acr'']"

fun insert_extra_claims ::
  "(string \<times> json) list \<Rightarrow> (string \<times> json) list \<Rightarrow> (string \<times> json) list"
where
  "insert_extra_claims [] m = m"
| "insert_extra_claims ((k, v) # extra) m =
     insert_extra_claims extra
       (if k \<in> set RESERVED_ID_TOKEN_CLAIMS then m else map_insert k v m)"

definition id_token_claims ::
  "string \<Rightarrow> string \<Rightarrow> id_token_claims_input \<Rightarrow> int \<Rightarrow> (string \<times> json) list"
where
  "id_token_claims jti issuer input now =
     (let m = registered_claims jti issuer (Some (iti_subject input)) (iti_client_id input) now
                (iti_ttl input);
          m = insert_some ''nonce'' (map_option JString (iti_nonce input)) m;
          m = insert_some ''auth_time'' (map_option JInt (iti_auth_time input)) m;
          m = (if iti_amr input = [] then m
               else map_insert ''amr'' (JArray (map JString (iti_amr input))) m);
          m = insert_some ''sid'' (map_option JString (iti_sid input)) m;
          m = insert_some ''acr'' (map_option JString (iti_acr input)) m
      in case Option.bind (iti_extra_claims input) as_object of
           None \<Rightarrow> m
         | Some extra \<Rightarrow> insert_extra_claims extra m)"

record backchannel_logout_claims_input =
  bli_client_id :: string
  bli_subject :: "string option"
  bli_sid :: "string option"
  bli_ttl :: int

definition backchannel_logout_token_claims ::
  "string \<Rightarrow> string \<Rightarrow> backchannel_logout_claims_input \<Rightarrow> int \<Rightarrow> (string \<times> json) list"
where
  "backchannel_logout_token_claims jti issuer input now =
     (let m = registered_claims jti issuer None (bli_client_id input) now (max (bli_ttl input) 1);
          m = map_insert ''events''
                (JObject [(''http://schemas.openid.net/event/backchannel-logout'', JObject [])]) m;
          m = insert_some ''sub'' (map_option JString (bli_subject input)) m
      in insert_some ''sid'' (map_option JString (bli_sid input)) m)"

record authorization_response_claims_input =
  ari_client_id :: string
  ari_code :: "string option"
  ari_error :: "string option"
  ari_state :: "string option"
  ari_ttl :: int

definition authorization_response_jwt_claims ::
  "string \<Rightarrow> string \<Rightarrow> authorization_response_claims_input \<Rightarrow> int \<Rightarrow> (string \<times> json) list"
where
  "authorization_response_jwt_claims jti issuer input now =
     (let m = registered_claims jti issuer None (ari_client_id input) now (max (ari_ttl input) 1);
          m = insert_some ''code'' (map_option JString (ari_code input)) m;
          m = insert_some ''error'' (map_option JString (ari_error input)) m
      in insert_some ''state'' (map_option JString (ari_state input)) m)"

subsection \<open>Laws\<close>

lemma map_of_map_insert [simp]:
  "map_of (map_insert k v m) = (map_of m)(k \<mapsto> v)"
  by (induction m) auto

lemma map_of_insert_some [simp]:
  "map_of (insert_some k v m) k' =
     (if k' = k \<and> v \<noteq> None then v else map_of m k')"
  by (auto simp: insert_some_def split: option.splits)

lemma insert_extra_reserved:
  "k \<in> set RESERVED_ID_TOKEN_CLAIMS \<Longrightarrow> map_of (insert_extra_claims extra m) k = map_of m k"
  by (induction extra m rule: insert_extra_claims.induct) auto

lemma insert_extra_other:
  "k \<notin> set RESERVED_ID_TOKEN_CLAIMS \<Longrightarrow> distinct (map fst extra) \<Longrightarrow>
     map_of (insert_extra_claims extra m) k =
       (case map_of extra k of None \<Rightarrow> map_of m k | Some v \<Rightarrow> Some v)"
proof (induction extra m rule: insert_extra_claims.induct)
  case (2 k' v extra m)
  then have "map_of extra k' = None" by (simp add: map_of_eq_None_iff)
  with 2 show ?case by (auto split: option.splits)
qed simp

lemma merge_legacy_prefix: "\<exists>added. merge_legacy_names names requests = requests @ added"
proof (induction names requests rule: merge_legacy_names.induct)
  case (2 name names requests)
  then show ?case by (cases "list_ex (\<lambda>r. cr_name r = name) requests") auto
qed simp

lemma merge_legacy_names_names:
  "set (map cr_name (merge_legacy_names names requests)) =
     set names \<union> set (map cr_name requests)"
  by (induction names requests rule: merge_legacy_names.induct)
    (auto simp: list_ex_iff claim_named_def)

lemma merge_legacy_names_distinct:
  "distinct (map cr_name requests) \<Longrightarrow> distinct (map cr_name (merge_legacy_names names requests))"
proof (induction names requests rule: merge_legacy_names.induct)
  case (2 name names requests)
  have "distinct (map cr_name (if list_ex (\<lambda>r. cr_name r = name) requests then requests
      else requests @ [claim_named name]))"
    using 2(2) by (auto simp: list_ex_iff claim_named_def)
  then show ?case by (simp only: merge_legacy_names.simps 2(1))
qed simp

lemma token_audience_claim_values: "token_audience_values (token_audience_claim as) = as"
proof -
  have *: "List.map_filter as_str (map JString bs) = bs" for bs
    by (induction bs) simp_all
  show ?thesis by (cases as rule: token_audience_claim.cases) (simp_all add: *)
qed

lemma parse_sorted_scope_string:
  assumes "\<forall>s \<in> set scopes. s \<noteq> [] \<and> CHR '' '' \<notin> set s"
  shows "parse_scope (sorted_scope_string scopes) = sort_dedup scopes"
  unfolding sorted_scope_string_def using assms by (intro parse_scope_join) simp

end
