(* ===== verification/Authorization_Policy.thy ===== *)
theory Authorization_Policy
  imports Claims
begin

text \<open>
  The authorization request and response policy
  (\<open>src/crates/authorization-server-core/src/authorization_policy.rs\<close>): normalising the
  request parameters, deciding on the user's session, planning the response. A parameter map is a
  partial function from names to values. The third-party functions the policy calls are the fields
  of \<open>web_lib\<close>: the JSON parser, the \<open>url\<close> crate, the list serialiser and the
  base64 engine.
\<close>

type_synonym params = "string \<Rightarrow> string option"

record web_lib =
  lib_from_str :: "string \<Rightarrow> json option"
  lib_url :: url_lib
  lib_text_list :: text_list_json
  lib_base64 :: base64

datatype authorization_port_error = PortUnavailable | PortConflict | PortCorruptData | PortUnexpected

definition BASELINE_ACR_VALUE :: string where "BASELINE_ACR_VALUE = ''1''"
definition AUTHORIZATION_NONCE_MAX_CHARS :: nat where "AUTHORIZATION_NONCE_MAX_CHARS = 64"

record prompt_directives =
  prompt_login :: bool
  prompt_consent :: bool
  prompt_select_account :: bool
  prompt_none :: bool

definition default_prompt :: prompt_directives where
  "default_prompt =
     \<lparr>prompt_login = False, prompt_consent = False, prompt_select_account = False,
      prompt_none = False\<rparr>"

record requested_claims =
  rc_userinfo :: "oidc_claim_request list"
  rc_id_token :: "oidc_claim_request list"
  rc_acr :: "oidc_claim_request option"
  rc_auth_time :: bool

record authorization_client_policy =
  acp_client_type :: string
  acp_allowed_scopes :: "string list"
  acp_allowed_audiences :: "string list"

record authorization_capability_policy =
  cap_authorization_details :: bool
  cap_jarm :: bool
  cap_native_sso :: bool
  cap_form_post :: bool

record authorization_profile_policy =
  prof_signed_authorization_response_required :: bool
  prof_pkce_required :: bool

record normalized_authorization_request =
  nar_response_mode :: "string option"
  nar_code_challenge :: "string option"
  nar_prompt :: prompt_directives
  nar_max_age :: "int option"
  nar_requested_claims :: requested_claims
  nar_acr :: "string option"
  nar_scopes :: "string list"
  nar_resources :: "string list"
  nar_authorization_details :: json
  nar_dpop_jkt :: "string option"

datatype authorization_policy_error =
    ApInvalidRequest | ApInvalidScope | ApInvalidTarget | ApUnsupportedResponseType
  | ApUnsupportedResponseMode

fun authorization_policy_oauth_error :: "authorization_policy_error \<Rightarrow> string" where
  "authorization_policy_oauth_error ApInvalidRequest = ''invalid_request''"
| "authorization_policy_oauth_error ApInvalidScope = ''invalid_scope''"
| "authorization_policy_oauth_error ApInvalidTarget = ''invalid_target''"
| "authorization_policy_oauth_error ApUnsupportedResponseType = ''unsupported_response_type''"
| "authorization_policy_oauth_error ApUnsupportedResponseMode = ''unsupported_response_mode''"

subsection \<open>Prompt\<close>

fun prompt_words :: "prompt_directives \<Rightarrow> string list \<Rightarrow> authorization_policy_error + prompt_directives"
where
  "prompt_words d [] = Inr d"
| "prompt_words d (w # ws) =
     (if w = ''login'' then prompt_words (d\<lparr>prompt_login := True\<rparr>) ws
      else if w = ''consent'' then prompt_words (d\<lparr>prompt_consent := True\<rparr>) ws
      else if w = ''select_account'' then prompt_words (d\<lparr>prompt_select_account := True\<rparr>) ws
      else if w = ''none'' then prompt_words (d\<lparr>prompt_none := True\<rparr>) ws
      else Inl ApInvalidRequest)"

definition requested_prompt :: "params \<Rightarrow> authorization_policy_error + prompt_directives" where
  "requested_prompt ps =
     (case ps ''prompt'' of
        None \<Rightarrow> Inr default_prompt
      | Some raw \<Rightarrow>
     (case prompt_words default_prompt (split_whitespace raw) of
        Inl e \<Rightarrow> Inl e
      | Inr d \<Rightarrow>
          if prompt_none d \<and> (prompt_login d \<or> prompt_consent d \<or> prompt_select_account d)
          then Inl ApInvalidRequest else Inr d))"

subsection \<open>The claims parameter\<close>

fun as_bool :: "json \<Rightarrow> bool option" where
  "as_bool (JBool b) = Some b"
| "as_bool _ = None"

definition claim_request_body ::
  "(string \<times> json) list \<Rightarrow> authorization_policy_error + (bool \<times> json option \<times> json list)"
where
  "claim_request_body object =
     and_then
       (case map_of object ''essential'' of
          None \<Rightarrow> Inr False
        | Some v \<Rightarrow> ok_or ApInvalidRequest (as_bool v))
       (\<lambda>essential.
          if map_of object ''value'' \<noteq> None \<and> map_of object ''values'' \<noteq> None
          then Inl ApInvalidRequest
          else and_then
            (case map_of object ''values'' of
               None \<Rightarrow> Inr []
             | Some vs \<Rightarrow> ok_or ApInvalidRequest (Option.bind (as_array vs)
                 (\<lambda>xs. if xs = [] then None else Some xs)))
            (\<lambda>requested_values. Inr (essential, map_of object ''value'', requested_values)))"

definition parse_optional_claim_request ::
  "string option \<Rightarrow> json \<Rightarrow> authorization_policy_error + oidc_claim_request option"
where
  "parse_optional_claim_request claim v =
     (if v = JNull then Inr (map_option claim_named claim)
      else and_then (ok_or ApInvalidRequest (as_object v)) (\<lambda>object.
        and_then (claim_request_body object) (\<lambda>(essential, requested, requested_values).
          Inr (map_option (\<lambda>name. \<lparr>cr_name = name, cr_essential = essential,
            cr_value = requested, cr_values = requested_values\<rparr>) claim))))"

definition parse_claim_request ::
  "string \<Rightarrow> json \<Rightarrow> authorization_policy_error + oidc_claim_request"
where
  "parse_claim_request claim v =
     and_then (parse_optional_claim_request (Some claim) v) (ok_or ApInvalidRequest)"

fun collect_claim_requests ::
  "(string \<times> json) list \<Rightarrow> authorization_policy_error + oidc_claim_request list"
where
  "collect_claim_requests [] = Inr []"
| "collect_claim_requests ((claim, request) # object) =
     (if supported_user_claim claim then
        and_then (parse_claim_request claim request) (\<lambda>r.
        and_then (collect_claim_requests object) (\<lambda>rs. Inr (r # rs)))
      else
        and_then (parse_optional_claim_request None request) (\<lambda>_. collect_claim_requests object))"

definition requested_claim_requests ::
  "json option \<Rightarrow> authorization_policy_error + oidc_claim_request list"
where
  "requested_claim_requests value =
     (case Option.bind value as_object of
        None \<Rightarrow> if value = None then Inr [] else Inl ApInvalidRequest
      | Some object \<Rightarrow>
          and_then (collect_claim_requests object)
            (\<lambda>requests. Inr (sort_key cr_name requests)))"

definition requested_acr_claim ::
  "json option \<Rightarrow> authorization_policy_error + oidc_claim_request option"
where
  "requested_acr_claim value =
     (case Option.bind value as_object of
        None \<Rightarrow> if value = None then Inr None else Inl ApInvalidRequest
      | Some object \<Rightarrow>
         (case map_of object ''acr'' of
            None \<Rightarrow> Inr None
          | Some acr \<Rightarrow> and_then (parse_claim_request ''acr'' acr) (\<lambda>r. Inr (Some r))))"

definition requested_auth_time_claim :: "json option \<Rightarrow> authorization_policy_error + bool" where
  "requested_auth_time_claim value =
     (case Option.bind value as_object of
        None \<Rightarrow> if value = None then Inr False else Inl ApInvalidRequest
      | Some object \<Rightarrow>
         (case map_of object ''auth_time'' of
            None \<Rightarrow> Inr False
          | Some auth_time \<Rightarrow>
              and_then (parse_optional_claim_request None auth_time) (\<lambda>_. Inr True)))"

definition requested_claims_of ::
  "(string \<Rightarrow> json option) \<Rightarrow> params \<Rightarrow> authorization_policy_error + requested_claims"
where
  "requested_claims_of from_str ps =
     (case ps ''claims'' of
        None \<Rightarrow> Inr \<lparr>rc_userinfo = [], rc_id_token = [], rc_acr = None, rc_auth_time = False\<rparr>
      | Some raw \<Rightarrow>
          and_then (ok_or ApInvalidRequest (from_str raw)) (\<lambda>value.
          and_then (ok_or ApInvalidRequest (as_object value)) (\<lambda>object.
          and_then (requested_claim_requests (map_of object ''userinfo'')) (\<lambda>userinfo.
          and_then (requested_claim_requests (map_of object ''id_token'')) (\<lambda>id_token.
          and_then (requested_acr_claim (map_of object ''id_token'')) (\<lambda>acr.
          and_then (requested_auth_time_claim (map_of object ''id_token'')) (\<lambda>auth_time.
          Inr \<lparr>rc_userinfo = userinfo, rc_id_token = id_token, rc_acr = acr,
               rc_auth_time = auth_time\<rparr>)))))))"

subsection \<open>Authentication context class\<close>

definition acr_value_is_baseline :: "json \<Rightarrow> authorization_policy_error + bool" where
  "acr_value_is_baseline v =
     ok_or ApInvalidRequest (map_option (\<lambda>s. s = BASELINE_ACR_VALUE) (as_str v))"

fun any_baseline :: "bool \<Rightarrow> json list \<Rightarrow> authorization_policy_error + bool" where
  "any_baseline supported [] = Inr supported"
| "any_baseline supported (v # vs) =
     and_then (acr_value_is_baseline v) (\<lambda>b. any_baseline (supported \<or> b) vs)"

definition supports_baseline :: "oidc_claim_request \<Rightarrow> authorization_policy_error + bool" where
  "supports_baseline claim =
     and_then
       (case cr_value claim of None \<Rightarrow> Inr False | Some v \<Rightarrow> acr_value_is_baseline v)
       (\<lambda>supported. if supported then Inr True else any_baseline False (cr_values claim))"

definition acr_values_baseline :: "params \<Rightarrow> string option" where
  "acr_values_baseline ps =
     Option.bind (ps ''acr_values'')
       (\<lambda>vs. find (\<lambda>v. v = BASELINE_ACR_VALUE) (split_whitespace vs))"

definition requested_acr ::
  "params \<Rightarrow> oidc_claim_request option \<Rightarrow> authorization_policy_error + string option"
where
  "requested_acr ps claims_acr =
     (case claims_acr of
        None \<Rightarrow> Inr (acr_values_baseline ps)
      | Some claim \<Rightarrow>
          let constrained = (cr_value claim \<noteq> None \<or> cr_values claim \<noteq> [])
          in and_then (supports_baseline claim) (\<lambda>supported.
               if cr_essential claim \<and> constrained \<and> \<not> supported then Inl ApInvalidRequest
               else if \<not> constrained \<or> supported then Inr (Some BASELINE_ACR_VALUE)
               else Inr (acr_values_baseline ps)))"

subsection \<open>Normalising a request\<close>

definition requested_response_mode ::
  "authorization_capability_policy \<Rightarrow> params \<Rightarrow> authorization_policy_error + string option"
where
  "requested_response_mode caps ps =
     (case ps ''response_mode'' of
        None \<Rightarrow> Inr None
      | Some m \<Rightarrow>
          if m = ''query'' then Inr None
          else if m = ''form_post'' \<and> cap_form_post caps then Inr (Some ''form_post'')
          else if m = ''jwt'' \<and> cap_jarm caps then Inr (Some ''jwt'')
          else if m = ''jwt'' then Inl ApUnsupportedResponseMode
          else Inl ApInvalidRequest)"

definition requested_code_challenge :: "params \<Rightarrow> authorization_policy_error + string option" where
  "requested_code_challenge ps =
     (case (ps ''code_challenge'', ps ''code_challenge_method'') of
        (None, None) \<Rightarrow> Inr None
      | (Some challenge, Some m) \<Rightarrow>
          if m = ''S256'' \<and> is_valid_pkce_value challenge then Inr (Some challenge)
          else Inl ApInvalidRequest
      | _ \<Rightarrow> Inl ApInvalidRequest)"

definition requested_max_age :: "params \<Rightarrow> authorization_policy_error + int option" where
  "requested_max_age ps =
     (case ps ''max_age'' of
        None \<Rightarrow> Inr None
      | Some v \<Rightarrow>
     (case parse_i64 v of
        None \<Rightarrow> Inl ApInvalidRequest
      | Some n \<Rightarrow> if 0 \<le> n then Inr (Some n) else Inl ApInvalidRequest))"

definition requested_dpop_jkt ::
  "base64 \<Rightarrow> params \<Rightarrow> authorization_policy_error + string option"
where
  "requested_dpop_jkt b64 ps =
     (case ps ''dpop_jkt'' of
        None \<Rightarrow> Inr None
      | Some v \<Rightarrow> if is_valid_dpop_jkt b64 v then Inr (Some v) else Inl ApInvalidRequest)"

definition requested_scopes :: "params \<Rightarrow> string list" where
  "requested_scopes ps = parse_scope (case ps ''scope'' of None \<Rightarrow> [] | Some s \<Rightarrow> s)"

definition parse_request_authorization_details ::
  "web_lib \<Rightarrow> params \<Rightarrow> authorization_policy_error + json"
where
  "parse_request_authorization_details lib ps =
     map_err (\<lambda>_. ApInvalidRequest)
       (parse_authorization_details (lib_from_str lib) (\<lambda>u. url_parse (lib_url lib) u \<noteq> None)
         (ps ''authorization_details''))"

definition normalize_authorization_request ::
  "web_lib \<Rightarrow> params \<Rightarrow> authorization_client_policy \<Rightarrow> authorization_capability_policy \<Rightarrow>
    authorization_profile_policy \<Rightarrow>
    authorization_policy_error + normalized_authorization_request"
where
  "normalize_authorization_request lib ps client caps profile =
     (if ps ''response_type'' \<noteq> Some ''code'' then Inl ApUnsupportedResponseType
      else if is_some_and (\<lambda>n. chars_count n > AUTHORIZATION_NONCE_MAX_CHARS) (ps ''nonce'')
      then Inl ApInvalidRequest
      else if ps ''authorization_details'' \<noteq> None \<and> \<not> cap_authorization_details caps
      then Inl ApInvalidRequest
      else and_then (requested_response_mode caps ps) (\<lambda>response_mode.
      if prof_signed_authorization_response_required profile \<and> \<not> cap_jarm caps
      then Inl ApUnsupportedResponseMode
      else let scopes = requested_scopes ps in
      and_then (requested_code_challenge ps) (\<lambda>code_challenge.
      if code_challenge = None \<and>
         \<not> (\<not> prof_pkce_required profile \<and> acp_client_type client = ''confidential'' \<and>
             ''openid'' \<in> set scopes)
      then Inl ApInvalidRequest
      else and_then (requested_prompt ps) (\<lambda>prompt.
      and_then (requested_max_age ps) (\<lambda>max_age.
      and_then (requested_claims_of (lib_from_str lib) ps) (\<lambda>requested.
      and_then (requested_acr ps (rc_acr requested)) (\<lambda>acr.
      if \<not> is_subset scopes (acp_allowed_scopes client) then Inl ApInvalidScope
      else if \<not> cap_native_sso caps \<and> ''device_sso'' \<in> set scopes then Inl ApInvalidScope
      else and_then
        (map_err (\<lambda>_. ApInvalidTarget)
          (parse_resource_indicator_parameter (lib_url lib) (lib_text_list lib) (ps ''resource'')))
        (\<lambda>resources.
      if resources \<noteq> [] \<and> \<not> is_subset resources (acp_allowed_audiences client)
      then Inl ApInvalidTarget
      else and_then (parse_request_authorization_details lib ps) (\<lambda>details.
      and_then (requested_dpop_jkt (lib_base64 lib) ps) (\<lambda>dpop_jkt.
      Inr \<lparr>nar_response_mode = response_mode, nar_code_challenge = code_challenge,
           nar_prompt = prompt, nar_max_age = max_age, nar_requested_claims = requested,
           nar_acr = acr, nar_scopes = scopes, nar_resources = resources,
           nar_authorization_details = details, nar_dpop_jkt = dpop_jkt\<rparr>))))))))))"

subsection \<open>Sessions and decisions\<close>

record authorization_session =
  as_auth_time :: int
  as_auth_time_micros :: "int option"

datatype session_decision =
  SessionContinue | SessionLogin bool | SessionLoginRequired

text \<open>\<open>i64\<close> division truncates towards zero.\<close>

definition div_i64 :: "int \<Rightarrow> int \<Rightarrow> int" where
  "div_i64 a b = sgn a * sgn b * (\<bar>a\<bar> div \<bar>b\<bar>)"

definition reauthentication_completed ::
  "authorization_session \<Rightarrow> int option \<Rightarrow> int \<Rightarrow> bool"
where
  "reauthentication_completed session started now =
     is_some_and (\<lambda>started_at. is_some_and (\<lambda>authenticated_at.
         started_at > 0 \<and> authenticated_at > started_at
         \<and> div_i64 authenticated_at 1000000 = as_auth_time session
         \<and> as_auth_time session \<le> now) (as_auth_time_micros session)) started"

definition max_age_expired :: "authorization_session \<Rightarrow> int option \<Rightarrow> int \<Rightarrow> bool" where
  "max_age_expired session max_age now =
     (case max_age of
        None \<Rightarrow> False
      | Some a \<Rightarrow> if a = 0 then False else saturating_sub_i64 now (as_auth_time session) > a)"

definition authorization_session_decision ::
  "authorization_session option \<Rightarrow> prompt_directives \<Rightarrow> int option \<Rightarrow> int option \<Rightarrow> int \<Rightarrow>
    session_decision"
where
  "authorization_session_decision session prompt max_age started now =
     (let fresh = prompt_login prompt \<or> prompt_select_account prompt \<or> max_age = Some 0 in
      case session of
        None \<Rightarrow> if prompt_none prompt then SessionLoginRequired else SessionLogin fresh
      | Some s \<Rightarrow>
          if fresh \<and> \<not> reauthentication_completed s started now \<or> max_age_expired s max_age now
          then if prompt_none prompt then SessionLoginRequired else SessionLogin fresh
          else SessionContinue)"

datatype prompt_none_decision = IssueAuthorizationCode | ConsentRequired

definition prompt_none_decision_of ::
  "authorization_port_error + bool \<Rightarrow> authorization_port_error + prompt_none_decision"
where
  "prompt_none_decision_of covers =
     (case covers of
        Inl e \<Rightarrow> Inl e
      | Inr c \<Rightarrow> Inr (if c then IssueAuthorizationCode else ConsentRequired))"

datatype user_authorization_decision = DecisionApprove | DecisionDeny

definition parse_user_authorization_decision :: "string \<Rightarrow> user_authorization_decision option" where
  "parse_user_authorization_decision v =
     (if v = ''approve'' then Some DecisionApprove
      else if v = ''deny'' then Some DecisionDeny
      else None)"

subsection \<open>Planning the response\<close>

record authorization_response_policy_input =
  rpi_issuer :: string
  rpi_redirect_uri :: string
  rpi_client_id :: string
  rpi_response_mode :: "string option"
  rpi_code :: "string option"
  rpi_error :: "string option"
  rpi_state :: "string option"
  rpi_ttl_seconds :: int
  rpi_signed_response_required :: bool
  rpi_jarm_available :: bool
  rpi_session_management_available :: bool

record plain_authorization_response =
  par_redirect_uri :: string
  par_parameters :: "(string \<times> string) list"
  par_issue_session_state :: bool

record jarm_authorization_response =
  jar_redirect_uri :: string
  jar_issuer :: string
  jar_client_id :: string
  jar_code :: "string option"
  jar_error :: "string option"
  jar_state :: "string option"
  jar_ttl_seconds :: int

datatype authorization_response_plan =
    PlainResponse plain_authorization_response
  | FormPostResponse plain_authorization_response
  | JarmResponse jarm_authorization_response

datatype authorization_response_policy_error =
    RespUnsupportedResponseMode | RespMissingClientId
  | RespDependency authorization_port_error

fun authorization_response_oauth_error :: "authorization_response_policy_error \<Rightarrow> string" where
  "authorization_response_oauth_error RespUnsupportedResponseMode = ''unsupported_response_mode''"
| "authorization_response_oauth_error RespMissingClientId = ''server_error''"
| "authorization_response_oauth_error (RespDependency _) = ''server_error''"

definition some_parameter :: "string \<Rightarrow> string option \<Rightarrow> (string \<times> string) list" where
  "some_parameter name v = (case v of None \<Rightarrow> [] | Some x \<Rightarrow> [(name, x)])"

definition plan_authorization_response ::
  "authorization_response_policy_input \<Rightarrow>
    authorization_response_policy_error + authorization_response_plan"
where
  "plan_authorization_response input =
     (let use_jarm = rpi_response_mode input = Some ''jwt'' \<or> rpi_signed_response_required input in
      if use_jarm \<and> \<not> rpi_jarm_available input then Inl RespUnsupportedResponseMode
      else if use_jarm then
        (if is_blank (rpi_client_id input) then Inl RespMissingClientId
         else Inr (JarmResponse
           \<lparr>jar_redirect_uri = rpi_redirect_uri input, jar_issuer = rpi_issuer input,
            jar_client_id = rpi_client_id input, jar_code = rpi_code input,
            jar_error = rpi_error input, jar_state = rpi_state input,
            jar_ttl_seconds = rpi_ttl_seconds input\<rparr>))
      else
        let response =
          \<lparr>par_redirect_uri = rpi_redirect_uri input,
           par_parameters = some_parameter ''code'' (rpi_code input) @
             some_parameter ''error'' (rpi_error input) @
             some_parameter ''state'' (rpi_state input) @ [(''iss'', rpi_issuer input)],
           par_issue_session_state = rpi_session_management_available input
             \<and> rpi_code input \<noteq> None \<and> rpi_error input = None\<rparr>
        in if rpi_response_mode input = Some ''form_post''
           then Inr (FormPostResponse response) else Inr (PlainResponse response))"

record signed_jarm_authorization_response =
  sjr_redirect_uri :: string
  sjr_response :: string

definition plain_authorization_response_uri ::
  "url_lib \<Rightarrow> plain_authorization_response \<Rightarrow> string option \<Rightarrow> string"
where
  "plain_authorization_response_uri ul response session_state =
     (case url_parse ul (par_redirect_uri response) of
        None \<Rightarrow> par_redirect_uri response
      | Some u \<Rightarrow>
          url_append_pairs ul u
            (filter (\<lambda>(name, _). name \<noteq> ''iss'') (par_parameters response) @
             some_parameter ''session_state'' session_state @
             some_parameter ''iss''
               (map_option snd (find (\<lambda>(name, _). name = ''iss'') (par_parameters response)))))"

definition signed_jarm_authorization_response_uri ::
  "url_lib \<Rightarrow> signed_jarm_authorization_response \<Rightarrow> string"
where
  "signed_jarm_authorization_response_uri ul response =
     (case url_parse ul (sjr_redirect_uri response) of
        None \<Rightarrow> sjr_redirect_uri response
      | Some u \<Rightarrow> url_append_pairs ul u [(''response'', sjr_response response)])"

record authorization_response_sign_input =
  rsi_issuer :: string
  rsi_client_id :: string
  rsi_code :: "string option"
  rsi_error :: "string option"
  rsi_state :: "string option"
  rsi_ttl :: int
  rsi_signing_algorithm :: "string option"

definition jarm_signing_input ::
  "jarm_authorization_response \<Rightarrow> string option \<Rightarrow> authorization_response_sign_input"
where
  "jarm_signing_input r alg =
     \<lparr>rsi_issuer = jar_issuer r, rsi_client_id = jar_client_id r, rsi_code = jar_code r,
      rsi_error = jar_error r, rsi_state = jar_state r, rsi_ttl = jar_ttl_seconds r,
      rsi_signing_algorithm = alg\<rparr>"

subsection \<open>What a normalised request satisfies\<close>

lemma normalize_authorization_request_ok:
  "normalize_authorization_request lib ps client caps profile = Inr r \<Longrightarrow>
     (ps ''response_type'' = Some ''code'') \<and>
     (is_none_or (\<lambda>n. chars_count n \<le> AUTHORIZATION_NONCE_MAX_CHARS) (ps ''nonce'')) \<and>
     (ps ''authorization_details'' = None \<or> cap_authorization_details caps) \<and>
     (requested_response_mode caps ps = Inr (nar_response_mode r)) \<and>
     (prof_signed_authorization_response_required profile \<longrightarrow> cap_jarm caps) \<and>
     (requested_code_challenge ps = Inr (nar_code_challenge r)) \<and>
     (nar_code_challenge r \<noteq> None \<or> \<not> prof_pkce_required profile \<and>
      acp_client_type client = ''confidential'' \<and> ''openid'' \<in> set (nar_scopes r)) \<and>
     (requested_prompt ps = Inr (nar_prompt r)) \<and>
     (requested_max_age ps = Inr (nar_max_age r)) \<and>
     (requested_claims_of (lib_from_str lib) ps = Inr (nar_requested_claims r)) \<and>
     (requested_acr ps (rc_acr (nar_requested_claims r)) = Inr (nar_acr r)) \<and>
     (nar_scopes r = requested_scopes ps) \<and>
     (is_subset (nar_scopes r) (acp_allowed_scopes client)) \<and>
     (''device_sso'' \<in> set (nar_scopes r) \<longrightarrow> cap_native_sso caps) \<and>
     (parse_resource_indicator_parameter (lib_url lib) (lib_text_list lib) (ps ''resource'')
      = Inr (nar_resources r)) \<and>
     (is_subset (nar_resources r) (acp_allowed_audiences client)) \<and>
     (parse_request_authorization_details lib ps = Inr (nar_authorization_details r)) \<and>
     (requested_dpop_jkt (lib_base64 lib) ps = Inr (nar_dpop_jkt r))"
  unfolding normalize_authorization_request_def Let_def result_Inr map_err_eq_Inr
  by (elim exE conjE, simp only: sum.inject, hypsubst,
      simp only: normalized_authorization_request.simps, intro conjI)
    (simp_all add: is_none_or_iff is_some_and_iff not_less, (fastforce simp: is_subset_def)+)

lemma requested_code_challenge_ok:
  "requested_code_challenge ps = Inr (Some ch) \<longleftrightarrow>
     ps ''code_challenge'' = Some ch \<and> ps ''code_challenge_method'' = Some ''S256'' \<and>
     is_valid_pkce_value ch"
  by (auto simp: requested_code_challenge_def split: option.splits if_splits)

lemma prompt_words_flags:
  "prompt_words d ws = Inr d' \<Longrightarrow>
     (prompt_login d' \<longleftrightarrow> prompt_login d \<or> ''login'' \<in> set ws) \<and>
     (prompt_consent d' \<longleftrightarrow> prompt_consent d \<or> ''consent'' \<in> set ws) \<and>
     (prompt_select_account d' \<longleftrightarrow> prompt_select_account d \<or> ''select_account'' \<in> set ws) \<and>
     (prompt_none d' \<longleftrightarrow> prompt_none d \<or> ''none'' \<in> set ws) \<and>
     set ws \<subseteq> {''login'', ''consent'', ''select_account'', ''none''}"
  by (induction d ws rule: prompt_words.induct) (auto split: if_split_asm)

lemma requested_prompt_none:
  "requested_prompt ps = Inr d \<Longrightarrow> prompt_none d \<Longrightarrow>
     \<not> prompt_login d \<and> \<not> prompt_consent d \<and> \<not> prompt_select_account d"
  by (auto simp: requested_prompt_def default_prompt_def split: option.splits sum.splits if_splits)

lemma requested_max_age_ok:
  "requested_max_age ps = Inr (Some n) \<Longrightarrow> 0 \<le> n \<and> is_i64 n"
  by (auto simp: requested_max_age_def dest: parse_i64_range split: option.splits if_splits)

lemma requested_acr_ok: "requested_acr ps c = Inr (Some a) \<Longrightarrow> a = BASELINE_ACR_VALUE"
  by (auto simp: requested_acr_def acr_values_baseline_def Let_def find_Some_iff
    bind_eq_Some_conv and_then_Inr split: option.splits if_split_asm)

lemma requested_dpop_jkt_ok: "requested_dpop_jkt b64 ps = Inr (Some j) \<Longrightarrow> is_valid_dpop_jkt b64 j"
  by (auto simp: requested_dpop_jkt_def split: option.splits if_splits)

lemma parse_resource_indicator_parameter_ok:
  "parse_resource_indicator_parameter ul tj v = Inr vs \<Longrightarrow>
     distinct vs \<and> (\<forall>x \<in> set vs. is_some_and (\<lambda>u. url_fragment u = None) (url_parse ul x))"
  by (auto simp: parse_resource_indicator_parameter_def parse_resource_indicators_ok
    split: option.splits)

lemma parse_request_authorization_details_ok:
  "parse_request_authorization_details lib ps = Inr v \<Longrightarrow>
     authorization_details_valid (\<lambda>u. url_parse (lib_url lib) u \<noteq> None) v"
  by (auto simp: parse_request_authorization_details_def parse_authorization_details_def
    split: option.splits if_splits sum.splits)

lemma session_continue_iff:
  "authorization_session_decision session prompt max_age started now = SessionContinue \<longleftrightarrow>
     (\<exists>s. session = Some s \<and> \<not> max_age_expired s max_age now \<and>
        (prompt_login prompt \<or> prompt_select_account prompt \<or> max_age = Some 0 \<longrightarrow>
           reauthentication_completed s started now))"
  by (auto simp: authorization_session_decision_def Let_def split: option.splits)

lemma session_login_not_none:
  "authorization_session_decision session prompt max_age started now = SessionLogin fresh \<Longrightarrow>
     \<not> prompt_none prompt"
  by (auto simp: authorization_session_decision_def Let_def split: option.splits if_splits)

lemma div_i64_pos: "0 < a \<Longrightarrow> 0 < b \<Longrightarrow> div_i64 a b = a div b"
  by (simp add: div_i64_def)

end
