(* ===== verification/Client_Assertion.thy ===== *)
theory Client_Assertion
  imports Jose
begin

text \<open>
  \<open>private_key_jwt\<close> client authentication
  (\<open>src/crates/authorization-server-core/src/client_assertion.rs\<close>): choosing the client's
  key, verifying the assertion and checking its claims. The lemmas show what an accepted assertion
  satisfies, for how long it stays acceptable, and that its replay lifetime covers that time.
\<close>

definition CLIENT_ASSERTION_TYPE_JWT_BEARER :: string where
  "CLIENT_ASSERTION_TYPE_JWT_BEARER = ''urn:ietf:params:oauth:client-assertion-type:jwt-bearer''"

definition CLIENT_ASSERTION_MAX_TTL_SECONDS :: int where "CLIENT_ASSERTION_MAX_TTL_SECONDS = 300"
definition CLIENT_ASSERTION_CLOCK_SKEW_SECONDS :: int where
  "CLIENT_ASSERTION_CLOCK_SKEW_SECONDS = 30"
definition MAX_CLIENT_ASSERTION_JTI_BYTES :: nat where "MAX_CLIENT_ASSERTION_JTI_BYTES = 128"

definition SUPPORTED_CLIENT_JWT_SIGNING_ALGS :: "string list" where
  "SUPPORTED_CLIENT_JWT_SIGNING_ALGS = [''EdDSA'', ''RS256'', ''ES256'', ''PS256'']"

definition FAPI2_JWT_SIGNING_ALGS :: "string list" where
  "FAPI2_JWT_SIGNING_ALGS = [''EdDSA'', ''ES256'', ''PS256'']"

record client_assertion_input =
  cai_issuer :: string
  cai_endpoint_path :: string
  cai_endpoint_audience_aliases :: "string list"
  cai_client :: oauth_client
  cai_assertion :: string
  cai_now :: int
  cai_expected_signing_algorithm :: "string option"
  cai_require_fapi2 :: bool

datatype client_assertion_error =
    CaDecodeHeader | CaKeyNotFound | CaInvalidSignature | CaInvalidAlgorithm | CaDecode
  | CaIssuerSubject | CaAudience | CaTime | CaJti

fun audit_reason :: "client_assertion_error \<Rightarrow> string" where
  "audit_reason CaDecodeHeader = ''decode_header''"
| "audit_reason CaKeyNotFound = ''key_not_found''"
| "audit_reason CaInvalidSignature = ''decode_signature''"
| "audit_reason CaInvalidAlgorithm = ''decode_algorithm''"
| "audit_reason CaDecode = ''decode''"
| "audit_reason CaIssuerSubject = ''issuer_subject''"
| "audit_reason CaAudience = ''audience''"
| "audit_reason CaTime = ''time''"
| "audit_reason CaJti = ''jti''"

record validated_client_assertion =
  vca_jti :: string
  vca_expires_at :: int
  vca_kid :: "string option"
  vca_algorithm :: jwt_algorithm

text \<open>\<open>replay_ttl_seconds\<close>: \<open>clamp(1, 300) as u64\<close>.\<close>

definition replay_ttl_seconds :: "validated_client_assertion \<Rightarrow> int \<Rightarrow> nat" where
  "replay_ttl_seconds v now =
     nat (max 1 (min CLIENT_ASSERTION_MAX_TTL_SECONDS (saturating_sub_i64 (vca_expires_at v) now)))"

record client_assertion_claims =
  cac_iss :: string
  cac_sub :: string
  cac_aud :: json
  cac_exp :: int
  cac_nbf :: "int option"
  cac_iat :: "int option"
  cac_jti :: string

definition unverified_client_assertion_client_id ::
  "client_assertion_claims jwt_lib \<Rightarrow> string \<Rightarrow> string option"
where
  "unverified_client_assertion_client_id jl assertion =
     (case insecure_decode jl assertion of
        Inl _ \<Rightarrow> None
      | Inr (_, c) \<Rightarrow>
          if cac_iss c = cac_sub c \<and> \<not> is_blank (cac_sub c) then Some (cac_sub c) else None)"

subsection \<open>Keys\<close>

datatype client_jwt_key_type = AlgEdDsa | AlgRsa | AlgEc

fun supported_client_jwt_algorithm ::
  "jwt_algorithm \<Rightarrow> (string \<times> client_jwt_key_type) option"
where
  "supported_client_jwt_algorithm EdDSA = Some (''EdDSA'', AlgEdDsa)"
| "supported_client_jwt_algorithm RS256 = Some (''RS256'', AlgRsa)"
| "supported_client_jwt_algorithm ES256 = Some (''ES256'', AlgEc)"
| "supported_client_jwt_algorithm PS256 = Some (''PS256'', AlgRsa)"
| "supported_client_jwt_algorithm _ = None"

definition supported_client_jwt_algorithm_name :: "jwt_algorithm \<Rightarrow> string option" where
  "supported_client_jwt_algorithm_name alg = map_option fst (supported_client_jwt_algorithm alg)"

fun valid_verification_key_ops :: "json option \<Rightarrow> bool" where
  "valid_verification_key_ops None = True"
| "valid_verification_key_ops (Some (JArray [op])) = (as_str op = Some ''verify'')"
| "valid_verification_key_ops (Some _) = False"

definition PRIVATE_KEY_MEMBERS :: "string list" where
  "PRIVATE_KEY_MEMBERS = [''d'', ''p'', ''q'', ''dp'', ''dq'', ''qi'', ''oth'', ''k'']"

definition decode_32 :: "base64 \<Rightarrow> string \<Rightarrow> string option" where
  "decode_32 b64 v =
     Option.bind (b64_decode_slice b64 32 v) (\<lambda>bs. if length bs = 32 then Some bs else None)"

fun decoding_key_of_type ::
  "base64 \<Rightarrow> json \<Rightarrow> client_jwt_key_type \<Rightarrow> verification_key option"
where
  "decoding_key_of_type b64 key AlgEdDsa =
     (if json_get_str key ''kty'' \<noteq> Some ''OKP'' \<or> json_get_str key ''crv'' \<noteq> Some ''Ed25519''
      then None
      else Option.bind (json_get_str key ''x'') (\<lambda>x.
           Option.bind (decode_32 b64 x) (\<lambda>bs. Some (from_ed25519_bytes bs))))"
| "decoding_key_of_type b64 key AlgRsa =
     (if json_get_str key ''kty'' \<noteq> Some ''RSA'' then None
      else Option.bind (json_get_str key ''n'') (\<lambda>n.
           Option.bind (json_get_str key ''e'') (\<lambda>e.
           Option.bind (b64_decode b64 n) (\<lambda>modulus.
           Option.bind (b64_decode b64 e) (\<lambda>exponent.
           if rsa_public_key_components_are_safe modulus exponent
           then Some (from_rsa_raw_components modulus exponent) else None)))))"
| "decoding_key_of_type b64 key AlgEc =
     (if json_get_str key ''kty'' \<noteq> Some ''EC'' \<or> json_get_str key ''crv'' \<noteq> Some ''P-256''
      then None
      else Option.bind (json_get_str key ''x'') (\<lambda>x.
           Option.bind (json_get_str key ''y'') (\<lambda>y.
           Option.bind (decode_32 b64 x) (\<lambda>xb.
           Option.bind (decode_32 b64 y) (\<lambda>yb. Some (from_p256_coordinates xb yb))))))"

definition jwt_decoding_key_from_jwk ::
  "base64 \<Rightarrow> json \<Rightarrow> jwt_algorithm \<Rightarrow> verification_key option"
where
  "jwt_decoding_key_from_jwk b64 key alg =
     (case supported_client_jwt_algorithm alg of
        None \<Rightarrow> None
      | Some (expected, key_type) \<Rightarrow>
          if is_some_and (\<lambda>registered. as_str registered \<noteq> Some expected) (json_get key ''alg'')
             \<or> list_ex (\<lambda>member. json_get key member \<noteq> None) PRIVATE_KEY_MEMBERS
             \<or> is_some_and (\<lambda>u. as_str u \<noteq> Some ''sig'') (json_get key ''use'')
             \<or> \<not> valid_verification_key_ops (json_get key ''key_ops'')
          then None
          else decoding_key_of_type b64 key key_type)"

definition client_keys :: "oauth_client \<Rightarrow> json list option" where
  "client_keys client =
     Option.bind (jwks (registration client)) (\<lambda>ks. Option.bind (json_get ks ''keys'') as_array)"

definition client_jwt_decoding_key ::
  "base64 \<Rightarrow> oauth_client \<Rightarrow> string \<Rightarrow> jwt_algorithm \<Rightarrow> verification_key option"
where
  "client_jwt_decoding_key b64 client kid alg =
     Option.bind (client_keys client) (\<lambda>keys.
     Option.bind (the_only (filter (\<lambda>key. json_get_str key ''kid'' = Some kid) keys))
       (\<lambda>selected. jwt_decoding_key_from_jwk b64 selected alg))"

definition client_assertion_decoding_key ::
  "base64 \<Rightarrow> oauth_client \<Rightarrow> string option \<Rightarrow> jwt_algorithm \<Rightarrow> verification_key option"
where
  "client_assertion_decoding_key b64 client kid alg =
     (case kid of
        Some k \<Rightarrow> client_jwt_decoding_key b64 client k alg
      | None \<Rightarrow>
          Option.bind (client_keys client) (\<lambda>keys.
            the_only (List.map_filter (\<lambda>key. jwt_decoding_key_from_jwk b64 key alg) keys)))"

subsection \<open>Claims\<close>

fun audience_values_match :: "(string \<Rightarrow> bool) \<Rightarrow> bool \<Rightarrow> json list \<Rightarrow> bool" where
  "audience_values_match expected matches [] = matches"
| "audience_values_match expected matches (v # vs) =
     (case as_str v of
        None \<Rightarrow> False
      | Some s \<Rightarrow> audience_values_match expected (matches \<or> expected s) vs)"

fun audience_matches :: "json \<Rightarrow> (string \<Rightarrow> bool) \<Rightarrow> bool \<Rightarrow> bool" where
  "audience_matches (JString v) expected allow_array = expected v"
| "audience_matches (JArray vs) expected allow_array =
     (allow_array \<and> audience_values_match expected False vs)"
| "audience_matches _ _ _ = False"

definition valid_client_assertion_times :: "client_assertion_claims \<Rightarrow> int \<Rightarrow> bool" where
  "valid_client_assertion_times c now =
     (if cac_exp c \<le> now \<or> cac_exp c > saturating_add_i64 now CLIENT_ASSERTION_MAX_TTL_SECONDS
      then False
      else if is_some_and (\<lambda>nbf. nbf > saturating_add_i64 now CLIENT_ASSERTION_CLOCK_SKEW_SECONDS)
                (cac_nbf c) then False
      else if is_some_and (\<lambda>iat.
                iat > saturating_add_i64 now CLIENT_ASSERTION_CLOCK_SKEW_SECONDS
                \<or> saturating_sub_i64 now iat > CLIENT_ASSERTION_MAX_TTL_SECONDS) (cac_iat c)
      then False
      else True)"

definition valid_client_assertion_jti :: "string \<Rightarrow> bool" where
  "valid_client_assertion_jti jti \<longleftrightarrow>
     trim jti \<noteq> [] \<and> trim jti = jti \<and> length jti \<le> MAX_CLIENT_ASSERTION_JTI_BYTES"

fun client_assertion_decode_error :: "crypto_error \<Rightarrow> client_assertion_error" where
  "client_assertion_decode_error CryptoInvalidSignature = CaInvalidSignature"
| "client_assertion_decode_error CryptoUnsupportedAlgorithm = CaInvalidAlgorithm"
| "client_assertion_decode_error _ = CaDecode"

definition endpoint_audience :: "client_assertion_input \<Rightarrow> string \<Rightarrow> bool" where
  "endpoint_audience input audience =
     list_ex (\<lambda>origin.
        let path = strip_prefix audience origin in
        path = Some (cai_endpoint_path input) \<or>
        (cai_endpoint_path input \<in> {''/par'', ''/bc-authorize''} \<and> path = Some ''/token''))
       (cai_issuer input # cai_endpoint_audience_aliases input)"

definition assertion_requires_fapi2 :: "client_assertion_input \<Rightarrow> bool" where
  "assertion_requires_fapi2 input \<longleftrightarrow>
     cai_require_fapi2 input \<or>
     requires_fapi2_security_policy (security_policy (registration (cai_client input)))"

definition verify_private_key_jwt ::
  "base64 \<Rightarrow> client_assertion_claims jwt_lib \<Rightarrow> client_assertion_input \<Rightarrow>
    client_assertion_error + validated_client_assertion"
where
  "verify_private_key_jwt b64 jl input =
     (let require_fapi2 = assertion_requires_fapi2 input;
          client = cai_client input;
          reg = registration client in
      and_then (map_err (\<lambda>_. CaDecodeHeader) (decode_header jl (cai_assertion input))) (\<lambda>header.
      and_then (ok_or CaInvalidAlgorithm (supported_client_jwt_algorithm (jh_alg header)))
        (\<lambda>(algorithm_name, _).
      if require_fapi2 \<and> algorithm_name \<notin> set FAPI2_JWT_SIGNING_ALGS then Inl CaInvalidAlgorithm
      else if is_some_and (\<lambda>expected. expected \<noteq> algorithm_name)
                (cai_expected_signing_algorithm input) then Inl CaInvalidAlgorithm
      else let kid = Option.bind (jh_kid header) (\<lambda>k. if is_blank k then None else Some k) in
      and_then (ok_or CaKeyNotFound (client_assertion_decoding_key b64 client kid (jh_alg header)))
        (\<lambda>key.
      and_then (map_err client_assertion_decode_error
          (jwt_decode jl (cai_assertion input) key (jh_alg header))) (\<lambda>(_, c).
      if cac_iss c \<noteq> reg_client_id reg \<or> cac_sub c \<noteq> reg_client_id reg then Inl CaIssuerSubject
      else if \<not> audience_matches (cac_aud c)
                (\<lambda>audience. audience = cai_issuer input \<or>
                  (\<not> require_fapi2 \<and> allow_client_assertion_endpoint_audience reg \<and>
                   endpoint_audience input audience))
                (\<not> require_fapi2 \<and> allow_client_assertion_audience_array reg)
      then Inl CaAudience
      else if \<not> valid_client_assertion_times c (cai_now input) then Inl CaTime
      else if \<not> valid_client_assertion_jti (cac_jti c) then Inl CaJti
      else Inr \<lparr>vca_jti = cac_jti c, vca_expires_at = cac_exp c, vca_kid = kid,
                vca_algorithm = jh_alg header\<rparr>)))))"

subsection \<open>What acceptance means\<close>

lemma supported_algorithm_name:
  "supported_client_jwt_algorithm alg = Some (name, t) \<Longrightarrow>
     name \<in> set SUPPORTED_CLIENT_JWT_SIGNING_ALGS"
  by (cases alg) (auto simp: SUPPORTED_CLIENT_JWT_SIGNING_ALGS_def)

lemma jwk_no_private_material:
  "jwt_decoding_key_from_jwk b64 key alg = Some k \<Longrightarrow> member \<in> set PRIVATE_KEY_MEMBERS \<Longrightarrow>
     json_get key member = None"
  by (auto simp: jwt_decoding_key_from_jwk_def list_ex_iff split: option.splits if_splits)

lemma client_jwt_decoding_key_unique:
  assumes "client_jwt_decoding_key b64 client kid alg = Some k"
  obtains keys key where "client_keys client = Some keys"
    and "filter (\<lambda>key. json_get_str key ''kid'' = Some kid) keys = [key]"
    and "jwt_decoding_key_from_jwk b64 key alg = Some k"
  using assms
  by (auto simp: client_jwt_decoding_key_def bind_eq_Some_conv)

lemma decoding_key_of_client:
  assumes "client_assertion_decoding_key b64 client kid alg = Some k"
  obtains keys key where "client_keys client = Some keys" and "key \<in> set keys"
    and "jwt_decoding_key_from_jwk b64 key alg = Some k"
proof (cases kid)
  case (Some kd)
  with assms have "client_jwt_decoding_key b64 client kd alg = Some k"
    by (simp add: client_assertion_decoding_key_def)
  then obtain keys key where keys: "client_keys client = Some keys"
    and sel: "filter (\<lambda>key. json_get_str key ''kid'' = Some kd) keys = [key]"
    and k: "jwt_decoding_key_from_jwk b64 key alg = Some k"
    by (rule client_jwt_decoding_key_unique)
  have "key \<in> set (filter (\<lambda>key. json_get_str key ''kid'' = Some kd) keys)" by (simp add: sel)
  then show ?thesis using that [OF keys _ k] by simp
next
  case None
  with assms obtain keys where keys: "client_keys client = Some keys"
    and sel: "List.map_filter (\<lambda>key. jwt_decoding_key_from_jwk b64 key alg) keys = [k]"
    by (auto simp: client_assertion_decoding_key_def bind_eq_Some_conv)
  have "k \<in> set (List.map_filter (\<lambda>key. jwt_decoding_key_from_jwk b64 key alg) keys)"
    by (simp add: sel)
  then obtain key where "key \<in> set keys" "jwt_decoding_key_from_jwk b64 key alg = Some k"
    by (auto simp: List.map_filter_def)
  then show ?thesis using that [OF keys] by blast
qed

lemma jwt_decode_ok:
  "jwt_decode jl token key alg = Inr (h, c) \<Longrightarrow>
     jw_decode jl token key alg = Inr (h, c) \<and> jh_crit h = None"
  by (auto simp: jwt_decode_def and_then_Inr reject_unsupported_extensions_def split: if_splits)

lemma verify_private_key_jwt_ok:
  assumes "verify_private_key_jwt b64 jl input = Inr v"
  obtains h c k where
    "jw_decode jl (cai_assertion input) k (vca_algorithm v) = Inr (h, c)"
    "client_assertion_decoding_key b64 (cai_client input) (vca_kid v) (vca_algorithm v) = Some k"
    "cac_iss c = oc_client_id (cai_client input)" "cac_sub c = oc_client_id (cai_client input)"
    "audience_matches (cac_aud c)
       (\<lambda>audience. audience = cai_issuer input \<or>
          (\<not> assertion_requires_fapi2 input \<and>
           allow_client_assertion_endpoint_audience (registration (cai_client input)) \<and>
           endpoint_audience input audience))
       (\<not> assertion_requires_fapi2 input \<and>
        allow_client_assertion_audience_array (registration (cai_client input)))"
    "valid_client_assertion_times c (cai_now input)" "valid_client_assertion_jti (cac_jti c)"
    "vca_jti v = cac_jti c" "vca_expires_at v = cac_exp c"
    "is_some_and (\<lambda>name. assertion_requires_fapi2 input \<longrightarrow> name \<in> set FAPI2_JWT_SIGNING_ALGS)
       (supported_client_jwt_algorithm_name (vca_algorithm v))"
  using assms
  unfolding verify_private_key_jwt_def Let_def
  by (auto simp: and_then_Inr ok_or_def supported_client_jwt_algorithm_name_def
    dest!: jwt_decode_ok split: if_split_asm option.split_asm)

lemma accepted_times:
  assumes "valid_client_assertion_times c now" and "is_i64 now" and "is_i64 (cac_exp c)"
  shows "now < cac_exp c" and "cac_exp c \<le> now + 300"
  using assms
  by (auto simp: valid_client_assertion_times_def CLIENT_ASSERTION_MAX_TTL_SECONDS_def
    saturating_add_i64_def is_i64_def int_bounds split: if_splits)

lemma replay_ttl_exact:
  assumes "now < vca_expires_at v" and "vca_expires_at v \<le> now + 300"
  shows "int (replay_ttl_seconds v now) = vca_expires_at v - now"
  using assms
  by (simp add: replay_ttl_seconds_def CLIENT_ASSERTION_MAX_TTL_SECONDS_def saturating_sub_i64_def
    int_bounds)

end
