(* ===== verification/Request_Object.thy ===== *)
theory Request_Object
  imports Authorization_Policy Client_Assertion
begin

text \<open>
  Request objects and pushed authorization requests
  (\<open>src/crates/authorization-server-core/src/authorization_request.rs\<close>). The header and
  claim deserialisers, the algorithm parser of \<open>jsonwebtoken\<close> and JSON printing are the
  fields of \<open>ro_lib\<close>. The outer parameters are a partial function, as in
  \<open>Authorization_Policy\<close>; the claims of a request object are the list of its members.
\<close>

definition REQUEST_OBJECT_MAX_TTL_SECONDS :: int where "REQUEST_OBJECT_MAX_TTL_SECONDS = 300"
definition REQUEST_OBJECT_CLOCK_SKEW_SECONDS :: int where "REQUEST_OBJECT_CLOCK_SKEW_SECONDS = 30"

definition AUTHORIZATION_REQUEST_PARAMETERS :: "string list" where
  "AUTHORIZATION_REQUEST_PARAMETERS =
     [''response_type'', ''client_id'', ''redirect_uri'', ''scope'', ''resource'',
      ''authorization_details'', ''issuer_state'', ''state'', ''code_challenge'',
      ''code_challenge_method'', ''nonce'', ''claims'', ''acr_values'', ''prompt'', ''max_age'',
      ''dpop_jkt'', ''response_mode'', ''request_uri'', ''request'']"

datatype request_object_jti_policy = JtiOptional | JtiRequiredForSignedJar

record request_object_claims =
  ro_client_id :: string
  ro_iss :: "string option"
  ro_sub :: "string option"
  ro_aud :: "json option"
  ro_exp :: "int option"
  ro_nbf :: "int option"
  ro_iat :: "int option"
  ro_jti :: "string option"
  ro_parameters :: "(string \<times> json) list"

record request_object_policy =
  rop_issuer :: string
  rop_client_id :: string
  rop_jti_policy :: request_object_jti_policy
  rop_require_integrity_protected_parameters :: bool
  rop_require_issuer_audience :: bool
  rop_now :: int

record request_object_verification_input =
  rvi_request_object :: string
  rvi_client :: oauth_client
  rvi_expected_signing_algorithm :: "string option"
  rvi_require_fapi2 :: bool

datatype request_object_verification_error =
    RvInvalidCompact | RvInvalidHeader | RvInvalidAlgorithm | RvMissingKeyId | RvInvalidKey
  | RvInvalidSignature

record request_object_header =
  rh_alg :: string
  rh_kid :: "string option"
  rh_critical_extension_present :: bool

record request_object_client =
  rcl_client_id :: string
  rcl_iss :: "string option"
  rcl_sub :: "string option"

record ro_lib =
  rl_web :: web_lib
  rl_jwt :: "request_object_claims jwt_lib"
  rl_header :: "string \<Rightarrow> request_object_header option"
  rl_client :: "string \<Rightarrow> request_object_client option"
  rl_parse_algorithm :: "string \<Rightarrow> jwt_algorithm option"
  rl_json_text :: "json \<Rightarrow> string"

subsection \<open>Verification\<close>

definition split_compact_jwt :: "string \<Rightarrow> (string \<times> string \<times> string) option" where
  "split_compact_jwt token =
     (case split_on CHR ''.'' token of
        [header, payload, signature] \<Rightarrow> Some (header, payload, signature)
      | _ \<Rightarrow> None)"

definition decode_request_object_header ::
  "ro_lib \<Rightarrow> string \<Rightarrow> request_object_verification_error + request_object_header"
where
  "decode_request_object_header rl header =
     and_then (ok_or RvInvalidHeader (b64_decode (lib_base64 (rl_web rl)) header)) (\<lambda>bytes.
     and_then (ok_or RvInvalidHeader (rl_header rl bytes)) (\<lambda>h.
     if rh_critical_extension_present h then Inl RvInvalidHeader else Inr h))"

definition verify_request_object ::
  "ro_lib \<Rightarrow> request_object_verification_input \<Rightarrow>
    request_object_verification_error + request_object_claims"
where
  "verify_request_object rl input =
     and_then (ok_or RvInvalidCompact (split_compact_jwt (rvi_request_object input)))
       (\<lambda>(header_part, payload_part, signature_part).
     and_then (decode_request_object_header rl header_part) (\<lambda>header.
     if payload_part = [] \<or> signature_part = [] then Inl RvInvalidAlgorithm
     else
     and_then (ok_or RvInvalidAlgorithm (rl_parse_algorithm rl (rh_alg header))) (\<lambda>alg.
     and_then (ok_or RvInvalidAlgorithm (supported_client_jwt_algorithm_name alg))
       (\<lambda>algorithm_name.
     if (rvi_require_fapi2 input \<or>
         requires_fapi2_security_policy (security_policy (registration (rvi_client input))))
        \<and> algorithm_name \<notin> set FAPI2_JWT_SIGNING_ALGS then Inl RvInvalidAlgorithm
     else if is_some_and (\<lambda>expected. expected \<noteq> algorithm_name)
               (rvi_expected_signing_algorithm input) then Inl RvInvalidAlgorithm
     else
     and_then (ok_or RvMissingKeyId (rh_kid header)) (\<lambda>kid.
     if is_blank kid \<or> trim kid \<noteq> kid then Inl RvInvalidKey
     else
     and_then (ok_or RvInvalidKey
         (client_jwt_decoding_key (lib_base64 (rl_web rl)) (rvi_client input) kid alg)) (\<lambda>key.
     and_then (map_err (\<lambda>_. RvInvalidSignature)
         (jwt_decode (rl_jwt rl) (rvi_request_object input) key alg)) (\<lambda>(_, c). Inr c)))))))"

definition unverified_signed_request_object_client_id :: "ro_lib \<Rightarrow> string \<Rightarrow> string option" where
  "unverified_signed_request_object_client_id rl request_object =
     Option.bind (split_compact_jwt request_object) (\<lambda>(header, payload, signature).
     case decode_request_object_header rl header of
       Inl _ \<Rightarrow> None
     | Inr h \<Rightarrow>
         if rh_alg h = ''none'' \<or> signature = [] then None
         else
           Option.bind (b64_decode (lib_base64 (rl_web rl)) payload) (\<lambda>bytes.
           Option.bind (rl_client rl bytes) (\<lambda>c.
           if is_none_or (\<lambda>i. i = rcl_client_id c) (rcl_iss c)
              \<and> is_none_or (\<lambda>s. s = rcl_client_id c) (rcl_sub c)
              \<and> \<not> is_blank (rcl_client_id c)
           then Some (rcl_client_id c) else None)))"

definition unverified_signed_request_object_kid :: "ro_lib \<Rightarrow> string \<Rightarrow> string option" where
  "unverified_signed_request_object_kid rl request_object =
     Option.bind (split_compact_jwt request_object) (\<lambda>(header, _, signature).
     if signature = [] then None
     else case decode_request_object_header rl header of
       Inl _ \<Rightarrow> None
     | Inr h \<Rightarrow> Option.bind (rl_parse_algorithm rl (rh_alg h)) (\<lambda>_. rh_kid h))"

subsection \<open>Claims policy\<close>

record request_object_replay =
  ror_client_id :: string
  ror_jti :: string
  ror_expires_at :: int

record normalized_request_object =
  nro_parameters :: params
  nro_replay :: "request_object_replay option"

datatype authorization_request_error =
    ArInvalidRequest | ArInvalidRequestObject | ArRequestObjectClaims
  | ArRequestObjectContainsRequestUri | ArRequestObjectParameterType | ArOuterClientIdConflict
  | ArSignedRequestObjectMissingRedirectUri | ArOuterAuthorizationParametersConflict
  | ArInvalidRequestObjectReplay | ArInvalidTarget | ArUnsupportedResponseType
  | ArUnauthorizedClient | ArInvalidClient | ArDependency authorization_port_error

fun authorization_request_oauth_error :: "authorization_request_error \<Rightarrow> string" where
  "authorization_request_oauth_error ArInvalidRequest = ''invalid_request''"
| "authorization_request_oauth_error ArOuterClientIdConflict = ''invalid_request''"
| "authorization_request_oauth_error ArInvalidTarget = ''invalid_target''"
| "authorization_request_oauth_error ArUnsupportedResponseType = ''unsupported_response_type''"
| "authorization_request_oauth_error ArUnauthorizedClient = ''unauthorized_client''"
| "authorization_request_oauth_error ArInvalidClient = ''invalid_client''"
| "authorization_request_oauth_error (ArDependency _) = ''server_error''"
| "authorization_request_oauth_error _ = ''invalid_request_object''"

definition request_object_party_claims_valid ::
  "request_object_claims \<Rightarrow> request_object_policy \<Rightarrow> bool"
where
  "request_object_party_claims_valid c policy \<longleftrightarrow>
     ro_iss c = Some (rop_client_id policy) \<and>
     is_none_or (\<lambda>s. s = rop_client_id policy) (ro_sub c)"

definition request_object_audience_ok :: "request_object_policy \<Rightarrow> string \<Rightarrow> bool" where
  "request_object_audience_ok policy audience \<longleftrightarrow>
     audience = rop_issuer policy \<or>
     (\<not> rop_require_issuer_audience policy \<and>
      strip_suffix audience ''/authorize'' = Some (rop_issuer policy))"

definition request_object_audience_valid ::
  "request_object_claims \<Rightarrow> request_object_policy \<Rightarrow> bool"
where
  "request_object_audience_valid c policy =
     (case ro_aud c of
        Some (JString audience) \<Rightarrow> request_object_audience_ok policy audience
      | Some (JArray audiences) \<Rightarrow>
          list_ex (\<lambda>a. is_some_and (request_object_audience_ok policy) (as_str a)) audiences
      | _ \<Rightarrow> False)"

definition request_object_times_valid ::
  "request_object_claims \<Rightarrow> request_object_policy \<Rightarrow> bool"
where
  "request_object_times_valid c policy =
     (let now = rop_now policy in
      case ro_exp c of
        None \<Rightarrow> False
      | Some expiry \<Rightarrow>
          if expiry \<le> now then False
          else (case ro_nbf c of
            None \<Rightarrow> False
          | Some not_before \<Rightarrow>
              if not_before > saturating_add_i64 now REQUEST_OBJECT_CLOCK_SKEW_SECONDS then False
              else if saturating_sub_i64 now not_before > REQUEST_OBJECT_MAX_TTL_SECONDS
                \<or> expiry \<le> not_before
                \<or> saturating_sub_i64 expiry not_before >
                    saturating_add_i64 REQUEST_OBJECT_MAX_TTL_SECONDS
                      REQUEST_OBJECT_CLOCK_SKEW_SECONDS
              then False
              else \<not> is_some_and (\<lambda>issued_at.
                issued_at > saturating_add_i64 now REQUEST_OBJECT_CLOCK_SKEW_SECONDS
                \<or> saturating_sub_i64 now issued_at > REQUEST_OBJECT_MAX_TTL_SECONDS) (ro_iat c)))"

definition request_object_jti_valid :: "request_object_claims \<Rightarrow> request_object_policy \<Rightarrow> bool" where
  "request_object_jti_valid c policy =
     (case ro_jti c of
        Some jti \<Rightarrow> trim jti \<noteq> [] \<and> length (trim jti) \<le> 128
      | None \<Rightarrow> rop_jti_policy policy \<noteq> JtiRequiredForSignedJar)"

fun strings_of :: "json list \<Rightarrow> string list option" where
  "strings_of [] = Some []"
| "strings_of (JString v # vs) = map_option ((#) v) (strings_of vs)"
| "strings_of (_ # vs) = None"

definition resource_parameter_value :: "ro_lib \<Rightarrow> json \<Rightarrow> authorization_request_error + string" where
  "resource_parameter_value rl v =
     and_then
       (case v of
          JString s \<Rightarrow> Inr [s]
        | JArray vs \<Rightarrow> ok_or ArRequestObjectParameterType (strings_of vs)
        | _ \<Rightarrow> Inl ArRequestObjectParameterType)
       (\<lambda>values. ok_or ArRequestObjectParameterType
         (encode_resource_indicators (lib_text_list (rl_web rl)) values))"

definition plain_parameter_value ::
  "ro_lib \<Rightarrow> string \<Rightarrow> json \<Rightarrow> authorization_request_error + string"
where
  "plain_parameter_value rl key v =
     (case v of
        JString s \<Rightarrow> Inr s
      | JInt _ \<Rightarrow> Inr (rl_json_text rl v)
      | JFloat _ \<Rightarrow> Inr (rl_json_text rl v)
      | JObject _ \<Rightarrow>
          if key = ''claims'' then Inr (rl_json_text rl v) else Inl ArRequestObjectParameterType
      | JArray _ \<Rightarrow>
          if key = ''authorization_details'' then Inr (rl_json_text rl v)
          else Inl ArRequestObjectParameterType
      | _ \<Rightarrow> Inl ArRequestObjectParameterType)"

fun collect_request_parameters ::
  "ro_lib \<Rightarrow> (string \<times> json) list \<Rightarrow> authorization_request_error + (string \<times> string) list"
where
  "collect_request_parameters rl [] = Inr []"
| "collect_request_parameters rl ((key, v) # members) =
     (if key \<in> {''request'', ''client_id''} \<or> key \<notin> set AUTHORIZATION_REQUEST_PARAMETERS
      then collect_request_parameters rl members
      else
        and_then
          (if key = ''resource'' then resource_parameter_value rl v
           else plain_parameter_value rl key v) (\<lambda>value.
        and_then (collect_request_parameters rl members) (\<lambda>ps. Inr ((key, value) # ps))))"

definition request_object_parameters ::
  "ro_lib \<Rightarrow> (string \<times> json) list \<Rightarrow> authorization_request_error + params"
where
  "request_object_parameters rl members =
     (if map_of members ''request_uri'' \<noteq> None then Inl ArRequestObjectContainsRequestUri
      else and_then (collect_request_parameters rl members) (\<lambda>ps. Inr (map_of ps)))"

definition parameter_conflicts :: "ro_lib \<Rightarrow> params \<Rightarrow> params \<Rightarrow> string \<Rightarrow> bool" where
  "parameter_conflicts rl outer request key =
     (if key \<in> {''request'', ''request_uri'', ''client_id''} then False
      else case (outer key, request key) of
        (Some o', Some r) \<Rightarrow>
          if key = ''resource'' then
            (let parse = (\<lambda>v. case parse_resource_indicator_parameter
                   (lib_url (rl_web rl)) (lib_text_list (rl_web rl)) (Some v) of
                   Inl _ \<Rightarrow> None | Inr vs \<Rightarrow> Some vs)
             in parse o' \<noteq> parse r)
          else o' \<noteq> r
      | _ \<Rightarrow> False)"

definition outer_authorization_parameters_conflict :: "ro_lib \<Rightarrow> params \<Rightarrow> params \<Rightarrow> bool" where
  "outer_authorization_parameters_conflict rl outer request =
     list_ex (parameter_conflicts rl outer request) AUTHORIZATION_REQUEST_PARAMETERS"

text \<open>The caller's map is emptied by \<open>mem::take\<close> on success and untouched on failure; the
  result is the merged map. A failing policy therefore leaves the second component as it was.\<close>

definition normalize_request_object ::
  "ro_lib \<Rightarrow> params \<Rightarrow> request_object_claims \<Rightarrow> request_object_policy \<Rightarrow>
    (authorization_request_error + normalized_request_object) \<times> params"
where
  "normalize_request_object rl outer c policy =
     (if ro_client_id c \<noteq> rop_client_id policy
         \<or> \<not> request_object_party_claims_valid c policy
         \<or> \<not> request_object_audience_valid c policy
         \<or> \<not> request_object_times_valid c policy
         \<or> \<not> request_object_jti_valid c policy
      then (Inl ArRequestObjectClaims, outer)
      else (case request_object_parameters rl (ro_parameters c) of
        Inl e \<Rightarrow> (Inl e, outer)
      | Inr request \<Rightarrow>
          if is_some_and (\<lambda>outer_client_id. outer_client_id \<noteq> ro_client_id c) (outer ''client_id'')
          then (Inl ArOuterClientIdConflict, outer)
          else if request ''redirect_uri'' = None
          then (Inl ArSignedRequestObjectMissingRedirectUri, outer)
          else if rop_require_integrity_protected_parameters policy
             \<and> outer_authorization_parameters_conflict rl outer request
          then (Inl ArOuterAuthorizationParametersConflict, outer)
          else
            let replay = map_option (\<lambda>jti. \<lparr>ror_client_id = ro_client_id c, ror_jti = jti,
                  ror_expires_at = the (ro_exp c)\<rparr>) (ro_jti c);
                request = request(''client_id'' \<mapsto> ro_client_id c);
                retained = (if rop_require_integrity_protected_parameters policy
                  then (\<lambda>k. if k \<in> {''request'', ''client_id''} then outer k else None)
                  else (\<lambda>k. if k = ''request'' \<or> request k = None then outer k else None))
            in (Inr \<lparr>nro_parameters = retained ++ request, nro_replay = replay\<rparr>, Map.empty)))"

definition classify_request_object_replay ::
  "authorization_port_error + bool \<Rightarrow> authorization_request_error + unit"
where
  "classify_request_object_replay r =
     (case r of
        Inr accepted \<Rightarrow> if accepted then Inr () else Inl ArInvalidRequestObjectReplay
      | Inl e \<Rightarrow> Inl (ArDependency e))"

subsection \<open>Pushed authorization requests\<close>

record raw_par_admission_policy =
  rpa_client_is_confidential :: bool
  rpa_client_authentication_method :: string
  rpa_require_dpop_bound_tokens :: bool
  rpa_require_mtls_bound_tokens :: bool
  rpa_require_request_object :: bool
  rpa_fapi2_security :: bool

record expanded_par_admission_policy =
  epa_client_type :: string
  epa_redirect_uris :: "string list"
  epa_allowed_scopes :: "string list"
  epa_capabilities :: authorization_capability_policy
  epa_signed_authorization_response_required :: bool
  epa_allowed_audiences :: "string list"
  epa_pkce_required :: bool
  epa_fapi2_requires_explicit_redirect_uri :: bool

record par_admission =
  pa_redirect_uri :: string
  pa_resources :: "string list"

datatype par_admission_error =
    ParRequestUriNotAllowed | ParAuthorization authorization_policy_error
  | ParRequestObjectRequired | ParConfidentialClientRequired | ParStrongClientAuthenticationRequired
  | ParSenderConstraintRequired | ParExplicitRedirectUriRequired | ParRedirectUriRequired
  | ParRedirectUriNotRegistered

fun par_admission_oauth_error :: "par_admission_error \<Rightarrow> string" where
  "par_admission_oauth_error ParRequestUriNotAllowed = ''invalid_request_object''"
| "par_admission_oauth_error (ParAuthorization e) = authorization_policy_oauth_error e"
| "par_admission_oauth_error ParConfidentialClientRequired = ''unauthorized_client''"
| "par_admission_oauth_error ParStrongClientAuthenticationRequired = ''invalid_client''"
| "par_admission_oauth_error _ = ''invalid_request''"

definition validate_raw_par_admission ::
  "params \<Rightarrow> raw_par_admission_policy \<Rightarrow> par_admission_error + unit"
where
  "validate_raw_par_admission ps policy =
     and_then
       (if rpa_fapi2_security policy then
          if \<not> rpa_client_is_confidential policy then Inl ParConfidentialClientRequired
          else if \<not> strong_authentication_method (rpa_client_authentication_method policy)
          then Inl ParStrongClientAuthenticationRequired
          else if \<not> (rpa_require_dpop_bound_tokens policy \<or> rpa_require_mtls_bound_tokens policy)
          then Inl ParSenderConstraintRequired
          else Inr ()
        else Inr ())
       (\<lambda>_. if rpa_require_request_object policy \<and> ps ''request'' = None
            then Inl ParRequestObjectRequired else Inr ())"

definition validate_expanded_par_admission ::
  "web_lib \<Rightarrow> params \<Rightarrow> expanded_par_admission_policy \<Rightarrow> par_admission_error + par_admission"
where
  "validate_expanded_par_admission lib ps policy =
     (if ps ''request_uri'' \<noteq> None then Inl ParRequestUriNotAllowed
      else if epa_fapi2_requires_explicit_redirect_uri policy \<and> ps ''redirect_uri'' = None
      then Inl ParExplicitRedirectUriRequired
      else
        and_then
          (map_err (\<lambda>e. case e of RedirectMissing \<Rightarrow> ParRedirectUriRequired
                          | RedirectInvalid \<Rightarrow> ParRedirectUriNotRegistered)
            (resolve_registered_redirect_uri (lib_url lib) (epa_client_type policy)
              (epa_redirect_uris policy) (ps ''redirect_uri''))) (\<lambda>redirect_uri.
        and_then
          (map_err ParAuthorization
            (normalize_authorization_request lib ps
              \<lparr>acp_client_type = epa_client_type policy,
               acp_allowed_scopes = epa_allowed_scopes policy,
               acp_allowed_audiences = epa_allowed_audiences policy\<rparr>
              (epa_capabilities policy)
              \<lparr>prof_signed_authorization_response_required =
                 epa_signed_authorization_response_required policy,
               prof_pkce_required = epa_pkce_required policy\<rparr>)) (\<lambda>normalized.
        Inr \<lparr>pa_redirect_uri = redirect_uri, pa_resources = nar_resources normalized\<rparr>)))"

subsection \<open>What a normalised request object satisfies\<close>

lemma normalize_request_object_ok:
  assumes "normalize_request_object rl outer c policy = (Inr n, outer')"
  obtains request where
    "request_object_parameters rl (ro_parameters c) = Inr request"
    "ro_client_id c = rop_client_id policy"
    "request_object_party_claims_valid c policy" "request_object_audience_valid c policy"
    "request_object_times_valid c policy" "request_object_jti_valid c policy"
    "is_none_or (\<lambda>o'. o' = ro_client_id c) (outer ''client_id'')"
    "request ''redirect_uri'' \<noteq> None"
    "rop_require_integrity_protected_parameters policy \<longrightarrow>
       \<not> outer_authorization_parameters_conflict rl outer request"
    "nro_parameters n =
      (if rop_require_integrity_protected_parameters policy
       then (\<lambda>k. if k \<in> {''request'', ''client_id''} then outer k else None)
       else (\<lambda>k. if k = ''request'' \<or> (request(''client_id'' \<mapsto> ro_client_id c)) k = None
             then outer k else None)) ++ request(''client_id'' \<mapsto> ro_client_id c)"
    "nro_replay n = map_option (\<lambda>jti. \<lparr>ror_client_id = ro_client_id c, ror_jti = jti,
        ror_expires_at = the (ro_exp c)\<rparr>) (ro_jti c)"
  using assms unfolding normalize_request_object_def Let_def
  by (cases "request_object_parameters rl (ro_parameters c)")
    (auto simp: is_none_or_iff is_some_and_iff split: if_split_asm)

lemma normalize_request_object_error:
  "normalize_request_object rl outer c policy = (Inl e, outer') \<Longrightarrow> outer' = outer"
  unfolding normalize_request_object_def Let_def
  by (auto split: if_split_asm sum.split_asm)

lemma collect_request_parameters_keys:
  "collect_request_parameters rl members = Inr ps \<Longrightarrow> k \<in> fst ` set ps \<Longrightarrow>
     k \<in> set AUTHORIZATION_REQUEST_PARAMETERS \<and> k \<notin> {''request'', ''client_id''} \<and>
     k \<in> fst ` set members"
proof (induction members arbitrary: ps)
  case (Cons m members)
  obtain key v where m: "m = (key, v)" by (cases m)
  show ?case
  proof (cases "key \<in> {''request'', ''client_id''} \<or> key \<notin> set AUTHORIZATION_REQUEST_PARAMETERS")
    case True
    then show ?thesis using Cons m by simp
  next
    case False
    then obtain x ps' where "collect_request_parameters rl members = Inr ps'"
      and "ps = (key, x) # ps'"
      using Cons.prems(1) m by (auto simp: and_then_Inr split: if_split_asm)
    with Cons.IH [of ps'] Cons.prems(2) False m show ?thesis by (cases "k = key") simp_all
  qed
qed simp

text \<open>With an \<open>i64\<close> clock and claims, the saturating comparisons are exact: the object is
  live, at most 300 seconds old, and expires at most 330 seconds after its \<open>nbf\<close>.\<close>

lemma request_object_times_bounds:
  assumes "request_object_times_valid c policy" and "i64_min \<le> rop_now policy"
  obtains expiry not_before where "ro_exp c = Some expiry" and "ro_nbf c = Some not_before"
    and "rop_now policy < expiry" and "not_before \<le> rop_now policy + 30"
    and "not_before < expiry" and "rop_now policy \<le> not_before + 300"
    and "expiry \<le> not_before + 330"
proof -
  from assms(1) obtain expiry not_before where e: "ro_exp c = Some expiry"
    and n: "ro_nbf c = Some not_before" and le: "rop_now policy < expiry"
    and skew: "not_before \<le> saturating_add_i64 (rop_now policy) 30"
    and age: "saturating_sub_i64 (rop_now policy) not_before \<le> 300"
    and lt: "not_before < expiry"
    and life: "saturating_sub_i64 expiry not_before \<le> saturating_add_i64 300 30"
    by (auto simp: request_object_times_valid_def Let_def REQUEST_OBJECT_CLOCK_SKEW_SECONDS_def
      REQUEST_OBJECT_MAX_TTL_SECONDS_def not_less split: option.split_asm if_split_asm)
  have "not_before \<le> rop_now policy + 30"
    using skew assms(2) by (auto simp: saturating_add_i64_def le_max_iff_disj)
  moreover have "rop_now policy \<le> not_before + 300" and "expiry \<le> not_before + 330"
    using age life
    by (auto simp: saturating_sub_i64_def saturating_add_i64_def i64_min_def i64_max_def
      min_def max_def split: if_split_asm)
  ultimately show thesis using that e n le lt by blast
qed

end
