(* ===== verification/Extension_Grants.thy ===== *)
theory Extension_Grants
  imports Claims Authorization_Policy
begin

text \<open>
  The JWT bearer and token exchange grants
  (\<open>src/crates/authorization-server-core/src/extension_grants.rs\<close>). Parsing a UUID
  (\<open>uuid\<close> crate) is the argument \<open>uuid_parse\<close>, \<open>DateTime::from_timestamp\<close>
  the argument \<open>from_timestamp\<close>. The lemmas characterise the admitted requests: scopes
  never exceed those of the client and of the subject token, the sender binding of the subject token
  is kept, and an assertion is never acceptable after its replay lifetime.
\<close>

subsection \<open>JWT bearer\<close>

definition JWT_BEARER_ASSERTION_MAX_TTL_SECONDS :: int where
  "JWT_BEARER_ASSERTION_MAX_TTL_SECONDS = 300"
definition JWT_BEARER_ASSERTION_CLOCK_SKEW_SECONDS :: int where
  "JWT_BEARER_ASSERTION_CLOCK_SKEW_SECONDS = 30"
definition JWT_BEARER_ASSERTION_MAX_JTI_BYTES :: nat where
  "JWT_BEARER_ASSERTION_MAX_JTI_BYTES = 128"
definition ACCESS_TOKEN_TYPE :: string where
  "ACCESS_TOKEN_TYPE = ''urn:ietf:params:oauth:token-type:access_token''"

record jwt_bearer_assertion_claims =
  jb_iss :: string
  jb_sub :: string
  jb_aud :: json
  jb_exp :: int
  jb_nbf :: "int option"
  jb_iat :: "int option"
  jb_jti :: string

record validated_jwt_bearer_assertion =
  vjb_subject :: string
  vjb_jti :: string
  vjb_expires_at :: time
  vjb_replay_ttl_seconds :: nat

record jwt_bearer_grant_policy =
  jbp_enabled :: bool
  jbp_issuer :: string
  jbp_client_id :: string
  jbp_client_is_confidential :: bool
  jbp_allowed_scopes :: "string list"
  jbp_allowed_audiences :: "string list"
  jbp_default_audience :: string
  jbp_now :: int

record jwt_bearer_grant_admission =
  jba_assertion :: string
  jba_scopes :: "string list"
  jba_audiences :: "string list"

datatype jwt_bearer_grant_error =
    JbDisabled | JbUnauthorizedClient | JbMissingAssertion | JbInvalidAssertion | JbReplayDetected
  | JbInvalidScope | JbInvalidTarget | JbDependency authorization_port_error

fun jwt_bearer_oauth_error :: "jwt_bearer_grant_error \<Rightarrow> string" where
  "jwt_bearer_oauth_error JbDisabled = ''unsupported_grant_type''"
| "jwt_bearer_oauth_error JbUnauthorizedClient = ''unauthorized_client''"
| "jwt_bearer_oauth_error JbMissingAssertion = ''invalid_request''"
| "jwt_bearer_oauth_error JbInvalidAssertion = ''invalid_grant''"
| "jwt_bearer_oauth_error JbReplayDetected = ''invalid_grant''"
| "jwt_bearer_oauth_error JbInvalidScope = ''invalid_scope''"
| "jwt_bearer_oauth_error JbInvalidTarget = ''invalid_target''"
| "jwt_bearer_oauth_error (JbDependency _) = ''server_error''"

definition validate_jwt_bearer_grant_prerequisites ::
  "string option \<Rightarrow> jwt_bearer_grant_policy \<Rightarrow> jwt_bearer_grant_error + unit"
where
  "validate_jwt_bearer_grant_prerequisites assertion policy =
     (if \<not> jbp_enabled policy then Inl JbDisabled
      else if \<not> jbp_client_is_confidential policy then Inl JbUnauthorizedClient
      else if assertion = None then Inl JbMissingAssertion
      else Inr ())"

text \<open>The prerequisites make the later \<open>expect\<close> on the assertion safe.\<close>

definition admit_jwt_bearer_grant ::
  "string option \<Rightarrow> string option \<Rightarrow> string list \<Rightarrow> jwt_bearer_grant_policy \<Rightarrow>
    jwt_bearer_grant_error + jwt_bearer_grant_admission"
where
  "admit_jwt_bearer_grant assertion requested_scope requested_audiences policy =
     and_then (validate_jwt_bearer_grant_prerequisites assertion policy) (\<lambda>_.
     case assertion of
       None \<Rightarrow> Inl JbMissingAssertion
     | Some text \<Rightarrow>
         let requested = parse_scope (case requested_scope of None \<Rightarrow> [] | Some s \<Rightarrow> s) in
         if requested \<noteq> [] \<and> \<not> is_subset requested (jbp_allowed_scopes policy)
         then Inl JbInvalidScope
         else
           let scopes = (if requested = [] then jbp_allowed_scopes policy else requested) in
           if ''openid'' \<in> set scopes then Inl JbInvalidScope
           else
             let audiences = (if requested_audiences = [] then [jbp_default_audience policy]
                              else requested_audiences) in
             if \<not> is_subset audiences (jbp_allowed_audiences policy) then Inl JbInvalidTarget
             else Inr \<lparr>jba_assertion = text, jba_scopes = scopes, jba_audiences = audiences\<rparr>)"

definition jwt_bearer_claims_rejected ::
  "jwt_bearer_assertion_claims \<Rightarrow> jwt_bearer_grant_policy \<Rightarrow> bool"
where
  "jwt_bearer_claims_rejected c policy \<longleftrightarrow>
     jb_iss c \<noteq> jbp_client_id policy
     \<or> jb_sub c \<noteq> jbp_client_id policy
     \<or> as_str (jb_aud c) \<noteq> Some (jbp_issuer policy)
     \<or> jb_exp c \<le> jbp_now policy
     \<or> jb_exp c > saturating_add_i64 (jbp_now policy) JWT_BEARER_ASSERTION_MAX_TTL_SECONDS
     \<or> is_some_and (\<lambda>nbf.
          nbf > saturating_add_i64 (jbp_now policy) JWT_BEARER_ASSERTION_CLOCK_SKEW_SECONDS)
          (jb_nbf c)
     \<or> is_some_and (\<lambda>iat.
          iat > saturating_add_i64 (jbp_now policy) JWT_BEARER_ASSERTION_CLOCK_SKEW_SECONDS
          \<or> saturating_sub_i64 (jbp_now policy) iat > JWT_BEARER_ASSERTION_MAX_TTL_SECONDS)
          (jb_iat c)"

text \<open>The difference \<open>exp - now\<close> is between 1 and 300 here, so the cast to \<open>u64\<close>
  keeps it.\<close>

definition validate_jwt_bearer_assertion_claims ::
  "(int \<Rightarrow> time option) \<Rightarrow> jwt_bearer_assertion_claims \<Rightarrow> jwt_bearer_grant_policy \<Rightarrow>
    jwt_bearer_grant_error + validated_jwt_bearer_assertion"
where
  "validate_jwt_bearer_assertion_claims from_timestamp c policy =
     (if jwt_bearer_claims_rejected c policy then Inl JbInvalidAssertion
      else
        let jti = trim (jb_jti c) in
        if jti = [] \<or> length jti > JWT_BEARER_ASSERTION_MAX_JTI_BYTES then Inl JbInvalidAssertion
        else
          and_then (ok_or JbInvalidAssertion (from_timestamp (jb_exp c))) (\<lambda>expires_at.
          Inr \<lparr>vjb_subject = jb_sub c, vjb_jti = jb_jti c, vjb_expires_at = expires_at,
               vjb_replay_ttl_seconds = nat (jb_exp c - jbp_now policy)\<rparr>))"

definition classify_jwt_bearer_replay ::
  "authorization_port_error + bool \<Rightarrow> jwt_bearer_grant_error + unit"
where
  "classify_jwt_bearer_replay r =
     (case r of
        Inr accepted \<Rightarrow> if accepted then Inr () else Inl JbReplayDetected
      | Inl e \<Rightarrow> Inl (JbDependency e))"

subsection \<open>Token exchange\<close>

record token_exchange_request_input =
  ter_subject_token :: "string option"
  ter_subject_token_type :: "string option"
  ter_actor_token :: "string option"
  ter_actor_token_type :: "string option"
  ter_requested_token_type :: "string option"
  ter_audiences :: "string list"

record token_exchange_policy =
  tep_enabled :: bool
  tep_client_id :: string
  tep_client_is_confidential :: bool
  tep_client_tenant_id :: uuid
  tep_allowed_scopes :: "string list"
  tep_allowed_audiences :: "string list"
  tep_require_dpop_bound_tokens :: bool
  tep_require_mtls_bound_tokens :: bool
  tep_now :: int

datatype token_exchange_error =
    TeDisabled | TeUnauthorizedClient | TeMissingParameter | TeUnsupportedTokenType
  | TeInvalidScope | TeInvalidTarget | TeInvalidGrant

fun token_exchange_oauth_error :: "token_exchange_error \<Rightarrow> string" where
  "token_exchange_oauth_error TeDisabled = ''unsupported_grant_type''"
| "token_exchange_oauth_error TeUnauthorizedClient = ''unauthorized_client''"
| "token_exchange_oauth_error TeMissingParameter = ''invalid_request''"
| "token_exchange_oauth_error TeUnsupportedTokenType = ''invalid_request''"
| "token_exchange_oauth_error TeInvalidScope = ''invalid_scope''"
| "token_exchange_oauth_error TeInvalidTarget = ''invalid_target''"
| "token_exchange_oauth_error TeInvalidGrant = ''invalid_grant''"

definition validate_token_exchange_target ::
  "token_exchange_request_input \<Rightarrow> token_exchange_policy \<Rightarrow> token_exchange_error + unit"
where
  "validate_token_exchange_target request policy =
     (if ter_audiences request = []
         \<or> \<not> is_subset (ter_audiences request) (tep_allowed_audiences policy)
      then Inl TeInvalidTarget else Inr ())"

definition subject_token_type_check :: "string option \<Rightarrow> token_exchange_error + unit" where
  "subject_token_type_check t =
     (case t of
        None \<Rightarrow> Inl TeMissingParameter
      | Some ty \<Rightarrow> if ty = ACCESS_TOKEN_TYPE then Inr () else Inl TeUnsupportedTokenType)"

definition actor_token_check :: "string option \<Rightarrow> string option \<Rightarrow> token_exchange_error + unit" where
  "actor_token_check token t =
     (case (token, t) of
        (None, None) \<Rightarrow> Inr ()
      | (Some _, Some ty) \<Rightarrow>
          if ty = ACCESS_TOKEN_TYPE then Inr () else Inl TeUnsupportedTokenType
      | _ \<Rightarrow> Inl TeMissingParameter)"

definition validate_token_exchange_grant_prerequisites ::
  "token_exchange_request_input \<Rightarrow> token_exchange_policy \<Rightarrow> token_exchange_error + unit"
where
  "validate_token_exchange_grant_prerequisites request policy =
     (if \<not> tep_enabled policy then Inl TeDisabled
      else if \<not> tep_client_is_confidential policy then Inl TeUnauthorizedClient
      else if ter_subject_token request = None then Inl TeMissingParameter
      else
        and_then (subject_token_type_check (ter_subject_token_type request)) (\<lambda>_.
        and_then (actor_token_check (ter_actor_token request) (ter_actor_token_type request)) (\<lambda>_.
        if is_some_and (\<lambda>t. t \<noteq> ACCESS_TOKEN_TYPE) (ter_requested_token_type request)
        then Inl TeUnsupportedTokenType else Inr ())))"

definition token_exchange_scopes ::
  "string list \<Rightarrow> string \<Rightarrow> string option \<Rightarrow> token_exchange_error + string list"
where
  "token_exchange_scopes client_scopes subject_scope requested_scope =
     (let subject_scopes = parse_scope subject_scope;
          requested = parse_scope (case requested_scope of None \<Rightarrow> [] | Some s \<Rightarrow> s) in
      and_then
        (if requested = [] then
           Inr (filter (\<lambda>s. s \<noteq> ''openid'' \<and> s \<in> set client_scopes) subject_scopes)
         else if ''openid'' \<in> set requested \<or> \<not> is_subset requested subject_scopes
                 \<or> \<not> is_subset requested client_scopes
         then Inl TeInvalidScope
         else Inr requested)
        (\<lambda>scopes. if scopes = [] then Inl TeInvalidScope else Inr scopes))"

datatype token_exchange_sender_binding =
  BindingBearer | BindingDpop string | BindingMutualTls string

datatype token_exchange_subject_identity = IdentityUser "uuid option" | IdentityClient

record validated_token_exchange_subject =
  vts_identity :: token_exchange_subject_identity
  vts_scopes :: "string list"
  vts_sender_binding :: token_exchange_sender_binding

definition validate_token_exchange_access_token ::
  "(string \<Rightarrow> uuid option) \<Rightarrow> claims \<Rightarrow> token_exchange_policy \<Rightarrow> token_exchange_error + unit"
where
  "validate_token_exchange_access_token uuid_parse c policy =
     (if uuid_parse (c_tenant_id c) \<noteq> Some (tep_client_tenant_id policy)
         \<or> c_token_use c \<noteq> ''access'' \<or> c_exp c \<le> tep_now policy
      then Inl TeInvalidGrant else Inr ())"

definition subject_identity ::
  "(string \<Rightarrow> uuid option) \<Rightarrow> claims \<Rightarrow> token_exchange_error + token_exchange_subject_identity"
where
  "subject_identity uuid_parse c =
     (if c_subject_type c = ''user'' then
        (case c_user_id c of
           None \<Rightarrow> Inr (IdentityUser None)
         | Some raw \<Rightarrow>
             and_then (ok_or TeInvalidGrant (uuid_parse raw)) (\<lambda>u. Inr (IdentityUser (Some u))))
      else if c_subject_type c = ''client'' \<and> c_user_id c = None then Inr IdentityClient
      else Inl TeInvalidGrant)"

definition subject_sender_binding :: "claims \<Rightarrow> token_exchange_error + token_exchange_sender_binding"
where
  "subject_sender_binding c =
     (case c_cnf c of
        None \<Rightarrow> Inr BindingBearer
      | Some cnf \<Rightarrow>
         (case (cnf_jkt cnf, cnf_x5t_s256 cnf) of
            (Some jkt, None) \<Rightarrow> Inr (BindingDpop jkt)
          | (None, Some thumbprint) \<Rightarrow> Inr (BindingMutualTls thumbprint)
          | _ \<Rightarrow> Inl TeInvalidGrant))"

definition validate_token_exchange_subject ::
  "(string \<Rightarrow> uuid option) \<Rightarrow> claims \<Rightarrow> string option \<Rightarrow> token_exchange_policy \<Rightarrow>
    token_exchange_error + validated_token_exchange_subject"
where
  "validate_token_exchange_subject uuid_parse c requested_scope policy =
     and_then (validate_token_exchange_access_token uuid_parse c policy) (\<lambda>_.
     if c_client_id c \<noteq> tep_client_id policy then Inl TeInvalidGrant
     else
       and_then (subject_identity uuid_parse c) (\<lambda>identity.
       and_then (token_exchange_scopes (tep_allowed_scopes policy) (c_scope c) requested_scope)
         (\<lambda>scopes.
       and_then (subject_sender_binding c) (\<lambda>binding.
       Inr \<lparr>vts_identity = identity, vts_scopes = scopes, vts_sender_binding = binding\<rparr>))))"

fun binding_presented ::
  "token_exchange_sender_binding \<Rightarrow> presented_sender_constraint \<Rightarrow> bool"
where
  "binding_presented (BindingDpop expected) p \<longleftrightarrow>
     psc_dpop_jkt p = Some expected \<and> psc_mtls_x5t_s256 p = None"
| "binding_presented (BindingMutualTls expected) p \<longleftrightarrow>
     psc_mtls_x5t_s256 p = Some expected \<and> psc_dpop_jkt p = None"
| "binding_presented BindingBearer p \<longleftrightarrow> True"

fun binding_of_applied :: "applied_sender_constraint \<Rightarrow> token_exchange_sender_binding" where
  "binding_of_applied AppliedBearer = BindingBearer"
| "binding_of_applied (AppliedDpop jkt) = BindingDpop jkt"
| "binding_of_applied (AppliedMutualTls thumbprint) = BindingMutualTls thumbprint"

definition token_exchange_issuance_binding ::
  "token_exchange_sender_binding \<Rightarrow> presented_sender_constraint \<Rightarrow> token_exchange_policy \<Rightarrow>
    token_exchange_error + token_exchange_sender_binding"
where
  "token_exchange_issuance_binding subject_binding presented policy =
     (let sender_policy = sender_constraint_policy_of
            (tep_require_dpop_bound_tokens policy) (tep_require_mtls_bound_tokens policy) in
      if \<not> binding_presented subject_binding presented then Inl TeInvalidGrant
      else
        and_then (map_err (\<lambda>_. TeInvalidGrant) (apply_sender_constraint sender_policy presented))
          (\<lambda>applied. Inr (binding_of_applied applied)))"

definition token_exchange_actor_claim ::
  "(string \<Rightarrow> uuid option) \<Rightarrow> claims \<Rightarrow> token_exchange_policy \<Rightarrow> token_exchange_error + json"
where
  "token_exchange_actor_claim uuid_parse actor policy =
     and_then (validate_token_exchange_access_token uuid_parse actor policy) (\<lambda>_.
     if c_client_id actor \<noteq> tep_client_id policy \<or> c_cnf actor \<noteq> None then Inl TeInvalidGrant
     else Inr (JObject (insert_some ''act'' (c_act actor)
       [(''sub'', JString (c_sub actor)), (''client_id'', JString (c_client_id actor))])))"

subsection \<open>What is admitted\<close>

lemma token_exchange_scopes_ok:
  "token_exchange_scopes client_scopes subject_scope requested_scope = Inr scopes \<Longrightarrow>
     scopes \<noteq> [] \<and> ''openid'' \<notin> set scopes \<and>
     set scopes \<subseteq> set (parse_scope subject_scope) \<and> set scopes \<subseteq> set client_scopes"
  by (auto simp: token_exchange_scopes_def Let_def is_subset_iff split: if_split_asm)

lemma token_exchange_issuance_binding_ok:
  assumes "token_exchange_issuance_binding subject_binding presented policy = Inr b"
  shows "subject_binding \<noteq> BindingBearer \<Longrightarrow> b = subject_binding"
    and "tep_require_dpop_bound_tokens policy \<or> tep_require_mtls_bound_tokens policy \<Longrightarrow>
      b \<noteq> BindingBearer"
proof -
  from assms obtain a where a: "apply_sender_constraint (sender_constraint_policy_of
      (tep_require_dpop_bound_tokens policy) (tep_require_mtls_bound_tokens policy)) presented = Inr a"
    and b: "b = binding_of_applied a" and pres: "binding_presented subject_binding presented"
    by (auto simp: token_exchange_issuance_binding_def Let_def and_then_Inr split: if_split_asm)
  from a have p: "presented = presentation_of a" and ok: "sender_constraint_allowed
      (sender_constraint_policy_of (tep_require_dpop_bound_tokens policy)
        (tep_require_mtls_bound_tokens policy)) a"
    by (simp_all add: apply_sender_constraint_iff)
  show "subject_binding \<noteq> BindingBearer \<Longrightarrow> b = subject_binding"
    using p b pres by (cases subject_binding; cases a) auto
  assume "tep_require_dpop_bound_tokens policy \<or> tep_require_mtls_bound_tokens policy"
  then have "is_sender_constrained (sender_constraint_policy_of
      (tep_require_dpop_bound_tokens policy) (tep_require_mtls_bound_tokens policy))"
    by (cases "tep_require_dpop_bound_tokens policy"; cases "tep_require_mtls_bound_tokens policy")
      (simp_all add: is_sender_constrained_def)
  from allowed_not_bearer [OF this ok] b show "b \<noteq> BindingBearer" by (cases a) simp_all
qed

lemma admit_jwt_bearer_grant_ok:
  "admit_jwt_bearer_grant assertion requested_scope requested_audiences policy = Inr a \<Longrightarrow>
     jbp_enabled policy \<and> jbp_client_is_confidential policy \<and> assertion = Some (jba_assertion a) \<and>
     set (jba_scopes a) \<subseteq> set (jbp_allowed_scopes policy) \<and> ''openid'' \<notin> set (jba_scopes a) \<and>
     jba_audiences a \<noteq> [] \<and> set (jba_audiences a) \<subseteq> set (jbp_allowed_audiences policy)"
  by (auto simp: admit_jwt_bearer_grant_def validate_jwt_bearer_grant_prerequisites_def Let_def
    is_subset_iff split: if_split_asm option.split_asm)

lemma jwt_bearer_times:
  assumes "\<not> jwt_bearer_claims_rejected c policy" and "is_i64 (jbp_now policy)"
  shows "jbp_now policy < jb_exp c" and "jb_exp c \<le> jbp_now policy + 300"
  using assms
  by (auto simp: jwt_bearer_claims_rejected_def JWT_BEARER_ASSERTION_MAX_TTL_SECONDS_def
    saturating_add_i64_def is_i64_def int_bounds split: if_splits)

end
