(* ===== verification/Authorization_Service.thy ===== *)
theory Authorization_Service
  imports Request_Object Extension_Grants
begin

text \<open>
  The authorization service: the transaction payloads
  (\<open>src/crates/authorization-server-core/src/transaction.rs\<close>) and the decisions over the
  repository, state store and signer ports (\<open>authorization_service.rs\<close> there). A port is
  the record of its operations on a world; \<open>as_lib\<close> holds the functions of
  \<open>serde_json\<close> and \<open>blake3\<close> that the service calls. The methods of the service that
  only forward to a port operation are that field of the port.
\<close>

subsection \<open>Payloads\<close>

record consent_payload =
  cp_request_id :: string
  cp_user_id :: uuid
  cp_client_id :: string
  cp_client_name :: string
  cp_redirect_uri :: string
  cp_redirect_uri_was_supplied :: bool
  cp_scopes :: "string list"
  cp_resource_indicators :: "string list"
  cp_authorization_details :: json
  cp_state :: "string option"
  cp_response_mode :: "string option"
  cp_nonce :: "string option"
  cp_auth_time :: int
  cp_amr :: "string list"
  cp_oidc_sid :: "string option"
  cp_acr :: "string option"
  cp_userinfo_claim_requests :: "oidc_claim_request list"
  cp_id_token_claim_requests :: "oidc_claim_request list"
  cp_pkce :: s256_pkce
  cp_dpop_jkt :: "string option"
  cp_mtls_x5t_s256 :: "string option"
  cp_pushed_request_uri :: "string option"
  cp_pushed_request_digest :: "string option"
  cp_signed_authorization_response_required :: "bool option"
  cp_session_management_allowed :: "bool option"
  cp_authorization_code_ttl_seconds :: "nat option"
  cp_expires_at :: time

record pushed_authorization_request =
  par_client_id :: string
  par_params :: "(string \<times> string) list"
  par_dpop_jkt :: "string option"
  par_mtls_x5t_s256 :: "string option"
  par_issued_at :: time
  par_expires_at :: time

definition AUTHORIZATION_CODE_REDEMPTION_VERSION :: nat where
  "AUTHORIZATION_CODE_REDEMPTION_VERSION = 2"

record code_payload =
  co_redemption_contract_version :: nat
  co_code_id :: string
  co_user_id :: uuid
  co_client_id :: string
  co_redirect_uri :: string
  co_redirect_uri_was_supplied :: bool
  co_scopes :: "string list"
  co_resource_indicators :: "string list"
  co_authorization_details :: json
  co_nonce :: "string option"
  co_auth_time :: int
  co_amr :: "string list"
  co_oidc_sid :: "string option"
  co_acr :: "string option"
  co_userinfo_claim_requests :: "oidc_claim_request list"
  co_id_token_claim_requests :: "oidc_claim_request list"
  co_pkce :: s256_pkce
  co_dpop_jkt :: "string option"
  co_mtls_x5t_s256 :: "string option"
  co_expires_at :: time

datatype authorization_code_state =
    CodePending code_payload
  | CodeConsuming code_payload time
  | CodeConsumed
  | CodeFailed time string

record stored_authorization_grant =
  sag_scopes :: json
  sag_resource_indicators :: json
  sag_authorization_details :: json

datatype authorization_decision_kind = DecideApprove | DecideDeny | DecidePromptNone

fun authorization_decision_kind_as_str :: "authorization_decision_kind \<Rightarrow> string" where
  "authorization_decision_kind_as_str DecideApprove = ''approve''"
| "authorization_decision_kind_as_str DecideDeny = ''deny''"
| "authorization_decision_kind_as_str DecidePromptNone = ''prompt_none''"

record authorization_decision_commit =
  adc_tenant_id :: uuid
  adc_user_id :: uuid
  adc_client_id :: string
  adc_request_id :: string
  adc_pushed_request_uri :: "string option"
  adc_valid_until :: time
  adc_retain_until :: time
  adc_decision :: authorization_decision_kind
  adc_event_id :: uuid
  adc_occurred_at :: time
  adc_audit_fields :: json
  adc_scopes :: "string list"
  adc_resource_indicators :: "string list"
  adc_authorization_details :: json

datatype authorization_decision_commit_result =
    DecisionCommitted | DecisionConflict | DecisionExpired | DecisionClientUnavailable
  | DecisionGrantUnavailable

record prepared_authorization_code =
  pac_tenant_id :: uuid
  pac_hash :: string
  pac_payload :: code_payload
  pac_ttl_seconds :: nat

record 'a authorization_state_snapshot =
  ass_payload :: 'a
  ass_version :: string

datatype decision_material_discard_outcome =
  MaterialDiscarded | MaterialConsentMissingOrChanged | MaterialParMissingOrChanged

datatype 'e decision_material_discard_error = DiscardConsentOrUnknown 'e | DiscardPushedRequest 'e

record consent_admission_preview =
  cap_consent :: consent_payload
  cap_consent_version :: string
  cap_pushed_request_version :: "string option"
  cap_valid_until :: time
  cap_retain_until :: time

datatype authorization_decision_admission_error =
    AdmConsentMissing | AdmConsentMalformed | AdmConsentReadFailed authorization_port_error
  | AdmUserMismatch | AdmPushedRequestMissing consent_payload
  | AdmPushedRequestMalformed consent_payload
  | AdmPushedRequestReadFailed consent_payload authorization_port_error

datatype pushed_authorization_request_consume_error =
    PcMissing | PcDependency authorization_port_error

record canonical_pushed_authorization_request =
  cpr_client_id :: string
  cpr_params :: "(string \<times> string) list"
  cpr_dpop_jkt :: "string option"
  cpr_mtls_x5t_s256 :: "string option"
  cpr_issued_at :: time
  cpr_expires_at :: time

subsection \<open>Ports\<close>

record as_lib =
  al_url_ok :: "string \<Rightarrow> bool"
  al_json_text :: "json \<Rightarrow> string option"
  al_code_text :: "code_payload \<Rightarrow> string option"
  al_par_text :: "canonical_pushed_authorization_request \<Rightarrow> string option"
  al_blake3_hex :: "string \<Rightarrow> string"

record 'w authorization_repository =
  ar_commit_decision :: "authorization_decision_commit \<Rightarrow>
    ('w, authorization_port_error, authorization_decision_commit_result) io"
  ar_grant :: "uuid \<Rightarrow> uuid \<Rightarrow>
    ('w, authorization_port_error, stored_authorization_grant option) io"

datatype authorization_rate_dimension = AuthzRateToken | AuthzRateTokenManagement

record 'w authorization_state_store =
  st_load_par :: "string \<Rightarrow> ('w, authorization_port_error,
    pushed_authorization_request authorization_state_snapshot option) io"
  st_compare_and_delete_par :: "string \<Rightarrow> string \<Rightarrow> ('w, authorization_port_error, bool) io"
  st_store_par :: "string \<Rightarrow> pushed_authorization_request \<Rightarrow> nat \<Rightarrow>
    ('w, authorization_port_error, unit) io"
  st_load_consent :: "string \<Rightarrow> ('w, authorization_port_error,
    consent_payload authorization_state_snapshot option) io"
  st_compare_and_delete_consent :: "string \<Rightarrow> string \<Rightarrow> ('w, authorization_port_error, bool) io"
  st_discard_decision_material :: "string \<Rightarrow> string \<Rightarrow> (string \<times> string) option \<Rightarrow>
    ('w, authorization_port_error decision_material_discard_error,
      decision_material_discard_outcome) io"
  st_store_consent :: "string \<Rightarrow> consent_payload \<Rightarrow> nat \<Rightarrow> ('w, authorization_port_error, unit) io"
  st_store_authorization_code :: "string \<Rightarrow> authorization_code_state \<Rightarrow> nat \<Rightarrow>
    ('w, authorization_port_error, unit) io"
  st_delete_authorization_code :: "string \<Rightarrow> ('w, authorization_port_error, unit) io"
  st_take_reauth_nonce :: "string \<Rightarrow> ('w, authorization_port_error, int option) io"
  st_store_reauth_nonce :: "string \<Rightarrow> int \<Rightarrow> nat \<Rightarrow> ('w, authorization_port_error, unit) io"
  st_consume_jar :: "string \<Rightarrow> string \<Rightarrow> int \<Rightarrow> ('w, authorization_port_error, bool) io"
  st_consume_client_attestation_proof :: "string \<Rightarrow> string \<Rightarrow> client_attestation_proof_window \<Rightarrow>
    ('w, authorization_port_error, bool) io"
  st_consume_private_key_jwt :: "string \<Rightarrow> string \<Rightarrow> nat \<Rightarrow>
    ('w, authorization_port_error, bool) io"
  st_consume_jwt_bearer :: "string \<Rightarrow> string \<Rightarrow> nat \<Rightarrow> ('w, authorization_port_error, bool) io"
  st_consume_ciba_request_object :: "string \<Rightarrow> string \<Rightarrow> int \<Rightarrow>
    ('w, authorization_port_error, bool) io"
  st_consume_dpop :: "string \<Rightarrow> string \<Rightarrow> nat \<Rightarrow> ('w, authorization_port_error, bool) io"
  st_issue_dpop_nonce :: "string \<Rightarrow> nat \<Rightarrow> ('w, authorization_port_error, unit) io"
  st_validate_dpop_nonce :: "string \<Rightarrow> ('w, authorization_port_error, bool) io"
  st_increment_rate :: "authorization_rate_dimension \<Rightarrow> string \<Rightarrow> nat \<Rightarrow>
    ('w, authorization_port_error, nat) io"

type_synonym 'w authorization_response_signer =
  "authorization_response_sign_input \<Rightarrow> ('w, authorization_port_error, string) io"

text \<open>The trait's default for \<open>discard_decision_material\<close>.\<close>

definition default_discard_decision_material ::
  "'w authorization_state_store \<Rightarrow> string \<Rightarrow> string \<Rightarrow> (string \<times> string) option \<Rightarrow>
    ('w, authorization_port_error decision_material_discard_error,
      decision_material_discard_outcome) io"
where
  "default_discard_decision_material st request_id expected_consent pushed_request w =
     (case st_compare_and_delete_consent st request_id expected_consent w of
        (Inl e, w1) \<Rightarrow> (Inl (DiscardConsentOrUnknown e), w1)
      | (Inr deleted, w1) \<Rightarrow>
          if \<not> deleted then (Inr MaterialConsentMissingOrChanged, w1)
          else (case pushed_request of
            None \<Rightarrow> (Inr MaterialDiscarded, w1)
          | Some (request_uri, expected) \<Rightarrow>
             (case st_compare_and_delete_par st request_uri expected w1 of
                (Inl e, w2) \<Rightarrow> (Inl (DiscardPushedRequest e), w2)
              | (Inr par_deleted, w2) \<Rightarrow>
                  (Inr (if par_deleted then MaterialDiscarded else MaterialParMissingOrChanged),
                   w2))))"

subsection \<open>Preparing a code\<close>

record authorization_approval_input =
  aai_consent :: consent_payload
  aai_code_hash :: string
  aai_code_id :: string
  aai_issued_at :: time
  aai_code_ttl_seconds :: nat
  aai_tenant_id :: uuid

text \<open>\<open>None\<close> is the panic of \<open>Duration::seconds\<close> or of the addition.\<close>

definition prepare_authorization_code ::
  "chrono \<Rightarrow> authorization_approval_input \<Rightarrow> prepared_authorization_code option"
where
  "prepare_authorization_code ch input =
     (let consent = aai_consent input;
          ttl = (case i64_of_u64 (aai_code_ttl_seconds input) of Some n \<Rightarrow> n | None \<Rightarrow> i64_max)
      in if \<not> duration_seconds_ok ch ttl then None
         else map_option (\<lambda>expires_at.
           \<lparr>pac_tenant_id = aai_tenant_id input,
            pac_hash = aai_code_hash input,
            pac_payload =
              \<lparr>co_redemption_contract_version = AUTHORIZATION_CODE_REDEMPTION_VERSION,
               co_code_id = aai_code_id input,
               co_user_id = cp_user_id consent,
               co_client_id = cp_client_id consent,
               co_redirect_uri = cp_redirect_uri consent,
               co_redirect_uri_was_supplied = cp_redirect_uri_was_supplied consent,
               co_scopes = cp_scopes consent,
               co_resource_indicators = cp_resource_indicators consent,
               co_authorization_details = cp_authorization_details consent,
               co_nonce = cp_nonce consent,
               co_auth_time = cp_auth_time consent,
               co_amr = cp_amr consent,
               co_oidc_sid = cp_oidc_sid consent,
               co_acr = cp_acr consent,
               co_userinfo_claim_requests = cp_userinfo_claim_requests consent,
               co_id_token_claim_requests = cp_id_token_claim_requests consent,
               co_pkce = cp_pkce consent,
               co_dpop_jkt = cp_dpop_jkt consent,
               co_mtls_x5t_s256 = cp_mtls_x5t_s256 consent,
               co_expires_at = expires_at\<rparr>,
            pac_ttl_seconds = aai_code_ttl_seconds input\<rparr>)
           (checked_add_seconds ch (aai_issued_at input) ttl))"

definition canonical_pushed_request ::
  "pushed_authorization_request \<Rightarrow> canonical_pushed_authorization_request"
where
  "canonical_pushed_request request =
     \<lparr>cpr_client_id = par_client_id request,
      cpr_params = sort_key fst (par_params request),
      cpr_dpop_jkt = par_dpop_jkt request,
      cpr_mtls_x5t_s256 = par_mtls_x5t_s256 request,
      cpr_issued_at = par_issued_at request,
      cpr_expires_at = par_expires_at request\<rparr>"

definition pushed_authorization_request_digest ::
  "as_lib \<Rightarrow> pushed_authorization_request \<Rightarrow> authorization_port_error + string"
where
  "pushed_authorization_request_digest al request =
     and_then (ok_or PortUnexpected (al_par_text al (canonical_pushed_request request)))
       (\<lambda>text. Inr (al_blake3_hex al text))"

subsection \<open>Grants\<close>

definition canonical_authorization_details :: "as_lib \<Rightarrow> json \<Rightarrow> string option" where
  "canonical_authorization_details al value =
     (case validate_authorization_details (al_url_ok al) value of
        Inl _ \<Rightarrow> None
      | Inr _ \<Rightarrow> al_json_text al value)"

definition json_strings :: "json \<Rightarrow> string list" where
  "json_strings value = (case as_array value of None \<Rightarrow> [] | Some vs \<Rightarrow> List.map_filter as_str vs)"

definition stored_grant_covers_requested_authorization ::
  "as_lib \<Rightarrow> stored_authorization_grant \<Rightarrow> string list \<Rightarrow> string list \<Rightarrow> json \<Rightarrow> bool"
where
  "stored_grant_covers_requested_authorization al stored scopes resources details =
     (let stored_scopes = json_strings (sag_scopes stored);
          stored_resources = json_strings (sag_resource_indicators stored)
      in if \<not> list_all (\<lambda>s. s \<in> set stored_scopes) scopes
           \<or> \<not> list_all (\<lambda>r. r \<in> set stored_resources) resources
         then False
         else authorization_details_empty details \<or>
           (\<not> high_risk_authorization_details details \<and>
            canonical_authorization_details al (sag_authorization_details stored) =
              canonical_authorization_details al details))"

definition grant_covers ::
  "as_lib \<Rightarrow> 'w authorization_repository \<Rightarrow> uuid \<Rightarrow> uuid \<Rightarrow> string list \<Rightarrow> string list \<Rightarrow> json \<Rightarrow>
    ('w, authorization_port_error, bool) io"
where
  "grant_covers al repo user_id client_id scopes resources details w =
     (case ar_grant repo user_id client_id w of
        (Inl e, w1) \<Rightarrow> (Inl e, w1)
      | (Inr stored, w1) \<Rightarrow>
          (Inr (is_some_and (\<lambda>g. stored_grant_covers_requested_authorization al g scopes resources
             details) stored), w1))"

subsection \<open>Committing a decision\<close>

definition code_matches_decision ::
  "authorization_decision_commit \<Rightarrow> prepared_authorization_code \<Rightarrow> bool"
where
  "code_matches_decision input code \<longleftrightarrow>
     adc_tenant_id input = pac_tenant_id code \<and>
     adc_user_id input = co_user_id (pac_payload code) \<and>
     adc_client_id input = co_client_id (pac_payload code) \<and>
     adc_scopes input = co_scopes (pac_payload code) \<and>
     adc_resource_indicators input = co_resource_indicators (pac_payload code) \<and>
     adc_authorization_details input = co_authorization_details (pac_payload code)"

definition bind_code_to_decision ::
  "as_lib \<Rightarrow> authorization_decision_commit \<Rightarrow> prepared_authorization_code \<Rightarrow>
    authorization_port_error + authorization_decision_commit"
where
  "bind_code_to_decision al input code =
     (if \<not> code_matches_decision input code then Inl PortCorruptData
      else
        and_then (ok_or PortCorruptData (al_code_text al (pac_payload code))) (\<lambda>text.
        case adc_audit_fields input of
          JObject audit \<Rightarrow>
            Inr (input\<lparr>
              adc_audit_fields := JObject
                (map_insert ''code_payload_digest'' (JString (al_blake3_hex al text))
                (map_insert ''code_hash'' (JString (pac_hash code))
                (map_insert ''code_id'' (JString (co_code_id (pac_payload code))) audit))),
              adc_retain_until := max (adc_retain_until input) (co_expires_at (pac_payload code))\<rparr>)
        | _ \<Rightarrow> Inl PortCorruptData))"

definition commit_decision ::
  "as_lib \<Rightarrow> 'w authorization_repository \<Rightarrow> 'w authorization_state_store \<Rightarrow>
    authorization_decision_commit \<Rightarrow> prepared_authorization_code option \<Rightarrow>
    ('w, authorization_port_error, authorization_decision_commit_result) io"
where
  "commit_decision al repo st input code w =
     (if (adc_decision input = DecideDeny) \<noteq> (code = None) then (Inl PortCorruptData, w)
      else (case (case code of None \<Rightarrow> Inr input | Some c \<Rightarrow> bind_code_to_decision al input c) of
        Inl e \<Rightarrow> (Inl e, w)
      | Inr input' \<Rightarrow>
         (case ar_commit_decision repo input' w of
            (Inl e, w1) \<Rightarrow> (Inl e, w1)
          | (Inr result, w1) \<Rightarrow>
              if result \<noteq> DecisionCommitted then (Inr result, w1)
              else (case code of
                None \<Rightarrow> (Inr result, w1)
              | Some c \<Rightarrow>
                 (case st_store_authorization_code st (pac_hash c) (CodePending (pac_payload c))
                    (pac_ttl_seconds c) w1 of
                    (Inl e, w2) \<Rightarrow> (Inl e, w2)
                  | (Inr _, w2) \<Rightarrow> (Inr result, w2))))))"

subsection \<open>Preview and disposal\<close>

definition preview_pushed_request ::
  "as_lib \<Rightarrow> 'w authorization_state_store \<Rightarrow> consent_payload \<Rightarrow> string \<Rightarrow>
    ('w, authorization_decision_admission_error,
      pushed_authorization_request authorization_state_snapshot) io"
where
  "preview_pushed_request al st consent request_uri w =
     (case st_load_par st request_uri w of
        (Inr None, w1) \<Rightarrow> (Inl (AdmPushedRequestMissing consent), w1)
      | (Inl e, w1) \<Rightarrow>
          (Inl (if e = PortCorruptData then AdmPushedRequestMalformed consent
                else AdmPushedRequestReadFailed consent e), w1)
      | (Inr (Some pushed), w1) \<Rightarrow>
         (case cp_pushed_request_digest consent of
            None \<Rightarrow> (Inr pushed, w1)
          | Some expected_digest \<Rightarrow>
             (case pushed_authorization_request_digest al (ass_payload pushed) of
                Inl e \<Rightarrow> (Inl (AdmPushedRequestReadFailed consent e), w1)
              | Inr actual_digest \<Rightarrow>
                  if expected_digest \<noteq> actual_digest
                  then (Inl (AdmPushedRequestMissing consent), w1)
                  else (Inr pushed, w1))))"

definition preview_user_decision ::
  "as_lib \<Rightarrow> 'w authorization_state_store \<Rightarrow> string \<Rightarrow> uuid \<Rightarrow>
    ('w, authorization_decision_admission_error, consent_admission_preview) io"
where
  "preview_user_decision al st request_id user_id w =
     (case st_load_consent st request_id w of
        (Inr None, w1) \<Rightarrow> (Inl AdmConsentMissing, w1)
      | (Inl e, w1) \<Rightarrow>
          (Inl (if e = PortCorruptData then AdmConsentMalformed else AdmConsentReadFailed e), w1)
      | (Inr (Some snapshot), w1) \<Rightarrow>
          let consent = ass_payload snapshot in
          if cp_user_id consent \<noteq> user_id then (Inl AdmUserMismatch, w1)
          else (case cp_pushed_request_uri consent of
            None \<Rightarrow>
              (Inr \<lparr>cap_consent = consent, cap_consent_version = ass_version snapshot,
                cap_pushed_request_version = None, cap_valid_until = cp_expires_at consent,
                cap_retain_until = cp_expires_at consent\<rparr>, w1)
          | Some request_uri \<Rightarrow>
             (case preview_pushed_request al st consent request_uri w1 of
                (Inl e, w2) \<Rightarrow> (Inl e, w2)
              | (Inr pushed, w2) \<Rightarrow>
                  (Inr \<lparr>cap_consent = consent, cap_consent_version = ass_version snapshot,
                    cap_pushed_request_version = Some (ass_version pushed),
                    cap_valid_until =
                      min (cp_expires_at consent) (par_expires_at (ass_payload pushed)),
                    cap_retain_until =
                      max (cp_expires_at consent) (par_expires_at (ass_payload pushed))\<rparr>, w2))))"

text \<open>A previewed pushed request implies its URI in the consent, so the \<open>expect\<close> does not
  panic (\<open>preview_has_uri\<close>).\<close>

definition discard_decision_material ::
  "'w authorization_state_store \<Rightarrow> string \<Rightarrow> consent_admission_preview \<Rightarrow>
    ('w, authorization_decision_admission_error, unit) io"
where
  "discard_decision_material st request_id preview w =
     (let consent = cap_consent preview;
          pushed_request = map_option (\<lambda>version. (the (cp_pushed_request_uri consent), version))
            (cap_pushed_request_version preview)
      in case st_discard_decision_material st request_id (cap_consent_version preview)
           pushed_request w of
           (Inr MaterialDiscarded, w1) \<Rightarrow> (Inr (), w1)
         | (Inr MaterialConsentMissingOrChanged, w1) \<Rightarrow> (Inl AdmConsentMissing, w1)
         | (Inr MaterialParMissingOrChanged, w1) \<Rightarrow> (Inl (AdmPushedRequestMissing consent), w1)
         | (Inl (DiscardConsentOrUnknown e), w1) \<Rightarrow> (Inl (AdmConsentReadFailed e), w1)
         | (Inl (DiscardPushedRequest e), w1) \<Rightarrow>
             (Inl (AdmPushedRequestReadFailed consent e), w1))"

definition load_consent ::
  "'w authorization_state_store \<Rightarrow> string \<Rightarrow>
    ('w, authorization_port_error, consent_payload option) io"
where
  "load_consent st request_id w =
     (case st_load_consent st request_id w of
        (Inl e, w1) \<Rightarrow> (Inl e, w1)
      | (Inr s, w1) \<Rightarrow> (Inr (map_option ass_payload s), w1))"

definition consume_request_object_replay ::
  "'w authorization_state_store \<Rightarrow> request_object_replay \<Rightarrow>
    ('w, authorization_request_error, unit) io"
where
  "consume_request_object_replay st replay w =
     (case st_consume_jar st (ror_client_id replay) (ror_jti replay) (ror_expires_at replay) w of
        (r, w1) \<Rightarrow> (classify_request_object_replay r, w1))"

definition discard_pushed_authorization_request ::
  "'w authorization_state_store \<Rightarrow> string \<Rightarrow> string \<Rightarrow>
    ('w, pushed_authorization_request_consume_error, unit) io"
where
  "discard_pushed_authorization_request st request_uri expected_version w =
     (case st_compare_and_delete_par st request_uri expected_version w of
        (Inl e, w1) \<Rightarrow> (Inl (PcDependency e), w1)
      | (Inr deleted, w1) \<Rightarrow> (if deleted then Inr () else Inl PcMissing, w1))"

definition consume_jwt_bearer_assertion ::
  "'w authorization_state_store \<Rightarrow> string \<Rightarrow> validated_jwt_bearer_assertion \<Rightarrow>
    ('w, jwt_bearer_grant_error, unit) io"
where
  "consume_jwt_bearer_assertion st client_id assertion w =
     (case st_consume_jwt_bearer st client_id (vjb_jti assertion)
        (vjb_replay_ttl_seconds assertion) w of
        (r, w1) \<Rightarrow> (classify_jwt_bearer_replay r, w1))"

definition sign_jarm_authorization_response ::
  "'w authorization_response_signer \<Rightarrow> jarm_authorization_response \<Rightarrow> string option \<Rightarrow>
    ('w, authorization_response_policy_error, signed_jarm_authorization_response) io"
where
  "sign_jarm_authorization_response signer response signing_algorithm w =
     (case signer (jarm_signing_input response signing_algorithm) w of
        (Inl e, w1) \<Rightarrow> (Inl (RespDependency e), w1)
      | (Inr signed, w1) \<Rightarrow>
          (Inr \<lparr>sjr_redirect_uri = jar_redirect_uri response, sjr_response = signed\<rparr>, w1))"

subsection \<open>What the operations guarantee\<close>

text \<open>The iteration order of the parameter map does not matter to the digest.\<close>

lemma sort_key_fst_unique:
  fixes xs ys :: "('k::linorder \<times> 'v) list"
  assumes "distinct (map fst xs)" and "distinct (map fst ys)" and "set xs = set ys"
  shows "sort_key fst xs = sort_key fst ys"
proof (rule map_sorted_distinct_set_unique [of fst])
  show "inj_on fst (set (sort_key fst xs) \<union> set (sort_key fst ys))"
    using assms by (simp add: distinct_map)
  show "distinct (map fst (sort_key fst xs))" "distinct (map fst (sort_key fst ys))"
    using assms by (simp_all add: distinct_map)
qed (use assms(3) in simp_all)

lemma json_strings_iff: "s \<in> set (json_strings v) \<longleftrightarrow> (\<exists>vs. v = JArray vs \<and> JString s \<in> set vs)"
proof -
  have "s \<in> set (List.map_filter as_str vs) \<longleftrightarrow> JString s \<in> set vs" for vs
  proof (induction vs)
    case (Cons v vs)
    then show ?case by (cases v) (auto simp: map_filter_simps)
  qed (simp add: map_filter_simps)
  then show ?thesis by (cases v) (auto simp: json_strings_def)
qed

lemma bind_code_to_decision_ok:
  assumes "bind_code_to_decision al input code = Inr input'"
  obtains audit audit' raw where "code_matches_decision input code"
    and "adc_audit_fields input = JObject audit"
    and "al_code_text al (pac_payload code) = Some raw"
    and "input' = input\<lparr>adc_audit_fields := JObject audit',
      adc_retain_until := max (adc_retain_until input) (co_expires_at (pac_payload code))\<rparr>"
    and "map_of audit' = (map_of audit)
      (''code_id'' \<mapsto> JString (co_code_id (pac_payload code)),
       ''code_hash'' \<mapsto> JString (pac_hash code),
       ''code_payload_digest'' \<mapsto> JString (al_blake3_hex al raw))"
proof -
  from assms obtain raw audit where ok: "code_matches_decision input code"
      "al_code_text al (pac_payload code) = Some raw" "adc_audit_fields input = JObject audit"
    unfolding bind_code_to_decision_def
    by (cases "al_code_text al (pac_payload code)"; cases "adc_audit_fields input")
      (auto split: if_split_asm)
  show thesis
    by (rule that [OF ok(1,3,2), of "map_insert ''code_payload_digest'' (JString (al_blake3_hex al raw))
      (map_insert ''code_hash'' (JString (pac_hash code))
      (map_insert ''code_id'' (JString (co_code_id (pac_payload code))) audit))"])
      (use assms ok in \<open>simp_all add: bind_code_to_decision_def map_of_map_insert\<close>)
qed

lemma commit_decision_ok:
  assumes "commit_decision al repo st input code w = (Inr result, w')"
  obtains input' w1 where "adc_decision input = DecideDeny \<longleftrightarrow> code = None"
    and "(case code of None \<Rightarrow> Inr input | Some c \<Rightarrow> bind_code_to_decision al input c) = Inr input'"
    and "ar_commit_decision repo input' w = (Inr result, w1)"
    and "case code of
        Some c \<Rightarrow>
          if result = DecisionCommitted then
            st_store_authorization_code st (pac_hash c) (CodePending (pac_payload c))
              (pac_ttl_seconds c) w1 = (Inr (), w')
          else w' = w1
      | None \<Rightarrow> w' = w1"
proof -
  have kind: "adc_decision input = DecideDeny \<longleftrightarrow> code = None"
    using assms unfolding commit_decision_def by (simp split: if_split_asm)
  let ?bound = "case code of None \<Rightarrow> Inr input | Some c \<Rightarrow> bind_code_to_decision al input c"
  obtain input' where bound: "?bound = Inr input'"
    using assms kind unfolding commit_decision_def by (cases ?bound) simp_all
  obtain r1 w1 where commit: "ar_commit_decision repo input' w = (r1, w1)" by fastforce
  obtain res where r1: "r1 = Inr res"
    using assms kind bound commit unfolding commit_decision_def by (cases r1) simp_all
  have tail: "(if res \<noteq> DecisionCommitted then (Inr res, w1)
      else case code of None \<Rightarrow> (Inr res, w1)
        | Some c \<Rightarrow> (case st_store_authorization_code st (pac_hash c) (CodePending (pac_payload c))
            (pac_ttl_seconds c) w1 of
            (Inl e, w2) \<Rightarrow> (Inl e, w2) | (Inr _, w2) \<Rightarrow> (Inr res, w2))) = (Inr result, w')"
    using assms kind bound commit r1 unfolding commit_decision_def by simp
  show thesis
  proof (cases "res = DecisionCommitted \<and> code \<noteq> None")
    case False
    with tail have "res = result" "w' = w1" by (auto split: if_split_asm option.split_asm)
    with False kind bound commit r1 show thesis
      by (intro that [of input' w1]) (auto split: option.split)
  next
    case True
    then obtain c where c: "code = Some c" by auto
    obtain r2 w2 where store: "st_store_authorization_code st (pac_hash c)
        (CodePending (pac_payload c)) (pac_ttl_seconds c) w1 = (r2, w2)" by fastforce
    from tail True c store have "res = result" "r2 = Inr ()" "w2 = w'" by (cases r2; simp)+
    with True c store kind bound commit r1 show thesis by (intro that [of input' w1]) simp_all
  qed
qed

lemma preview_pushed_request_ok:
  assumes "preview_pushed_request al st consent uri w = (Inr pushed, w')"
  shows "st_load_par st uri w = (Inr (Some pushed), w')"
    and "\<And>d. cp_pushed_request_digest consent = Some d \<Longrightarrow>
      pushed_authorization_request_digest al (ass_payload pushed) = Inr d"
proof -
  obtain r w1 where load: "st_load_par st uri w = (r, w1)" by fastforce
  have "\<exists>p. r = Inr (Some p)"
    using assms load unfolding preview_pushed_request_def
    by (cases r) (auto split: option.split_asm)
  then obtain p where r: "r = Inr (Some p)" ..
  have "p = pushed" "w1 = w'" and digest: "\<And>d. cp_pushed_request_digest consent = Some d \<Longrightarrow>
      pushed_authorization_request_digest al (ass_payload p) = Inr d"
    using assms load r unfolding preview_pushed_request_def
    by (auto split: option.split_asm sum.split_asm if_split_asm)
  then show "st_load_par st uri w = (Inr (Some pushed), w')"
    and "\<And>d. cp_pushed_request_digest consent = Some d \<Longrightarrow>
      pushed_authorization_request_digest al (ass_payload pushed) = Inr d"
    using load r by simp_all
qed

lemma preview_user_decision_ok:
  assumes "preview_user_decision al st request_id user_id w = (Inr preview, w')"
  obtains w1 where
    "st_load_consent st request_id w = (Inr (Some \<lparr>ass_payload = cap_consent preview,
       ass_version = cap_consent_version preview\<rparr>), w1)"
    and "cp_user_id (cap_consent preview) = user_id"
    and "case cp_pushed_request_uri (cap_consent preview) of
        None \<Rightarrow> w' = w1 \<and> cap_pushed_request_version preview = None \<and>
          cap_valid_until preview = cp_expires_at (cap_consent preview) \<and>
          cap_retain_until preview = cp_expires_at (cap_consent preview)
      | Some uri \<Rightarrow> \<exists>pushed. preview_pushed_request al st (cap_consent preview) uri w1 =
            (Inr pushed, w') \<and> cap_pushed_request_version preview = Some (ass_version pushed) \<and>
          cap_valid_until preview =
            min (cp_expires_at (cap_consent preview)) (par_expires_at (ass_payload pushed)) \<and>
          cap_retain_until preview =
            max (cp_expires_at (cap_consent preview)) (par_expires_at (ass_payload pushed))"
proof -
  obtain r w1 where load: "st_load_consent st request_id w = (r, w1)" by fastforce
  have "\<exists>s. r = Inr (Some s)"
    using assms load unfolding preview_user_decision_def
    by (cases r) (auto split: option.split_asm)
  then obtain s where r: "r = Inr (Some s)" ..
  note run = assms [unfolded preview_user_decision_def load r prod.case sum.case option.case Let_def]
  have user: "cp_user_id (ass_payload s) = user_id" using run by (simp split: if_split_asm)
  show thesis
  proof (cases "cp_pushed_request_uri (ass_payload s)")
    case None
    with run user load r show thesis by (intro that [of w1]) auto
  next
    case (Some uri)
    obtain r2 w2 where par: "preview_pushed_request al st (ass_payload s) uri w1 = (r2, w2)"
      by fastforce
    from run user Some par obtain pushed where "r2 = Inr pushed" by (cases r2) simp_all
    with run user load r Some par show thesis by (intro that [of w1]) auto
  qed
qed

lemma preview_has_uri:
  assumes "preview_user_decision al st request_id user_id w = (Inr preview, w')"
    and "cap_pushed_request_version preview = Some v"
  shows "cp_pushed_request_uri (cap_consent preview) \<noteq> None"
  by (rule preview_user_decision_ok [OF assms(1)]) (use assms(2) in \<open>auto split: option.split_asm\<close>)

lemma discard_decision_material_ok:
  "discard_decision_material st request_id preview w = (Inr (), w') \<longleftrightarrow>
     st_discard_decision_material st request_id (cap_consent_version preview)
       (map_option (\<lambda>v. (the (cp_pushed_request_uri (cap_consent preview)), v))
         (cap_pushed_request_version preview)) w = (Inr MaterialDiscarded, w')"
proof -
  obtain r w1 where run: "st_discard_decision_material st request_id (cap_consent_version preview)
      (map_option (\<lambda>v. (the (cp_pushed_request_uri (cap_consent preview)), v))
        (cap_pushed_request_version preview)) w = (r, w1)" by fastforce
  show ?thesis
    unfolding discard_decision_material_def Let_def run
    by (cases r) (simp_all split: decision_material_discard_outcome.split
      decision_material_discard_error.split)
qed

text \<open>A lifetime beyond \<open>i64\<close> panics: the fallback \<open>i64::MAX\<close> is no valid
  \<open>Duration\<close>.\<close>

lemma prepare_authorization_code_panics:
  assumes "chrono_time ch" and "i64_max < int (aai_code_ttl_seconds input)"
  shows "prepare_authorization_code ch input = None"
proof -
  have "\<not> duration_seconds_ok ch i64_max"
    by (simp add: chrono_time.duration_range [OF assms(1)] i64_max_def)
  then show ?thesis using assms(2) by (simp add: prepare_authorization_code_def i64_of_u64_def)
qed

end
