(* ===== verification/Authorization_Store.thy ===== *)
theory Authorization_Store
  imports Rate_Limit Authorization_Service
begin

text \<open>
  The authorization state on Valkey: \<open>AuthorizationStore\<close>
  (\<open>src/crates/state-store-valkey/src/authorization.rs\<close>) and the port adapter over it
  (\<open>authorization_state.rs\<close> there). The serialisers of the payloads, \<open>cjson\<close> of the
  server's Lua and the RFC 3339 printer are fields of the store record. Keys hold texts, so the
  branches of the disposal script for a key of another type have no counterpart.

  The locale \<open>code_server\<close> states what the life cycle of a code relies on; its lemmas show
  that the consumption of a code begins at most once.
\<close>

record 'w authorization_store =
  az_vk :: "'w valkey"
  az_namespace :: string
  az_digest :: "string \<Rightarrow> string"
  az_consent_codec :: "consent_payload codec"
  az_par_codec :: "pushed_authorization_request codec"
  az_code_codec :: "authorization_code_state codec"
  az_payload_from_str :: "string \<Rightarrow> code_payload option"
  az_state_from_str :: "string \<Rightarrow> authorization_code_state option"
  az_cjson_decode :: "string \<Rightarrow> json option"
  az_cjson_encode :: "json \<Rightarrow> string"
  az_rfc3339_millis :: "time \<Rightarrow> string"

datatype authorization_preparation_write = PreparationStored | PreparationConflict

datatype authorization_code_begin_result =
    BeginConsuming code_payload | BeginBusy | BeginConsumed authorization_code_state | BeginFailed
  | BeginMissing | BeginMalformed

datatype authorization_code_transition_result =
    TransitionApplied | TransitionMissing | TransitionMalformed | TransitionPending
  | TransitionConsuming | TransitionConsumed | TransitionFailed

subsection \<open>Scripts\<close>

definition lua_discard :: "'w valkey \<Rightarrow> string \<Rightarrow> string \<Rightarrow> 'w \<Rightarrow> string \<times> 'w" where
  "lua_discard vk key expected w =
     (case vk_get vk key w of
        None \<Rightarrow> (''missing_or_changed'', w)
      | Some current \<Rightarrow>
          if current \<noteq> expected then (''missing_or_changed'', w)
          else (''discarded'', vk_del vk key w))"

definition DISCARD_DECISION_MATERIAL_SCRIPT ::
  "'w valkey \<Rightarrow> string \<Rightarrow> string \<Rightarrow> (string \<times> string) option \<Rightarrow> 'w \<Rightarrow> vk_reply \<times> 'w"
where
  "DISCARD_DECISION_MATERIAL_SCRIPT vk consent_key expected_consent par w =
     (case lua_discard vk consent_key expected_consent w of
        (consent, w1) \<Rightarrow>
          if consent \<noteq> ''discarded'' then (ReplyBulk (''consent_'' @ consent), w1)
          else (case par of
            None \<Rightarrow> (ReplyBulk ''discarded'', w1)
          | Some (par_key, expected) \<Rightarrow>
             (case lua_discard vk par_key expected w1 of
                (result, w2) \<Rightarrow>
                  if result \<noteq> ''discarded'' then (ReplyBulk (''par_'' @ result), w2)
                  else (ReplyBulk ''discarded'', w2))))"

text \<open>The decoded table with a text under \<open>status\<close>, if there is one.\<close>

definition lua_code_table ::
  "'w authorization_store \<Rightarrow> string \<Rightarrow> ((string \<times> json) list \<times> string) option"
where
  "lua_code_table az raw =
     (case az_cjson_decode az raw of
        Some (JObject table) \<Rightarrow>
         (case map_of table ''status'' of
            Some (JString status) \<Rightarrow> Some (table, status)
          | _ \<Rightarrow> None)
      | _ \<Rightarrow> None)"

definition BEGIN_AUTHORIZATION_CODE_CONSUMPTION_SCRIPT ::
  "'w authorization_store \<Rightarrow> string \<Rightarrow> string \<Rightarrow> 'w \<Rightarrow> vk_reply \<times> 'w"
where
  "BEGIN_AUTHORIZATION_CODE_CONSUMPTION_SCRIPT az key consuming_at w =
     (case vk_get (az_vk az) key w of
        None \<Rightarrow> (ReplyBulk ''missing'', w)
      | Some raw \<Rightarrow>
         (case lua_code_table az raw of
            None \<Rightarrow> (ReplyBulk ''malformed'', w)
          | Some (table, status) \<Rightarrow>
              if status = ''pending'' then
               (case map_of table ''payload'' of
                  Some (JString payload) \<Rightarrow>
                    (ReplyBulk (''consuming|'' @ payload),
                     vk_set_keepttl (az_vk az) key
                       (az_cjson_encode az (JObject
                         (map_insert ''consuming_at'' (JString consuming_at)
                           (map_insert ''status'' (JString ''consuming'') table)))) w)
                | _ \<Rightarrow> (ReplyBulk ''malformed'', w))
              else if status = ''consuming'' then (ReplyBulk ''busy'', w)
              else if status = ''consumed'' then (ReplyBulk (''consumed|'' @ raw), w)
              else if status = ''failed'' then (ReplyBulk ''failed'', w)
              else (ReplyBulk ''malformed'', w)))"

definition MARK_AUTHORIZATION_CODE_SCRIPT ::
  "'w authorization_store \<Rightarrow> string \<Rightarrow> string \<Rightarrow> nat \<Rightarrow> 'w \<Rightarrow> vk_reply \<times> 'w"
where
  "MARK_AUTHORIZATION_CODE_SCRIPT az key replacement ttl_seconds w =
     (case vk_get (az_vk az) key w of
        None \<Rightarrow> (ReplyBulk ''missing'', w)
      | Some raw \<Rightarrow>
         (case lua_code_table az raw of
            None \<Rightarrow> (ReplyBulk ''malformed'', w)
          | Some (_, status) \<Rightarrow>
              if status \<noteq> ''consuming'' then (ReplyBulk status, w)
              else (case vk_set_ex (az_vk az) key replacement ttl_seconds w of
                None \<Rightarrow> (ReplyError ''ERR invalid expire time in 'set' command'', w)
              | Some w1 \<Rightarrow> (ReplyBulk ''ok'', w1))))"

subsection \<open>Operations\<close>

definition store_preparation ::
  "'w authorization_store \<Rightarrow> 'a codec \<Rightarrow> string \<Rightarrow> 'a \<Rightarrow> nat \<Rightarrow>
    ('w, vk_error_kind, authorization_preparation_write) io"
where
  "store_preparation az c key value ttl_seconds w =
     (case encode c value of
        None \<Rightarrow> (Inl VkProtocol, w)
      | Some raw \<Rightarrow>
         (case set_ex_nx (az_vk az) (az_namespace az) key raw ttl_seconds w of
            (Inl e, w1) \<Rightarrow> (Inl e, w1)
          | (Inr fresh, w1) \<Rightarrow>
              (Inr (if fresh then PreparationStored else PreparationConflict), w1)))"

definition store_json ::
  "'w authorization_store \<Rightarrow> 'a codec \<Rightarrow> string \<Rightarrow> 'a \<Rightarrow> nat \<Rightarrow> ('w, vk_error_kind, unit) io"
where
  "store_json az c key value ttl_seconds w =
     (case encode c value of
        None \<Rightarrow> (Inl VkProtocol, w)
      | Some raw \<Rightarrow> set_ex (az_vk az) (az_namespace az) key raw ttl_seconds w)"

definition load_snapshot ::
  "'w authorization_store \<Rightarrow> 'a codec \<Rightarrow> string \<Rightarrow>
    ('w, vk_error_kind, 'a authorization_state_snapshot option) io"
where
  "load_snapshot az c key w =
     (case command_get (az_vk az) (az_namespace az) key w of
        (Inl e, w1) \<Rightarrow> (Inl e, w1)
      | (Inr None, w1) \<Rightarrow> (Inr None, w1)
      | (Inr (Some raw), w1) \<Rightarrow>
         (case decode c raw of
            None \<Rightarrow> (Inl VkCorruptData, w1)
          | Some payload \<Rightarrow> (Inr (Some \<lparr>ass_payload = payload, ass_version = raw\<rparr>), w1)))"

definition load_json ::
  "'w authorization_store \<Rightarrow> 'a codec \<Rightarrow> string \<Rightarrow> ('w, vk_error_kind, 'a option) io"
where
  "load_json az c key w =
     (case command_get (az_vk az) (az_namespace az) key w of
        (Inl e, w1) \<Rightarrow> (Inl e, w1)
      | (Inr None, w1) \<Rightarrow> (Inr None, w1)
      | (Inr (Some raw), w1) \<Rightarrow>
         (case decode c raw of
            None \<Rightarrow> (Inl VkCorruptData, w1)
          | Some value \<Rightarrow> (Inr (Some value), w1)))"

definition store_compare_delete ::
  "'w authorization_store \<Rightarrow> string \<Rightarrow> string \<Rightarrow> ('w, vk_error_kind, bool) io"
where
  "store_compare_delete az key expected w =
     (case compare_delete (az_vk az) (az_namespace az) key expected w of
        (Inl e, w1) \<Rightarrow> (Inl e, w1)
      | (Inr outcome, w1) \<Rightarrow> (Inr (outcome = CompareDeleted), w1))"

definition parse_decision_material_discard_reply ::
  "string \<Rightarrow> vk_error_kind decision_material_discard_error + decision_material_discard_outcome"
where
  "parse_decision_material_discard_reply reply =
     (if reply = ''discarded'' then Inr MaterialDiscarded
      else if reply = ''consent_missing_or_changed'' then Inr MaterialConsentMissingOrChanged
      else if reply = ''par_missing_or_changed'' then Inr MaterialParMissingOrChanged
      else if reply = ''consent_error'' then Inl (DiscardConsentOrUnknown VkProtocol)
      else if reply = ''par_error'' then Inl (DiscardPushedRequest VkProtocol)
      else Inl (DiscardConsentOrUnknown VkUnexpectedResult))"

definition store_discard_decision_material ::
  "'w authorization_store \<Rightarrow> string \<Rightarrow> string \<Rightarrow> (string \<times> string) option \<Rightarrow>
    ('w, vk_error_kind decision_material_discard_error, decision_material_discard_outcome) io"
where
  "store_discard_decision_material az request_id expected_consent pushed_request w =
     (case eval_string (az_vk az)
        (DISCARD_DECISION_MATERIAL_SCRIPT (az_vk az)
          (state_key (az_namespace az) (key_consent request_id)) expected_consent
          (map_option (\<lambda>(request_uri, expected).
            (state_key (az_namespace az) (key_par (az_digest az) request_uri), expected))
            pushed_request)) w of
        (Inl e, w1) \<Rightarrow> (Inl (DiscardConsentOrUnknown e), w1)
      | (Inr reply, w1) \<Rightarrow> (parse_decision_material_discard_reply reply, w1))"

definition parse_authorization_code_begin_reply ::
  "'w authorization_store \<Rightarrow> string \<Rightarrow> vk_error_kind + authorization_code_begin_result"
where
  "parse_authorization_code_begin_reply az reply =
     (case strip_prefix reply ''consuming|'' of
        Some raw \<Rightarrow> and_then (ok_or VkCorruptData (az_payload_from_str az raw))
          (\<lambda>p. Inr (BeginConsuming p))
      | None \<Rightarrow>
     (case strip_prefix reply ''consumed|'' of
        Some raw \<Rightarrow> and_then (ok_or VkCorruptData (az_state_from_str az raw))
          (\<lambda>s. Inr (BeginConsumed s))
      | None \<Rightarrow>
          if reply = ''busy'' then Inr BeginBusy
          else if reply = ''failed'' then Inr BeginFailed
          else if reply = ''missing'' then Inr BeginMissing
          else if reply = ''malformed'' then Inr BeginMalformed
          else Inl VkUnexpectedResult))"

definition begin_authorization_code ::
  "'w authorization_store \<Rightarrow> string \<Rightarrow> time \<Rightarrow>
    ('w, vk_error_kind, authorization_code_begin_result) io"
where
  "begin_authorization_code az code_hash consuming_at w =
     (case eval_string (az_vk az)
        (BEGIN_AUTHORIZATION_CODE_CONSUMPTION_SCRIPT az
          (state_key (az_namespace az) (key_authorization_code_hash code_hash))
          (az_rfc3339_millis az consuming_at)) w of
        (Inl e, w1) \<Rightarrow> (Inl e, w1)
      | (Inr reply, w1) \<Rightarrow> (parse_authorization_code_begin_reply az reply, w1))"

definition transition_of_reply :: "string \<Rightarrow> vk_error_kind + authorization_code_transition_result" where
  "transition_of_reply reply =
     (if reply = ''ok'' then Inr TransitionApplied
      else if reply = ''missing'' then Inr TransitionMissing
      else if reply = ''malformed'' then Inr TransitionMalformed
      else if reply = ''pending'' then Inr TransitionPending
      else if reply = ''consuming'' then Inr TransitionConsuming
      else if reply = ''consumed'' then Inr TransitionConsumed
      else if reply = ''failed'' then Inr TransitionFailed
      else Inl VkUnexpectedResult)"

definition mark_authorization_code ::
  "'w authorization_store \<Rightarrow> string \<Rightarrow> authorization_code_state \<Rightarrow> nat \<Rightarrow>
    ('w, vk_error_kind, authorization_code_transition_result) io"
where
  "mark_authorization_code az code_hash replacement ttl_seconds w =
     (case encode (az_code_codec az) replacement of
        None \<Rightarrow> (Inl VkProtocol, w)
      | Some raw \<Rightarrow>
         (case eval_string (az_vk az)
            (MARK_AUTHORIZATION_CODE_SCRIPT az
              (state_key (az_namespace az) (key_authorization_code_hash code_hash)) raw
              ttl_seconds) w of
            (Inl e, w1) \<Rightarrow> (Inl e, w1)
          | (Inr reply, w1) \<Rightarrow> (transition_of_reply reply, w1)))"

definition store_store_reauth_nonce ::
  "'w authorization_store \<Rightarrow> string \<Rightarrow> int \<Rightarrow> nat \<Rightarrow> ('w, vk_error_kind, unit) io"
where
  "store_store_reauth_nonce az nonce started_at ttl_seconds =
     set_ex (az_vk az) (az_namespace az) (key_reauth_nonce (az_digest az) nonce)
       (''micros-v1:'' @ int_text started_at) ttl_seconds"

definition reauth_timestamp :: "string \<Rightarrow> vk_error_kind + int" where
  "reauth_timestamp raw =
     and_then (ok_or VkCorruptData (strip_prefix raw ''micros-v1:''))
       (\<lambda>t. ok_or VkCorruptData (parse_i64 t))"

definition store_take_reauth_nonce ::
  "'w authorization_store \<Rightarrow> string \<Rightarrow> ('w, vk_error_kind, int option) io"
where
  "store_take_reauth_nonce az nonce w =
     (case command_take (az_vk az) (az_namespace az) (key_reauth_nonce (az_digest az) nonce) w of
        (Inl e, w1) \<Rightarrow> (Inl e, w1)
      | (Inr None, w1) \<Rightarrow> (Inr None, w1)
      | (Inr (Some raw), w1) \<Rightarrow> (and_then (reauth_timestamp raw) (\<lambda>t. Inr (Some t)), w1))"

subsection \<open>The port\<close>

fun map_error :: "vk_error_kind \<Rightarrow> authorization_port_error" where
  "map_error VkTimeout = PortUnavailable"
| "map_error VkUnavailable = PortUnavailable"
| "map_error VkCorruptData = PortCorruptData"
| "map_error VkProtocol = PortUnexpected"
| "map_error VkUnexpectedResult = PortUnexpected"

fun map_discard_error ::
  "vk_error_kind decision_material_discard_error \<Rightarrow>
    authorization_port_error decision_material_discard_error"
where
  "map_discard_error (DiscardConsentOrUnknown e) = DiscardConsentOrUnknown (map_error e)"
| "map_discard_error (DiscardPushedRequest e) = DiscardPushedRequest (map_error e)"

fun map_preparation_write :: "authorization_preparation_write \<Rightarrow> authorization_port_error + unit" where
  "map_preparation_write PreparationStored = Inr ()"
| "map_preparation_write PreparationConflict = Inl PortConflict"

definition adapted :: "(vk_error_kind + 'a) \<times> 'w \<Rightarrow> (authorization_port_error + 'a) \<times> 'w" where
  "adapted r = (map_err map_error (fst r), snd r)"

fun rate_dimension_of :: "authorization_rate_dimension \<Rightarrow> rate_dimension" where
  "rate_dimension_of AuthzRateToken = RateToken"
| "rate_dimension_of AuthzRateTokenManagement = RateTokenManagement"

definition valkey_authorization_state ::
  "'w authorization_store \<Rightarrow> 'w replay_store \<Rightarrow> 'w rate_limit_store \<Rightarrow>
    'w authorization_state_store"
where
  "valkey_authorization_state az rs rl =
     \<lparr>st_load_par = (\<lambda>uri w.
        adapted (load_snapshot az (az_par_codec az) (key_par (az_digest az) uri) w)),
      st_compare_and_delete_par = (\<lambda>uri expected w.
        adapted (store_compare_delete az (key_par (az_digest az) uri) expected w)),
      st_store_par = (\<lambda>uri payload ttl w.
        case adapted (store_preparation az (az_par_codec az) (key_par (az_digest az) uri) payload
          ttl w) of (r, w1) \<Rightarrow> (and_then r map_preparation_write, w1)),
      st_load_consent = (\<lambda>id w.
        adapted (load_snapshot az (az_consent_codec az) (key_consent id) w)),
      st_compare_and_delete_consent = (\<lambda>id expected w.
        adapted (store_compare_delete az (key_consent id) expected w)),
      st_discard_decision_material = (\<lambda>id expected_consent pushed w.
        case store_discard_decision_material az id expected_consent pushed w of
          (r, w1) \<Rightarrow> (map_err map_discard_error r, w1)),
      st_store_consent = (\<lambda>id payload ttl w.
        case adapted (store_preparation az (az_consent_codec az) (key_consent id) payload ttl w) of
          (r, w1) \<Rightarrow> (and_then r map_preparation_write, w1)),
      st_store_authorization_code = (\<lambda>code_hash state ttl w.
        adapted (store_json az (az_code_codec az) (key_authorization_code_hash code_hash) state
          ttl w)),
      st_delete_authorization_code = (\<lambda>code_hash w.
        case adapted (command_delete (az_vk az) (az_namespace az)
          (key_authorization_code_hash code_hash) w) of (r, w1) \<Rightarrow> (and_then r (\<lambda>_. Inr ()), w1)),
      st_take_reauth_nonce = (\<lambda>nonce w. adapted (store_take_reauth_nonce az nonce w)),
      st_store_reauth_nonce = (\<lambda>nonce started_at ttl w.
        adapted (store_store_reauth_nonce az nonce started_at ttl w)),
      st_consume_jar = (\<lambda>client_id jti expires_at w.
        adapted (consume_jar rs client_id jti expires_at w)),
      st_consume_client_attestation_proof = (\<lambda>client_id jti window w.
        adapted (consume_client_attestation_proof rs client_id jti window w)),
      st_consume_private_key_jwt = (\<lambda>client_id jti ttl w.
        adapted (consume_private_key_jwt rs client_id jti ttl w)),
      st_consume_jwt_bearer = (\<lambda>client_id jti ttl w.
        adapted (consume_jwt_bearer rs client_id jti ttl w)),
      st_consume_ciba_request_object = (\<lambda>client_id jti expires_at w.
        adapted (consume_ciba_request_object rs client_id jti expires_at w)),
      st_consume_dpop = (\<lambda>thumbprint jti ttl w. adapted (consume_dpop rs thumbprint jti ttl w)),
      st_issue_dpop_nonce = (\<lambda>nonce ttl w. adapted (issue_dpop_nonce rs nonce ttl w)),
      st_validate_dpop_nonce = (\<lambda>nonce w. adapted (validate_dpop_nonce rs nonce w)),
      st_increment_rate = (\<lambda>dimension subject window w.
        adapted (rate_increment rl (rate_dimension_of dimension) subject window w))\<rparr>"

subsection \<open>Disposal removes exactly the previewed versions\<close>

locale authorization_store_server = valkey_server "az_vk az" view clock_ms env
  for az :: "'w authorization_store" and view clock_ms env
begin

abbreviation consent_key :: "string \<Rightarrow> string" where
  "consent_key request_id \<equiv> state_key (az_namespace az) (key_consent request_id)"

abbreviation par_key :: "string \<Rightarrow> string" where
  "par_key request_uri \<equiv> state_key (az_namespace az) (key_par (az_digest az) request_uri)"

lemma par_not_consent [simp]: "par_key uri \<noteq> consent_key i" "consent_key i \<noteq> par_key uri"
  by (simp_all add: state_key_def key_par_def key_consent_def)

lemma lua_discarded:
  "lua_discard (az_vk az) k expected w = (''discarded'', w') \<Longrightarrow>
     (\<exists>t. view w k = Some (expected, t)) \<and> view w' = (view w)(k := None)"
  by (auto simp: lua_discard_def get del split: option.split_asm if_split_asm)

lemma discard_script:
  assumes "DISCARD_DECISION_MATERIAL_SCRIPT (az_vk az) (consent_key i) expected
      (map_option (\<lambda>(uri, e). (par_key uri, e)) pushed) w = (ReplyBulk ''discarded'', w')"
  shows "\<exists>t. view w (consent_key i) = Some (expected, t)"
    and "view w' = (case pushed of None \<Rightarrow> (view w)(consent_key i := None)
       | Some (uri, e) \<Rightarrow> (view w)(consent_key i := None, par_key uri := None))"
    and "\<And>uri e. pushed = Some (uri, e) \<Longrightarrow> \<exists>t. view w (par_key uri) = Some (e, t)"
proof -
  obtain r w1 where d: "lua_discard (az_vk az) (consent_key i) expected w = (r, w1)" by fastforce
  with assms have r: "r = ''discarded''"
    by (auto simp: DISCARD_DECISION_MATERIAL_SCRIPT_def split: if_split_asm)
  note first = lua_discarded [OF d [unfolded r]]
  then show "\<exists>t. view w (consent_key i) = Some (expected, t)" by blast
  show "view w' = (case pushed of None \<Rightarrow> (view w)(consent_key i := None)
       | Some (uri, e) \<Rightarrow> (view w)(consent_key i := None, par_key uri := None))"
    and "\<And>uri e. pushed = Some (uri, e) \<Longrightarrow> \<exists>t. view w (par_key uri) = Some (e, t)"
    using assms first d r
    by (auto simp: DISCARD_DECISION_MATERIAL_SCRIPT_def dest!: lua_discarded
      split: option.split_asm prod.split_asm if_split_asm)
qed

lemma discard_runs:
  assumes "store_discard_decision_material az i expected pushed w = (Inr MaterialDiscarded, w')"
  obtains w1 w2 where "env w w1" and "env w2 w'"
    and "DISCARD_DECISION_MATERIAL_SCRIPT (az_vk az) (consent_key i) expected
      (map_option (\<lambda>(uri, e). (par_key uri, e)) pushed) w1 = (ReplyBulk ''discarded'', w2)"
proof -
  let ?script = "DISCARD_DECISION_MATERIAL_SCRIPT (az_vk az) (consent_key i) expected
      (map_option (\<lambda>(uri, e). (par_key uri, e)) pushed)"
  from assms have ev: "eval_string (az_vk az) ?script w = (Inr ''discarded'', w')"
    unfolding store_discard_decision_material_def
    by (auto simp: parse_decision_material_discard_reply_def
      split: prod.split_asm sum.split_asm if_split_asm)
  from script_answered [OF ev] obtain w1 x w2 where steps: "env w w1" "?script w1 = (x, w2)"
    "env w2 w'" and x: "vk_to_string (az_vk az) x = Inr ''discarded''" .
  have "\<exists>r. x = ReplyBulk r"
    using steps(2) unfolding DISCARD_DECISION_MATERIAL_SCRIPT_def
    by (auto split: option.split_asm prod.split_asm if_split_asm)
  with x have "x = ReplyBulk ''discarded''" by (auto simp: to_string)
  then show thesis using steps that by blast
qed

end

subsection \<open>A code's consumption begins at most once\<close>

definition code_pending ::
  "'w authorization_store \<Rightarrow> ('w \<Rightarrow> string \<Rightarrow> (string \<times> int option) option) \<Rightarrow> string \<Rightarrow> 'w \<Rightarrow> bool"
where
  "code_pending az view code_hash w \<longleftrightarrow>
     (case view w (state_key (az_namespace az) (key_authorization_code_hash code_hash)) of
        None \<Rightarrow> False
      | Some (raw, _) \<Rightarrow> is_some_and (\<lambda>(_, status). status = ''pending'') (lua_code_table az raw))"

fun code_status_name :: "authorization_code_state \<Rightarrow> string" where
  "code_status_name (CodePending _) = ''pending''"
| "code_status_name (CodeConsuming _ _) = ''consuming''"
| "code_status_name CodeConsumed = ''consumed''"
| "code_status_name (CodeFailed _ _) = ''failed''"

locale code_server = authorization_store_server az view clock_ms env
  for az :: "'w authorization_store" and view clock_ms env +
  fixes code_hash :: string
  assumes live: "view w k = Some (v, Some d) \<Longrightarrow> clock_ms w < d"
    and cjson_texts: "\<exists>m'. az_cjson_decode az (az_cjson_encode az (JObject m)) = Some (JObject m') \<and>
      (\<forall>k s. map_of m k = Some (JString s) \<longrightarrow> map_of m' k = Some (JString s))"
    and wire_status: "encode (az_code_codec az) state = Some raw \<Longrightarrow>
      \<exists>table. lua_code_table az raw = Some (table, code_status_name state)"
    and no_new_pending: "env w w' \<Longrightarrow> code_pending az view code_hash w' \<Longrightarrow>
      code_pending az view code_hash w"
begin

abbreviation code_key :: string where
  "code_key \<equiv> state_key (az_namespace az) (key_authorization_code_hash code_hash)"

lemma begin_script:
  assumes "BEGIN_AUTHORIZATION_CODE_CONSUMPTION_SCRIPT az code_key t w = (x, w')"
  obtains (consuming) payload where "x = ReplyBulk (''consuming|'' @ payload)"
      and "code_pending az view code_hash w" and "\<not> code_pending az view code_hash w'"
    | (other) r where "x = ReplyBulk r" and "\<And>raw. r \<noteq> ''consuming|'' @ raw" and "w' = w"
proof (cases "view w code_key")
  case None
  with assms other [of "''missing''"] show thesis
    by (simp add: BEGIN_AUTHORIZATION_CODE_CONSUMPTION_SCRIPT_def get)
next
  case (Some rt)
  obtain raw d where v: "view w code_key = Some (raw, d)" using Some by (cases rt) simp
  note run = assms [unfolded BEGIN_AUTHORIZATION_CODE_CONSUMPTION_SCRIPT_def get v option.map
    fst_conv option.case]
  show thesis
  proof (cases "lua_code_table az raw")
    case None
    with run other [of "''malformed''"] show thesis by simp
  next
    case (Some ts)
    obtain table status where ts: "lua_code_table az raw = Some (table, status)"
      using Some by (cases ts) simp
    show thesis
    proof (cases "\<exists>payload. status = ''pending'' \<and> map_of table ''payload'' = Some (JString payload)")
      case True
      then obtain payload where p: "status = ''pending''" "map_of table ''payload'' = Some (JString payload)"
        by blast
      let ?m = "map_insert ''consuming_at'' (JString t) (map_insert ''status'' (JString ''consuming'') table)"
      have x: "x = ReplyBulk (''consuming|'' @ payload)"
        and w': "w' = vk_set_keepttl (az_vk az) code_key (az_cjson_encode az (JObject ?m)) w"
        using run ts p by simp_all
      have "map_of ?m ''status'' = Some (JString ''consuming'')"
        by (simp add: map_of_map_insert)
      then have "\<exists>m'. lua_code_table az (az_cjson_encode az (JObject ?m)) = Some (m', ''consuming'')"
        using cjson_texts [of ?m] by (auto simp: lua_code_table_def)
      moreover obtain d' where "view w' = (view w)(code_key \<mapsto> (az_cjson_encode az (JObject ?m), d'))"
        unfolding w' using set_keepttl_value [of w code_key] v live by blast
      ultimately have "\<not> code_pending az view code_hash w'" by (auto simp: code_pending_def)
      moreover have "code_pending az view code_hash w" using v ts p by (simp add: code_pending_def)
      ultimately show thesis using x consuming by blast
    next
      case False
      then have "w' = w \<and> (\<exists>r. x = ReplyBulk r \<and> (\<forall>raw. r \<noteq> ''consuming|'' @ raw))"
        using run ts by (auto split: if_split_asm option.split_asm json.split_asm)
      then show thesis using other by blast
    qed
  qed
qed

lemma begin_runs:
  assumes "begin_authorization_code az code_hash t w = (Inr (BeginConsuming p), w')"
  obtains w1 w2 where "env w w1" and "code_pending az view code_hash w1"
    and "\<not> code_pending az view code_hash w2" and "env w2 w'"
proof -
  let ?script = "BEGIN_AUTHORIZATION_CODE_CONSUMPTION_SCRIPT az code_key (az_rfc3339_millis az t)"
  from assms obtain reply where ev: "eval_string (az_vk az) ?script w = (Inr reply, w')"
    and parse: "parse_authorization_code_begin_reply az reply = Inr (BeginConsuming p)"
    unfolding begin_authorization_code_def by (auto split: prod.split_asm sum.split_asm)
  from parse obtain raw where prefix: "reply = ''consuming|'' @ raw"
    unfolding parse_authorization_code_begin_reply_def
    by (auto simp: and_then_Inr split: option.split_asm if_split_asm)
  from script_answered [OF ev] obtain w1 x w2 where steps: "env w w1" "?script w1 = (x, w2)"
    "env w2 w'" and x: "vk_to_string (az_vk az) x = Inr reply" .
  from steps(2) show thesis
  proof (cases rule: begin_script)
    case (consuming payload)
    then show thesis using steps that by blast
  next
    case (other r)
    then show thesis using x prefix by (simp add: to_string)
  qed
qed

lemma begin_once:
  assumes "begin_authorization_code az code_hash t w = (Inr (BeginConsuming p), w1)"
    and "env w1 w2"
    and "begin_authorization_code az code_hash t' w2 = (r, w3)"
  shows "r \<noteq> Inr (BeginConsuming p')"
proof
  assume r: "r = Inr (BeginConsuming p')"
  from begin_runs [OF assms(1)] obtain wa where a: "\<not> code_pending az view code_hash wa" "env wa w1" .
  from begin_runs [OF assms(3) [unfolded r]] obtain wb
    where b: "env w2 wb" "code_pending az view code_hash wb" .
  have "env wa wb" using a(2) assms(2) b(1) by (blast intro: env_trans)
  then show False using no_new_pending a(1) b(2) by blast
qed

text \<open>What this store's own operations on the code do to others: neither beginning nor marking
  makes a code pending that was not.\<close>

lemma begin_script_guarantee:
  assumes "BEGIN_AUTHORIZATION_CODE_CONSUMPTION_SCRIPT az code_key t w = (x, w')"
    and "code_pending az view code_hash w'"
  shows "code_pending az view code_hash w"
  using assms(1)
proof (cases rule: begin_script)
  case (consuming payload)
  then show ?thesis by simp
next
  case (other r)
  then show ?thesis using assms(2) by simp
qed

lemma mark_script_guarantee:
  assumes run: "MARK_AUTHORIZATION_CODE_SCRIPT az code_key raw ttl w = (x, w')"
    and raw: "encode (az_code_codec az) replacement = Some raw"
    and final: "code_status_name replacement \<noteq> ''pending''"
    and pending: "code_pending az view code_hash w'"
  shows "code_pending az view code_hash w"
proof (rule ccontr)
  assume not: "\<not> code_pending az view code_hash w"
  with pending have "w' \<noteq> w" by blast
  with run have "vk_set_ex (az_vk az) code_key raw ttl w = Some w'"
    unfolding MARK_AUTHORIZATION_CODE_SCRIPT_def
    by (auto split: option.split_asm if_split_asm prod.split_asm)
  from set_ex [OF this] obtain d where "view w' code_key = Some (raw, d)" by simp
  with pending wire_status [OF raw] final show False by (auto simp: code_pending_def)
qed

end

end
