(* ===== verification/Server_Flows.thy ===== *)
theory Server_Flows
  imports Authorization_Store Client_Assertion
begin

text \<open>
  Flows of the server application over the core: authenticating a client by an assertion
  (\<open>src/crates/authorization-server/src/security/client_assertion.rs\<close>). The audit is a port of
  the application; log lines are not modelled. \<open>now\<close> stands for the second that
  \<open>Utc::now()\<close> is in at the call.
\<close>

datatype client_assertion_flow_error = FlowInvalid | FlowReplayDetected | FlowStoreUnavailable

definition verify_private_key_jwt_claims_for_issuer ::
  "base64 \<Rightarrow> client_assertion_claims jwt_lib \<Rightarrow> int \<Rightarrow> string \<Rightarrow> string \<Rightarrow> string list \<Rightarrow>
    oauth_client \<Rightarrow> string \<Rightarrow> bool \<Rightarrow> client_assertion_flow_error + validated_client_assertion"
where
  "verify_private_key_jwt_claims_for_issuer b64 jl now issuer endpoint_path aliases client assertion
     require_fapi2 =
     map_err (\<lambda>_. FlowInvalid)
       (verify_private_key_jwt b64 jl
         \<lparr>cai_issuer = issuer, cai_endpoint_path = endpoint_path,
          cai_endpoint_audience_aliases = aliases, cai_client = client,
          cai_assertion = assertion, cai_now = now,
          cai_expected_signing_algorithm = token_endpoint_auth_signing_alg (registration client),
          cai_require_fapi2 = require_fapi2\<rparr>)"

text \<open>\<open>SecurityAudit::record_required\<close>: an event with its fields.\<close>

type_synonym 'w security_audit = "string \<Rightarrow> (string \<times> json) list \<Rightarrow> ('w, unit, unit) io"

definition consume_private_key_jwt_with_authorization_service ::
  "'w authorization_state_store \<Rightarrow> 'w security_audit \<Rightarrow> (string \<Rightarrow> string) \<Rightarrow> int \<Rightarrow> oauth_client \<Rightarrow>
    validated_client_assertion \<Rightarrow> ('w, client_assertion_flow_error, unit) io"
where
  "consume_private_key_jwt_with_authorization_service st audit blake3_hex now client assertion w =
     (case st_consume_private_key_jwt st (oc_client_id client) (vca_jti assertion)
        (replay_ttl_seconds assertion now) w of
        (Inr True, w1) \<Rightarrow> (Inr (), w1)
      | (Inr False, w1) \<Rightarrow>
         (case audit ''client_assertion_replay_detected''
            [(''client_id'', JString (oc_client_id client)),
             (''jti_hash'', JString (blake3_hex (vca_jti assertion))),
             (''kid'', case vca_kid assertion of None \<Rightarrow> JNull | Some kid \<Rightarrow> JString kid)] w1 of
            (Inl _, w2) \<Rightarrow> (Inl FlowStoreUnavailable, w2)
          | (Inr _, w2) \<Rightarrow> (Inl FlowReplayDetected, w2))
      | (Inl _, w1) \<Rightarrow> (Inl FlowStoreUnavailable, w1))"

subsection \<open>Facts the flows share\<close>

text \<open>An assertion determines what is read from it.\<close>

lemma verify_private_key_jwt_same:
  assumes "verify_private_key_jwt b64 jl input = Inr v" and "verify_private_key_jwt b64 jl input' = Inr v'"
    and "cai_assertion input' = cai_assertion input" and "cai_client input' = cai_client input"
  shows "v' = v"
  using assms unfolding verify_private_key_jwt_def Let_def
  by (auto simp: and_then_Inr split: if_split_asm)

lemma verified_for_issuer:
  assumes "verify_private_key_jwt_claims_for_issuer b64 jl now iss path aliases client a f = Inr v"
  obtains input where "verify_private_key_jwt b64 jl input = Inr v" and "cai_assertion input = a"
    and "cai_client input = client" and "cai_now input = now"
  using assms unfolding verify_private_key_jwt_claims_for_issuer_def
  by (auto simp: map_err_def split: sum.split_asm)

lemma replay_ttl_covers:
  assumes "vca_expires_at v \<le> now + 300" and "is_i64 now" and "is_i64 (vca_expires_at v)"
  shows "vca_expires_at v - now \<le> int (replay_ttl_seconds v now)" and "replay_ttl_seconds v now \<le> 300"
  using assms
  by (auto simp: replay_ttl_seconds_def CLIENT_ASSERTION_MAX_TTL_SECONDS_def saturating_sub_i64_def
    int_bounds is_i64_def)

context replay_adapter
begin

lemma consume_key_marks:
  assumes "consume_key rs k n w = (Inr True, w')" and "int n \<le> i64_max"
  obtains t where "marked (state_key (rs_namespace rs) k) t (t + 1000 * int n) w w'"
  using set_ex_nx_marks [OF assms [unfolded consume_key_def]] by blast

text \<open>Once consumed, a key is refused until its lifetime is over.\<close>

lemma consume_key_once:
  assumes first: "consume_key rs k n w = (Inr True, w1)" and between: "env w1 w2"
    and second: "consume_key rs k n' w2 = (Inr True, w3)"
    and bounds: "int n \<le> i64_max" "int n' \<le> i64_max"
    and key: "marker_key (rs_namespace rs) (state_key (rs_namespace rs) k)"
  shows "clock_ms w + 1000 * int n \<le> clock_ms w3"
proof -
  from consume_key_marks [OF first bounds(1)] obtain t
    where t: "marked (state_key (rs_namespace rs) k) t (t + 1000 * int n) w w1" .
  from consume_key_marks [OF second bounds(2)] obtain t'
    where t': "marked (state_key (rs_namespace rs) k) t' (t' + 1000 * int n') w2 w3" .
  from marked_once [OF t between t' key] marked_after [OF t] marked_after [OF t'] show ?thesis
    by simp
qed

lemma consume_dpop_once:
  assumes first: "ds_consume_replay (replay_dpop_store rs) jkt jti n w = (Inr True, w1)"
    and between: "env w1 w2"
    and second: "ds_consume_replay (replay_dpop_store rs) jkt jti n' w2 = (Inr True, w3)"
    and bounds: "int n \<le> i64_max" "int n' \<le> i64_max"
  shows "clock_ms w + 1000 * int n \<le> clock_ms w3"
  using first second
  by (intro consume_key_once [OF _ between _ bounds, of "key_dpop_replay (rs_digest rs) jkt jti"])
    (auto simp: replay_dpop_store_def port_result_def consume_dpop_def map_err_def
      prod_eq_iff split: sum.split_asm)

lemmas env_chain = env_trans
lemmas clock_chain = clock_mono

text \<open>The nonce check of an accepted proof only reads.\<close>

lemma validate_nonce_reads:
  assumes "validate_nonce (replay_dpop_store rs) new_nonce policy nonce w = (Inr (), w')"
  shows "env w w'"
proof (cases nonce)
  case None
  with assms show ?thesis
    by (auto simp: validate_nonce_def demand_nonce_def env_refl split: if_split_asm prod.split_asm
      sum.split_asm)
next
  case (Some n)
  let ?key = "state_key (rs_namespace rs) (key_dpop_nonce (rs_digest rs) n)"
  obtain q v where "validate_dpop_nonce rs n w = (q, v)" by fastforce
  with assms Some obtain r where "validate_dpop_nonce rs n w = (Inr r, w')"
    by (auto simp: validate_nonce_def demand_nonce_def replay_dpop_store_def port_result_def
      map_err_def split: if_split_asm prod.split_asm sum.split_asm)
  then obtain x where "vk_send (rs_vk rs) (vk_get_command (rs_vk rs) ?key) w = (Inr x, w')"
    unfolding validate_dpop_nonce_def command_get_def by (auto split: prod.split_asm sum.split_asm)
  from sent [OF this] obtain w1 w2 where "env w w1" "vk_get_command (rs_vk rs) ?key w1 = (x, w2)"
    "env w2 w'" .
  then show ?thesis by (auto simp: vk_get_command_def intro: env_trans)
qed

end

end
