(* ===== verification/Authorization_Reference.thy ===== *)
theory Authorization_Reference
  imports Authorization_Store "HOL-Library.Countable"
begin

text \<open>
  A concrete authorization store on the server in memory: every payload is written as its number,
  a code as a table of texts. It fulfils the laws of \<open>code_server\<close>.
\<close>

instance oidc_claim_request_ext :: (countable) countable
proof
  show "\<exists>f :: 'a oidc_claim_request_scheme \<Rightarrow> nat. inj f"
    by (rule exI [of _ "\<lambda>c. to_nat (cr_name c, cr_essential c, cr_value c, cr_values c,
      oidc_claim_request.more c)"]) (rule injI, rule oidc_claim_request.equality, simp_all)
qed

instance s256_pkce_ext :: (countable) countable
proof
  show "\<exists>f :: 'a s256_pkce_scheme \<Rightarrow> nat. inj f"
    by (rule exI [of _ "\<lambda>c. to_nat (s256_code_challenge c, s256_pkce.more c)"])
      (rule injI, rule s256_pkce.equality, simp_all)
qed

instance code_payload_ext :: (countable) countable
proof
  show "\<exists>f :: 'a code_payload_scheme \<Rightarrow> nat. inj f"
    by (rule exI [of _ "\<lambda>c. to_nat ((co_redemption_contract_version c, co_code_id c, co_user_id c,
      co_client_id c, co_redirect_uri c, co_redirect_uri_was_supplied c, co_scopes c),
      (co_resource_indicators c, co_authorization_details c, co_nonce c, co_auth_time c, co_amr c,
      co_oidc_sid c, co_acr c), co_userinfo_claim_requests c, co_id_token_claim_requests c,
      co_pkce c, co_dpop_jkt c, co_mtls_x5t_s256 c, co_expires_at c, code_payload.more c)"])
      (rule injI, rule code_payload.equality, simp_all)
qed

instance consent_payload_ext :: (countable) countable
proof
  show "\<exists>f :: 'a consent_payload_scheme \<Rightarrow> nat. inj f"
    by (rule exI [of _ "\<lambda>c. to_nat ((cp_request_id c, cp_user_id c, cp_client_id c,
      cp_client_name c, cp_redirect_uri c, cp_redirect_uri_was_supplied c, cp_scopes c),
      (cp_resource_indicators c, cp_authorization_details c, cp_state c, cp_response_mode c,
      cp_nonce c, cp_auth_time c, cp_amr c), (cp_oidc_sid c, cp_acr c,
      cp_userinfo_claim_requests c, cp_id_token_claim_requests c, cp_pkce c, cp_dpop_jkt c,
      cp_mtls_x5t_s256 c), cp_pushed_request_uri c, cp_pushed_request_digest c,
      cp_signed_authorization_response_required c, cp_session_management_allowed c,
      cp_authorization_code_ttl_seconds c, cp_expires_at c, consent_payload.more c)"])
      (rule injI, rule consent_payload.equality, simp_all)
qed

instance pushed_authorization_request_ext :: (countable) countable
proof
  show "\<exists>f :: 'a pushed_authorization_request_scheme \<Rightarrow> nat. inj f"
    by (rule exI [of _ "\<lambda>c. to_nat (par_client_id c, par_params c, par_dpop_jkt c,
      par_mtls_x5t_s256 c, par_issued_at c, par_expires_at c,
      pushed_authorization_request.more c)"]) (rule injI, rule pushed_authorization_request.equality, simp_all)
qed

instance authorization_code_state :: countable
  by countable_datatype

definition unary_text :: "'a::countable \<Rightarrow> string" where
  "unary_text x = replicate (to_nat x) CHR ''1''"

lemma unary_text_length [simp]: "from_nat (length (unary_text x)) = x"
  by (simp add: unary_text_def)

definition code_ref_codec :: "authorization_code_state codec" where
  "code_ref_codec =
     \<lparr>encode = (\<lambda>s. Some (unary_text (JObject
        [(''status'', JString (code_status_name s)), (''payload'', JString (unary_text s))]))),
      decode = (\<lambda>raw. case from_nat (length raw) of
        JObject m \<Rightarrow>
         (case map_of m ''payload'' of
            Some (JString t) \<Rightarrow> Some (from_nat (length t))
          | _ \<Rightarrow> None)
      | _ \<Rightarrow> None)\<rparr>"

definition authorization_ref :: "vk_world authorization_store" where
  "authorization_ref =
     \<lparr>az_vk = valkey_ref, az_namespace = ''nazo:'', az_digest = (\<lambda>s. s),
      az_consent_codec = unary_codec (\<lambda>_. True), az_par_codec = unary_codec (\<lambda>_. True),
      az_code_codec = code_ref_codec,
      az_payload_from_str = (\<lambda>t. case from_nat (length t) of
        CodePending p \<Rightarrow> Some p | CodeConsuming p _ \<Rightarrow> Some p | _ \<Rightarrow> None),
      az_state_from_str = (\<lambda>t. decode code_ref_codec t),
      az_cjson_decode = (\<lambda>t. Some (from_nat (length t))),
      az_cjson_encode = unary_text,
      az_rfc3339_millis = (\<lambda>_. ''now'')\<rparr>"

lemma authorization_ref_sel [simp]:
  "az_vk authorization_ref = valkey_ref" "az_namespace authorization_ref = ''nazo:''"
  "az_digest authorization_ref = (\<lambda>s. s)"
  "az_consent_codec authorization_ref = unary_codec (\<lambda>_. True)"
  "az_par_codec authorization_ref = unary_codec (\<lambda>_. True)"
  "az_code_codec authorization_ref = code_ref_codec"
  "az_cjson_decode authorization_ref t = Some (from_nat (length t))"
  "az_cjson_encode authorization_ref = unary_text"
  "az_rfc3339_millis authorization_ref t' = ''now''"
  by (simp_all add: authorization_ref_def)

lemma vk_elapses_view:
  "vk_elapses w w' \<Longrightarrow> vk_ref_view w' k = Some x \<Longrightarrow> vk_ref_view w k = Some x"
  using vk_elapses_keys [of w w']
  by (auto simp: vk_ref_view_def vk_elapses_def split: option.split_asm if_split_asm)

interpretation authorization_ref: code_server authorization_ref vk_ref_view "\<lambda>w. int (vw_ms w)"
  vk_elapses code_hash
proof (intro code_server.intro authorization_store_server.intro code_server_axioms.intro)
  show "valkey_server (az_vk authorization_ref) vk_ref_view (\<lambda>w. int (vw_ms w)) vk_elapses"
    unfolding authorization_ref_sel by (rule valkey_ref_elapses)
  fix w w' :: vk_world and k v d m state raw
  show "vk_ref_view w k = Some (v, Some d) \<Longrightarrow> int (vw_ms w) < d"
    by (auto simp: vk_ref_view_def split: option.splits if_splits)
  show "\<exists>m'. az_cjson_decode authorization_ref (az_cjson_encode authorization_ref (JObject m)) =
      Some (JObject m') \<and> (\<forall>k s. map_of m k = Some (JString s) \<longrightarrow> map_of m' k = Some (JString s))"
    by simp
  show "encode (az_code_codec authorization_ref) state = Some raw \<Longrightarrow>
      \<exists>table. lua_code_table authorization_ref raw = Some (table, code_status_name state)"
    by (auto simp: code_ref_codec_def lua_code_table_def)
  show "vk_elapses w w' \<Longrightarrow> code_pending authorization_ref vk_ref_view code_hash w' \<Longrightarrow>
      code_pending authorization_ref vk_ref_view code_hash w"
    using vk_elapses_view by (fastforce simp: code_pending_def split: option.split_asm)
qed

end
