(* ===== verification/Replay_Properties.thy ===== *)
theory Replay_Properties
  imports Server_Flows Token_Properties Authorization_Reference
begin

text \<open>
  What is accepted only once, and how often requests are counted: DPoP proofs, client assertions,
  request objects, attestation proofs, HTTP signatures and request counters, each across the
  protocol code and the Valkey adapter, with other workers acting between the calls.
\<close>

subsection \<open>DPoP\<close>

lemma validate_dpop_accepted:
  assumes "validate_authorization_server_dpop_at dl st new_nonce request policy now w =
    (Inr (Some jkt), w')"
  obtains v w1 scope where "verify_dpop_proof_at dl request now = Inr (Some v)"
    and "vdp_jkt v = jkt" and "validate_nonce st new_nonce policy (vdp_nonce v) w = (Inr (), w1)"
    and "replay_scope dl request v = Inr scope"
    and "ds_consume_replay st scope (vdp_jti v) DPOP_REPLAY_TTL_SECONDS w1 = (Inr True, w')"
  using assms unfolding validate_authorization_server_dpop_at_def
  by (auto split: sum.split_asm option.split_asm prod.split_asm if_split_asm)

lemma public_key_no_private:
  "public_dpop_decoding_key b64 key alg = Inr k \<Longrightarrow> \<not> has_private_key_material key"
  by (auto simp: public_dpop_decoding_key_def Let_def split: if_split_asm)

text \<open>C22. A DPoP proof that the authorization server accepts is a compact JWS whose signature
  verifies, over exactly its first two segments, under the public key in its header; the answered
  thumbprint is that key's and is the expected one if there is one; the key carries no private
  material; the claims name the request's method, one of its URIs, an issue time of at most 300
  seconds ago and 30 ahead, and the hash of the access token if there is one.\<close>

theorem dpop_proof_sound:
  assumes run: "validate_authorization_server_dpop_at dl st new_nonce request policy now w =
      (Inr (Some jkt), w')"
    and iat_type: "\<And>b c. dl_claims dl b = Some c \<Longrightarrow> is_i64 (dc_iat c)" and now: "is_i64 now"
  shows "\<exists>hp pp sp h cl alg key signature.
    dpr_proof request = Some (hp @ ''.'' @ pp @ ''.'' @ sp) \<and>
    Option.bind (b64_decode (dl_base64 dl) hp) (dl_header dl) = Some h \<and>
    Option.bind (b64_decode (dl_base64 dl) pp) (dl_claims dl) = Some cl \<and>
    b64_decode (dl_base64 dl) sp = Some signature \<and>
    public_dpop_decoding_key (dl_base64 dl) (dh_jwk h) alg = Inr key \<and>
    signature_verify (dl_sig dl) alg key (hp @ ''.'' @ pp) signature = Inr () \<and>
    jwk_thumbprint dl (dh_jwk h) = Inr jkt \<and> is_none_or (\<lambda>j. j = jkt) (dpr_expected_jkt request) \<and>
    \<not> has_private_key_material (dh_jwk h) \<and> dc_htm cl = dpr_method request \<and>
    (\<exists>u t. normalize_htu (dl_url dl) (dc_htu cl) = Inr u \<and> t \<in> set (dpr_target_uris request) \<and>
      normalize_htu (dl_url dl) t = Inr u) \<and>
    now - 300 \<le> dc_iat cl \<and> dc_iat cl \<le> now + 30 \<and>
    is_none_or (\<lambda>at. dc_ath cl = Some (b64_encode (dl_base64 dl) (dl_sha256 dl at)))
      (dpr_access_token request)"
proof -
  from validate_dpop_accepted [OF run] obtain v
    where v: "verify_dpop_proof_at dl request now = Inr (Some v)" "vdp_jkt v = jkt" .
  from verify_dpop_proof_at_ok [OF v(1)] obtain raw h cl si sg alg key where
    acc: "dpr_proof request = Some raw" "decode_proof dl raw = Inr (h, cl, si, sg)"
    "public_dpop_decoding_key (dl_base64 dl) (dh_jwk h) alg = Inr key"
    "signature_verify (dl_sig dl) alg key si sg = Inr ()"
    "jwk_thumbprint dl (dh_jwk h) = Inr (vdp_jkt v)"
    "is_none_or (\<lambda>j. j = vdp_jkt v) (dpr_expected_jkt request)"
    and claims: "validate_claims dl request cl now = Inr ()" .
  from decode_proof_signing_input [OF acc(2)] obtain hp pp sp
    where raw: "raw = hp @ ''.'' @ pp @ ''.'' @ sp" "si = hp @ ''.'' @ pp"
      "b64_decode (dl_base64 dl) sp = Some sg"
      "Option.bind (b64_decode (dl_base64 dl) hp) (dl_header dl) = Some h"
      "Option.bind (b64_decode (dl_base64 dl) pp) (dl_claims dl) = Some cl" by blast
  have "is_i64 (dc_iat cl)" using raw(5) iat_type by (auto simp: bind_eq_Some_conv)
  note iat = iat_within_window_bounds [OF validate_claims_ok(3) [OF claims] now this]
  show ?thesis
    using acc v(2) raw validate_claims_ok(1,2,5) [OF claims] iat public_key_no_private [OF acc(3)]
    by (intro exI [of _ hp] exI [of _ pp] exI [of _ sp] exI [of _ h] exI [of _ cl] exI [of _ alg]
      exI [of _ key] exI [of _ sg]) simp
qed

definition sample_dpop_lib :: dpop_lib where
  "sample_dpop_lib =
     \<lparr>dl_base64 = \<lparr>b64_encode = (\<lambda>s. s), b64_decode = Some, b64_decode_slice = (\<lambda>_. Some)\<rparr>,
      dl_url = \<lparr>url_parse = (\<lambda>s. Some
        \<lparr>url_scheme = ''https'', url_username = [], url_password = None, url_host_of = None,
         url_host_str = None, url_port = None, url_path = ''/'', url_query = None,
         url_fragment = None, url_origin = ''https://as'', url_text = s\<rparr>),
        url_without_query_fragment = url_text, url_append_pairs = (\<lambda>u _. url_text u)\<rparr>,
      dl_sig = \<lparr>sl_same_family = (\<lambda>_ _. True), sl_key_bytes = (\<lambda>_. Some ''k''),
        sl_verify_bytes = (\<lambda>_ _ message signature. message = ''h.c'' \<and> signature = ''s''),
        sl_verify_rsa = (\<lambda>_ _ _ _. False)\<rparr>,
      dl_sha256 = (\<lambda>s. s), dl_blake3_hex = (\<lambda>s. s),
      dl_header = (\<lambda>s. if s = ''h'' then Some \<lparr>dh_alg = ''EdDSA'', dh_typ = Some ''dpop+jwt'',
        dh_jwk = JObject [(''kty'', JString ''OKP''), (''crv'', JString ''Ed25519''),
          (''x'', JString (replicate 32 CHR ''x''))],
        dh_critical_extension_present = False\<rparr> else None),
      dl_claims = (\<lambda>s. if s = ''c'' then Some \<lparr>dc_htm = ''POST'', dc_htu = ''https://as/token'',
        dc_iat = 70, dc_jti = ''j'', dc_ath = None, dc_nonce = None\<rparr> else None),
      dl_members = (\<lambda>_. ''t'')\<rparr>"

definition sample_dpop_request :: dpop_proof_request where
  "sample_dpop_request =
     \<lparr>dpr_proof = Some ''h.c.s'', dpr_method = ''POST'', dpr_target_uris = [''https://as/token''],
      dpr_access_token = None, dpr_expected_jkt = None\<rparr>"

definition empty_server :: "nat \<Rightarrow> vk_world" where
  "empty_server ms = \<lparr>vw_keys = (\<lambda>_. None), vw_ms = ms\<rparr>"

lemma sample_dpop_verified:
  assumes "now \<in> {50, 100}"
  shows "verify_dpop_proof_at sample_dpop_lib sample_dpop_request now =
    Inr (Some \<lparr>vdp_jkt = ''t'', vdp_jti = ''j'', vdp_nonce = None, vdp_key_id = None\<rparr>)"
proof -
  have "decode_proof sample_dpop_lib ''h.c.s'' = Inr
      (\<lparr>dh_alg = ''EdDSA'', dh_typ = Some ''dpop+jwt'',
        dh_jwk = JObject [(''kty'', JString ''OKP''), (''crv'', JString ''Ed25519''),
          (''x'', JString (replicate 32 CHR ''x''))],
        dh_critical_extension_present = False\<rparr>,
       \<lparr>dc_htm = ''POST'', dc_htu = ''https://as/token'', dc_iat = 70, dc_jti = ''j'', dc_ath = None,
        dc_nonce = None\<rparr>, ''h.c'', ''s'')"
    by (simp add: decode_proof_def sample_dpop_lib_def nonempty_segment_def nth_segment_def)
  moreover have "\<not> is_blank ''h.c.s''" "trim ''j'' = ''j''"
    "eq_ignore_ascii_case ''dpop+jwt'' ''dpop+jwt''" by code_simp+
  ultimately show ?thesis using assms
    by (auto simp: verify_dpop_proof_at_def sample_dpop_request_def public_dpop_decoding_key_def
      dpop_algorithm_def json_get_str_def json_get_def has_private_key_material_def
      key_ops_allow_verification_def decode_array_32_def verify_dpop_signature_def
      signature_verify_def jwk_thumbprint_def validate_claims_def normalize_htu_def
      iat_within_window_def valid_jti_def sample_dpop_lib_def saturating_add_i64_def
      checked_sub_i64_def is_i64_def int_bounds DPOP_CLOCK_SKEW_SECONDS_def
      DPOP_MAX_PROOF_AGE_SECONDS_def MAX_DPOP_JTI_BYTES_def)
qed

lemma replay_ref_set_ex_nx:
  assumes "0 < n" and "int n \<le> i64_max"
  shows "set_ex_nx valkey_ref ns k v n w =
    (if vk_ref_view w (state_key ns k) = None
     then (Inr True, w\<lparr>vw_keys := (vw_keys w)(state_key ns k \<mapsto> (v, Some (vw_ms w + 1000 * n)))\<rparr>)
     else (Inr False, w))"
proof -
  have "min n (nat i64_max) = n" using assms(2) by (simp add: i64_max_def)
  then show ?thesis using assms(1)
    by (auto simp: set_ex_nx_def vk_set_nx_ex_command_def valkey_ref_def map_err_def and_then_def)
qed

lemma sample_dpop_accepted:
  "validate_authorization_server_dpop_at sample_dpop_lib (replay_dpop_store replay_ref) ''n''
     sample_dpop_request NonceOptional 50 (empty_server 50000) =
   (Inr (Some ''t''), (empty_server 50000)\<lparr>vw_keys :=
     [''nazo:oauth:dpop:jti:t:j'' \<mapsto> (''1'', Some 381000)]\<rparr>)"
proof -
  have "ds_consume_replay (replay_dpop_store replay_ref) ''t'' ''j'' DPOP_REPLAY_TTL_SECONDS
      (empty_server 50000) = (Inr True, (empty_server 50000)\<lparr>vw_keys :=
        [''nazo:oauth:dpop:jti:t:j'' \<mapsto> (''1'', Some 381000)]\<rparr>)"
    by (simp add: replay_dpop_store_def port_result_def consume_dpop_def consume_key_def
      replay_ref_set_ex_nx key_dpop_replay_def state_key_def vk_ref_view_def empty_server_def
      DPOP_REPLAY_TTL_SECONDS_def DPOP_MAX_PROOF_AGE_SECONDS_def DPOP_CLOCK_SKEW_SECONDS_def
      i64_max_def map_err_def)
  moreover have "replay_scope sample_dpop_lib sample_dpop_request
      \<lparr>vdp_jkt = ''t'', vdp_jti = ''j'', vdp_nonce = None, vdp_key_id = None\<rparr> = Inr ''t''"
    by (simp add: replay_scope_def sample_dpop_request_def)
  ultimately show ?thesis
    by (simp add: validate_authorization_server_dpop_at_def sample_dpop_verified validate_nonce_def)
qed

theorem dpop_proof_sound_witness:
  "(\<exists>w'. validate_authorization_server_dpop_at sample_dpop_lib (replay_dpop_store replay_ref) ''n''
     sample_dpop_request NonceOptional 50 (empty_server 50000) = (Inr (Some ''t''), w')) \<and>
   (\<exists>hp pp sp alg key signature. ''h.c.s'' = hp @ ''.'' @ pp @ ''.'' @ sp \<and>
     signature_verify (dl_sig sample_dpop_lib) alg key (hp @ ''.'' @ pp) signature = Inr ())"
proof -
  have "dl_claims sample_dpop_lib b = Some c \<Longrightarrow> is_i64 (dc_iat c)" for b c
    by (auto simp: sample_dpop_lib_def is_i64_def int_bounds split: if_split_asm)
  moreover have "is_i64 50" by (simp add: is_i64_def int_bounds)
  ultimately show ?thesis
    using dpop_proof_sound [OF sample_dpop_accepted] sample_dpop_accepted
    unfolding sample_dpop_request_def dpop_proof_request.select_convs option.inject by blast
qed






subsection \<open>Client assertions\<close>







subsection \<open>Request objects and attestation proofs\<close>

lemma consumed_request_object:
  assumes "consume_request_object_replay (valkey_authorization_state az rs rl) replay w = (Inr (), w')"
  shows "consume_request_object_key rs (key_jar_replay (rs_digest rs) (ror_client_id replay)
    (ror_jti replay)) (ror_expires_at replay) w = (Inr True, w')"
proof -
  let ?run = "consume_request_object_key rs (key_jar_replay (rs_digest rs) (ror_client_id replay)
    (ror_jti replay)) (ror_expires_at replay) w"
  obtain q w1 where q: "?run = (q, w1)" by fastforce
  then show ?thesis
    using assms unfolding consume_request_object_replay_def classify_request_object_replay_def
    by (cases q) (auto simp: valkey_authorization_state_def adapted_def consume_jar_def map_err_def
      split: if_split_asm)
qed

text \<open>C25. A signed request object is consumed at most once, ever: the server accepts it only before
  its own expiry, and its marker lasts until then, so no later presentation of the same object of
  the same client is accepted, whenever it comes and whatever clocks the workers have.\<close>

theorem request_object_consumed_once:
  assumes sys: "replay_adapter rs view clock_ms env"
    and first: "consume_request_object_replay (valkey_authorization_state az rs rl) replay w =
      (Inr (), w1)"
    and between: "env w1 w2"
    and second: "consume_request_object_replay (valkey_authorization_state az rs rl) replay w2 = (r, w3)"
    and exp: "0 \<le> ror_expires_at replay" "ror_expires_at replay < 2 ^ 53"
  shows "clock_ms w < ror_expires_at replay * 1000 \<and> r \<noteq> Inr ()"
proof
  let ?k = "state_key (rs_namespace rs)
    (key_jar_replay (rs_digest rs) (ror_client_id replay) (ror_jti replay))"
  from replay_adapter.request_object_marks [OF sys consumed_request_object [OF first] exp] obtain t
    where t: "t < ror_expires_at replay * 1000"
      "replay_server.marked view clock_ms env ?k t (ror_expires_at replay * 1000) w w1" .
  then show "clock_ms w < ror_expires_at replay * 1000"
    using replay_server.marked_after [OF replay_adapter.axioms(1) [OF sys]] by fastforce
  show "r \<noteq> Inr ()"
  proof
    assume r: "r = Inr ()"
    from replay_adapter.request_object_marks [OF sys consumed_request_object
        [OF second [unfolded r]] exp] obtain t'
      where t': "t' < ror_expires_at replay * 1000"
        "replay_server.marked view clock_ms env ?k t' (ror_expires_at replay * 1000) w2 w3" .
    from replay_server.marked_once [OF replay_adapter.axioms(1) [OF sys] t(2) between t'(2)] t'(1)
    show False by simp
  qed
qed

definition sample_replay :: request_object_replay where
  "sample_replay = \<lparr>ror_client_id = ''c'', ror_jti = ''j'', ror_expires_at = 100\<rparr>"

theorem request_object_consumed_once_witness:
  "\<exists>w1 w3 r. consume_request_object_replay
       (valkey_authorization_state authorization_ref replay_ref rate_ref) sample_replay
       (empty_server 50000) = (Inr (), w1) \<and>
     consume_request_object_replay
       (valkey_authorization_state authorization_ref replay_ref rate_ref) sample_replay
       (w1\<lparr>vw_ms := 99999\<rparr>) = (r, w3) \<and> r \<noteq> Inr ()"
proof -
  let ?go = "consume_request_object_replay
    (valkey_authorization_state authorization_ref replay_ref rate_ref) sample_replay"
  define w1 where "w1 = (empty_server 50000)\<lparr>vw_keys :=
     [''nazo:oauth:jar:jti:c:j'' \<mapsto> (''1'', Some 100000)]\<rparr>"
  have one: "?go (empty_server 50000) = (Inr (), w1)"
    by (simp add: consume_request_object_replay_def valkey_authorization_state_def adapted_def
      consume_jar_def consume_request_object_key_def eval_string_def REQUEST_OBJECT_REPLAY_SCRIPT_def
      vk_set_nx_exat_def valkey_ref_def vk_ref_view_def empty_server_def sample_replay_def
      key_jar_replay_def state_key_def i64_max_def replay_reply_def map_err_def
      classify_request_object_replay_def w1_def)
  obtain r w3 where two: "?go (w1\<lparr>vw_ms := 99999\<rparr>) = (r, w3)" by fastforce
  have "vk_elapses w1 (w1\<lparr>vw_ms := 99999\<rparr>)" by (simp add: vk_elapses_def w1_def empty_server_def)
  from request_object_consumed_once [OF replay_ref.replay_adapter_axioms one this two]
  have "r \<noteq> Inr ()" by (simp add: sample_replay_def)
  then show ?thesis using one two by blast
qed

lemma consumed_attestation:
  assumes "st_consume_client_attestation_proof (valkey_authorization_state az rs rl) c j window w =
    (Inr True, w')"
  shows "consume_client_attestation_proof rs c j window w = (Inr True, w')"
proof -
  obtain q w1 where q: "consume_client_attestation_proof rs c j window w = (q, w1)" by fastforce
  then show ?thesis
    using assms by (cases q) (auto simp: valkey_authorization_state_def adapted_def map_err_def)
qed

text \<open>A client attestation proof issued at \<open>iat\<close> is accepted only while the second of the
  Valkey server's clock lies between \<open>iat - 60\<close> and \<open>iat + 300\<close>, both included, and the
  same proof of the same client is never accepted a second time.\<close>

theorem attestation_proof_consumed_once:
  assumes sys: "replay_adapter rs view clock_ms env"
    and window: "from_verified_issued_at iat = Some window" and iat: "60 \<le> iat" "iat < 2 ^ 52"
    and first: "st_consume_client_attestation_proof (valkey_authorization_state az rs rl) client_id jti
      window w = (Inr True, w1)"
    and between: "env w1 w2"
    and second: "st_consume_client_attestation_proof (valkey_authorization_state az rs rl) client_id jti
      window w2 = (r, w3)"
  shows "(\<exists>t. clock_ms w \<le> t \<and> t \<le> clock_ms w1 \<and> iat - 60 \<le> t div 1000 \<and> t div 1000 \<le> iat + 300)
    \<and> r \<noteq> Inr True"
proof
  let ?k = "state_key (rs_namespace rs) (key_client_attestation_replay (rs_digest rs) client_id jti)"
  have w: "window_not_before window = iat - 60" "window_expires_at window = iat + 301"
    using window by (auto simp: from_verified_issued_at_def checked_sub_i64_def checked_add_i64_def
      FUTURE_TOLERANCE_SECONDS_def MAX_AGE_SECONDS_def split: if_split_asm option.split_asm)
  have bounds: "0 \<le> window_expires_at window" "window_expires_at window < 2 ^ 53"
    "0 \<le> window_not_before window" "window_not_before window < 2 ^ 53" using w iat by simp_all
  note marks = replay_adapter.client_attestation_marks [OF sys consumed_attestation bounds]
  from marks [OF first] obtain t
    where t: "window_not_before window * 1000 \<le> t" "t < window_expires_at window * 1000"
      "replay_server.marked view clock_ms env ?k t (window_expires_at window * 1000) w w1" .
  have "clock_ms w \<le> t" "t \<le> clock_ms w1"
    using replay_server.marked_after [OF replay_adapter.axioms(1) [OF sys] t(3)] by auto
  moreover have "iat - 60 \<le> t div 1000" "t div 1000 \<le> iat + 300" using t(1,2) w by simp_all
  ultimately show "\<exists>t. clock_ms w \<le> t \<and> t \<le> clock_ms w1 \<and> iat - 60 \<le> t div 1000 \<and>
    t div 1000 \<le> iat + 300" by blast
  show "r \<noteq> Inr True"
  proof
    assume r: "r = Inr True"
    from marks [OF second [unfolded r]] obtain t' where t': "t' < window_expires_at window * 1000"
      "replay_server.marked view clock_ms env ?k t' (window_expires_at window * 1000) w2 w3" .
    from replay_server.marked_once [OF replay_adapter.axioms(1) [OF sys] t(3) between t'(2)] t'(1)
    show False by simp
  qed
qed

theorem attestation_proof_consumed_once_witness:
  "\<exists>window w1 w3 r. from_verified_issued_at 100 = Some window \<and>
     st_consume_client_attestation_proof
       (valkey_authorization_state authorization_ref replay_ref rate_ref) ''c'' ''j'' window
       (empty_server 50000) = (Inr True, w1) \<and>
     st_consume_client_attestation_proof
       (valkey_authorization_state authorization_ref replay_ref rate_ref) ''c'' ''j'' window
       (w1\<lparr>vw_ms := 400999\<rparr>) = (r, w3) \<and> r \<noteq> Inr True"
proof -
  let ?window = "\<lparr>window_not_before = 40, window_expires_at = 401\<rparr>"
  let ?go = "st_consume_client_attestation_proof
    (valkey_authorization_state authorization_ref replay_ref rate_ref) ''c'' ''j'' ?window"
  define w1 where "w1 = (empty_server 50000)\<lparr>vw_keys :=
     [''nazo:oauth:client_assertion:jti:client-attestation:c:j'' \<mapsto> (''1'', Some 401000)]\<rparr>"
  have window: "from_verified_issued_at 100 = Some ?window"
    by (simp add: from_verified_issued_at_def checked_sub_i64_def checked_add_i64_def is_i64_def
      int_bounds FUTURE_TOLERANCE_SECONDS_def MAX_AGE_SECONDS_def)
  have one: "?go (empty_server 50000) = (Inr True, w1)"
    by (simp add: valkey_authorization_state_def adapted_def consume_client_attestation_proof_def
      eval_string_def CLIENT_ATTESTATION_PROOF_SCRIPT_def vk_set_nx_exat_def valkey_ref_def
      vk_ref_view_def empty_server_def key_client_attestation_replay_def
      key_private_key_jwt_replay_def state_key_def i64_max_def replay_reply_def map_err_def w1_def)
  obtain r w3 where two: "?go (w1\<lparr>vw_ms := 400999\<rparr>) = (r, w3)" by fastforce
  have "vk_elapses w1 (w1\<lparr>vw_ms := 400999\<rparr>)" by (simp add: vk_elapses_def w1_def empty_server_def)
  from attestation_proof_consumed_once [OF replay_ref.replay_adapter_axioms window _ _ one this two]
  have "r \<noteq> Inr True" by simp
  then show ?thesis using window one two by blast
qed

subsection \<open>HTTP signatures\<close>

text \<open>C27. The replay marker of a FAPI HTTP signature does not cover the signature's whole lifetime.
  A signature created the permitted five seconds ahead is accepted and consumed; in the last second
  in which its age is still accepted the marker is gone, and the signature is accepted and consumed
  again. This happens for every maximal age, with both clocks in step.\<close>

theorem fapi_signature_replay_gap:
  fixes now max_age :: nat
  assumes bounds: "now < 2 ^ 40" "max_age < 2 ^ 40"
  defines "policy \<equiv> \<lambda>t. \<lparr>vp_now = t, vp_max_age_seconds = int max_age,
    vp_future_skew_seconds = FAPI_HTTP_SIGNATURE_FUTURE_SKEW_SECONDS\<rparr>"
  shows "\<exists>w1 w2 w3. validate_time None (int now + 5) (policy (int now)) = Inr () \<and>
    consume_fapi_http_signature replay_ref tenant fingerprint (int max_age)
      (empty_server (now * 1000)) = (Inr True, w1) \<and>
    vk_elapses w1 w2 \<and> vw_ms w2 = (now + max_age + 5) * 1000 \<and>
    validate_time None (int now + 5) (policy (int (now + max_age + 5))) = Inr () \<and>
    consume_fapi_http_signature replay_ref tenant fingerprint (int max_age) w2 = (Inr True, w3)"
proof -
  let ?k = "state_key ''nazo:'' (key_fapi_http_signature_replay (\<lambda>_. ''t'') (\<lambda>s. s) tenant fingerprint)"
  let ?ttl = "max_age + 5"
  define w1 where "w1 = (empty_server (now * 1000))\<lparr>vw_keys :=
    [?k \<mapsto> (''1'', Some ((now + ?ttl) * 1000))]\<rparr>"
  let ?w2 = "w1\<lparr>vw_ms := (now + ?ttl) * 1000\<rparr>"
  have ttl: "checked_add_i64 (int max_age) FAPI_HTTP_SIGNATURE_FUTURE_SKEW_SECONDS = Some (int ?ttl)"
    "int ?ttl \<le> i64_max" using bounds(2)
    by (simp_all add: checked_add_i64_def FAPI_HTTP_SIGNATURE_FUTURE_SKEW_SECONDS_def is_i64_def
      int_bounds)
  have run: "consume_fapi_http_signature replay_ref tenant fingerprint (int max_age) w =
      set_ex_nx valkey_ref ''nazo:''
        (key_fapi_http_signature_replay (\<lambda>_. ''t'') (\<lambda>s. s) tenant fingerprint) ''1'' ?ttl w" for w
    unfolding consume_fapi_http_signature_def ttl(1) by (simp add: nat_add_distrib)
  have one: "consume_fapi_http_signature replay_ref tenant fingerprint (int max_age)
      (empty_server (now * 1000)) = (Inr True, w1)"
    unfolding run using ttl(2)
    by (simp add: replay_ref_set_ex_nx vk_ref_view_def empty_server_def w1_def algebra_simps)
  have "vk_ref_view ?w2 ?k = None" by (simp add: vk_ref_view_def w1_def)
  then obtain w3 where two:
    "consume_fapi_http_signature replay_ref tenant fingerprint (int max_age) ?w2 = (Inr True, w3)"
    unfolding run using ttl(2) by (simp add: replay_ref_set_ex_nx)
  have "vk_elapses w1 ?w2" by (simp add: vk_elapses_def w1_def empty_server_def)
  moreover have "validate_time None (int now + 5) (policy (int now)) = Inr ()"
    "validate_time None (int now + 5) (policy (int (now + max_age + 5))) = Inr ()"
    using bounds by (simp_all add: policy_def validate_time_def saturating_sub_i64_def
      saturating_add_i64_def int_bounds FAPI_HTTP_SIGNATURE_FUTURE_SKEW_SECONDS_def)
  ultimately show ?thesis using one two
    by (intro exI [of _ w1] exI [of _ ?w2] exI [of _ w3]) (simp add: algebra_simps)
qed

theorem fapi_signature_replay_gap_witness:
  "\<exists>w1 w2 w3. consume_fapi_http_signature replay_ref 0 ''f'' 60 (empty_server 1000000) = (Inr True, w1) \<and>
     vk_elapses w1 w2 \<and> vw_ms w2 = 1065000 \<and>
     consume_fapi_http_signature replay_ref 0 ''f'' 60 w2 = (Inr True, w3)"
  using fapi_signature_replay_gap [of 1000 60 0 "''f''"] by auto

subsection \<open>Request counters\<close>

text \<open>C28. A request counter bounds a window: counting from the call that was answered with one, of
  all calls for the same subject and dimension that are answered before the window of that call is
  over, at most \<open>limit\<close> are answered with a count of at most \<open>limit\<close>; indeed the answered
  counts strictly increase. Failed calls and calls of other workers may come in between.\<close>

theorem rate_limit_bounds_window:
  assumes sys: "rate_server rl view clock_ms env"
    and first: "rate_increment rl dimension subject window w = (Inr 1, w1)"
    and run: "rate_run rl env dimension subject window w1 cs w2"
    and early: "clock_ms w2 < clock_ms w + 1000 * int window"
  shows "sorted_wrt (<) (1 # cs) \<and> length (filter (\<lambda>c. c \<le> limit) (1 # cs)) \<le> limit"
proof -
  let ?k = "key_rate (rl_digest rl) (rate_dimension_name dimension) subject"
  have "clock_ms w1 < clock_ms w + 1000 * int window"
    using rate_server.rate_run_clock [OF sys run] early by simp
  from rate_server.increment_first [OF sys refl rate_key_rate
      first [unfolded rate_increment_def] this] obtain n d where d: "clock_ms w + 1000 * int window \<le> d"
      and n: "rate_server.counts view (state_key (rl_namespace rl) ?k) n d w1" by blast
  have pos: "1 \<le> n" using n by (simp add: rate_server.counts_def [OF sys])
  have "sorted_wrt (<) cs \<and> (\<forall>c \<in> set cs. n < int c)"
    using rate_server.rate_run_counts [OF sys run n] d early by simp
  with pos have sorted: "sorted_wrt (<) (1 # cs)" and "\<forall>c \<in> set (1 # cs). 0 < c" by auto
  then show ?thesis using sorted_below [of "1 # cs" limit] by blast
qed

theorem rate_limit_bounds_window_witness:
  "\<exists>w1 w2. rate_increment rate_ref RateToken ''s'' 60 (empty_server 1000) = (Inr 1, w1) \<and>
     rate_run rate_ref vk_elapses RateToken ''s'' 60 w1 [2] w2 \<and>
     length (filter (\<lambda>c. c \<le> 1) [1, 2 :: nat]) \<le> 1"
proof -
  let ?go = "rate_increment rate_ref RateToken ''s'' 60"
  let ?k = "''nazo:oauth:rate:token:s''"
  define w1 where "w1 = (empty_server 1000)\<lparr>vw_keys := [?k \<mapsto> (''1'', Some 61000)]\<rparr>"
  define w2 where "w2 = (empty_server 1000)\<lparr>vw_keys := [?k \<mapsto> (''2'', Some 61000)]\<rparr>"
  note run_defs = rate_increment_def increment_key_def eval_string_def INCREMENT_SCRIPT_def
    vk_incr_def vk_expire_def vk_set_keepttl_def rate_ref_def valkey_ref_def vk_ref_view_def
    empty_server_def key_rate_def state_key_def map_err_def i64_max_def decimal_digit_def byte_def ok_or_def parse_signed_def
    is_i64_def i64_min_def
    w1_def w2_def
  have digits: "int_text 1 = ''1''" "int_text 2 = ''2''" "parse_i64 ''1'' = Some 1"
    "trim ''s'' = ''s''" by code_simp+
  have one: "?go (empty_server 1000) = (Inr 1, w1)" by (simp add: run_defs digits)
  have "?go w1 = (Inr 2, w2)" by (simp add: run_defs digits)
  then have run: "rate_run rate_ref vk_elapses RateToken ''s'' 60 w1 [2] w2"
    by (auto intro!: rate_answered rate_idle)
  have "length (filter (\<lambda>c. c \<le> 1) [1, 2 :: nat]) \<le> 1"
    using rate_limit_bounds_window [OF rate_ref.rate_server_axioms one run, of 1]
    by (simp add: w2_def empty_server_def)
  then show ?thesis using one run by blast
qed

end
