(* ===== verification/Authorization_Properties.thy ===== *)
theory Authorization_Properties
  imports Authorization_Reference
begin

text \<open>
  Properties of the authorization flow: codes, decisions and their material across the service and
  the Valkey adapter, request objects, request policy, redirect URIs, resources and session state.
\<close>

subsection \<open>Codes and decisions on Valkey\<close>

text \<open>C29. The consumption of an authorization code begins at most once: when a call was answered
  with the code's payload, no later call is, as long as nobody else makes the code pending again.
  The adapter's own scripts keep to that: neither beginning a consumption nor marking its outcome
  makes a code pending that was not.\<close>

theorem authorization_code_begins_once:
  assumes sys: "code_server az view clock_ms env code_hash"
    and first: "begin_authorization_code az code_hash t w = (Inr (BeginConsuming p), w1)"
    and between: "env w1 w2"
    and second: "begin_authorization_code az code_hash t' w2 = (r, w3)"
    and final: "encode (az_code_codec az) outcome = Some raw" "code_status_name outcome \<noteq> ''pending''"
  shows "r \<noteq> Inr (BeginConsuming p') \<and>
    (\<forall>u u' x. (BEGIN_AUTHORIZATION_CODE_CONSUMPTION_SCRIPT az
          (state_key (az_namespace az) (key_authorization_code_hash code_hash)) now u = (x, u') \<or>
        MARK_AUTHORIZATION_CODE_SCRIPT az
          (state_key (az_namespace az) (key_authorization_code_hash code_hash)) raw ttl u = (x, u')) \<longrightarrow>
      code_pending az view code_hash u' \<longrightarrow> code_pending az view code_hash u)"
  using code_server.begin_once [OF sys first between second]
    code_server.begin_script_guarantee [OF sys] code_server.mark_script_guarantee [OF sys _ final]
  by blast

definition sample_code_payload :: code_payload where
  "sample_code_payload =
     \<lparr>co_redemption_contract_version = AUTHORIZATION_CODE_REDEMPTION_VERSION, co_code_id = ''id'',
      co_user_id = 7, co_client_id = ''c'', co_redirect_uri = ''https://c/cb'',
      co_redirect_uri_was_supplied = True, co_scopes = [''openid''], co_resource_indicators = [],
      co_authorization_details = JArray [], co_nonce = None, co_auth_time = 1, co_amr = [],
      co_oidc_sid = None, co_acr = None, co_userinfo_claim_requests = [],
      co_id_token_claim_requests = [], co_pkce = \<lparr>s256_code_challenge = Some ''x''\<rparr>, co_dpop_jkt = None,
      co_mtls_x5t_s256 = None, co_expires_at = 1000\<rparr>"

definition pending_world :: vk_world where
  "pending_world =
     \<lparr>vw_keys = [''nazo:oauth:auth_code:h'' \<mapsto>
        (the (encode code_ref_codec (CodePending sample_code_payload)), Some 5000)], vw_ms = 1000\<rparr>"

lemma parse_begin_consuming:
  "parse_authorization_code_begin_reply az (''consuming|'' @ x) =
     and_then (ok_or VkCorruptData (az_payload_from_str az x)) (\<lambda>p. Inr (BeginConsuming p))"
proof -
  have "strip_prefix (''consuming|'' @ x) ''consuming|'' = Some x" by (simp only: strip_prefix_Some)
  then show ?thesis unfolding parse_authorization_code_begin_reply_def by (simp only: option.case)
qed

lemma sample_begin:
  "\<exists>w1. begin_authorization_code authorization_ref ''h'' 0 pending_world =
     (Inr (BeginConsuming sample_code_payload), w1)"
proof -
  let ?s = "CodePending sample_code_payload"
  let ?key = "state_key ''nazo:'' (key_authorization_code_hash ''h'')"
  let ?raw = "the (encode code_ref_codec ?s)"
  have view: "vk_get valkey_ref ?key pending_world = Some ?raw"
    by (simp add: valkey_ref_def vk_ref_view_def pending_world_def state_key_def
      key_authorization_code_hash_def)
  have table: "lua_code_table authorization_ref ?raw = Some
      ([(''status'', JString ''pending''), (''payload'', JString (unary_text ?s))], ''pending'')"
    by (simp add: lua_code_table_def code_ref_codec_def)
  obtain w1 where script: "BEGIN_AUTHORIZATION_CODE_CONSUMPTION_SCRIPT authorization_ref ?key ''now''
      pending_world = (ReplyBulk (''consuming|'' @ unary_text ?s), w1)"
    by (simp add: BEGIN_AUTHORIZATION_CODE_CONSUMPTION_SCRIPT_def view table)
  have payload: "az_payload_from_str authorization_ref (unary_text ?s) = Some sample_code_payload"
    by (simp add: authorization_ref_def)
  have "eval_string valkey_ref
      (BEGIN_AUTHORIZATION_CODE_CONSUMPTION_SCRIPT authorization_ref ?key ''now'') pending_world =
    (Inr (''consuming|'' @ unary_text ?s), w1)"
    unfolding eval_string_def valkey_ref_def by (simp add: script map_err_def)
  then show ?thesis
    unfolding begin_authorization_code_def authorization_ref_sel
    by (simp only: prod.case sum.case parse_begin_consuming payload) (simp add: ok_or_def)
qed

theorem authorization_code_begins_once_witness:
  "\<exists>w1 w3 r. begin_authorization_code authorization_ref ''h'' 0 pending_world =
       (Inr (BeginConsuming sample_code_payload), w1) \<and>
     begin_authorization_code authorization_ref ''h'' 0 w1 = (r, w3) \<and>
     r \<noteq> Inr (BeginConsuming sample_code_payload)"
proof -
  obtain w1 where one: "begin_authorization_code authorization_ref ''h'' 0 pending_world =
     (Inr (BeginConsuming sample_code_payload), w1)" using sample_begin by blast
  obtain r w3 where two: "begin_authorization_code authorization_ref ''h'' 0 w1 = (r, w3)" by fastforce
  have raw: "encode (az_code_codec authorization_ref) CodeConsumed =
      Some (the (encode code_ref_codec CodeConsumed))" by (simp add: code_ref_codec_def)
  from authorization_code_begins_once [OF authorization_ref.code_server_axioms one vk_elapses_refl two
    raw] one two show ?thesis by fastforce
qed

context authorization_store_server
begin

text \<open>A write that is acknowledged took place at one instant of the call.\<close>

lemma set_ex_writes:
  assumes run: "set_ex (az_vk az) (az_namespace az) k v n w = (Inr (), w')" and n: "int n \<le> i64_max"
  obtains wa wb where "env w wa" and "env wb w'" and "clock_ms wb = clock_ms wa"
    and "view wb = (view wa)(state_key (az_namespace az) k \<mapsto> (v, Some (clock_ms wa + 1000 * int n)))"
proof -
  let ?cmd = "vk_set_ex_command (az_vk az) (state_key (az_namespace az) k) v n"
  have min: "min n (nat i64_max) = n" using n by (simp add: i64_max_def)
  from run obtain x where x: "vk_send (az_vk az) ?cmd w = (Inr x, w')"
    unfolding set_ex_def min by (auto split: prod.split_asm sum.split_asm)
  from sent [OF x] obtain wa wb where steps: "env w wa" "?cmd wa = (x, wb)" "env wb w'"
    and no_error: "\<And>m. x \<noteq> ReplyError m" by blast
  from steps(2) no_error have "vk_set_ex (az_vk az) (state_key (az_namespace az) k) v n wa = Some wb"
    by (auto simp: vk_set_ex_command_def split: option.split_asm)
  from set_ex [OF this] steps that show thesis by blast
qed

lemma code_stored:
  assumes "st_store_authorization_code (valkey_authorization_state az rs rl) h state n w = (Inr (), w')"
    and "int n \<le> i64_max"
  obtains wa wb raw where "env w wa" and "env wb w'" and "encode (az_code_codec az) state = Some raw"
    and "view wb = (view wa)(state_key (az_namespace az) (key_authorization_code_hash h)
      \<mapsto> (raw, Some (clock_ms wa + 1000 * int n)))"
proof -
  let ?run = "store_json az (az_code_codec az) (key_authorization_code_hash h) state n w"
  obtain q v where q: "?run = (q, v)" by fastforce
  with assms(1) have "?run = (Inr (), w')"
    by (cases q) (auto simp: valkey_authorization_state_def adapted_def map_err_def)
  then obtain raw where raw: "encode (az_code_codec az) state = Some raw"
    "set_ex (az_vk az) (az_namespace az) (key_authorization_code_hash h) raw n w = (Inr (), w')"
    by (auto simp: store_json_def split: option.split_asm)
  from set_ex_writes [OF raw(2) assms(2)] raw(1) that show thesis by blast
qed

end

text \<open>C30. A code is published only after its decision is durable. A committed approval carries the
  code that it belongs to: tenant, user, client, scopes, resources and details agree, the committed
  audit record names the code's hash and identifier; only after the repository answered that the
  decision is committed does the pending code appear on the server, with the code's lifetime. If
  the repository answers otherwise nothing is written.\<close>

theorem code_published_after_commit:
  assumes sys: "authorization_store_server az view clock_ms env"
    and run: "commit_decision al repo (valkey_authorization_state az rs rl) input (Some code) w =
      (Inr result, w')"
    and ttl: "int (pac_ttl_seconds code) \<le> i64_max"
  shows "\<exists>input' audit w1. ar_commit_decision repo input' w = (Inr result, w1) \<and>
    code_matches_decision input code \<and> adc_decision input \<noteq> DecideDeny \<and>
    adc_audit_fields input' = JObject audit \<and>
    map_of audit ''code_hash'' = Some (JString (pac_hash code)) \<and>
    map_of audit ''code_id'' = Some (JString (co_code_id (pac_payload code))) \<and>
    co_expires_at (pac_payload code) \<le> adc_retain_until input' \<and>
    (if result = DecisionCommitted then
       \<exists>wa wb raw. env w1 wa \<and> env wb w' \<and>
         encode (az_code_codec az) (CodePending (pac_payload code)) = Some raw \<and>
         view wb = (view wa)(state_key (az_namespace az) (key_authorization_code_hash (pac_hash code))
           \<mapsto> (raw, Some (clock_ms wa + 1000 * int (pac_ttl_seconds code))))
     else w' = w1)"
proof -
  from commit_decision_ok [OF run] obtain input' w1 where c: "adc_decision input \<noteq> DecideDeny"
    "bind_code_to_decision al input code = Inr input'" "ar_commit_decision repo input' w = (Inr result, w1)"
    "if result = DecisionCommitted then st_store_authorization_code (valkey_authorization_state az rs rl)
        (pac_hash code) (CodePending (pac_payload code)) (pac_ttl_seconds code) w1 = (Inr (), w')
     else w' = w1" by (auto split: if_split_asm)
  from bind_code_to_decision_ok [OF c(2)] obtain audit audit' raw where b:
    "code_matches_decision input code" "adc_audit_fields input = JObject audit"
    "al_code_text al (pac_payload code) = Some raw"
    "input' = input\<lparr>adc_audit_fields := JObject audit',
      adc_retain_until := max (adc_retain_until input) (co_expires_at (pac_payload code))\<rparr>"
    "map_of audit' = (map_of audit)
      (''code_id'' \<mapsto> JString (co_code_id (pac_payload code)),
       ''code_hash'' \<mapsto> JString (pac_hash code),
       ''code_payload_digest'' \<mapsto> JString (al_blake3_hex al raw))" .
  have "\<exists>wa wb raw. env w1 wa \<and> env wb w' \<and>
      encode (az_code_codec az) (CodePending (pac_payload code)) = Some raw \<and>
      view wb = (view wa)(state_key (az_namespace az) (key_authorization_code_hash (pac_hash code))
        \<mapsto> (raw, Some (clock_ms wa + 1000 * int (pac_ttl_seconds code))))"
    if "result = DecisionCommitted"
    by (rule authorization_store_server.code_stored [OF sys _ ttl]) (use c(4) that in auto)
  then show ?thesis using b c
    by (intro exI [of _ input'] exI [of _ audit'] exI [of _ w1]) (auto split: if_split_asm)
qed

definition sample_repository :: "vk_world authorization_repository" where
  "sample_repository =
     \<lparr>ar_commit_decision = (\<lambda>_ w. (Inr DecisionCommitted, w)), ar_grant = (\<lambda>_ _ w. (Inr None, w))\<rparr>"

definition sample_as_lib :: as_lib where
  "sample_as_lib =
     \<lparr>al_url_ok = (\<lambda>_. True), al_json_text = (\<lambda>_. Some ''j''), al_code_text = (\<lambda>_. Some ''c''),
      al_par_text = (\<lambda>_. Some ''p''), al_blake3_hex = (\<lambda>s. s)\<rparr>"

definition sample_commit :: authorization_decision_commit where
  "sample_commit =
     \<lparr>adc_tenant_id = 1, adc_user_id = 7, adc_client_id = ''c'', adc_request_id = ''r'',
      adc_pushed_request_uri = None, adc_valid_until = 500, adc_retain_until = 500,
      adc_decision = DecideApprove, adc_event_id = 3, adc_occurred_at = 100,
      adc_audit_fields = JObject [], adc_scopes = [''openid''], adc_resource_indicators = [],
      adc_authorization_details = JArray []\<rparr>"

definition sample_prepared_code :: prepared_authorization_code where
  "sample_prepared_code =
     \<lparr>pac_tenant_id = 1, pac_hash = ''h'', pac_payload = sample_code_payload, pac_ttl_seconds = 60\<rparr>"

abbreviation sample_state_store :: "vk_world authorization_state_store" where
  "sample_state_store \<equiv> valkey_authorization_state authorization_ref replay_ref rate_ref"

lemma sample_commit_runs:
  "\<exists>w'. commit_decision sample_as_lib sample_repository sample_state_store sample_commit
     (Some sample_prepared_code) w = (Inr DecisionCommitted, w')"
proof -
  have "\<exists>input'. bind_code_to_decision sample_as_lib sample_commit sample_prepared_code = Inr input'"
    by (simp add: bind_code_to_decision_def code_matches_decision_def sample_commit_def
      sample_prepared_code_def sample_code_payload_def sample_as_lib_def)
  moreover have "\<exists>w'. st_store_authorization_code sample_state_store ''h''
      (CodePending sample_code_payload) 60 w = (Inr (), w')"
    by (simp add: valkey_authorization_state_def adapted_def store_json_def code_ref_codec_def
      set_ex_def vk_set_ex_command_def valkey_ref_def map_err_def i64_max_def)
  ultimately show ?thesis
    by (auto simp: commit_decision_def sample_repository_def sample_commit_def sample_prepared_code_def)
qed

theorem code_published_after_commit_witness:
  "\<exists>w'. commit_decision sample_as_lib sample_repository sample_state_store sample_commit
       (Some sample_prepared_code) pending_world = (Inr DecisionCommitted, w') \<and>
     (\<exists>wb raw d. vk_elapses wb w' \<and> vk_ref_view wb ''nazo:oauth:auth_code:h'' = Some (raw, Some d))"
proof -
  obtain w' where run: "commit_decision sample_as_lib sample_repository sample_state_store
      sample_commit (Some sample_prepared_code) pending_world = (Inr DecisionCommitted, w')"
    using sample_commit_runs by blast
  have "int (pac_ttl_seconds sample_prepared_code) \<le> i64_max"
    by (simp add: sample_prepared_code_def i64_max_def)
  from code_published_after_commit [OF authorization_ref.authorization_store_server_axioms run this]
  obtain wb raw d where "vk_elapses wb w'" "vk_ref_view wb (state_key ''nazo:''
      (key_authorization_code_hash (pac_hash sample_prepared_code))) = Some (raw, Some d)" by auto
  then show ?thesis using run
    by (auto simp: sample_prepared_code_def state_key_def key_authorization_code_hash_def)
qed

context authorization_store_server
begin

lemma snapshot_loaded:
  assumes "adapted (load_snapshot az c k w) = (Inr (Some snapshot), w')"
  shows "decode c (ass_version snapshot) = Some (ass_payload snapshot) \<and>
    (\<exists>u t. env w u \<and> env u w' \<and>
      view u (state_key (az_namespace az) k) = Some (ass_version snapshot, t))"
proof -
  obtain q v where q: "load_snapshot az c k w = (q, v)" by fastforce
  with assms have "load_snapshot az c k w = (Inr (Some snapshot), w')"
    by (cases q) (auto simp: adapted_def map_err_def)
  then obtain raw where raw: "command_get (az_vk az) (az_namespace az) k w = (Inr (Some raw), w')"
    and "decode c raw = Some (ass_payload snapshot)" "ass_version snapshot = raw"
    by (auto simp: load_snapshot_def split: prod.split_asm sum.split_asm option.split_asm)
  moreover from raw obtain x where
    x: "vk_send (az_vk az) (vk_get_command (az_vk az) (state_key (az_namespace az) k)) w = (Inr x, w')"
    "vk_to_optional_string (az_vk az) x = Inr (Some raw)"
    by (auto simp: command_get_def map_err_def split: prod.split_asm sum.split_asm)
  moreover from sent [OF x(1)] obtain u u' where u: "env w u" "env u' w'"
    "vk_get_command (az_vk az) (state_key (az_namespace az) k) u = (x, u')" by blast
  ultimately show ?thesis
    by (auto simp: vk_get_command_def get to_optional_string split: option.split_asm)
qed

end

lemma discarded_material:
  assumes "discard_decision_material (valkey_authorization_state az rs rl) i p w = (Inr (), w')"
  shows "store_discard_decision_material az i (cap_consent_version p)
    (map_option (\<lambda>v. (the (cp_pushed_request_uri (cap_consent p)), v)) (cap_pushed_request_version p)) w =
    (Inr MaterialDiscarded, w')"
proof -
  let ?run = "store_discard_decision_material az i (cap_consent_version p)
    (map_option (\<lambda>v. (the (cp_pushed_request_uri (cap_consent p)), v)) (cap_pushed_request_version p)) w"
  obtain q v where q: "?run = (q, v)" by fastforce
  with assms [unfolded discard_decision_material_ok] show ?thesis
    by (cases q) (auto simp: valkey_authorization_state_def map_err_def)
qed

lemma previewed_version:
  assumes "preview_user_decision al st i user_id w = (Inr p, w')"
  shows "cap_pushed_request_version p = None \<longleftrightarrow> cp_pushed_request_uri (cap_consent p) = None"
  by (rule preview_user_decision_ok [OF assms]) (auto split: option.split_asm)

lemma previewed_request:
  assumes sys: "authorization_store_server az view clock_ms env"
    and run: "preview_user_decision al (valkey_authorization_state az rs rl) i user_id w = (Inr p, w')"
    and uri: "cp_pushed_request_uri (cap_consent p) = Some uri"
  obtains version pushed where "cap_pushed_request_version p = Some version"
    and "decode (az_par_codec az) version = Some pushed"
    and "is_none_or (\<lambda>d. pushed_authorization_request_digest al pushed = Inr d)
      (cp_pushed_request_digest (cap_consent p))"
    and "cap_valid_until p = min (cp_expires_at (cap_consent p)) (par_expires_at pushed)"
proof -
  let ?st = "valkey_authorization_state az rs rl"
  obtain w1 pushed where pushed: "preview_pushed_request al ?st (cap_consent p) uri w1 = (Inr pushed, w')"
    "cap_pushed_request_version p = Some (ass_version pushed)"
    "cap_valid_until p = min (cp_expires_at (cap_consent p)) (par_expires_at (ass_payload pushed))"
    by (rule preview_user_decision_ok [OF run]) (simp only: uri option.case, blast)
  note par = preview_pushed_request_ok [OF pushed(1)]
  have "adapted (load_snapshot az (az_par_codec az) (key_par (az_digest az) uri) w1) =
      (Inr (Some pushed), w')" using par(1) by (simp add: valkey_authorization_state_def)
  from authorization_store_server.snapshot_loaded [OF sys this] pushed par(2) that show thesis
    by (auto simp: is_none_or_iff)
qed

text \<open>Disposal after a decision removes exactly what was previewed. If a preview of a consent for
  a user succeeds and the disposal of that preview succeeds later, then at one instant of the
  disposal the consent and its pushed request, if it has one, were stored in exactly the previewed
  versions (texts that decode to the previewed consent and request), the consent is the user's, and
  the disposal removed these entries and no other.\<close>

theorem previewed_material_discarded:
  assumes sys: "authorization_store_server az view clock_ms env"
    and preview: "preview_user_decision al (valkey_authorization_state az rs rl) request_id user_id w =
      (Inr p, w1)"
    and discard: "discard_decision_material (valkey_authorization_state az rs rl) request_id p w2 =
      (Inr (), w3)"
  shows "\<exists>wa wb t. cp_user_id (cap_consent p) = user_id \<and>
    decode (az_consent_codec az) (cap_consent_version p) = Some (cap_consent p) \<and>
    env w2 wa \<and> env wb w3 \<and>
    view wa (state_key (az_namespace az) (key_consent request_id)) = Some (cap_consent_version p, t) \<and>
    (case cp_pushed_request_uri (cap_consent p) of
       None \<Rightarrow> view wb = (view wa)(state_key (az_namespace az) (key_consent request_id) := None)
     | Some uri \<Rightarrow>
         (\<exists>version pushed t'. cap_pushed_request_version p = Some version \<and>
           decode (az_par_codec az) version = Some pushed \<and>
           is_none_or (\<lambda>d. pushed_authorization_request_digest al pushed = Inr d)
             (cp_pushed_request_digest (cap_consent p)) \<and>
           cap_valid_until p = min (cp_expires_at (cap_consent p)) (par_expires_at pushed) \<and>
           view wa (state_key (az_namespace az) (key_par (az_digest az) uri)) = Some (version, t')) \<and>
         view wb = (view wa)(state_key (az_namespace az) (key_consent request_id) := None,
           state_key (az_namespace az) (key_par (az_digest az) uri) := None))"
proof -
  let ?st = "valkey_authorization_state az rs rl" and ?c = "cap_consent p"
  let ?ck = "state_key (az_namespace az) (key_consent request_id)"
  from preview_user_decision_ok [OF preview] obtain u1 where load:
    "st_load_consent ?st request_id w = (Inr (Some \<lparr>ass_payload = ?c, ass_version = cap_consent_version p\<rparr>), u1)"
    "cp_user_id ?c = user_id" .
  have consent: "decode (az_consent_codec az) (cap_consent_version p) = Some ?c"
    using authorization_store_server.snapshot_loaded [OF sys] load(1)
    by (fastforce simp: valkey_authorization_state_def)
  let ?pushed = "map_option (\<lambda>v. (the (cp_pushed_request_uri ?c), v)) (cap_pushed_request_version p)"
  from discarded_material [OF discard]
  have gone: "store_discard_decision_material az request_id (cap_consent_version p) ?pushed w2 =
    (Inr MaterialDiscarded, w3)" .
  from authorization_store_server.discard_runs [OF sys gone] obtain wa wb
    where steps: "env w2 wa" "env wb w3" and script: "DISCARD_DECISION_MATERIAL_SCRIPT (az_vk az) ?ck
      (cap_consent_version p) (map_option (\<lambda>(uri, e). (state_key (az_namespace az)
        (key_par (az_digest az) uri), e)) ?pushed) wa = (ReplyBulk ''discarded'', wb)" .
  note fin = authorization_store_server.discard_script [OF sys script]
  show ?thesis
  proof (cases "cp_pushed_request_uri ?c")
    case None
    with previewed_version [OF preview] have "cap_pushed_request_version p = None" by simp
    then show ?thesis using load(2) consent steps fin(1,2) None
      by (intro exI [of _ wa] exI [of _ wb]) auto
  next
    case (Some uri)
    from previewed_request [OF sys preview Some] obtain version pushed where
      v: "cap_pushed_request_version p = Some version" "decode (az_par_codec az) version = Some pushed"
      "is_none_or (\<lambda>d. pushed_authorization_request_digest al pushed = Inr d)
        (cp_pushed_request_digest ?c)"
      "cap_valid_until p = min (cp_expires_at ?c) (par_expires_at pushed)" .
    obtain t t' where "view wa ?ck = Some (cap_consent_version p, t)"
      "view wa (state_key (az_namespace az) (key_par (az_digest az) uri)) = Some (version, t')"
      using fin(1) fin(3) [of uri version] v(1) Some by auto
    then show ?thesis using load(2) consent steps fin(2) v Some
      by (intro exI [of _ wa] exI [of _ wb] exI [of _ t]) auto
  qed
qed

definition sample_consent :: consent_payload where
  "sample_consent =
     \<lparr>cp_request_id = ''r'', cp_user_id = 7, cp_client_id = ''c'', cp_client_name = ''C'',
      cp_redirect_uri = ''https://c/cb'', cp_redirect_uri_was_supplied = True,
      cp_scopes = [''openid''], cp_resource_indicators = [], cp_authorization_details = JArray [],
      cp_state = None, cp_response_mode = None, cp_nonce = None, cp_auth_time = 1, cp_amr = [],
      cp_oidc_sid = None, cp_acr = None, cp_userinfo_claim_requests = [],
      cp_id_token_claim_requests = [], cp_pkce = \<lparr>s256_code_challenge = Some ''x''\<rparr>,
      cp_dpop_jkt = None, cp_mtls_x5t_s256 = None, cp_pushed_request_uri = None,
      cp_pushed_request_digest = None, cp_signed_authorization_response_required = None,
      cp_session_management_allowed = None, cp_authorization_code_ttl_seconds = None,
      cp_expires_at = 1000\<rparr>"

definition consent_world :: vk_world where
  "consent_world =
     \<lparr>vw_keys = [''nazo:oauth:consent:r'' \<mapsto> (unary_text sample_consent, Some 5000)], vw_ms = 1000\<rparr>"

definition sample_preview :: consent_admission_preview where
  "sample_preview =
     \<lparr>cap_consent = sample_consent, cap_consent_version = unary_text sample_consent,
      cap_pushed_request_version = None, cap_valid_until = 1000, cap_retain_until = 1000\<rparr>"

lemma sample_previewed:
  "preview_user_decision al sample_state_store ''r'' 7 consent_world = (Inr sample_preview, consent_world)"
proof -
  have "load_snapshot authorization_ref (unary_codec (\<lambda>_. True)) (key_consent ''r'') consent_world =
      (Inr (Some \<lparr>ass_payload = sample_consent, ass_version = unary_text sample_consent\<rparr>), consent_world)"
    by (simp add: load_snapshot_def command_get_def vk_get_command_def valkey_ref_def vk_ref_view_def
      consent_world_def state_key_def key_consent_def map_err_def unary_codec_def Let_def)
  then have "st_load_consent sample_state_store ''r'' consent_world =
      (Inr (Some \<lparr>ass_payload = sample_consent, ass_version = unary_text sample_consent\<rparr>), consent_world)"
    by (simp add: valkey_authorization_state_def adapted_def map_err_def)
  then show ?thesis
    by (simp add: preview_user_decision_def Let_def sample_preview_def) (simp add: sample_consent_def)
qed

lemma sample_discarded:
  "\<exists>w'. discard_decision_material sample_state_store ''r'' sample_preview consent_world = (Inr (), w')"
  unfolding discard_decision_material_ok
  by (simp add: valkey_authorization_state_def store_discard_decision_material_def eval_string_def
    DISCARD_DECISION_MATERIAL_SCRIPT_def lua_discard_def sample_preview_def valkey_ref_def
    vk_ref_view_def consent_world_def state_key_def key_consent_def map_err_def
    parse_decision_material_discard_reply_def)

theorem previewed_material_discarded_witness:
  "\<exists>w3. preview_user_decision sample_as_lib sample_state_store ''r'' 7 consent_world =
       (Inr sample_preview, consent_world) \<and>
     discard_decision_material sample_state_store ''r'' sample_preview consent_world = (Inr (), w3) \<and>
     (\<exists>wa wb. vk_elapses consent_world wa \<and> vk_elapses wb w3 \<and>
       vk_ref_view wb = (vk_ref_view wa)(''nazo:oauth:consent:r'' := None))"
proof -
  obtain w3 where gone: "discard_decision_material sample_state_store ''r'' sample_preview
      consent_world = (Inr (), w3)" using sample_discarded by blast
  have none: "cp_pushed_request_uri (cap_consent sample_preview) = None"
    by (simp add: sample_preview_def sample_consent_def)
  from previewed_material_discarded [OF authorization_ref.authorization_store_server_axioms
    sample_previewed gone, of sample_as_lib] none gone sample_previewed [of sample_as_lib]
  show ?thesis by (auto simp: state_key_def key_consent_def)
qed

subsection \<open>Pushed requests and request objects\<close>

text \<open>C32. The digest of a pushed request identifies its content and not the order in which its
  parameters were held: two requests whose parameter names are distinct have the same digest
  exactly when they agree in client, key bindings, times and in their set of parameters. The
  serialiser is injective and total on such requests, and the hash does not collide on the two
  texts.\<close>

theorem pushed_request_digest_identifies:
  assumes serial: "\<And>c. al_par_text al c \<noteq> None"
      "\<And>c d. al_par_text al c = al_par_text al d \<Longrightarrow> c = d"
    and hash: "\<And>t t'. al_par_text al (canonical_pushed_request r) = Some t \<Longrightarrow>
      al_par_text al (canonical_pushed_request r') = Some t' \<Longrightarrow>
      al_blake3_hex al t = al_blake3_hex al t' \<Longrightarrow> t = t'"
    and maps: "distinct (map fst (par_params r))" "distinct (map fst (par_params r'))"
  shows "pushed_authorization_request_digest al r = pushed_authorization_request_digest al r' \<longleftrightarrow>
    par_client_id r = par_client_id r' \<and> set (par_params r) = set (par_params r') \<and>
    par_dpop_jkt r = par_dpop_jkt r' \<and> par_mtls_x5t_s256 r = par_mtls_x5t_s256 r' \<and>
    par_issued_at r = par_issued_at r' \<and> par_expires_at r = par_expires_at r'"
proof -
  obtain t t' where t: "al_par_text al (canonical_pushed_request r) = Some t"
    "al_par_text al (canonical_pushed_request r') = Some t'" using serial(1) by blast
  have "pushed_authorization_request_digest al r = pushed_authorization_request_digest al r' \<longleftrightarrow> t = t'"
    using t hash [OF t] by (auto simp: pushed_authorization_request_digest_def ok_or_def)
  also have "\<dots> \<longleftrightarrow> canonical_pushed_request r = canonical_pushed_request r'"
    using t serial(2) by (metis option.inject)
  also have "\<dots> \<longleftrightarrow> par_client_id r = par_client_id r' \<and>
      sort_key fst (par_params r) = sort_key fst (par_params r') \<and>
      par_dpop_jkt r = par_dpop_jkt r' \<and> par_mtls_x5t_s256 r = par_mtls_x5t_s256 r' \<and>
      par_issued_at r = par_issued_at r' \<and> par_expires_at r = par_expires_at r'"
    by (simp add: canonical_pushed_request_def)
  also have "sort_key fst (par_params r) = sort_key fst (par_params r') \<longleftrightarrow>
      set (par_params r) = set (par_params r')"
    using sort_key_fst_unique [OF maps] by (metis set_sort)
  finally show ?thesis .
qed

definition unary_as_lib :: as_lib where
  "unary_as_lib = sample_as_lib\<lparr>al_par_text := (\<lambda>c. Some (unary_text (cpr_client_id c, cpr_params c,
     cpr_dpop_jkt c, cpr_mtls_x5t_s256 c, cpr_issued_at c, cpr_expires_at c)))\<rparr>"

lemma unary_as_lib_inj: "al_par_text unary_as_lib c = al_par_text unary_as_lib d \<Longrightarrow> c = d"
proof -
  have "unary_text x = unary_text y \<Longrightarrow> x = y" for x y :: "'a::countable"
    by (metis unary_text_length)
  then show "al_par_text unary_as_lib c = al_par_text unary_as_lib d \<Longrightarrow> c = d"
    by (fastforce simp: unary_as_lib_def intro: canonical_pushed_authorization_request.equality)
qed

definition sample_pushed :: "(string \<times> string) list \<Rightarrow> pushed_authorization_request" where
  "sample_pushed ps =
     \<lparr>par_client_id = ''c'', par_params = ps, par_dpop_jkt = None, par_mtls_x5t_s256 = None,
      par_issued_at = 0, par_expires_at = 60\<rparr>"

theorem pushed_request_digest_identifies_witness:
  "pushed_authorization_request_digest unary_as_lib (sample_pushed [(''a'', ''1''), (''b'', ''2'')]) =
     pushed_authorization_request_digest unary_as_lib (sample_pushed [(''b'', ''2''), (''a'', ''1'')]) \<and>
   pushed_authorization_request_digest unary_as_lib (sample_pushed [(''a'', ''1'')]) \<noteq>
     pushed_authorization_request_digest unary_as_lib (sample_pushed [(''a'', ''2'')])"
proof -
  let ?p = "\<lambda>ps. sample_pushed ps" and ?ab = "[(''a'', ''1''), (''b'', ''2'')]"
    and ?ba = "[(''b'', ''2''), (''a'', ''1'')]"
  have total: "al_par_text unary_as_lib c \<noteq> None" for c by (simp add: unary_as_lib_def)
  have hash: "al_blake3_hex unary_as_lib t = al_blake3_hex unary_as_lib t' \<Longrightarrow> t = t'" for t t'
    by (simp add: unary_as_lib_def sample_as_lib_def)
  note id = pushed_request_digest_identifies [of unary_as_lib, OF total unary_as_lib_inj hash]
  have "pushed_authorization_request_digest unary_as_lib (?p ?ab) =
      pushed_authorization_request_digest unary_as_lib (?p ?ba)"
    by (subst id) (auto simp: sample_pushed_def)
  moreover have "pushed_authorization_request_digest unary_as_lib (?p [(''a'', ''1'')]) \<noteq>
      pushed_authorization_request_digest unary_as_lib (?p [(''a'', ''2'')])"
    by (subst id) (auto simp: sample_pushed_def)
  ultimately show ?thesis ..
qed

text \<open>C33. What an accepted request object protects. If the policy demands integrity-protected
  parameters, every parameter of the merged request other than the request object itself is a
  parameter of the signed object (the client is the object's, who is also its issuer), so no value
  from outside the signature is used; a parameter given both outside and inside has the same value
  (the same set of resources); and the object is unexpired and expires at most 360 seconds from
  now.\<close>

theorem request_object_integrity:
  assumes run: "normalize_request_object rl outer c policy = (Inr n, outer')"
    and strict: "rop_require_integrity_protected_parameters policy" and now: "i64_min \<le> rop_now policy"
  shows "\<exists>request expiry. request_object_parameters rl (ro_parameters c) = Inr request \<and>
    (\<forall>k. k \<noteq> ''request'' \<longrightarrow> nro_parameters n k =
      (if k = ''client_id'' then Some (ro_client_id c) else request k)) \<and>
    (\<forall>k v. k \<notin> {''request'', ''client_id''} \<longrightarrow> nro_parameters n k = Some v \<longrightarrow>
      k \<in> set AUTHORIZATION_REQUEST_PARAMETERS \<and> map_of (ro_parameters c) k \<noteq> None) \<and>
    (\<forall>k v v'. k \<in> set AUTHORIZATION_REQUEST_PARAMETERS - {''request'', ''request_uri'', ''client_id'', ''resource''} \<longrightarrow>
      outer k = Some v \<longrightarrow> request k = Some v' \<longrightarrow> v' = v) \<and>
    ro_client_id c = rop_client_id policy \<and> ro_iss c = Some (rop_client_id policy) \<and>
    ro_exp c = Some expiry \<and> rop_now policy < expiry \<and> expiry \<le> rop_now policy + 360 \<and>
    nro_replay n = map_option (\<lambda>jti. \<lparr>ror_client_id = ro_client_id c, ror_jti = jti,
      ror_expires_at = expiry\<rparr>) (ro_jti c)"
proof -
  from normalize_request_object_ok [OF run] obtain request where
    r: "request_object_parameters rl (ro_parameters c) = Inr request"
    "ro_client_id c = rop_client_id policy" "request_object_party_claims_valid c policy"
    "request_object_times_valid c policy"
    "rop_require_integrity_protected_parameters policy \<longrightarrow>
      \<not> outer_authorization_parameters_conflict rl outer request"
    "nro_parameters n =
      (if rop_require_integrity_protected_parameters policy
       then (\<lambda>k. if k \<in> {''request'', ''client_id''} then outer k else None)
       else (\<lambda>k. if k = ''request'' \<or> (request(''client_id'' \<mapsto> ro_client_id c)) k = None
             then outer k else None)) ++ request(''client_id'' \<mapsto> ro_client_id c)"
    "nro_replay n = map_option (\<lambda>jti. \<lparr>ror_client_id = ro_client_id c, ror_jti = jti,
      ror_expires_at = the (ro_exp c)\<rparr>) (ro_jti c)" .
  from request_object_times_bounds [OF r(4) now] obtain expiry nbf where
    t: "ro_exp c = Some expiry" "rop_now policy < expiry" "nbf \<le> rop_now policy + 30"
      "expiry \<le> nbf + 330" .
  have signed: "k \<in> set AUTHORIZATION_REQUEST_PARAMETERS \<and> map_of (ro_parameters c) k \<noteq> None"
    if "request k = Some v" for k v
  proof -
    obtain ps where ps: "collect_request_parameters rl (ro_parameters c) = Inr ps" "request = map_of ps"
      using r(1) by (auto simp: request_object_parameters_def and_then_Inr split: if_split_asm)
    have "k \<in> fst ` set ps" using that ps(2) by (force dest: map_of_SomeD)
    from collect_request_parameters_keys [OF ps(1) this] show ?thesis by (simp add: map_of_eq_None_iff)
  qed
  have agree: "v' = v" if "k \<in> set AUTHORIZATION_REQUEST_PARAMETERS -
      {''request'', ''request_uri'', ''client_id'', ''resource''}" "outer k = Some v" "request k = Some v'"
    for k v v'
    using r(5) strict that
    by (auto simp: outer_authorization_parameters_conflict_def parameter_conflicts_def list_ex_iff)
  have merged: "k \<noteq> ''request'' \<Longrightarrow> nro_parameters n k =
      (if k = ''client_id'' then Some (ro_client_id c) else request k)" for k
    by (simp add: r(6) strict map_add_def split: option.split)
  have inside: "k \<in> set AUTHORIZATION_REQUEST_PARAMETERS \<and> map_of (ro_parameters c) k \<noteq> None"
    if "k \<notin> {''request'', ''client_id''}" "nro_parameters n k = Some v" for k v
  proof (rule signed)
    from that merged [of k] show "request k = Some v" by simp
  qed
  have "ro_iss c = Some (rop_client_id policy)" "expiry \<le> rop_now policy + 360"
    "nro_replay n = map_option (\<lambda>jti. \<lparr>ror_client_id = ro_client_id c, ror_jti = jti,
      ror_expires_at = expiry\<rparr>) (ro_jti c)"
    using r(3,7) t by (simp_all add: request_object_party_claims_valid_def)
  moreover have "\<forall>k. k \<noteq> ''request'' \<longrightarrow> nro_parameters n k =
      (if k = ''client_id'' then Some (ro_client_id c) else request k)" using merged by blast
  moreover have "\<forall>k v. k \<notin> {''request'', ''client_id''} \<longrightarrow> nro_parameters n k = Some v \<longrightarrow>
      k \<in> set AUTHORIZATION_REQUEST_PARAMETERS \<and> map_of (ro_parameters c) k \<noteq> None"
    using inside by blast
  moreover have "\<forall>k v v'. k \<in> set AUTHORIZATION_REQUEST_PARAMETERS -
      {''request'', ''request_uri'', ''client_id'', ''resource''} \<longrightarrow>
      outer k = Some v \<longrightarrow> request k = Some v' \<longrightarrow> v' = v" using agree by blast
  ultimately show ?thesis using r(1,2) t(1,2)
    by (intro exI [of _ request] exI [of _ expiry] conjI) assumption+
qed

definition sample_url_lib :: url_lib where
  "sample_url_lib =
     \<lparr>url_parse = (\<lambda>s. Some
        \<lparr>url_scheme = ''https'', url_username = [], url_password = None,
         url_host_of = Some (HostDomain ''c''), url_host_str = Some ''c'', url_port = None,
         url_path = ''/'', url_query = None, url_fragment = None, url_origin = ''https://c'',
         url_text = s\<rparr>),
      url_without_query_fragment = url_text, url_append_pairs = (\<lambda>u _. url_text u)\<rparr>"

definition sample_web_lib :: web_lib where
  "sample_web_lib =
     \<lparr>lib_from_str = (\<lambda>_. None), lib_url = sample_url_lib, lib_text_list = unary_text_list,
      lib_base64 = base64url\<rparr>"

definition sample_ro_lib :: ro_lib where
  "sample_ro_lib =
     \<lparr>rl_web = sample_web_lib,
      rl_jwt = \<lparr>jw_decode_header = (\<lambda>_. Inl JwtOther), jw_decode = (\<lambda>_ _ _. Inl JwtOther),
        jw_insecure_decode = (\<lambda>_. Inl JwtOther)\<rparr>,
      rl_header = (\<lambda>_. None), rl_client = (\<lambda>_. None), rl_parse_algorithm = (\<lambda>_. None),
      rl_json_text = (\<lambda>_. [])\<rparr>"

definition sample_ro_claims :: request_object_claims where
  "sample_ro_claims =
     \<lparr>ro_client_id = ''c'', ro_iss = Some ''c'', ro_sub = None, ro_aud = Some (JString ''https://as''),
      ro_exp = Some 200, ro_nbf = Some 100, ro_iat = None, ro_jti = Some ''j'',
      ro_parameters = [(''redirect_uri'', JString ''https://c/cb''), (''scope'', JString ''openid'')]\<rparr>"

definition sample_ro_policy :: request_object_policy where
  "sample_ro_policy =
     \<lparr>rop_issuer = ''https://as'', rop_client_id = ''c'', rop_jti_policy = JtiRequiredForSignedJar,
      rop_require_integrity_protected_parameters = True, rop_require_issuer_audience = True,
      rop_now = 150\<rparr>"

lemma sample_ro_parameters:
  "request_object_parameters sample_ro_lib (ro_parameters sample_ro_claims) =
     Inr [''redirect_uri'' \<mapsto> ''https://c/cb'', ''scope'' \<mapsto> ''openid'']"
  by (simp add: request_object_parameters_def sample_ro_claims_def
    AUTHORIZATION_REQUEST_PARAMETERS_def plain_parameter_value_def fun_upd_twist)

lemma sample_normalized:
  "\<exists>n. normalize_request_object sample_ro_lib [''scope'' \<mapsto> ''openid'', ''state'' \<mapsto> ''evil'']
     sample_ro_claims sample_ro_policy = (Inr n, Map.empty)"
proof -
  have jti: "request_object_jti_valid sample_ro_claims sample_ro_policy"
    unfolding request_object_jti_valid_def sample_ro_claims_def by code_simp
  have agree: "\<not> outer_authorization_parameters_conflict sample_ro_lib
      [''scope'' \<mapsto> ''openid'', ''state'' \<mapsto> ''evil'']
      [''redirect_uri'' \<mapsto> ''https://c/cb'', ''scope'' \<mapsto> ''openid'']"
    by (simp add: outer_authorization_parameters_conflict_def AUTHORIZATION_REQUEST_PARAMETERS_def
      parameter_conflicts_def)
  have valid: "request_object_party_claims_valid sample_ro_claims sample_ro_policy"
    "request_object_audience_valid sample_ro_claims sample_ro_policy"
    "request_object_times_valid sample_ro_claims sample_ro_policy"
    by (simp_all add: request_object_party_claims_valid_def request_object_audience_valid_def
      request_object_audience_ok_def request_object_times_valid_def sample_ro_claims_def
      sample_ro_policy_def saturating_add_i64_def saturating_sub_i64_def int_bounds
      REQUEST_OBJECT_CLOCK_SKEW_SECONDS_def REQUEST_OBJECT_MAX_TTL_SECONDS_def)
  have "ro_client_id sample_ro_claims = rop_client_id sample_ro_policy"
    by (simp add: sample_ro_claims_def sample_ro_policy_def)
  then show ?thesis
    by (simp add: normalize_request_object_def jti sample_ro_parameters agree valid Let_def)
qed

theorem request_object_integrity_witness:
  "\<exists>n. normalize_request_object sample_ro_lib [''scope'' \<mapsto> ''openid'', ''state'' \<mapsto> ''evil'']
       sample_ro_claims sample_ro_policy = (Inr n, Map.empty) \<and>
     nro_parameters n ''state'' = None \<and> nro_parameters n ''client_id'' = Some ''c''"
proof -
  obtain n where n: "normalize_request_object sample_ro_lib
      [''scope'' \<mapsto> ''openid'', ''state'' \<mapsto> ''evil''] sample_ro_claims sample_ro_policy =
    (Inr n, Map.empty)" using sample_normalized by blast
  have "rop_require_integrity_protected_parameters sample_ro_policy" "i64_min \<le> rop_now sample_ro_policy"
    by (simp_all add: sample_ro_policy_def i64_min_def)
  from request_object_integrity [OF n this] have "nro_parameters n ''state'' = None"
    "nro_parameters n ''client_id'' = Some (ro_client_id sample_ro_claims)"
    unfolding sample_ro_parameters by auto
  then show ?thesis using n by (auto simp: sample_ro_claims_def)
qed

end
