(* ===== verification/Request_Properties.thy ===== *)
theory Request_Properties
  imports Authorization_Properties
begin

text \<open>
  Properties of the request policy: what a normalised authorization request satisfies and how its
  response is planned, sessions and re-authentication, redirect URIs, resource indicators, session
  state, and authorizations without a prompt.
\<close>

subsection \<open>Authorization requests\<close>

text \<open>C34. An accepted authorization request satisfies the client's policy, and its response can be
  delivered the way it demands. Scopes and resources are allowed to the client and no resource is
  repeated; a code challenge is a well-formed S256 challenge, and is missing only for a confidential
  OpenID client that need not use PKCE; authorization details and key thumbprint are well formed.
  Planning the response from the normalised mode succeeds, is a signed (JARM) response when the
  profile or the request demands one, a form post when that was requested, and else a redirect,
  and always carries the issuer.\<close>

theorem normalized_request_answerable:
  assumes run: "normalize_authorization_request lib ps client caps profile = Inr r"
    and input: "rpi_response_mode input = nar_response_mode r"
      "rpi_signed_response_required input = prof_signed_authorization_response_required profile"
      "rpi_jarm_available input = cap_jarm caps" "\<not> is_blank (rpi_client_id input)"
  shows "set (nar_scopes r) \<subseteq> set (acp_allowed_scopes client) \<and>
    set (nar_resources r) \<subseteq> set (acp_allowed_audiences client) \<and> distinct (nar_resources r) \<and>
    (case nar_code_challenge r of
       None \<Rightarrow> \<not> prof_pkce_required profile \<and> acp_client_type client = ''confidential'' \<and>
         ''openid'' \<in> set (nar_scopes r)
     | Some ch \<Rightarrow> ps ''code_challenge_method'' = Some ''S256'' \<and> is_valid_pkce_value ch) \<and>
    authorization_details_valid (\<lambda>u. url_parse (lib_url lib) u \<noteq> None) (nar_authorization_details r) \<and>
    is_none_or (is_valid_dpop_jkt (lib_base64 lib)) (nar_dpop_jkt r) \<and>
    (\<exists>plan. plan_authorization_response input = Inr plan \<and>
      (case plan of
         JarmResponse j \<Rightarrow>
           (prof_signed_authorization_response_required profile \<or> ps ''response_mode'' = Some ''jwt'') \<and>
           jar_issuer j = rpi_issuer input \<and> jar_code j = rpi_code input
       | FormPostResponse p \<Rightarrow> \<not> prof_signed_authorization_response_required profile \<and>
           ps ''response_mode'' = Some ''form_post'' \<and>
           (''iss'', rpi_issuer input) \<in> set (par_parameters p)
       | PlainResponse p \<Rightarrow> \<not> prof_signed_authorization_response_required profile \<and>
           ps ''response_mode'' \<in> {None, Some ''query''} \<and>
           (''iss'', rpi_issuer input) \<in> set (par_parameters p)))"
proof -
  note ok = normalize_authorization_request_ok [OF run]
  have mode: "requested_response_mode caps ps = Inr (nar_response_mode r)"
    "prof_signed_authorization_response_required profile \<longrightarrow> cap_jarm caps"
    "requested_code_challenge ps = Inr (nar_code_challenge r)"
    "nar_code_challenge r \<noteq> None \<or> \<not> prof_pkce_required profile \<and>
      acp_client_type client = ''confidential'' \<and> ''openid'' \<in> set (nar_scopes r)"
    using ok by blast+
  have parts: "set (nar_scopes r) \<subseteq> set (acp_allowed_scopes client)"
    "set (nar_resources r) \<subseteq> set (acp_allowed_audiences client)" "distinct (nar_resources r)"
    "authorization_details_valid (\<lambda>u. url_parse (lib_url lib) u \<noteq> None) (nar_authorization_details r)"
    "is_none_or (is_valid_dpop_jkt (lib_base64 lib)) (nar_dpop_jkt r)"
    using ok parse_resource_indicator_parameter_ok parse_request_authorization_details_ok
      requested_dpop_jkt_ok
    by (auto simp: is_subset_iff is_none_or_iff)
  have challenge: "case nar_code_challenge r of
       None \<Rightarrow> \<not> prof_pkce_required profile \<and> acp_client_type client = ''confidential'' \<and>
         ''openid'' \<in> set (nar_scopes r)
     | Some ch \<Rightarrow> ps ''code_challenge_method'' = Some ''S256'' \<and> is_valid_pkce_value ch"
    using mode(3,4) requested_code_challenge_ok [of ps] by (auto split: option.split)
  have "\<exists>plan. plan_authorization_response input = Inr plan \<and>
      (case plan of
         JarmResponse j \<Rightarrow>
           (prof_signed_authorization_response_required profile \<or> ps ''response_mode'' = Some ''jwt'') \<and>
           jar_issuer j = rpi_issuer input \<and> jar_code j = rpi_code input
       | FormPostResponse p \<Rightarrow> \<not> prof_signed_authorization_response_required profile \<and>
           ps ''response_mode'' = Some ''form_post'' \<and>
           (''iss'', rpi_issuer input) \<in> set (par_parameters p)
       | PlainResponse p \<Rightarrow> \<not> prof_signed_authorization_response_required profile \<and>
           ps ''response_mode'' \<in> {None, Some ''query''} \<and>
           (''iss'', rpi_issuer input) \<in> set (par_parameters p))"
    using mode(1,2) input
    by (auto simp: plan_authorization_response_def requested_response_mode_def Let_def
      split: option.split_asm if_split_asm)
  then show ?thesis using parts challenge by blast
qed

definition sample_request :: params where
  "sample_request =
     [''response_type'' \<mapsto> ''code'', ''scope'' \<mapsto> ''openid'', ''response_mode'' \<mapsto> ''form_post'',
      ''code_challenge'' \<mapsto> replicate 43 CHR ''x'', ''code_challenge_method'' \<mapsto> ''S256'']"

definition sample_client_policy :: authorization_client_policy where
  "sample_client_policy =
     \<lparr>acp_client_type = ''public'', acp_allowed_scopes = [''openid''], acp_allowed_audiences = []\<rparr>"

definition sample_capabilities :: authorization_capability_policy where
  "sample_capabilities =
     \<lparr>cap_authorization_details = True, cap_jarm = True, cap_native_sso = False, cap_form_post = True\<rparr>"

definition sample_response_input :: authorization_response_policy_input where
  "sample_response_input =
     \<lparr>rpi_issuer = ''https://as'', rpi_redirect_uri = ''https://c/cb'', rpi_client_id = ''c'',
      rpi_response_mode = Some ''form_post'', rpi_code = Some ''x'', rpi_error = None,
      rpi_state = None, rpi_ttl_seconds = 60, rpi_signed_response_required = False,
      rpi_jarm_available = True, rpi_session_management_available = False\<rparr>"

lemma sample_request_normalized:
  "\<exists>r. normalize_authorization_request sample_web_lib sample_request sample_client_policy
     sample_capabilities \<lparr>prof_signed_authorization_response_required = False,
       prof_pkce_required = True\<rparr> = Inr r \<and> nar_response_mode r = Some ''form_post''"
proof -
  have "requested_response_mode sample_capabilities sample_request = Inr (Some ''form_post'')"
    "requested_max_age sample_request = Inr None" "requested_prompt sample_request = Inr default_prompt"
    "requested_dpop_jkt (lib_base64 sample_web_lib) sample_request = Inr None"
    "\<exists>d. parse_request_authorization_details sample_web_lib sample_request = Inr d"
    "\<exists>rc. requested_claims_of (lib_from_str sample_web_lib) sample_request = Inr rc \<and> rc_acr rc = None"
    by (simp_all add: requested_response_mode_def requested_max_age_def requested_dpop_jkt_def
      parse_request_authorization_details_def requested_prompt_def parse_authorization_details_def
      requested_claims_of_def sample_request_def sample_capabilities_def map_err_def)
  moreover have "is_valid_pkce_value (replicate 43 CHR ''x'')" "parse_scope ''openid'' = [''openid'']"
    by code_simp+
  then have "requested_code_challenge sample_request = Inr (Some (replicate 43 CHR ''x''))"
    "requested_scopes sample_request = [''openid'']"
    by (simp_all add: requested_code_challenge_def requested_scopes_def sample_request_def)
  ultimately show ?thesis
    by (auto simp: normalize_authorization_request_def requested_acr_def is_subset_def
      parse_resource_indicator_parameter_def sample_client_policy_def sample_request_def
      sample_capabilities_def map_err_def)
qed

theorem normalized_request_answerable_witness:
  "\<exists>r p. normalize_authorization_request sample_web_lib sample_request sample_client_policy
       sample_capabilities \<lparr>prof_signed_authorization_response_required = False,
         prof_pkce_required = True\<rparr> = Inr r \<and>
     plan_authorization_response sample_response_input = Inr (FormPostResponse p)"
proof -
  let ?profile = "\<lparr>prof_signed_authorization_response_required = False, prof_pkce_required = True\<rparr>"
  obtain r where r: "normalize_authorization_request sample_web_lib sample_request
      sample_client_policy sample_capabilities ?profile = Inr r"
    "nar_response_mode r = Some ''form_post''" using sample_request_normalized by blast
  have "\<not> is_blank ''c''" by code_simp
  then have input: "rpi_response_mode sample_response_input = nar_response_mode r"
    "rpi_signed_response_required sample_response_input =
      prof_signed_authorization_response_required ?profile"
    "rpi_jarm_available sample_response_input = cap_jarm sample_capabilities"
    "\<not> is_blank (rpi_client_id sample_response_input)"
    using r(2) by (simp_all add: sample_response_input_def sample_capabilities_def)
  have mode: "sample_request ''response_mode'' = Some ''form_post''" by (simp add: sample_request_def)
  from normalized_request_answerable [OF r(1) input]
  show ?thesis
  proof (elim conjE exE)
    fix plan
    assume plan: "plan_authorization_response sample_response_input = Inr plan"
      and "case plan of
         JarmResponse j \<Rightarrow>
           (prof_signed_authorization_response_required ?profile \<or>
             sample_request ''response_mode'' = Some ''jwt'') \<and>
           jar_issuer j = rpi_issuer sample_response_input \<and> jar_code j = rpi_code sample_response_input
       | FormPostResponse p \<Rightarrow> \<not> prof_signed_authorization_response_required ?profile \<and>
           sample_request ''response_mode'' = Some ''form_post'' \<and>
           (''iss'', rpi_issuer sample_response_input) \<in> set (par_parameters p)
       | PlainResponse p \<Rightarrow> \<not> prof_signed_authorization_response_required ?profile \<and>
           sample_request ''response_mode'' \<in> {None, Some ''query''} \<and>
           (''iss'', rpi_issuer sample_response_input) \<in> set (par_parameters p)"
    then have "\<exists>p. plan = FormPostResponse p" using mode by (cases plan) simp_all
    then show ?thesis using r(1) plan by blast
  qed
qed

text \<open>C35. A session is enough for a request only if it meets the request's demands. If the decision is
  to continue, there is a session; with a positive maximal age it was authenticated at most that
  long ago; and if a fresh login was demanded (by the prompt, or by a maximal age of zero) the user
  authenticated strictly after the recorded start of that challenge and not in the future. A request
  with \<open>prompt=none\<close> never leads to a login page.\<close>

theorem session_continues_only_when_fresh:
  assumes types: "is_i64 now" "\<And>s. session = Some s \<Longrightarrow> is_i64 (as_auth_time s)"
  shows "(authorization_session_decision session prompt max_age started now = SessionContinue \<longrightarrow>
      (\<exists>s. session = Some s \<and>
        (\<forall>age. max_age = Some age \<longrightarrow> 0 < age \<longrightarrow> age < i64_max \<longrightarrow> now - age \<le> as_auth_time s) \<and>
        (prompt_login prompt \<or> prompt_select_account prompt \<or> max_age = Some 0 \<longrightarrow>
          (\<exists>start at. started = Some start \<and> as_auth_time_micros s = Some at \<and> 0 < start \<and>
            start < at \<and> at div 1000000 = as_auth_time s \<and> as_auth_time s \<le> now)))) \<and>
    (prompt_none prompt \<longrightarrow>
      authorization_session_decision session prompt max_age started now \<noteq> SessionLogin fresh)"
proof (intro conjI impI)
  assume "authorization_session_decision session prompt max_age started now = SessionContinue"
  then obtain s where s: "session = Some s" "\<not> max_age_expired s max_age now"
    and fresh: "prompt_login prompt \<or> prompt_select_account prompt \<or> max_age = Some 0 \<longrightarrow>
      reauthentication_completed s started now" by (auto simp: session_continue_iff)
  have "now - age \<le> as_auth_time s" if "max_age = Some age" "0 < age" "age < i64_max" for age
    using s(2) that types(1) types(2) [OF s(1)]
    by (auto simp: max_age_expired_def saturating_sub_i64_def is_i64_def int_bounds split: if_split_asm)
  moreover have "\<exists>start at. started = Some start \<and> as_auth_time_micros s = Some at \<and> 0 < start \<and>
      start < at \<and> at div 1000000 = as_auth_time s \<and> as_auth_time s \<le> now"
    if "reauthentication_completed s started now"
    using that by (auto simp: reauthentication_completed_def is_some_and_iff div_i64_pos)
  ultimately show "\<exists>s. session = Some s \<and>
        (\<forall>age. max_age = Some age \<longrightarrow> 0 < age \<longrightarrow> age < i64_max \<longrightarrow> now - age \<le> as_auth_time s) \<and>
        (prompt_login prompt \<or> prompt_select_account prompt \<or> max_age = Some 0 \<longrightarrow>
          (\<exists>start at. started = Some start \<and> as_auth_time_micros s = Some at \<and> 0 < start \<and>
            start < at \<and> at div 1000000 = as_auth_time s \<and> as_auth_time s \<le> now))"
    using s(1) fresh by blast
qed (use session_login_not_none in blast)

theorem session_continues_only_when_fresh_witness:
  "authorization_session_decision
     (Some \<lparr>as_auth_time = 100, as_auth_time_micros = Some 100000000\<rparr>)
     \<lparr>prompt_login = True, prompt_consent = False, prompt_select_account = False, prompt_none = False\<rparr>
     (Some 60) (Some 99000000) 150 = SessionContinue \<and> (150 - 60 :: int) \<le> 100"
proof -
  let ?s = "\<lparr>as_auth_time = 100, as_auth_time_micros = Some 100000000\<rparr> :: authorization_session"
  let ?prompt = "\<lparr>prompt_login = True, prompt_consent = False, prompt_select_account = False,
    prompt_none = False\<rparr> :: prompt_directives"
  have go: "authorization_session_decision (Some ?s) ?prompt (Some 60) (Some 99000000) 150 =
      SessionContinue"
    by (simp add: authorization_session_decision_def reauthentication_completed_def div_i64_def
      max_age_expired_def saturating_sub_i64_def int_bounds)
  have "is_i64 150" "\<And>s. Some ?s = Some s \<Longrightarrow> is_i64 (as_auth_time s)"
    by (auto simp: is_i64_def int_bounds)
  from session_continues_only_when_fresh [of 150 "Some ?s", OF this, of ?prompt "Some 60"] go
  have "(150 - 60 :: int) \<le> 100" by (fastforce simp: i64_max_def)
  with go show ?thesis by blast
qed

subsection \<open>Redirect URIs, resources and session state\<close>

text \<open>C36. Redirects go only where the client registered. For a client all of whose registered URIs
  passed the registration policy, a resolved redirect URI is one of them, or, for a public client,
  a loopback URL that agrees with a registered loopback URL in everything but the port. It parses,
  has no credentials and no fragment, and its scheme is https, or, for a public client, loopback
  http or a private-use scheme. Without a requested URI the single registered one is used.\<close>

theorem redirect_uri_resolution_safe:
  assumes registered: "\<And>r. r \<in> set uris \<Longrightarrow> validate_oauth_redirect_uri ul ctype r = Inr ()"
    and run: "resolve_registered_redirect_uri ul ctype uris requested = Inr v"
  shows "(case requested of None \<Rightarrow> uris = [v] | Some x \<Rightarrow> v = x) \<and>
    (v \<in> set uris \<or> ctype = ''public'' \<and>
      (\<exists>r p q. r \<in> set uris \<and> url_parse ul r = Some p \<and> url_parse ul v = Some q \<and>
        url_scheme q = ''http'' \<and> is_loopback_host q \<and> url_host_str q = url_host_str p \<and>
        url_path q = url_path p \<and> url_query q = url_query p)) \<and>
    (\<exists>u. url_parse ul v = Some u \<and> url_username u = [] \<and> url_password u = None \<and>
      url_fragment u = None \<and> (url_scheme u = ''https'' \<or> ctype = ''public'' \<and>
        (url_scheme u = ''http'' \<and> is_loopback_host u \<or> CHR ''.'' \<in> set (url_scheme u))))"
proof -
  from resolve_registered_redirect_uri_ok [OF run] obtain r
    where r: "r \<in> set uris" "oauth_redirect_uri_matches ul ctype r v" .
  from validate_oauth_redirect_uri_ok [OF registered [OF r(1)]] obtain p where
    p: "url_parse ul r = Some p" "url_username p = []" "url_password p = None" "url_fragment p = None"
    "url_scheme p = ''https'' \<or> (ctype = ''public'' \<and>
      (url_scheme p = ''http'' \<and> is_loopback_host p \<or> CHR ''.'' \<in> set (url_scheme p)))" .
  have source: "case requested of None \<Rightarrow> uris = [v] | Some x \<Rightarrow> v = x"
    using run by (auto simp: resolve_registered_redirect_uri_def split: option.splits list.splits if_splits)
  show ?thesis
  proof (cases "r = v")
    case True
    then show ?thesis using r(1) p source by auto
  next
    case False
    with r(2) p(1) obtain q where q: "ctype = ''public''" "url_parse ul v = Some q"
      "loopback_redirect_matches p q"
      by (auto simp: oauth_redirect_uri_matches_def split: option.split_asm if_split_asm)
    note m = q(3) [unfolded loopback_redirect_matches_def]
    have "\<exists>r p q. r \<in> set uris \<and> url_parse ul r = Some p \<and> url_parse ul v = Some q \<and>
        url_scheme q = ''http'' \<and> is_loopback_host q \<and> url_host_str q = url_host_str p \<and>
        url_path q = url_path p \<and> url_query q = url_query p"
      using r(1) p(1) q(2) m by (intro exI [of _ r] exI [of _ p] exI [of _ q]) simp
    moreover have "\<exists>u. url_parse ul v = Some u \<and> url_username u = [] \<and> url_password u = None \<and>
        url_fragment u = None \<and> (url_scheme u = ''https'' \<or> ctype = ''public'' \<and>
          (url_scheme u = ''http'' \<and> is_loopback_host u \<or> CHR ''.'' \<in> set (url_scheme u)))"
      using p(2-4) q m by (intro exI [of _ q]) simp
    ultimately show ?thesis using q(1) source by blast
  qed
qed

theorem redirect_uri_resolution_safe_witness:
  "resolve_registered_redirect_uri sample_url_lib ''confidential'' [''https://c/cb''] None =
     Inr ''https://c/cb'' \<and>
   (\<exists>u. url_parse sample_url_lib ''https://c/cb'' = Some u \<and> url_scheme u = ''https'')"
proof -
  have "trim ''https://c/cb'' = ''https://c/cb''" "\<not> has_explicit_userinfo ''https://c/cb''"
    by code_simp+
  then have "validate_oauth_redirect_uri sample_url_lib ''confidential'' r = Inr ()"
    if "r \<in> set [''https://c/cb'']" for r
    using that by (simp add: validate_oauth_redirect_uri_def parse_url_def reject_url_credentials_def
      sample_url_lib_def)
  moreover have run: "resolve_registered_redirect_uri sample_url_lib ''confidential''
      [''https://c/cb''] None = Inr ''https://c/cb''" by (simp add: resolve_registered_redirect_uri_def)
  ultimately show ?thesis
    using redirect_uri_resolution_safe [of "[''https://c/cb'']" sample_url_lib "''confidential''" None]
    by auto
qed

lemma strings_of_texts [simp]: "strings_of (map JString vs) = Some vs"
  by (induction vs) simp_all

text \<open>Resource indicators survive their transport. A non-empty list of resources in a request
  object is carried as one parameter and read back as the same list exactly when it is a valid list,
  absolute URIs without fragment and without repetition; an invalid list is refused when it is read
  back, and an empty one when it is carried.\<close>

theorem resource_indicators_round_trip:
  assumes json: "text_list_round_trip (lib_text_list (rl_web rl))"
  shows "(case resource_parameter_value rl (JArray (map JString vs)) of
      Inl e \<Rightarrow> vs = [] \<and> e = ArRequestObjectParameterType
    | Inr v \<Rightarrow> vs \<noteq> [] \<and>
        (parse_resource_indicator_parameter (lib_url (rl_web rl)) (lib_text_list (rl_web rl)) (Some v) =
           Inr ws \<longleftrightarrow> ws = vs \<and> distinct vs \<and>
             (\<forall>x \<in> set vs. is_some_and (\<lambda>u. url_fragment u = None) (url_parse (lib_url (rl_web rl)) x))))"
proof (cases "vs = []")
  case True
  then show ?thesis
    by (simp add: resource_parameter_value_def encode_resource_indicators_def ok_or_def)
next
  case False
  let ?tj = "lib_text_list (rl_web rl)"
  let ?v = "INTERNAL_RESOURCE_SET_PREFIX @ list_to_json ?tj vs"
  have "resource_parameter_value rl (JArray (map JString vs)) = Inr ?v"
    using False by (simp add: resource_parameter_value_def encode_resource_indicators_def ok_or_def)
  moreover have "strip_prefix ?v INTERNAL_RESOURCE_SET_PREFIX = Some (list_to_json ?tj vs)"
    by (simp only: strip_prefix_Some)
  ultimately show ?thesis
    using False json parse_resource_indicators_ok [of "lib_url (rl_web rl)" vs ws]
    by (simp add: parse_resource_indicator_parameter_def text_list_round_trip_def
      del: strip_prefix_Some)
qed

theorem resource_indicators_round_trip_witness:
  "\<exists>v. resource_parameter_value sample_ro_lib (JArray [JString ''https://a'', JString ''https://b'']) =
       Inr v \<and>
     parse_resource_indicator_parameter sample_url_lib unary_text_list (Some v) =
       Inr [''https://a'', ''https://b'']"
proof -
  let ?vs = "[''https://a'', ''https://b'']"
  have lib: "lib_text_list (rl_web sample_ro_lib) = unary_text_list"
    "lib_url (rl_web sample_ro_lib) = sample_url_lib"
    by (simp_all add: sample_ro_lib_def sample_web_lib_def)
  have "\<forall>x \<in> set ?vs. is_some_and (\<lambda>u. url_fragment u = None) (url_parse sample_url_lib x)"
    by (simp add: sample_url_lib_def)
  with resource_indicators_round_trip [of sample_ro_lib ?vs ?vs, unfolded lib,
      OF unary_text_list_round_trip]
  show ?thesis by (auto split: sum.split_asm)
qed

text \<open>The session state issued for a client tells whether the user's session at the provider is
  still the one it was issued for: checked with the origin of the same redirect URI it is unchanged
  exactly for the browser state it was issued with, provided the hash does not collide on the two
  inputs, and it is changed when there is no session any more.\<close>

theorem session_state_round_trip:
  fixes client_id client_origin random :: string and b64 :: base64
  defines "input \<equiv> \<lambda>st. client_id @ '' '' @ client_origin @ '' '' @ st @ '' '' @ b64_encode b64 random"
  assumes b64: "base64_engine b64"
    and issue: "issue_oidc_session_state sha256 b64 ul random client_id redirect_uri state = Some s"
    and origin: "oidc_redirect_uri_origin ul redirect_uri = Some client_origin"
    and hash: "sha256 (input state') = sha256 (input state) \<Longrightarrow> input state' = input state"
  shows "check_oidc_session_state sha256 b64 client_id client_origin s None = SessionChanged \<and>
    check_oidc_session_state sha256 b64 client_id client_origin s (Some state') =
      (if state' = state then SessionUnchanged else SessionChanged)"
proof -
  let ?salt = "b64_encode b64 random"
  have state: "oidc_session_state sha256 b64 client_id client_origin st ?salt =
      b64_encode b64 (sha256 (input st)) @ ''.'' @ ?salt" for st
    by (simp add: oidc_session_state_def input_def)
  then have s: "s = b64_encode b64 (sha256 (input state)) @ ''.'' @ ?salt"
    using issue origin by (simp add: issue_oidc_session_state_def)
  have "oidc_session_state sha256 b64 client_id client_origin state' ?salt = s \<longleftrightarrow> state' = state"
    using hash unfolding state s by (auto simp: base64_engine.encode_inject [OF b64] input_def)
  moreover have "rsplit_once CHR ''.'' s = Some (b64_encode b64 (sha256 (input state)), ?salt)"
    unfolding s by (rule base64_engine.encoded_salt_splits [OF b64])
  ultimately show ?thesis by (simp add: check_oidc_session_state_def)
qed

theorem session_state_round_trip_witness:
  "\<exists>s. issue_oidc_session_state (\<lambda>t. t) base64url sample_url_lib ''salt'' ''c'' ''https://c/cb'' ''one'' =
       Some s \<and>
     check_oidc_session_state (\<lambda>t. t) base64url ''c'' ''https://c'' s (Some ''one'') = SessionUnchanged \<and>
     check_oidc_session_state (\<lambda>t. t) base64url ''c'' ''https://c'' s (Some ''two'') = SessionChanged"
proof -
  have origin: "oidc_redirect_uri_origin sample_url_lib ''https://c/cb'' = Some ''https://c''"
    by (simp add: oidc_redirect_uri_origin_def sample_url_lib_def)
  then obtain s where s: "issue_oidc_session_state (\<lambda>t. t) base64url sample_url_lib ''salt'' ''c''
      ''https://c/cb'' ''one'' = Some s" by (simp add: issue_oidc_session_state_def)
  note check = session_state_round_trip [OF base64url.base64_engine_axioms s origin]
  show ?thesis using s check [of "''one''"] check [of "''two''"] by simp
qed

subsection \<open>Re-authentication and silent authorization\<close>

lemma reauth_timestamp_round_trip:
  assumes "is_i64 t"
  shows "reauth_timestamp (''micros-v1:'' @ int_text t) = Inr t"
proof -
  have "strip_prefix (''micros-v1:'' @ int_text t) ''micros-v1:'' = Some (int_text t)"
    by (simp only: strip_prefix_Some)
  then show ?thesis
    unfolding reauth_timestamp_def by (simp add: parse_int_text [OF assms] ok_or_def del: strip_prefix_Some)
qed

context authorization_store_server
begin

lemma reauth_taken:
  assumes "store_take_reauth_nonce az nonce w = (Inr x, w')"
  obtains u u' where "env w u" and "env u' w'"
    and "view u' = (view u)(state_key (az_namespace az) (key_reauth_nonce (az_digest az) nonce) := None)"
    and "case view u (state_key (az_namespace az) (key_reauth_nonce (az_digest az) nonce)) of
      None \<Rightarrow> x = None | Some (raw, _) \<Rightarrow> \<exists>t. reauth_timestamp raw = Inr t \<and> x = Some t"
proof -
  let ?k = "state_key (az_namespace az) (key_reauth_nonce (az_digest az) nonce)"
  from assms obtain y where y: "command_take (az_vk az) (az_namespace az)
      (key_reauth_nonce (az_digest az) nonce) w = (Inr y, w')"
    and x: "case y of None \<Rightarrow> x = None | Some raw \<Rightarrow> \<exists>t. reauth_timestamp raw = Inr t \<and> x = Some t"
    unfolding store_take_reauth_nonce_def
    by (auto simp: and_then_Inr split: prod.split_asm sum.split_asm option.split_asm)
  from y obtain reply where reply: "vk_send (az_vk az) (vk_getdel_command (az_vk az) ?k) w =
      (Inr reply, w')" "vk_to_optional_string (az_vk az) reply = Inr y"
    unfolding command_take_def by (auto simp: map_err_def split: prod.split_asm sum.split_asm)
  from sent [OF reply(1)] obtain u u' where u: "env w u" "env u' w'"
    "vk_getdel_command (az_vk az) ?k u = (reply, u')" by blast
  from u(3) reply(2) have "y = map_option fst (view u ?k)" "view u' = (view u)(?k := None)"
    by (auto simp: vk_getdel_command_def get del to_optional_string fun_upd_idem
      split: option.split_asm)
  with u(1,2) x that show thesis by (auto split: option.split_asm)
qed

end

lemma adapted_Inr: "adapted r = (Inr x, w) \<longleftrightarrow> r = (Inr x, w)"
  by (cases r; cases "fst r") (auto simp: adapted_def map_err_def)

text \<open>A re-authentication challenge is used at most once and proves its own start: after the
  challenge for a nonce was stored with a start time, taking it yields that very time or nothing,
  and taking it again yields nothing, whatever else happens, as long as others only take or let
  expire this nonce.\<close>

theorem reauth_nonce_single_use:
  fixes az :: "'w authorization_store" and view :: "'w \<Rightarrow> string \<Rightarrow> (string \<times> int option) option"
    and nonce :: string
  defines "k \<equiv> state_key (az_namespace az) (key_reauth_nonce (az_digest az) nonce)"
  assumes sys: "authorization_store_server az view clock_ms env"
    and others: "\<And>u u'. env u u' \<Longrightarrow> view u' k = view u k \<or> view u' k = None"
    and store: "st_store_reauth_nonce (valkey_authorization_state az rs rl) nonce t n w = (Inr (), w1)"
    and range: "is_i64 t" "int n \<le> i64_max"
    and take1: "env w1 w2" "st_take_reauth_nonce (valkey_authorization_state az rs rl) nonce w2 = (Inr x, w3)"
    and take2: "env w3 w4" "st_take_reauth_nonce (valkey_authorization_state az rs rl) nonce w4 = (Inr y, w5)"
  shows "(x = None \<or> x = Some t) \<and> y = None"
proof -
  have runs: "set_ex (az_vk az) (az_namespace az) (key_reauth_nonce (az_digest az) nonce)
      (''micros-v1:'' @ int_text t) n w = (Inr (), w1)"
    "store_take_reauth_nonce az nonce w2 = (Inr x, w3)" "store_take_reauth_nonce az nonce w4 = (Inr y, w5)"
    using store take1(2) take2(2)
    by (auto simp: valkey_authorization_state_def adapted_Inr store_store_reauth_nonce_def)
  from authorization_store_server.set_ex_writes [OF sys runs(1) range(2)] obtain wa wb
    where a: "env w wa" "env wb w1" "clock_ms wb = clock_ms wa" "view wb =
      (view wa)(k \<mapsto> (''micros-v1:'' @ int_text t, Some (clock_ms wa + 1000 * int n)))"
    unfolding k_def .
  from authorization_store_server.reauth_taken [OF sys runs(2)] obtain u u' where
    u: "env w2 u" "env u' w3" "view u' = (view u)(k := None)"
    "case view u k of None \<Rightarrow> x = None | Some (raw, _) \<Rightarrow> \<exists>t. reauth_timestamp raw = Inr t \<and> x = Some t"
    unfolding k_def .
  from authorization_store_server.reauth_taken [OF sys runs(3)] obtain v v' where
    v: "env w4 v" "env v' w5" "view v' = (view v)(k := None)"
    "case view v k of None \<Rightarrow> y = None | Some (raw, _) \<Rightarrow> \<exists>t. reauth_timestamp raw = Inr t \<and> y = Some t"
    unfolding k_def .
  have "view u k = view wb k \<or> view u k = None"
    using others [OF a(2)] others [OF take1(1)] others [OF u(1)] by auto
  then have "x = None \<or> x = Some t"
    using a(4) u(4) reauth_timestamp_round_trip [OF range(1)] by auto
  moreover have "view v k = None"
    using others [OF u(2)] others [OF take2(1)] others [OF v(1)] u(3) by auto
  ultimately show ?thesis using v(4) by simp
qed

theorem reauth_nonce_single_use_witness:
  "\<exists>w1 x w3 y w5. st_store_reauth_nonce sample_state_store ''n'' 5000000 60 consent_world = (Inr (), w1) \<and>
     st_take_reauth_nonce sample_state_store ''n'' w1 = (Inr x, w3) \<and>
     st_take_reauth_nonce sample_state_store ''n'' w3 = (Inr y, w5) \<and>
     (x = None \<or> x = Some 5000000) \<and> y = None"
proof -
  note run_defs = valkey_authorization_state_def adapted_def store_store_reauth_nonce_def set_ex_def
    vk_set_ex_command_def store_take_reauth_nonce_def command_take_def vk_getdel_command_def
    valkey_ref_def vk_ref_view_def map_err_def i64_max_def consent_world_def state_key_def
    key_reauth_nonce_def
  let ?raw = "''micros-v1:'' @ int_text 5000000"
  define w1 where "w1 = consent_world\<lparr>vw_keys := (vw_keys consent_world)
    (''nazo:oauth:authorization:reauth:n'' \<mapsto> (?raw, Some 61000))\<rparr>"
  have ts: "reauth_timestamp ?raw = Inr 5000000"
    by (rule reauth_timestamp_round_trip) (simp add: is_i64_def int_bounds)
  have one: "st_store_reauth_nonce sample_state_store ''n'' 5000000 60 consent_world = (Inr (), w1)"
    by (simp add: run_defs w1_def)
  obtain x w3 where two: "st_take_reauth_nonce sample_state_store ''n'' w1 = (Inr x, w3)"
    and w3: "vk_ref_view w3 ''nazo:oauth:authorization:reauth:n'' = None"
    using ts by (simp add: run_defs w1_def)
  obtain y w5 where three: "st_take_reauth_nonce sample_state_store ''n'' w3 = (Inr y, w5)"
    using w3 by (simp add: run_defs)
  have others: "vk_elapses u u' \<Longrightarrow> vk_ref_view u' k = vk_ref_view u k \<or> vk_ref_view u' k = None"
    for u u' :: vk_world and k
    using vk_elapses_view [of u u' k] by (cases "vk_ref_view u' k") auto
  have "is_i64 5000000" "int 60 \<le> i64_max" by (simp_all add: is_i64_def int_bounds)
  from reauth_nonce_single_use [OF authorization_ref.authorization_store_server_axioms others one this
    vk_elapses_refl two vk_elapses_refl three]
  show ?thesis using one two three by blast
qed

text \<open>C40. An authorization without a prompt stays within what the user granted before. If the stored
  grant is found to cover a request whose authorization details are valid, every requested scope
  and resource is in the stored grant, and the requested details are empty or are exactly the
  stored ones and not of a high-risk kind.\<close>

theorem silent_authorization_within_grant:
  assumes run: "grant_covers al repo user_id client_id scopes resources details w = (covers, w')"
    and issue: "prompt_none_decision_of covers = Inr IssueAuthorizationCode"
    and valid: "validate_authorization_details (al_url_ok al) details = Inr ()"
    and json: "\<And>v. al_json_text al v \<noteq> None" "\<And>v v'. al_json_text al v = al_json_text al v' \<Longrightarrow> v = v'"
  shows "\<exists>stored. ar_grant repo user_id client_id w = (Inr (Some stored), w') \<and>
    (\<forall>s \<in> set scopes. \<exists>vs. sag_scopes stored = JArray vs \<and> JString s \<in> set vs) \<and>
    (\<forall>s \<in> set resources. \<exists>vs. sag_resource_indicators stored = JArray vs \<and> JString s \<in> set vs) \<and>
    (authorization_details_empty details \<or>
      \<not> high_risk_authorization_details details \<and> sag_authorization_details stored = details)"
proof -
  have covered: "covers = Inr True"
    using issue by (auto simp: prompt_none_decision_of_def split: sum.split_asm if_split_asm)
  obtain g w1 where g: "ar_grant repo user_id client_id w = (g, w1)" by fastforce
  with run covered obtain stored where stored: "g = Inr (Some stored)" "w1 = w'"
    "stored_grant_covers_requested_authorization al stored scopes resources details"
    by (cases g) (auto simp: grant_covers_def is_some_and_iff)
  have canon: "canonical_authorization_details al details = al_json_text al details"
    using valid by (simp add: canonical_authorization_details_def)
  have "sag_authorization_details stored = details"
    if "canonical_authorization_details al (sag_authorization_details stored) =
      canonical_authorization_details al details"
    using that json(1) [of details] json(2) valid
    by (auto simp: canonical_authorization_details_def split: sum.split_asm)
  with stored g show ?thesis
    by (auto simp: stored_grant_covers_requested_authorization_def Let_def list_all_iff
      json_strings_iff split: if_split_asm)
qed

definition granted_scopes :: stored_authorization_grant where
  "granted_scopes =
     \<lparr>sag_scopes = JArray [JString ''openid''], sag_resource_indicators = JArray [],
      sag_authorization_details = JArray []\<rparr>"

theorem silent_authorization_within_grant_witness:
  "grant_covers (sample_as_lib\<lparr>al_json_text := (\<lambda>v. Some (unary_text v))\<rparr>)
       (sample_repository\<lparr>ar_grant := (\<lambda>_ _ w. (Inr (Some granted_scopes), w))\<rparr>) 7 3 [''openid''] []
       (JArray []) consent_world = (Inr True, consent_world) \<and>
   (\<exists>stored. ar_grant (sample_repository\<lparr>ar_grant := (\<lambda>_ _ w. (Inr (Some granted_scopes), w))\<rparr>)
         7 3 consent_world = (Inr (Some stored), consent_world) \<and>
      (\<forall>s \<in> set [''openid'']. \<exists>vs. sag_scopes stored = JArray vs \<and> JString s \<in> set vs) \<and>
      (\<forall>s \<in> set []. \<exists>vs. sag_resource_indicators stored = JArray vs \<and> JString s \<in> set vs) \<and>
      (authorization_details_empty (JArray []) \<or>
        \<not> high_risk_authorization_details (JArray []) \<and> sag_authorization_details stored = JArray []))"
proof -
  let ?al = "sample_as_lib\<lparr>al_json_text := (\<lambda>v. Some (unary_text v))\<rparr>"
  let ?repo = "sample_repository\<lparr>ar_grant := (\<lambda>_ _ w. (Inr (Some granted_scopes), w))\<rparr>"
  have run: "grant_covers ?al ?repo 7 3 [''openid''] [] (JArray []) consent_world = (Inr True, consent_world)"
    by (simp add: grant_covers_def stored_grant_covers_requested_authorization_def json_strings_def
      granted_scopes_def map_filter_simps authorization_details_empty_def)
  have json: "al_json_text ?al v \<noteq> None" "al_json_text ?al v = al_json_text ?al v' \<Longrightarrow> v = v'" for v v'
    by (auto dest: arg_cong [where f = "\<lambda>t. from_nat (length t) :: json"])
  have "validate_authorization_details (al_url_ok ?al) (JArray []) = Inr ()"
    "prompt_none_decision_of (Inr True) = Inr IssueAuthorizationCode"
    by (simp_all add: validate_authorization_details_def prompt_none_decision_of_def)
  then have "\<exists>stored. ar_grant ?repo 7 3 consent_world = (Inr (Some stored), consent_world) \<and>
    (\<forall>s \<in> set [''openid'']. \<exists>vs. sag_scopes stored = JArray vs \<and> JString s \<in> set vs) \<and>
    (\<forall>s \<in> set []. \<exists>vs. sag_resource_indicators stored = JArray vs \<and> JString s \<in> set vs) \<and>
    (authorization_details_empty (JArray []) \<or>
      \<not> high_risk_authorization_details (JArray []) \<and> sag_authorization_details stored = JArray [])"
    by (intro silent_authorization_within_grant [OF run]) (assumption | rule json | erule json(2))+
  with run show ?thesis by (intro conjI)
qed

end
