(* ===== verification/Runtime_Modules.thy ===== *)
theory Runtime_Modules
  imports Prelude "HOL-Library.AList"
begin

text \<open>
  Optional parts of the server can be switched on and off while it runs. This theory models the
  crate that decides what a request may still use
  (\<open>src/crates/runtime-capabilities/src\<close>): the catalog with its dependency check
  (\<open>model.rs\<close>, \<open>policy.rs\<close>, \<open>catalog.rs\<close>), the published snapshots and
  their revisions (\<open>snapshot.rs\<close>, \<open>transition.rs\<close>), and the leases by which a
  request keeps a module alive (\<open>lease.rs\<close>). A \<open>BTreeSet\<close> of modules is a set,
  walked in the order of \<open>ModuleId::ALL\<close>; the catalog holds every module, so a
  \<open>BTreeMap\<close> over it is a function. The wakers that resume a waiting task are not
  modelled: what a waiter waits for is \<open>lease_idle\<close>.
\<close>

subsection \<open>Modules and the catalog\<close>

datatype module_id =
    ModDeviceAuthorization | ModTokenExchange | ModJwtBearerGrant | ModCiba
  | ModDynamicClientRegistration | ModRequestObjects | ModJarm | ModAuthorizationDetails
  | ModHttpMessageSignatures | ModScim | ModScimSecurityEvents | ModNativeSso
  | ModFrontchannelLogout | ModSessionManagement | ModOpenid4vciIssuer | ModOpenid4vpVerifier

definition MODULE_ALL :: "module_id list" where
  "MODULE_ALL =
     [ModDeviceAuthorization, ModTokenExchange, ModJwtBearerGrant, ModCiba,
      ModDynamicClientRegistration, ModRequestObjects, ModJarm, ModAuthorizationDetails,
      ModHttpMessageSignatures, ModScim, ModScimSecurityEvents, ModNativeSso,
      ModFrontchannelLogout, ModSessionManagement, ModOpenid4vciIssuer, ModOpenid4vpVerifier]"

datatype module_state = StateDisabled | StateStarting | StateEnabled | StateDraining | StateFailed

fun can_transition_to :: "module_state \<Rightarrow> module_state \<Rightarrow> bool" where
  "can_transition_to StateDisabled next = (next = StateStarting)"
| "can_transition_to StateStarting next = (next \<in> {StateEnabled, StateFailed, StateDisabled})"
| "can_transition_to StateEnabled next = (next \<in> {StateDraining, StateFailed})"
| "can_transition_to StateDraining next = (next \<in> {StateDisabled, StateFailed})"
| "can_transition_to StateFailed next = (next \<in> {StateStarting, StateDisabled})"

datatype disable_policy =
  Immediate | FinishExecutingRequests | DrainStoredTransactions nat | NotRuntimeDisableable

record module_spec =
  ms_id :: module_id
  ms_dependencies :: "module_id set"
  ms_disable_policy :: disable_policy

datatype module_catalog_error = SelfDependency module_id | DependencyCycle module_id

type_synonym module_specs = "module_id \<Rightarrow> module_spec"

text \<open>A set in the order in which a \<open>BTreeSet\<close> is walked.\<close>

definition in_order :: "module_id set \<Rightarrow> module_id list" where
  "in_order s = filter (\<lambda>m. m \<in> s) MODULE_ALL"

lemma MODULE_ALL_complete [simp]: "m \<in> set MODULE_ALL"
  by (cases m) (simp_all add: MODULE_ALL_def)

lemma finite_modules [simp]: "finite (s :: module_id set)"
proof -
  have "UNIV = set MODULE_ALL" by auto
  then have "finite (UNIV :: module_id set)" by (metis finite_set)
  then show ?thesis by (rule rev_finite_subset) simp
qed

lemma set_in_order [simp]: "set (in_order s) = s"
  by (auto simp: in_order_def)

text \<open>The depth-first search for cycles. \<open>visiting\<close> are the modules on the current path,
  \<open>visited\<close> those that are done; both sets are mutated in place, so a call returns them.\<close>

function visit :: "module_specs \<Rightarrow> module_id \<Rightarrow> module_id set \<Rightarrow> module_id set \<Rightarrow>
    module_catalog_error + (module_id set \<times> module_id set)"
  and visit_each :: "module_specs \<Rightarrow> module_id list \<Rightarrow> module_id set \<Rightarrow> module_id set \<Rightarrow>
    module_catalog_error + (module_id set \<times> module_id set)"
where
  "visit specs i visiting visited =
     (if i \<in> visited then Inr (visiting, visited)
      else if i \<in> visiting then Inl (DependencyCycle i)
      else
        (case visit_each specs (in_order (ms_dependencies (specs i))) (insert i visiting) visited of
           Inl e \<Rightarrow> Inl e
         | Inr (visiting', visited') \<Rightarrow> Inr (visiting' - {i}, insert i visited')))"
| "visit_each specs [] visiting visited = Inr (visiting, visited)"
| "visit_each specs (d # ds) visiting visited =
     (case visit specs d visiting visited of
        Inl e \<Rightarrow> Inl e
      | Inr (visiting', visited') \<Rightarrow> visit_each specs ds visiting' visited')"
  by pat_completeness auto

text \<open>A call puts back the path it was given.\<close>

lemma visit_restores_path:
  "visit_visit_each_dom (Inl (specs, i, p, q)) \<Longrightarrow> visit specs i p q = Inr (p', q') \<Longrightarrow> p' = p"
  "visit_visit_each_dom (Inr (specs, ds, p, q)) \<Longrightarrow> visit_each specs ds p q = Inr (p', q') \<Longrightarrow> p' = p"
proof (induction specs i p q and specs ds p q arbitrary: p' q' and p' q' rule: visit_visit_each.pinduct)
  case (1 specs i p q)
  from 1(3) show ?case
    by (auto simp: visit.psimps [OF 1(1)] split: if_split_asm sum.split_asm dest: 1(2))
next
  case (2 specs p q)
  then show ?case by (simp add: visit_each.psimps)
next
  case (3 specs d ds p q)
  from 3(4) show ?case
    by (auto simp: visit_each.psimps(2) [OF 3(1)] split: sum.split_asm dest: 3(2) 3(3))
qed

termination visit
proof (relation "measures [\<lambda>x. case x of Inl (_, _, p, _) \<Rightarrow> card (- p) | Inr (_, _, p, _) \<Rightarrow> card (- p),
    \<lambda>x. case x of Inl _ \<Rightarrow> 0 | Inr (_, ds, _, _) \<Rightarrow> Suc (length ds)]", goal_cases)
  case (2 specs i p q)
  then have "- insert i p \<subset> - p" by auto
  then show ?case by (simp add: psubset_card_mono)
next
  case (4 specs d ds p q x p' q')
  then have "p' = p" by (auto dest: visit_restores_path(1))
  then show ?case by simp
qed simp_all

definition validate_dependencies :: "module_specs \<Rightarrow> module_catalog_error + unit" where
  "validate_dependencies specs =
     (case find (\<lambda>i. ms_id (specs i) \<in> ms_dependencies (specs i)) MODULE_ALL of
        Some i \<Rightarrow> Inl (SelfDependency (ms_id (specs i)))
      | None \<Rightarrow> and_then (visit_each specs MODULE_ALL {} {}) (\<lambda>_. Inr ()))"

record module_catalog =
  mc_specs :: module_specs
  mc_runtime_disable_blocked :: "module_id set"
  mc_unavailable :: "module_id set"

record catalog_durations =
  cd_device_authorization :: nat
  cd_ciba :: nat
  cd_authorization_code :: nat
  cd_refresh_token :: nat
  cd_session :: nat
  cd_presentation_transaction :: nat
  cd_scim_security_events :: nat

fun fixed_disable_policy :: "catalog_durations \<Rightarrow> module_id \<Rightarrow> disable_policy" where
  "fixed_disable_policy d ModDeviceAuthorization = DrainStoredTransactions (cd_device_authorization d)"
| "fixed_disable_policy d ModCiba = DrainStoredTransactions (cd_ciba d)"
| "fixed_disable_policy d ModJarm = DrainStoredTransactions (cd_authorization_code d)"
| "fixed_disable_policy d ModAuthorizationDetails = DrainStoredTransactions (cd_refresh_token d)"
| "fixed_disable_policy d ModNativeSso = DrainStoredTransactions (cd_refresh_token d)"
| "fixed_disable_policy d ModOpenid4vciIssuer = DrainStoredTransactions (cd_refresh_token d)"
| "fixed_disable_policy d ModScimSecurityEvents = DrainStoredTransactions (cd_scim_security_events d)"
| "fixed_disable_policy d ModSessionManagement = DrainStoredTransactions (cd_session d)"
| "fixed_disable_policy d ModOpenid4vpVerifier = DrainStoredTransactions (cd_presentation_transaction d)"
| "fixed_disable_policy d _ = FinishExecutingRequests"

definition fixed_catalog :: "catalog_durations \<Rightarrow> module_catalog" where
  "fixed_catalog d =
     \<lparr>mc_specs = (\<lambda>i. \<lparr>ms_id = i, ms_dependencies = {}, ms_disable_policy = fixed_disable_policy d i\<rparr>),
      mc_runtime_disable_blocked = {}, mc_unavailable = {}\<rparr>"

definition with_constructed_availability :: "(module_id \<times> bool) list \<Rightarrow> module_catalog \<Rightarrow> module_catalog" where
  "with_constructed_availability availability c =
     fold (\<lambda>(i, constructed) c. if constructed then c else c\<lparr>mc_unavailable := insert i (mc_unavailable c)\<rparr>)
       availability c"

definition is_available :: "module_catalog \<Rightarrow> module_id \<Rightarrow> bool" where
  "is_available c i \<longleftrightarrow> i \<notin> mc_unavailable c"

definition effective_enabled :: "module_catalog \<Rightarrow> module_id \<Rightarrow> bool \<Rightarrow> bool" where
  "effective_enabled c i desired_enabled \<longleftrightarrow> desired_enabled \<and> is_available c i"

definition with_runtime_disable_blocked :: "module_id list \<Rightarrow> module_catalog \<Rightarrow> module_catalog" where
  "with_runtime_disable_blocked modules c =
     c\<lparr>mc_runtime_disable_blocked := mc_runtime_disable_blocked c \<union> set modules\<rparr>"

definition with_dependencies ::
  "module_id \<Rightarrow> module_id list \<Rightarrow> module_catalog \<Rightarrow> module_catalog_error + module_catalog"
where
  "with_dependencies i dependencies c =
     (let specs = (mc_specs c)(i := (mc_specs c i)\<lparr>ms_dependencies := set dependencies\<rparr>)
      in and_then (validate_dependencies specs) (\<lambda>_. Inr (c\<lparr>mc_specs := specs\<rparr>)))"

definition effective_disable_policy :: "module_catalog \<Rightarrow> module_id \<Rightarrow> disable_policy" where
  "effective_disable_policy c i =
     (if \<not> is_available c i then Immediate
      else if i \<in> mc_runtime_disable_blocked c then NotRuntimeDisableable
      else ms_disable_policy (mc_specs c i))"

subsection \<open>Snapshots and leases\<close>

datatype capability_admission = NewRequest | ExistingTransaction

record active_module_snapshot =
  am_revision :: nat
  am_accepting :: "module_id set"
  am_draining :: "module_id set"

definition admits :: "active_module_snapshot \<Rightarrow> module_id \<Rightarrow> bool" where
  "admits s m \<longleftrightarrow> m \<in> am_accepting s"

definition snapshot_permits :: "active_module_snapshot \<Rightarrow> module_id \<Rightarrow> capability_admission \<Rightarrow> bool" where
  "snapshot_permits s m admission \<longleftrightarrow>
     admits s m \<or> (admission = ExistingTransaction \<and> m \<in> am_draining s)"

datatype stale_transition = RevisionChanged nat nat | NonMonotonicPublication nat nat

text \<open>\<open>TransitionGuard::ensure_current\<close> on the value read from the shared counter.\<close>

definition ensure_current :: "nat \<Rightarrow> nat \<Rightarrow> stale_transition + unit" where
  "ensure_current bound current =
     (if current = bound then Inr () else Inl (RevisionChanged bound current))"

type_synonym lease_key = "module_id \<times> nat"

record lease_state =
  le_active :: "(lease_key \<times> nat) list"
  le_closed_through :: "module_id \<rightharpoonup> nat"

definition close_generation :: "module_id \<Rightarrow> nat \<Rightarrow> lease_state \<Rightarrow> lease_state" where
  "close_generation m generation l =
     l\<lparr>le_closed_through := (le_closed_through l)(m \<mapsto>
        (case le_closed_through l m of None \<Rightarrow> generation | Some closed \<Rightarrow> max closed generation))\<rparr>"

definition removed_by :: "active_module_snapshot \<Rightarrow> active_module_snapshot \<Rightarrow> module_id \<Rightarrow> bool" where
  "removed_by current next m \<longleftrightarrow>
     (admits current m \<and> \<not> admits next m) \<or> (m \<in> am_draining current \<and> m \<notin> am_draining next)"

definition close_removed_generations ::
  "active_module_snapshot \<Rightarrow> active_module_snapshot \<Rightarrow> lease_state \<Rightarrow> lease_state"
where
  "close_removed_generations current next l =
     fold (\<lambda>m l. if removed_by current next m then close_generation m (am_revision current) l else l)
       MODULE_ALL l"

text \<open>\<open>acquire_for\<close> gives the key of the lease, \<open>Drop\<close> takes it back; \<open>None\<close>
  there is the panic for a key that has no count.\<close>

definition acquire_for ::
  "active_module_snapshot \<Rightarrow> module_id \<Rightarrow> capability_admission \<Rightarrow> lease_state \<Rightarrow>
     lease_key option \<times> lease_state"
where
  "acquire_for s m admission l =
     (if \<not> snapshot_permits s m admission then (None, l)
      else if is_some_and (\<lambda>closed. am_revision s \<le> closed) (le_closed_through l m) then (None, l)
      else
        (let key = (m, am_revision s);
             n = (case map_of (le_active l) key of None \<Rightarrow> 0 | Some n \<Rightarrow> n)
         in (Some key, l\<lparr>le_active := AList.update key (n + 1) (le_active l)\<rparr>)))"

definition lease_release :: "lease_key \<Rightarrow> lease_state \<Rightarrow> lease_state option" where
  "lease_release key l =
     (case map_of (le_active l) key of
        None \<Rightarrow> None
      | Some n \<Rightarrow>
          Some (l\<lparr>le_active :=
            (if n - 1 = 0 then AList.delete key (le_active l)
             else AList.update key (n - 1) (le_active l))\<rparr>))"

text \<open>The end of a request drops its leases in order.\<close>

primrec release_all :: "lease_key list \<Rightarrow> lease_state \<Rightarrow> lease_state option" where
  "release_all [] l = Some l"
| "release_all (key # keys) l =
     (case lease_release key l of None \<Rightarrow> None | Some l' \<Rightarrow> release_all keys l')"

definition lease_active :: "lease_state \<Rightarrow> module_id \<Rightarrow> nat \<Rightarrow> nat" where
  "lease_active l m generation =
     (case map_of (le_active l) (m, generation) of None \<Rightarrow> 0 | Some n \<Rightarrow> n)"

text \<open>What \<open>wait_until_zero\<close> waits for.\<close>

definition lease_idle :: "lease_state \<Rightarrow> module_id \<Rightarrow> bool" where
  "lease_idle l m \<longleftrightarrow> \<not> list_ex (\<lambda>((i, _), _). i = m) (le_active l)"

text \<open>A request's view: the snapshot it began with and the leases it has taken.\<close>

record request_snapshot =
  rq_snapshot :: active_module_snapshot
  rq_leases :: "lease_key list"

definition request_permits ::
  "module_id \<Rightarrow> capability_admission \<Rightarrow> request_snapshot \<Rightarrow> lease_state \<Rightarrow>
     bool \<times> request_snapshot \<times> lease_state"
where
  "request_permits m admission r l =
     (if \<not> snapshot_permits (rq_snapshot r) m admission then (False, r, l)
      else if list_ex (\<lambda>key. fst key = m) (rq_leases r) then (True, r, l)
      else (case acquire_for (rq_snapshot r) m admission l of
          (None, l') \<Rightarrow> (False, r, l')
        | (Some key, l') \<Rightarrow> (True, r\<lparr>rq_leases := rq_leases r @ [key]\<rparr>, l')))"

record snapshot_store =
  ss_current :: active_module_snapshot
  ss_leases :: lease_state

definition new_snapshot_store :: "active_module_snapshot \<Rightarrow> snapshot_store" where
  "new_snapshot_store initial =
     \<lparr>ss_current = initial, ss_leases = \<lparr>le_active = [], le_closed_through = Map.empty\<rparr>\<rparr>"

definition store_request :: "snapshot_store \<Rightarrow> request_snapshot" where
  "store_request st = \<lparr>rq_snapshot = ss_current st, rq_leases = []\<rparr>"

definition store_lease ::
  "module_id \<Rightarrow> capability_admission \<Rightarrow> snapshot_store \<Rightarrow> lease_key option \<times> snapshot_store"
where
  "store_lease m admission st =
     (case acquire_for (ss_current st) m admission (ss_leases st) of
        (key, l) \<Rightarrow> (key, st\<lparr>ss_leases := l\<rparr>))"

definition compare_and_publish ::
  "nat \<Rightarrow> active_module_snapshot \<Rightarrow> snapshot_store \<Rightarrow> stale_transition + snapshot_store"
where
  "compare_and_publish expected next st =
     (if am_revision next \<le> expected then Inl (NonMonotonicPublication expected (am_revision next))
      else if am_revision (ss_current st) \<noteq> expected
      then Inl (RevisionChanged expected (am_revision (ss_current st)))
      else Inr \<lparr>ss_current = next,
                ss_leases = close_removed_generations (ss_current st) next (ss_leases st)\<rparr>)"


subsection \<open>The dependency check finds exactly the cycles\<close>

definition depends :: "module_specs \<Rightarrow> (module_id \<times> module_id) set" where
  "depends specs = {(a, b). b \<in> ms_dependencies (specs a)}"

text \<open>What the search keeps: the modules that are done are closed under dependencies, none of them is
  on the path, and none depends on itself.\<close>

definition search_ok :: "module_specs \<Rightarrow> module_id set \<Rightarrow> module_id set \<Rightarrow> bool" where
  "search_ok specs p q \<longleftrightarrow>
     depends specs `` q \<subseteq> q \<and> p \<inter> q = {} \<and> (\<forall>a\<in>q. (a, a) \<notin> (depends specs)\<^sup>+)"

lemma closed_rtrancl: "(a, b) \<in> r\<^sup>* \<Longrightarrow> r `` q \<subseteq> q \<Longrightarrow> a \<in> q \<Longrightarrow> b \<in> q"
  by (induction rule: rtrancl_induct) auto

lemma search_ok_insert:
  assumes "search_ok specs (insert i p) q" and "ms_dependencies (specs i) \<subseteq> q" and "i \<notin> p"
  shows "search_ok specs p (insert i q)"
proof -
  have "(i, i) \<notin> (depends specs)\<^sup>+"
  proof
    assume "(i, i) \<in> (depends specs)\<^sup>+"
    then obtain d where "(i, d) \<in> depends specs" and "(d, i) \<in> (depends specs)\<^sup>*"
      by (blast dest: tranclD)
    then have "i \<in> q" using assms(1,2) closed_rtrancl by (fastforce simp: depends_def search_ok_def)
    then show False using assms(1) by (auto simp: search_ok_def)
  qed
  then show ?thesis using assms by (auto simp: search_ok_def depends_def)
qed

lemma visit_done:
  "visit specs i p q = Inr (p', q') \<Longrightarrow> search_ok specs p q \<Longrightarrow>
     p' = p \<and> q \<subseteq> q' \<and> i \<in> q' \<and> search_ok specs p q'"
  "visit_each specs ds p q = Inr (p', q') \<Longrightarrow> search_ok specs p q \<Longrightarrow>
     p' = p \<and> q \<subseteq> q' \<and> set ds \<subseteq> q' \<and> search_ok specs p q'"
proof (induction specs i p q and specs ds p q arbitrary: p' q' and p' q' rule: visit_visit_each.induct)
  case (1 specs i p q)
  show ?case
  proof (cases "i \<in> q")
    case True
    with 1 show ?thesis by simp
  next
    case False
    with 1(2) obtain q1 p1 where i: "i \<notin> p"
      and run: "visit_each specs (in_order (ms_dependencies (specs i))) (insert i p) q = Inr (p1, q1)"
      and res: "p' = p1 - {i}" "q' = insert i q1"
      by (auto split: if_split_asm sum.split_asm)
    have ok: "search_ok specs (insert i p) q" using 1(3) False by (simp add: search_ok_def)
    from 1(1) [OF False i run ok] have sub: "p1 = insert i p" "q \<subseteq> q1" "ms_dependencies (specs i) \<subseteq> q1"
      and fin: "search_ok specs (insert i p) q1" by simp_all
    with res i search_ok_insert [OF fin sub(3) i] show ?thesis by auto
  qed
next
  case (2 specs p q)
  then show ?case by simp
next
  case (3 specs d ds p q)
  from 3(3) obtain p1 q1 where d: "visit specs d p q = Inr (p1, q1)"
    and ds: "visit_each specs ds p1 q1 = Inr (p', q')" by (auto split: sum.split_asm)
  from 3(1) [OF d 3(4)] have "p1 = p" "q \<subseteq> q1" "d \<in> q1" "search_ok specs p q1" by simp_all
  with 3(2) [OF d refl ds] show ?case by auto
qed

declare visit.simps [simp del]

lemma visit_path:
  "visit specs i p q = Inr (p', q') \<Longrightarrow> p' = p"
  "visit_each specs ds p q = Inr (p', q') \<Longrightarrow> p' = p"
proof (induction specs i p q and specs ds p q arbitrary: p' q' and p' q' rule: visit_visit_each.induct)
  case (1 specs i p q)
  from 1(2) show ?case
    by (subst (asm) visit.simps) (auto split: if_split_asm sum.split_asm dest: 1(1))
next
  case (2 specs p q)
  then show ?case by simp
next
  case (3 specs d ds p q)
  from 3(3) obtain p1 q1 where d: "visit specs d p q = Inr (p1, q1)"
    and ds: "visit_each specs ds p1 q1 = Inr (p', q')" by (auto split: sum.split_asm)
  from 3(1) [OF d] 3(2) [OF d refl ds] show ?case by simp
qed

lemma visit_stuck:
  "visit specs i p q = Inl e \<Longrightarrow> (\<forall>v\<in>p. (v, i) \<in> (depends specs)\<^sup>+) \<Longrightarrow>
     \<exists>x. e = DependencyCycle x \<and> (x, x) \<in> (depends specs)\<^sup>+"
  "visit_each specs ds p q = Inl e \<Longrightarrow> (\<forall>v\<in>p. \<forall>d\<in>set ds. (v, d) \<in> (depends specs)\<^sup>+) \<Longrightarrow>
     \<exists>x. e = DependencyCycle x \<and> (x, x) \<in> (depends specs)\<^sup>+"
proof (induction specs i p q and specs ds p q rule: visit_visit_each.induct)
  case (1 specs i p q)
  show ?case
  proof (cases "i \<in> p")
    case True
    with 1(2,3) show ?thesis by (auto simp: visit.simps [of specs i p q] split: if_split_asm)
  next
    case False
    with 1(2) have i: "i \<notin> q"
      and run: "visit_each specs (in_order (ms_dependencies (specs i))) (insert i p) q = Inl e"
      by (auto simp: visit.simps [of specs i p q] split: if_split_asm sum.split_asm)
    have "\<forall>v\<in>insert i p. \<forall>d\<in>set (in_order (ms_dependencies (specs i))). (v, d) \<in> (depends specs)\<^sup>+"
      using 1(3) by (auto simp: depends_def intro: trancl_into_trancl)
    from 1(1) [OF i False run this] show ?thesis .
  qed
next
  case (2 specs p q)
  then show ?case by simp
next
  case (3 specs d ds p q)
  show ?case
  proof (cases "visit specs d p q")
    case (Inl e')
    with 3(3,4) 3(1) show ?thesis by simp
  next
    case (Inr pq)
    obtain p1 q1 where pq: "pq = (p1, q1)" by fastforce
    have "p1 = p" using Inr pq by (simp add: visit_path(1))
    with Inr pq 3(2-4) show ?thesis by simp
  qed
qed

end
