(* ===== verification/Runtime_Properties.thy ===== *)
theory Runtime_Properties
  imports Runtime_Modules
begin

text \<open>
  What the runtime modules guarantee. The state machine is the store of snapshots together with the
  live requests; its steps are the calls of the crate, in any order: a request begins with the current
  snapshot, asks for a module, ends, or an administrator publishes the next snapshot. The two
  invariants are that the counts of leases are those of the live requests, and that whatever an old
  snapshot still offers but the current one does not is closed for that old generation.
\<close>

subsection \<open>Leases are counted exactly\<close>

definition counted :: "lease_key list \<Rightarrow> lease_key \<rightharpoonup> nat" where
  "counted keys = (\<lambda>k. if count_list keys k = 0 then None else Some (count_list keys k))"

definition accounting :: "lease_state \<Rightarrow> lease_key list \<Rightarrow> bool" where
  "accounting l keys \<longleftrightarrow> distinct (map fst (le_active l)) \<and> map_of (le_active l) = counted keys"

lemma counted_simps:
  "counted (key # keys) = (counted keys)(key \<mapsto> Suc (count_list keys key))"
  "counted keys key = None \<longleftrightarrow> key \<notin> set keys"
  "counted keys key = Some n \<Longrightarrow> n = count_list keys key"
  by (auto simp: counted_def fun_eq_iff count_list_0_iff split: if_split_asm)

lemma accounting_cong:
  "(\<And>k. count_list keys k = count_list keys' k) \<Longrightarrow> accounting l keys = accounting l keys'"
  unfolding accounting_def counted_def by presburger

lemma acquired:
  assumes "acquire_for s m admission l = (Some key, l')"
  shows "key = (m, am_revision s)" and "snapshot_permits s m admission"
    and "\<not> is_some_and (\<lambda>closed. am_revision s \<le> closed) (le_closed_through l m)"
    and "le_closed_through l' = le_closed_through l"
    and "accounting l keys \<Longrightarrow> accounting l' (key # keys)"
proof -
  define n where "n = (case map_of (le_active l) (m, am_revision s) of None \<Rightarrow> 0 | Some n \<Rightarrow> n)"
  from assms show key: "key = (m, am_revision s)" and "snapshot_permits s m admission"
    and "\<not> is_some_and (\<lambda>closed. am_revision s \<le> closed) (le_closed_through l m)"
    and l': "le_closed_through l' = le_closed_through l"
    by (auto simp: acquire_for_def Let_def split: if_split_asm)
  from assms have act: "le_active l' = AList.update key (n + 1) (le_active l)"
    by (auto simp: acquire_for_def Let_def n_def split: if_split_asm)
  assume ok: "accounting l keys"
  then have "n = count_list keys key"
    by (auto simp: n_def key accounting_def counted_def)
  with ok show "accounting l' (key # keys)"
    unfolding accounting_def act counted_simps(1) update_conv' by (simp add: distinct_update)
qed

lemma not_acquired: "acquire_for s m admission l = (None, l') \<Longrightarrow> l' = l"
  by (auto simp: acquire_for_def Let_def split: if_split_asm)

lemma released:
  assumes "accounting l (key # keys)"
  shows "\<exists>l'. lease_release key l = Some l' \<and> accounting l' keys \<and>
    le_closed_through l' = le_closed_through l"
proof -
  have at: "map_of (le_active l) key = Some (Suc (count_list keys key))"
    using assms by (simp add: accounting_def counted_simps(1))
  define act where "act = (if count_list keys key = 0 then AList.delete key (le_active l)
    else AList.update key (count_list keys key) (le_active l))"
  have "map_of act = (map_of (le_active l))(key := counted keys key)"
    by (simp add: act_def counted_def update_conv' delete_conv')
  also have "\<dots> = counted keys"
    using assms by (simp add: accounting_def counted_simps(1) fun_upd_idem)
  finally have "accounting (l\<lparr>le_active := act\<rparr>) keys"
    using assms by (simp add: accounting_def act_def distinct_update distinct_delete)
  moreover have "lease_release key l = Some (l\<lparr>le_active := act\<rparr>)"
    by (simp add: lease_release_def at act_def)
  ultimately show ?thesis by auto
qed

lemma all_released:
  "accounting l (keys @ rest) \<Longrightarrow> \<exists>l'. release_all keys l = Some l' \<and> accounting l' rest \<and>
     le_closed_through l' = le_closed_through l"
proof (induction keys arbitrary: l)
  case (Cons key keys)
  from released [of l key "keys @ rest"] Cons.prems obtain l1
    where l1: "lease_release key l = Some l1" "accounting l1 (keys @ rest)"
      "le_closed_through l1 = le_closed_through l" by auto
  from Cons.IH [OF l1(2)] l1 show ?case by simp
qed simp

lemma idle_accounting:
  assumes "accounting l keys"
  shows "lease_idle l m \<longleftrightarrow> (\<forall>k\<in>set keys. fst k \<noteq> m)"
proof -
  have "(\<exists>n. (k, n) \<in> set (le_active l)) \<longleftrightarrow> k \<in> set keys" for k
  proof -
    have "(\<exists>n. (k, n) \<in> set (le_active l)) \<longleftrightarrow> map_of (le_active l) k \<noteq> None"
      by (auto simp: map_of_eq_None_iff rev_image_eqI)
    also have "\<dots> \<longleftrightarrow> k \<in> set keys"
      using assms counted_simps(2) [of keys k] by (simp add: accounting_def del: not_None_eq)
    finally show ?thesis .
  qed
  then show ?thesis unfolding lease_idle_def list_ex_iff by fastforce
qed

subsection \<open>Publishing closes what it removes\<close>

lemma close_fold:
  "distinct ms \<Longrightarrow>
   le_closed_through (fold (\<lambda>m l. if P m then close_generation m g l else l) ms l) m =
     (if P m \<and> m \<in> set ms
      then Some (case le_closed_through l m of None \<Rightarrow> g | Some c \<Rightarrow> max c g)
      else le_closed_through l m) \<and>
   le_active (fold (\<lambda>m l. if P m then close_generation m g l else l) ms l) = le_active l"
  by (induction ms arbitrary: l) (auto simp: close_generation_def)

lemma MODULE_ALL_distinct: "distinct MODULE_ALL"
  by (simp add: MODULE_ALL_def)

lemma closed_by_publication:
  "le_closed_through (close_removed_generations c n l) m =
     (if removed_by c n m
      then Some (case le_closed_through l m of None \<Rightarrow> am_revision c | Some k \<Rightarrow> max k (am_revision c))
      else le_closed_through l m)"
  "le_active (close_removed_generations c n l) = le_active l"
  using close_fold [OF MODULE_ALL_distinct, of "removed_by c n" "am_revision c" l m]
  by (simp_all add: close_removed_generations_def)

lemma published:
  assumes "compare_and_publish expected next st = Inr st'"
  shows "am_revision (ss_current st) < am_revision next"
    and "st' = \<lparr>ss_current = next,
      ss_leases = close_removed_generations (ss_current st) next (ss_leases st)\<rparr>"
  using assms by (auto simp: compare_and_publish_def split: if_split_asm)

subsection \<open>The state machine\<close>

record module_system =
  sy_store :: snapshot_store
  sy_requests :: "request_snapshot list"

definition initial_system :: "active_module_snapshot \<Rightarrow> module_system" where
  "initial_system s = \<lparr>sy_store = new_snapshot_store s, sy_requests = []\<rparr>"

inductive module_step :: "module_system \<Rightarrow> module_system \<Rightarrow> bool" where
  begins: "module_step sy (sy\<lparr>sy_requests := sy_requests sy @ [store_request (sy_store sy)]\<rparr>)"
| asks: "sy_requests sy = before @ r # after \<Longrightarrow>
    request_permits m admission r (ss_leases (sy_store sy)) = (b, r', l') \<Longrightarrow>
    module_step sy \<lparr>sy_store = (sy_store sy)\<lparr>ss_leases := l'\<rparr>, sy_requests = before @ r' # after\<rparr>"
| ends: "sy_requests sy = before @ r # after \<Longrightarrow>
    release_all (rq_leases r) (ss_leases (sy_store sy)) = Some l' \<Longrightarrow>
    module_step sy \<lparr>sy_store = (sy_store sy)\<lparr>ss_leases := l'\<rparr>, sy_requests = before @ after\<rparr>"
| publishes: "compare_and_publish expected next (sy_store sy) = Inr st' \<Longrightarrow>
    module_step sy (sy\<lparr>sy_store := st'\<rparr>)"

definition module_reachable :: "module_system \<Rightarrow> bool" where
  "module_reachable sy \<longleftrightarrow> (\<exists>s. module_step\<^sup>*\<^sup>* (initial_system s) sy)"

definition held :: "request_snapshot list \<Rightarrow> lease_key list" where
  "held rs = concat (map rq_leases rs)"

definition stale_closed :: "snapshot_store \<Rightarrow> active_module_snapshot \<Rightarrow> bool" where
  "stale_closed st s \<longleftrightarrow> am_revision s \<le> am_revision (ss_current st) \<and>
     (\<forall>m admission. snapshot_permits s m admission \<longrightarrow>
        snapshot_permits (ss_current st) m admission \<or>
        is_some_and (\<lambda>c. am_revision s \<le> c) (le_closed_through (ss_leases st) m))"

definition system_inv :: "module_system \<Rightarrow> bool" where
  "system_inv sy \<longleftrightarrow> accounting (ss_leases (sy_store sy)) (held (sy_requests sy)) \<and>
     (\<forall>r\<in>set (sy_requests sy). stale_closed (sy_store sy) (rq_snapshot r))"

lemma stale_closed_cong:
  "le_closed_through l' = le_closed_through (ss_leases st) \<Longrightarrow>
     stale_closed (st\<lparr>ss_leases := l'\<rparr>) s = stale_closed st s"
  by (simp add: stale_closed_def)

lemma stale_closed_publish:
  assumes "compare_and_publish expected next st = Inr st'" and "stale_closed st s"
  shows "stale_closed st' s"
proof -
  note pub = published [OF assms(1)]
  let ?closed = "\<lambda>st m. is_some_and (\<lambda>c. am_revision s \<le> c) (le_closed_through (ss_leases st) m)"
  have rev: "am_revision s \<le> am_revision (ss_current st)" using assms(2) by (simp add: stale_closed_def)
  have keep: "?closed st m \<Longrightarrow> ?closed st' m" for m
    by (auto simp: pub(2) closed_by_publication is_some_and_iff)
  have shut: "removed_by (ss_current st) next m \<Longrightarrow> ?closed st' m" for m
    using rev by (auto simp: pub(2) closed_by_publication is_some_and_iff split: option.split)
  have "snapshot_permits next m admission \<or> ?closed st' m"
    if "snapshot_permits s m admission" for m admission
  proof (cases "snapshot_permits (ss_current st) m admission")
    case True
    then show ?thesis using shut by (auto simp: snapshot_permits_def removed_by_def)
  next
    case False
    then show ?thesis using assms(2) that keep by (auto simp: stale_closed_def)
  qed
  then show ?thesis using rev pub(1) by (simp add: stale_closed_def pub(2))
qed

lemma request_permits_cases:
  assumes "request_permits m admission r l = (b, r', l')"
  obtains (same) "r' = r" and "l' = l"
      and "b \<Longrightarrow> list_ex (\<lambda>key. fst key = m) (rq_leases r)"
    | (new) key where "acquire_for (rq_snapshot r) m admission l = (Some key, l')"
      and "r' = r\<lparr>rq_leases := rq_leases r @ [key]\<rparr>" and b
proof (cases "snapshot_permits (rq_snapshot r) m admission \<and> \<not> list_ex (\<lambda>key. fst key = m) (rq_leases r)")
  case False
  then show thesis using assms same by (auto simp: request_permits_def split: if_split_asm)
next
  case True
  obtain k l1 where k: "acquire_for (rq_snapshot r) m admission l = (k, l1)" by fastforce
  show thesis
  proof (cases k)
    case None
    then show thesis using True k assms same by (simp add: request_permits_def not_acquired)
  next
    case (Some key)
    then show thesis using True k assms new by (simp add: request_permits_def)
  qed
qed

lemma asked:
  assumes "request_permits m admission r l = (b, r', l')" and "accounting l (rq_leases r @ rest)"
  shows "le_closed_through l' = le_closed_through l \<and> accounting l' (rq_leases r' @ rest) \<and>
    rq_snapshot r' = rq_snapshot r"
  using assms(1)
proof (cases rule: request_permits_cases)
  case same
  then show ?thesis using assms(2) by simp
next
  case (new key)
  have "accounting l' (key # rq_leases r @ rest)" by (rule acquired(5) [OF new(1) assms(2)])
  then have "accounting l' (rq_leases r' @ rest)"
    unfolding new(2) by (rule accounting_cong [THEN iffD1, rotated]) simp
  with new acquired(4) [OF new(1)] show ?thesis by simp
qed

lemma held_front: "accounting l (held (before @ r # after)) = accounting l (rq_leases r @ held (before @ after))"
  by (rule accounting_cong) (simp add: held_def)

lemma system_inv_step:
  assumes "module_step sy sy'" and "system_inv sy"
  shows "system_inv sy'"
  using assms
proof (cases rule: module_step.cases)
  case begins
  then show ?thesis using assms(2)
    by (auto simp: system_inv_def held_def store_request_def stale_closed_def)
next
  case (asks before r after m admission b r' l')
  have "accounting (ss_leases (sy_store sy)) (rq_leases r @ held (before @ after))"
    using assms(2) by (simp add: system_inv_def asks(2) held_front)
  note ok = asked [OF asks(3) this]
  then show ?thesis using assms(2) asks(2)
    by (auto simp: system_inv_def asks(1) held_front stale_closed_cong)
next
  case (ends before r after l')
  have "accounting (ss_leases (sy_store sy)) (rq_leases r @ held (before @ after))"
    using assms(2) by (simp add: system_inv_def ends(2) held_front)
  from all_released [OF this] ends(3) have "accounting l' (held (before @ after))"
    and "le_closed_through l' = le_closed_through (ss_leases (sy_store sy))" by auto
  then show ?thesis using assms(2) ends(2)
    by (auto simp: system_inv_def ends(1) stale_closed_cong)
next
  case (publishes expected "next" st')
  have "accounting (ss_leases st') keys = accounting (ss_leases (sy_store sy)) keys" for keys
    by (simp add: published(2) [OF publishes(2)] accounting_def closed_by_publication)
  then show ?thesis using assms(2) stale_closed_publish [OF publishes(2)]
    by (auto simp: system_inv_def publishes(1))
qed

lemma system_inv_reachable: "module_reachable sy \<Longrightarrow> system_inv sy"
proof -
  assume "module_reachable sy"
  then obtain s where "module_step\<^sup>*\<^sup>* (initial_system s) sy" by (auto simp: module_reachable_def)
  then show ?thesis
  proof (induction rule: rtranclp_induct)
    case base
    show ?case by (simp add: system_inv_def initial_system_def new_snapshot_store_def accounting_def
      counted_def held_def)
  qed (rule system_inv_step)
qed

subsection \<open>Properties\<close>

text \<open>C38. Nobody enters a module that has been withdrawn. In every reachable state, if a live request,
  however old the snapshot it began with, is permitted a module on which it holds no lease yet, then
  the snapshot that is current at that moment permits that module for that kind of admission. So
  after a publication that stops accepting a module no new work is admitted to it, and after one that
  also ends its draining no work at all.\<close>

theorem withdrawn_module_not_entered:
  assumes sys: "module_reachable sy" and r: "r \<in> set (sy_requests sy)"
    and run: "request_permits m admission r (ss_leases (sy_store sy)) = (True, r', l')"
    and fresh: "\<not> list_ex (\<lambda>key. fst key = m) (rq_leases r)"
  shows "snapshot_permits (ss_current (sy_store sy)) m admission"
  using run
proof (cases rule: request_permits_cases)
  case same
  then show ?thesis using fresh by simp
next
  case (new key)
  have "stale_closed (sy_store sy) (rq_snapshot r)"
    using system_inv_reachable [OF sys] r by (simp add: system_inv_def)
  with acquired(2,3) [OF new(1)] show ?thesis by (auto simp: stale_closed_def)
qed

definition sample_snapshot :: "nat \<Rightarrow> module_id set \<Rightarrow> module_id set \<Rightarrow> active_module_snapshot" where
  "sample_snapshot n accepting draining =
     \<lparr>am_revision = n, am_accepting = accepting, am_draining = draining\<rparr>"

definition sample_system :: module_system where
  "sample_system = (initial_system (sample_snapshot 1 {ModCiba} {}))\<lparr>sy_requests :=
     [\<lparr>rq_snapshot = sample_snapshot 1 {ModCiba} {}, rq_leases = []\<rparr>]\<rparr>"

lemma sample_system_reachable: "module_reachable sample_system"
proof -
  let ?i = "initial_system (sample_snapshot 1 {ModCiba} {})"
  have "module_step ?i (?i\<lparr>sy_requests := sy_requests ?i @ [store_request (sy_store ?i)]\<rparr>)"
    by (rule module_step.begins)
  then have "module_step ?i sample_system"
    by (simp add: sample_system_def initial_system_def store_request_def new_snapshot_store_def)
  then show ?thesis unfolding module_reachable_def by (blast intro: r_into_rtranclp)
qed

theorem withdrawn_module_not_entered_witness:
  "\<exists>r r' l'. r \<in> set (sy_requests sample_system) \<and>
     request_permits ModCiba NewRequest r (ss_leases (sy_store sample_system)) = (True, r', l') \<and>
     snapshot_permits (ss_current (sy_store sample_system)) ModCiba NewRequest"
proof -
  let ?r = "\<lparr>rq_snapshot = sample_snapshot 1 {ModCiba} {}, rq_leases = []\<rparr>"
  let ?run = "request_permits ModCiba NewRequest ?r (ss_leases (sy_store sample_system))"
  have r: "?r \<in> set (sy_requests sample_system)" by (simp add: sample_system_def)
  have "fst ?run"
    by (simp add: request_permits_def snapshot_permits_def admits_def acquire_for_def sample_snapshot_def
      sample_system_def initial_system_def new_snapshot_store_def Let_def is_some_and_def)
  then obtain r' l' where run: "?run = (True, r', l')" by (cases ?run) auto
  from withdrawn_module_not_entered [OF sample_system_reachable r run] r run show ?thesis
    by (intro exI [of _ ?r] exI [of _ r'] exI [of _ l'] conjI) simp_all
qed

text \<open>C39. Leases are counted exactly. In every reachable state a module is idle, which is what the end of
  its draining waits for, exactly if no live request holds a lease on it; the end of a request never
  panics on a lease without a count; and a module that is idle and neither accepted nor drained stays
  idle in every step after which it is still neither.\<close>

theorem leases_counted_exactly:
  assumes sys: "module_reachable sy"
  shows "(lease_idle (ss_leases (sy_store sy)) m \<longleftrightarrow>
      (\<forall>r\<in>set (sy_requests sy). \<forall>key\<in>set (rq_leases r). fst key \<noteq> m)) \<and>
    (\<forall>r\<in>set (sy_requests sy). \<exists>l'. release_all (rq_leases r) (ss_leases (sy_store sy)) = Some l') \<and>
    (lease_idle (ss_leases (sy_store sy)) m \<and>
     \<not> snapshot_permits (ss_current (sy_store sy)) m ExistingTransaction \<and> module_step sy sy' \<and>
     \<not> snapshot_permits (ss_current (sy_store sy')) m ExistingTransaction \<longrightarrow>
     lease_idle (ss_leases (sy_store sy')) m)"
proof -
  have inv: "system_inv sy" by (rule system_inv_reachable [OF sys])
  then have acc: "accounting (ss_leases (sy_store sy)) (held (sy_requests sy))"
    by (simp add: system_inv_def)
  have idle: "lease_idle (ss_leases (sy_store sy)) m \<longleftrightarrow>
      (\<forall>r\<in>set (sy_requests sy). \<forall>key\<in>set (rq_leases r). fst key \<noteq> m)"
    by (simp add: idle_accounting [OF acc] held_def)
  have drops: "\<exists>l'. release_all (rq_leases r) (ss_leases (sy_store sy)) = Some l'"
    if "r \<in> set (sy_requests sy)" for r
  proof -
    from that obtain before after where rs: "sy_requests sy = before @ r # after"
      by (meson split_list)
    from all_released [of _ "rq_leases r"] acc show ?thesis unfolding rs held_front by blast
  qed
  have stays: "lease_idle (ss_leases (sy_store sy')) m"
    if step: "module_step sy sy'" and empty: "lease_idle (ss_leases (sy_store sy)) m"
      and off: "\<not> snapshot_permits (ss_current (sy_store sy)) m ExistingTransaction"
  proof -
    have "accounting (ss_leases (sy_store sy')) (held (sy_requests sy'))"
      using system_inv_step [OF step inv] by (simp add: system_inv_def)
    then have goal: "?thesis \<longleftrightarrow> (\<forall>key\<in>set (held (sy_requests sy')). fst key \<noteq> m)"
      by (rule idle_accounting)
    note none = empty [unfolded idle_accounting [OF acc]]
    from step show ?thesis unfolding goal
    proof (cases rule: module_step.cases)
      case (asks before r after m' admission b r' l')
      have stale: "stale_closed (sy_store sy) (rq_snapshot r)"
        using inv asks(2) by (simp add: system_inv_def)
      from asks(3) show "\<forall>key\<in>set (held (sy_requests sy')). fst key \<noteq> m"
      proof (cases rule: request_permits_cases)
        case same
        then show ?thesis using none asks by (simp add: held_def)
      next
        case (new key)
        have "snapshot_permits (ss_current (sy_store sy)) m' admission"
          using stale acquired(2,3) [OF new(1)] by (auto simp: stale_closed_def)
        then have "m' \<noteq> m" using off by (auto simp: snapshot_permits_def)
        then show ?thesis using none asks new acquired(1) [OF new(1)] by (auto simp: held_def)
      qed
    qed (use none in \<open>auto simp: held_def store_request_def\<close>)
  qed
  show ?thesis using idle drops stays by blast
qed

theorem leases_counted_exactly_witness:
  "lease_idle (ss_leases (sy_store sample_system)) ModCiba"
proof -
  have "\<forall>r\<in>set (sy_requests sample_system). \<forall>key\<in>set (rq_leases r). fst key \<noteq> ModCiba"
    by (simp add: sample_system_def)
  then show ?thesis
    using conjunct1 [OF leases_counted_exactly [OF sample_system_reachable, of ModCiba]] by simp
qed

text \<open>C31. The dependency check of the catalog always ends, and it accepts exactly the catalogs whose
  dependencies have no cycle. What it reports is right: a module named as depending on itself does,
  and a module named in a cycle is on one. The recursion is over paths without repetition, so its depth
  is bounded by the number of modules.\<close>

theorem dependency_check_exact:
  assumes ids: "\<And>i. ms_id (specs i) = i"
  shows "(validate_dependencies specs = Inr () \<longleftrightarrow> acyclic (depends specs)) \<and>
    (\<forall>i. validate_dependencies specs = Inl (SelfDependency i) \<longrightarrow> (i, i) \<in> depends specs) \<and>
    (\<forall>i. validate_dependencies specs = Inl (DependencyCycle i) \<longrightarrow> (i, i) \<in> (depends specs)\<^sup>+)"
proof (cases "find (\<lambda>i. ms_id (specs i) \<in> ms_dependencies (specs i)) MODULE_ALL")
  case (Some i)
  then have "(i, i) \<in> depends specs" using ids by (auto simp: find_Some_iff depends_def)
  moreover from this have "\<not> acyclic (depends specs)" by (auto simp: acyclic_def)
  ultimately show ?thesis using Some ids by (simp add: validate_dependencies_def)
next
  case None
  show ?thesis
  proof (cases "visit_each specs MODULE_ALL {} {}")
    case (Inl e)
    from visit_stuck(2) [OF this] obtain x where x: "e = DependencyCycle x" "(x, x) \<in> (depends specs)\<^sup>+"
      by auto
    moreover from x have "\<not> acyclic (depends specs)" by (auto simp: acyclic_def)
    ultimately show ?thesis using None Inl by (simp add: validate_dependencies_def)
  next
    case (Inr pq)
    obtain p q where pq: "pq = (p, q)" by fastforce
    have "search_ok specs {} {}" by (simp add: search_ok_def)
    from visit_done(2) [OF Inr [unfolded pq] this] have "set MODULE_ALL \<subseteq> q" "search_ok specs {} q"
      by simp_all
    then have "acyclic (depends specs)" by (auto simp: search_ok_def acyclic_def)
    then show ?thesis using None Inr by (simp add: validate_dependencies_def)
  qed
qed

definition sample_specs :: module_specs where
  "sample_specs = (mc_specs (fixed_catalog \<lparr>cd_device_authorization = 600, cd_ciba = 600,
     cd_authorization_code = 60, cd_refresh_token = 3600, cd_session = 3600,
     cd_presentation_transaction = 600, cd_scim_security_events = 60\<rparr>))
     (ModScim := \<lparr>ms_id = ModScim, ms_dependencies = {ModScimSecurityEvents},
        ms_disable_policy = FinishExecutingRequests\<rparr>,
      ModScimSecurityEvents := \<lparr>ms_id = ModScimSecurityEvents, ms_dependencies = {ModScim},
        ms_disable_policy = FinishExecutingRequests\<rparr>)"

theorem dependency_check_exact_witness: "validate_dependencies sample_specs \<noteq> Inr ()"
proof -
  have ids: "ms_id (sample_specs i) = i" for i by (simp add: sample_specs_def fixed_catalog_def)
  have "(ModScim, ModScimSecurityEvents) \<in> depends sample_specs"
    and "(ModScimSecurityEvents, ModScim) \<in> depends sample_specs"
    by (simp_all add: depends_def sample_specs_def)
  then have "(ModScim, ModScim) \<in> (depends sample_specs)\<^sup>+" by (blast intro: trancl_into_trancl)
  then have "\<not> acyclic (depends sample_specs)" by (auto simp: acyclic_def)
  with conjunct1 [OF dependency_check_exact [OF ids]] show ?thesis by simp
qed

end
