(* ===== verification/Handlers.thy ===== *)
theory Handlers
  imports Prelude
begin

text \<open>
  Request handlers are sequences of fallible calls on the world. \<open>io_then\<close> is one await with
  \<open>?\<close>: it goes on with the value and the world the call left, or returns its error. The
  collection \<open>io_inr\<close> inverts a successful run into the runs of its parts, and
  \<open>keeps\<close> says that a call, successful or not, leaves a property of the world; the collection
  \<open>keeps_intros\<close> has its rules, one for each way a handler is put together. \<open>meets\<close>
  adds what the errors and the values of such a call satisfy.
\<close>

definition io_return :: "'a \<Rightarrow> ('w, 'e, 'a) io" where
  "io_return x w = (Inr x, w)"

definition io_fail :: "'e \<Rightarrow> ('w, 'e, 'a) io" where
  "io_fail e w = (Inl e, w)"

definition io_then :: "('w, 'e, 'a) io \<Rightarrow> ('a \<Rightarrow> ('w, 'e, 'b) io) \<Rightarrow> ('w, 'e, 'b) io" where
  "io_then m f w = (case m w of (Inl e, w1) \<Rightarrow> (Inl e, w1) | (Inr x, w1) \<Rightarrow> f x w1)"

text \<open>A call that cannot fail, an update, a computed result, and an early return.\<close>

definition io_read :: "('w \<Rightarrow> 'a \<times> 'w) \<Rightarrow> ('w, 'e, 'a) io" where
  "io_read f w = (case f w of (x, w1) \<Rightarrow> (Inr x, w1))"

definition io_do :: "('w \<Rightarrow> 'w) \<Rightarrow> ('w, 'e, unit) io" where
  "io_do f w = (Inr (), f w)"

definition io_result :: "'e + 'a \<Rightarrow> ('w, 'e, 'a) io" where
  "io_result r w = (r, w)"

definition io_reject :: "bool \<Rightarrow> 'e \<Rightarrow> ('w, 'e, unit) io" where
  "io_reject c e w = (if c then (Inl e, w) else (Inr (), w))"

text \<open>Matching on the result of a call instead of passing its error on.\<close>

definition io_try :: "('w, 'e, 'a) io \<Rightarrow> ('w, 'f, 'e + 'a) io" where
  "io_try m w = (case m w of (r, w1) \<Rightarrow> (Inr r, w1))"

definition io_map_err :: "('e \<Rightarrow> 'f) \<Rightarrow> ('w, 'e, 'a) io \<Rightarrow> ('w, 'f, 'a) io" where
  "io_map_err f m w = (case m w of (r, w1) \<Rightarrow> (map_err f r, w1))"

named_theorems io_inr \<open>a successful run in terms of the runs of its parts\<close>
named_theorems keeps_intros \<open>what keeps a property of the world\<close>

lemma io_then_Inr [io_inr]:
  "io_then m f w = (Inr y, w') \<longleftrightarrow> (\<exists>x w1. m w = (Inr x, w1) \<and> f x w1 = (Inr y, w'))"
  by (auto simp: io_then_def split: prod.splits sum.splits)

lemma io_return_Inr [io_inr]: "io_return x w = (Inr y, w') \<longleftrightarrow> y = x \<and> w' = w"
  by (auto simp: io_return_def)

lemma io_fail_Inr [io_inr]: "io_fail e w = (Inr y, w') \<longleftrightarrow> False"
  by (simp add: io_fail_def)

lemma io_read_Inr [io_inr]: "io_read f w = (Inr y, w') \<longleftrightarrow> f w = (y, w')"
  by (auto simp: io_read_def split: prod.splits)

lemma io_do_Inr [io_inr]: "io_do f w = (Inr y, w') \<longleftrightarrow> w' = f w"
  by (auto simp: io_do_def)

lemma io_result_Inr [io_inr]: "io_result r w = (Inr y, w') \<longleftrightarrow> r = Inr y \<and> w' = w"
  by (auto simp: io_result_def)

lemma io_reject_Inr [io_inr]: "io_reject c e w = (Inr y, w') \<longleftrightarrow> \<not> c \<and> w' = w"
  by (auto simp: io_reject_def)

lemma io_try_Inr [io_inr]: "io_try m w = (Inr r, w') \<longleftrightarrow> m w = (r, w')"
  by (auto simp: io_try_def split: prod.splits)

lemma io_map_err_Inr [io_inr]: "io_map_err f m w = (Inr y, w') \<longleftrightarrow> m w = (Inr y, w')"
  by (auto simp: io_map_err_def split: prod.splits)

subsection \<open>Properties of the world\<close>

definition keeps :: "('w \<Rightarrow> bool) \<Rightarrow> ('w \<Rightarrow> 'a \<times> 'w) \<Rightarrow> bool" where
  "keeps Q m \<longleftrightarrow> (\<forall>w. Q w \<longrightarrow> Q (snd (m w)))"

lemma keepsD: "keeps Q m \<Longrightarrow> Q w \<Longrightarrow> m w = (r, w') \<Longrightarrow> Q w'"
  by (metis keeps_def snd_conv)

lemma keeps_run: "(\<And>w r w'. Q w \<Longrightarrow> m w = (r, w') \<Longrightarrow> Q w') \<Longrightarrow> keeps Q m"
  by (simp add: keeps_def prod_eq_iff)

lemma keeps_return [keeps_intros]: "keeps Q (io_return x)"
  by (simp add: keeps_def io_return_def)

lemma keeps_fail [keeps_intros]: "keeps Q (io_fail e)"
  by (simp add: keeps_def io_fail_def)

lemma keeps_result [keeps_intros]: "keeps Q (io_result r)"
  by (simp add: keeps_def io_result_def)

lemma keeps_reject [keeps_intros]: "keeps Q (io_reject c e)"
  by (simp add: keeps_def io_reject_def)

lemma keeps_then [keeps_intros]:
  assumes "keeps Q m" and "\<And>x. keeps Q (f x)"
  shows "keeps Q (io_then m f)"
proof (rule keeps_run)
  fix w r w'
  assume q: "Q w" and run: "io_then m f w = (r, w')"
  obtain r1 w1 where m: "m w = (r1, w1)" by fastforce
  have q1: "Q w1" by (rule keepsD [OF assms(1) q m])
  show "Q w'"
  proof (cases r1)
    case (Inl e)
    then show ?thesis using run m q1 by (simp add: io_then_def)
  next
    case (Inr x)
    then have "f x w1 = (r, w')" using run m by (simp add: io_then_def)
    then show ?thesis by (rule keepsD [OF assms(2) q1])
  qed
qed

lemma keeps_read [keeps_intros]: "keeps Q f \<Longrightarrow> keeps Q (io_read f)"
  by (auto simp: keeps_def io_read_def split: prod.splits)

lemma keeps_do [keeps_intros]: "(\<And>w. Q w \<Longrightarrow> Q (f w)) \<Longrightarrow> keeps Q (io_do f)"
  by (simp add: keeps_def io_do_def)

lemma keeps_try [keeps_intros]: "keeps Q m \<Longrightarrow> keeps Q (io_try m)"
  by (auto simp: keeps_def io_try_def split: prod.splits)

lemma keeps_map_err [keeps_intros]: "keeps Q m \<Longrightarrow> keeps Q (io_map_err f m)"
  by (auto simp: keeps_def io_map_err_def split: prod.splits)

lemma keeps_if [keeps_intros]: "(c \<Longrightarrow> keeps Q m) \<Longrightarrow> (\<not> c \<Longrightarrow> keeps Q n) \<Longrightarrow> keeps Q (if c then m else n)"
  by simp

lemma keeps_option [keeps_intros]:
  "(x = None \<Longrightarrow> keeps Q m) \<Longrightarrow> (\<And>a. x = Some a \<Longrightarrow> keeps Q (f a)) \<Longrightarrow>
     keeps Q (case x of None \<Rightarrow> m | Some a \<Rightarrow> f a)"
  by (cases x) simp_all

lemma keeps_sum [keeps_intros]:
  "(\<And>e. r = Inl e \<Longrightarrow> keeps Q (f e)) \<Longrightarrow> (\<And>a. r = Inr a \<Longrightarrow> keeps Q (g a)) \<Longrightarrow>
     keeps Q (case r of Inl e \<Rightarrow> f e | Inr a \<Rightarrow> g a)"
  by (cases r) simp_all

lemma keeps_prod [keeps_intros]:
  "(\<And>a b. p = (a, b) \<Longrightarrow> keeps Q (f a b)) \<Longrightarrow> keeps Q (case p of (a, b) \<Rightarrow> f a b)"
  by (cases p) simp

lemma keeps_let [keeps_intros]: "(\<And>x. x = a \<Longrightarrow> keeps Q (f x)) \<Longrightarrow> keeps Q (Let a f)"
  by simp

subsection \<open>Errors and values\<close>

definition meets :: "('w \<Rightarrow> bool) \<Rightarrow> ('e \<Rightarrow> bool) \<Rightarrow> ('a \<Rightarrow> bool) \<Rightarrow> ('w, 'e, 'a) io \<Rightarrow> bool" where
  "meets Q E R m \<longleftrightarrow>
     (\<forall>w r w'. Q w \<longrightarrow> m w = (r, w') \<longrightarrow> Q w' \<and> (case r of Inl e \<Rightarrow> E e | Inr x \<Rightarrow> R x))"

abbreviation any :: "'a \<Rightarrow> bool" where
  "any \<equiv> \<lambda>_. True"

named_theorems meets_intros \<open>what a call meets, its value disregarded\<close>

lemma meetsI:
  "(\<And>w r w'. Q w \<Longrightarrow> m w = (r, w') \<Longrightarrow> Q w' \<and> (case r of Inl e \<Rightarrow> E e | Inr x \<Rightarrow> R x)) \<Longrightarrow>
     meets Q E R m"
  by (simp add: meets_def)

lemma meets_value: "meets Q E R m \<Longrightarrow> Q w \<Longrightarrow> m w = (Inr x, w') \<Longrightarrow> Q w' \<and> R x"
  by (fastforce simp: meets_def)

lemma meets_error: "meets Q E R m \<Longrightarrow> Q w \<Longrightarrow> m w = (Inl e, w') \<Longrightarrow> Q w' \<and> E e"
  by (fastforce simp: meets_def)

lemma meets_keeps: "meets Q E R m \<Longrightarrow> keeps Q m"
  by (rule keeps_run) (auto simp: meets_def)

lemma meets_mono: "meets Q E R m \<Longrightarrow> (\<And>x. R x \<Longrightarrow> R' x) \<Longrightarrow> meets Q E R' m"
  by (fastforce simp: meets_def split: sum.split)

lemma meets_any: "meets Q E R m \<Longrightarrow> meets Q E any m"
  by (rule meets_mono) simp_all

lemma meets_then:
  assumes "meets Q E R' m" and "\<And>x. R' x \<Longrightarrow> meets Q E R (f x)"
  shows "meets Q E R (io_then m f)"
proof (rule meetsI)
  fix w r w'
  assume q: "Q w" and run: "io_then m f w = (r, w')"
  obtain r1 w1 where m: "m w = (r1, w1)" by fastforce
  show "Q w' \<and> (case r of Inl e \<Rightarrow> E e | Inr x \<Rightarrow> R x)"
  proof (cases r1)
    case (Inl e)
    then have "r = Inl e" "w' = w1" using run m by (simp_all add: io_then_def)
    then show ?thesis using meets_error [OF assms(1) q] m Inl by simp
  next
    case (Inr x)
    then have "f x w1 = (r, w')" using run m by (simp add: io_then_def)
    moreover have "Q w1" and "R' x" using meets_value [OF assms(1) q] m Inr by blast+
    ultimately show ?thesis using assms(2) by (fastforce simp: meets_def)
  qed
qed

lemma meets_next [meets_intros]:
  "meets Q E any m \<Longrightarrow> (\<And>x. meets Q E R (f x)) \<Longrightarrow> meets Q E R (io_then m f)"
  by (rule meets_then)

lemma meets_return [meets_intros]: "R x \<Longrightarrow> meets Q E R (io_return x)"
  by (simp add: meets_def io_return_def)

lemma meets_fail [meets_intros]: "E e \<Longrightarrow> meets Q E R (io_fail e)"
  by (simp add: meets_def io_fail_def)

lemma meets_read [meets_intros]: "keeps Q f \<Longrightarrow> (\<And>w. R (fst (f w))) \<Longrightarrow> meets Q E R (io_read f)"
  by (auto simp: meets_def keeps_def io_read_def split: prod.split_asm) (metis fst_conv snd_conv)+

lemma meets_result [meets_intros]:
  "(\<And>e. r = Inl e \<Longrightarrow> E e) \<Longrightarrow> (\<And>x. r = Inr x \<Longrightarrow> R x) \<Longrightarrow> meets Q E R (io_result r)"
  by (auto simp: meets_def io_result_def split: sum.split)

lemma meets_reject [meets_intros]: "(c \<Longrightarrow> E e) \<Longrightarrow> (\<not> c \<Longrightarrow> R ()) \<Longrightarrow> meets Q E R (io_reject c e)"
  by (simp add: meets_def io_reject_def)

lemma meets_try [meets_intros]: "keeps Q m \<Longrightarrow> (\<And>r. R r) \<Longrightarrow> meets Q E R (io_try m)"
  by (rule meetsI) (auto simp: io_try_def dest: keepsD split: prod.split_asm)

lemma meets_map_err [meets_intros]:
  "keeps Q m \<Longrightarrow> (\<And>e. E (f e)) \<Longrightarrow> (\<And>x. R x) \<Longrightarrow> meets Q E R (io_map_err f m)"
  by (rule meetsI)
    (auto simp: io_map_err_def map_err_def dest: keepsD split: prod.split_asm sum.split sum.split_asm)

lemma meets_map_err_value:
  "meets Q E' R m \<Longrightarrow> (\<And>e. E' e \<Longrightarrow> E (f e)) \<Longrightarrow> meets Q E R (io_map_err f m)"
  by (rule meetsI)
    (auto simp: io_map_err_def map_err_def dest: meets_value meets_error
      split: prod.split_asm sum.split sum.split_asm)

lemma meets_if [meets_intros]:
  "(c \<Longrightarrow> meets Q E R m) \<Longrightarrow> (\<not> c \<Longrightarrow> meets Q E R n) \<Longrightarrow> meets Q E R (if c then m else n)"
  by simp

lemma meets_option [meets_intros]:
  "(x = None \<Longrightarrow> meets Q E R m) \<Longrightarrow> (\<And>a. x = Some a \<Longrightarrow> meets Q E R (f a)) \<Longrightarrow>
     meets Q E R (case x of None \<Rightarrow> m | Some a \<Rightarrow> f a)"
  by (cases x) simp_all

lemma meets_sum [meets_intros]:
  "(\<And>e. r = Inl e \<Longrightarrow> meets Q E R (f e)) \<Longrightarrow> (\<And>a. r = Inr a \<Longrightarrow> meets Q E R (g a)) \<Longrightarrow>
     meets Q E R (case r of Inl e \<Rightarrow> f e | Inr a \<Rightarrow> g a)"
  by (cases r) simp_all

lemma meets_prod [meets_intros]:
  "(\<And>a b. p = (a, b) \<Longrightarrow> meets Q E R (f a b)) \<Longrightarrow> meets Q E R (case p of (a, b) \<Rightarrow> f a b)"
  by (cases p) simp

lemma meets_let [meets_intros]: "(\<And>x. x = a \<Longrightarrow> meets Q E R (f x)) \<Longrightarrow> meets Q E R (Let a f)"
  by simp

end
