(* ===== verification/Token_Service.thy ===== *)
theory Token_Service
  imports Authorization_Store
begin

text \<open>
  The token service of the core (\<open>src/crates/authorization-server-core/src\<close>:
  \<open>token.rs\<close>, \<open>token_service.rs\<close>) and its state on Valkey
  (\<open>src/crates/state-store-valkey/src\<close>: \<open>token_issuance.rs\<close>,
  \<open>token_state.rs\<close>). The service holds three ports, each the record of its operations:
  the repository, the state store and the signer. Its methods that only forward to a port operation
  are that field of the port. An instant's \<open>timestamp()\<close> is its whole seconds;
  \<open>from_timestamp\<close> and \<open>uuid_parse\<close> are arguments, as is the deserialiser of
  stored holder requirements.
\<close>

subsection \<open>Refresh families\<close>

record refresh_token_authentication_context =
  rac_version :: nat
  rac_issuer :: string
  rac_audience :: string
  rac_auth_time :: int
  rac_amr :: "string list"
  rac_oidc_sid :: "string option"
  rac_acr :: "string option"
  rac_userinfo_claim_requests :: "oidc_claim_request list"
  rac_id_token_claim_requests :: "oidc_claim_request list"

definition REFRESH_CONTEXT_CURRENT_VERSION :: nat where
  "REFRESH_CONTEXT_CURRENT_VERSION = 2"

definition is_supported_version :: "refresh_token_authentication_context \<Rightarrow> bool" where
  "is_supported_version c \<longleftrightarrow> rac_version c = 1 \<or> rac_version c = REFRESH_CONTEXT_CURRENT_VERSION"

definition is_well_formed :: "refresh_token_authentication_context \<Rightarrow> bool" where
  "is_well_formed c \<longleftrightarrow>
     is_supported_version c \<and> trim (rac_issuer c) \<noteq> [] \<and> trim (rac_audience c) \<noteq> [] \<and>
     rac_auth_time c > 0 \<and> rac_amr c \<noteq> [] \<and> list_all (\<lambda>m. trim m \<noteq> []) (rac_amr c) \<and>
     is_none_or (\<lambda>sid. trim sid \<noteq> []) (rac_oidc_sid c) \<and>
     is_none_or (\<lambda>acr. trim acr \<noteq> []) (rac_acr c)"

record refresh_contract =
  rc_subject :: string
  rc_scopes :: "string list"
  rc_audiences :: "string list"
  rc_authorization_details :: json
  rc_authentication_context :: refresh_token_authentication_context

definition MAX_SPENT_PROOFS_PER_REFRESH_FAMILY :: int where
  "MAX_SPENT_PROOFS_PER_REFRESH_FAMILY = 64"

definition refresh_spent_proof_limit :: "string \<Rightarrow> string option \<Rightarrow> string option \<Rightarrow> int option" where
  "refresh_spent_proof_limit kind dpop_jkt mtls_x5t_s256 =
     (if kind = ''confidential'' \<or> dpop_jkt \<noteq> None \<or> mtls_x5t_s256 \<noteq> None
      then Some MAX_SPENT_PROOFS_PER_REFRESH_FAMILY else None)"

record refresh_token_record =
  rt_id_token_sid :: "string option"
  rt_id :: uuid
  rt_token_blake3 :: string
  rt_tenant_id :: uuid
  rt_token_family_id :: uuid
  rt_client_id :: uuid
  rt_user_id :: "uuid option"
  rt_contract_key :: string
  rt_contract :: refresh_contract
  rt_audience :: "string list"
  rt_issued_at :: time
  rt_expires_at :: time
  rt_revoked_at :: "time option"
  rt_dpop_jkt :: "string option"
  rt_mtls_x5t_s256 :: "string option"
  rt_client_attestation_jkt :: "string option"

record refresh_token_authority =
  ra_tenant_id :: uuid
  ra_client_id :: uuid
  ra_user_id :: "uuid option"
  ra_family_id :: uuid
  ra_member_id :: uuid
  ra_token_blake3 :: string
  ra_contract_key :: string
  ra_contract :: refresh_contract
  ra_current_audiences :: "string list"
  ra_id_token_sid :: "string option"
  ra_dpop_jkt :: "string option"
  ra_mtls_x5t_s256 :: "string option"
  ra_client_attestation_jkt :: "string option"

definition authority :: "refresh_token_record \<Rightarrow> refresh_token_authority" where
  "authority t =
     \<lparr>ra_tenant_id = rt_tenant_id t, ra_client_id = rt_client_id t, ra_user_id = rt_user_id t,
      ra_family_id = rt_token_family_id t, ra_member_id = rt_id t,
      ra_token_blake3 = rt_token_blake3 t, ra_contract_key = rt_contract_key t,
      ra_contract = rt_contract t, ra_current_audiences = rt_audience t,
      ra_id_token_sid = rt_id_token_sid t, ra_dpop_jkt = rt_dpop_jkt t,
      ra_mtls_x5t_s256 = rt_mtls_x5t_s256 t,
      ra_client_attestation_jkt = rt_client_attestation_jkt t\<rparr>"

record lost_response_retry =
  lr_original_id :: uuid
  lr_original_blake3 :: string
  lr_retry_started_at :: time

record new_refresh_token =
  nt_raw_token :: string
  nt_member_id :: uuid
  nt_tenant_id :: uuid
  nt_family_id :: uuid
  nt_rotated_from_id :: "uuid option"
  nt_lost_response_retry :: "lost_response_retry option"
  nt_client_id :: uuid
  nt_user_id :: "uuid option"
  nt_audiences :: "string list"
  nt_issued_at :: time
  nt_expires_at :: time
  nt_id_token_sid :: "string option"
  nt_dpop_jkt :: "string option"
  nt_mtls_x5t_s256 :: "string option"
  nt_client_attestation_jkt :: "string option"

datatype refresh_token_commit =
    CommitIssueNew new_refresh_token refresh_contract
  | CommitUseExisting refresh_token_authority "new_refresh_token option"

fun commit_token :: "refresh_token_commit \<Rightarrow> new_refresh_token option" where
  "commit_token (CommitIssueNew token _) = Some token"
| "commit_token (CommitUseExisting _ rotation) = rotation"

fun commit_contract :: "refresh_token_commit \<Rightarrow> refresh_contract" where
  "commit_contract (CommitIssueNew _ contract) = contract"
| "commit_contract (CommitUseExisting source _) = ra_contract source"

fun commit_family_id :: "refresh_token_commit \<Rightarrow> uuid" where
  "commit_family_id (CommitIssueNew token _) = nt_family_id token"
| "commit_family_id (CommitUseExisting source _) = ra_family_id source"

subsection \<open>Holder requirements of a code\<close>

datatype code_client_authentication = ClientPublic | ClientAuthenticated

record holder_evidence =
  he_version :: nat
  he_authenticated_client :: bool
  he_pkce_s256 :: "string option"
  he_dpop_jkt :: "string option"
  he_mtls_x5t_s256 :: "string option"
  he_client_attestation_jkt :: "string option"

definition from_verified_requirements ::
  "code_client_authentication \<Rightarrow> string option \<Rightarrow> string option \<Rightarrow> string option \<Rightarrow> string option \<Rightarrow>
    holder_evidence option"
where
  "from_verified_requirements client_authentication pkce dpop mtls attestation =
     (let proofs = [pkce, dpop, mtls, attestation] in
      if list_ex (\<lambda>proof. is_some_and (\<lambda>t. t = []) proof) proofs \<or>
         (client_authentication = ClientPublic \<and> list_all (\<lambda>proof. proof = None) proofs) \<or>
         (dpop \<noteq> None \<and> mtls \<noteq> None)
      then None
      else Some \<lparr>he_version = 1,
        he_authenticated_client = (client_authentication = ClientAuthenticated),
        he_pkce_s256 = pkce, he_dpop_jkt = dpop, he_mtls_x5t_s256 = mtls,
        he_client_attestation_jkt = attestation\<rparr>)"

text \<open>\<open>StoredAuthorizationCodeHolderEvidence\<close> has the same fields.\<close>

definition from_persisted :: "(json \<Rightarrow> holder_evidence option) \<Rightarrow> json \<Rightarrow> holder_evidence option" where
  "from_persisted from_value v =
     (case from_value v of
        None \<Rightarrow> None
      | Some stored \<Rightarrow>
          if he_version stored \<noteq> 1 then None
          else from_verified_requirements
            (if he_authenticated_client stored then ClientAuthenticated else ClientPublic)
            (he_pkce_s256 stored) (he_dpop_jkt stored) (he_mtls_x5t_s256 stored)
            (he_client_attestation_jkt stored))"

record single_use_redemption =
  sr_authorization_code_holder :: "holder_evidence option"
  sr_access_token_jti :: string
  sr_access_token_expires_at :: time
  sr_refresh_token_family_id :: "uuid option"

subsection \<open>Inputs and results of the ports\<close>

datatype token_port_error =
    TokenUnavailable | TokenConflict | TokenCorruptData | TokenInvalidSenderConstraint
  | TokenUnexpected

record postal_address =
  pa_formatted :: "string option"
  pa_street_address :: "string option"
  pa_locality :: "string option"
  pa_region :: "string option"
  pa_postal_code :: "string option"
  pa_country :: "string option"

record subject_claims =
  sc_subject :: uuid
  sc_preferred_username :: string
  sc_name :: "string option"
  sc_given_name :: "string option"
  sc_family_name :: "string option"
  sc_middle_name :: "string option"
  sc_nickname :: "string option"
  sc_profile :: "string option"
  sc_picture :: "string option"
  sc_website :: "string option"
  sc_gender :: "string option"
  sc_birthdate :: "string option"
  sc_zoneinfo :: "string option"
  sc_locale :: "string option"
  sc_email :: string
  sc_email_verified :: bool
  sc_address :: "postal_address option"
  sc_phone_number :: "string option"
  sc_phone_number_verified :: bool
  sc_updated_at :: int

record prepared_token_subject =
  pts_tenant_id :: uuid
  pts_claims :: subject_claims
  pts_user_epoch :: int
  pts_token_subject :: string
  pts_subject_bound :: bool

record issued_access_token =
  iat_token :: string
  iat_jti :: string
  iat_expires_at :: int

datatype token_issuance_mode =
    ModeFresh
  | ModeSingleUse string time
  | ModeAuthorizationCode string time holder_evidence

record token_issued_audit_fields =
  taf_client_id :: string
  taf_subject_hash :: string
  taf_scope :: string
  taf_audience :: "string list"

record token_principal_state =
  tps_client_epoch :: int
  tps_user_epoch :: "int option"
  tps_subject_bound :: bool

record native_sso_source_fence =
  nf_tenant_id :: uuid
  nf_user_id :: uuid
  nf_source_client_id :: string
  nf_family_id :: uuid
  nf_device_secret_expires_at :: time

record commit_token_issuance =
  ct_authorization_id :: "uuid option"
  ct_principal_state :: token_principal_state
  ct_subject :: string
  ct_issuance_id :: uuid
  ct_tenant_id :: uuid
  ct_client_id :: uuid
  ct_user_id :: "uuid option"
  ct_mode :: token_issuance_mode
  ct_access_token_jti :: string
  ct_access_token_expires_at :: int
  ct_refresh_token :: "refresh_token_commit option"
  ct_native_sso_source :: "native_sso_source_fence option"
  ct_audit_fields :: token_issued_audit_fields

datatype commit_token_issuance_result =
    IssuanceCommitted | IssuanceAlreadyUsed | IssuanceGrantExpired | IssuanceClientInactive
  | IssuanceSubjectInactive | IssuanceRefreshGrantUnavailable | IssuanceRotationConflict

record access_token_sign_input =
  si_signing_algorithm :: "string option"
  si_authorization_id :: "uuid option"
  si_client_epoch :: "int option"
  si_user_epoch :: "int option"
  si_issuer :: string
  si_tenant_id :: uuid
  si_subject :: string
  si_user_id :: "uuid option"
  si_subject_type :: string
  si_client_id :: string
  si_audiences :: "string list"
  si_scopes :: "string list"
  si_authorization_details :: json
  si_userinfo_claim_requests :: "oidc_claim_request list"
  si_ttl_seconds :: int
  si_sender_constraint :: applied_sender_constraint
  si_actor :: "json option"

record id_token_sign_input =
  ii_issuer :: string
  ii_subject :: string
  ii_client_id :: string
  ii_nonce :: "string option"
  ii_auth_time :: "int option"
  ii_amr :: "string list"
  ii_sid :: "string option"
  ii_acr :: "string option"
  ii_extra_claims :: "json option"
  ii_ttl_seconds :: int
  ii_signing_algorithm :: "string option"

record access_token_revocation =
  ar_jti :: string
  ar_expires_at :: time

record token_revocation =
  tv_tenant_id :: uuid
  tv_client_id :: uuid
  tv_raw_token :: string
  tv_access_token :: "access_token_revocation option"

subsection \<open>Ports\<close>

record 'w token_repository =
  tr_token_principal_state :: "uuid \<Rightarrow> int \<Rightarrow> uuid option \<Rightarrow> string \<Rightarrow>
    ('w, token_port_error, token_principal_state) io"
  tr_commit_token_issuance :: "commit_token_issuance \<Rightarrow>
    ('w, token_port_error, commit_token_issuance_result) io"
  tr_single_use_redemption :: "uuid \<Rightarrow> uuid \<Rightarrow> string \<Rightarrow>
    ('w, token_port_error, single_use_redemption option) io"
  tr_refresh_token :: "uuid \<Rightarrow> string \<Rightarrow> ('w, token_port_error, refresh_token_record option) io"
  tr_active_subject_claims :: "uuid \<Rightarrow> uuid \<Rightarrow> string \<Rightarrow>
    ('w, token_port_error, prepared_token_subject option) io"
  tr_active_subject_id :: "uuid \<Rightarrow> uuid \<Rightarrow> ('w, token_port_error, uuid option) io"
  tr_revoke_issued_tokens :: "uuid \<Rightarrow> uuid \<Rightarrow> string \<Rightarrow> time option \<Rightarrow> uuid option \<Rightarrow>
    ('w, token_port_error, unit) io"
  tr_access_token_revoked :: "uuid \<Rightarrow> claims \<Rightarrow> ('w, token_port_error, bool) io"
  tr_revoke_token_with_audit :: "token_revocation \<Rightarrow> string \<Rightarrow> string \<Rightarrow> ('w, token_port_error, nat) io"

record 'w token_state_store =
  ts_load_authorization_code :: "string \<Rightarrow> ('w, token_port_error, authorization_code_state option) io"
  ts_begin_authorization_code :: "string \<Rightarrow> time \<Rightarrow>
    ('w, token_port_error, authorization_code_begin_result) io"
  ts_mark_authorization_code :: "string \<Rightarrow> authorization_code_state \<Rightarrow> nat \<Rightarrow>
    ('w, token_port_error, authorization_code_transition_result) io"
  ts_delete_authorization_code :: "string \<Rightarrow> ('w, token_port_error, unit) io"
  ts_increment_token_management_rate :: "string \<Rightarrow> nat \<Rightarrow> ('w, token_port_error, nat) io"
  ts_store_native_sso :: "string \<Rightarrow> json \<Rightarrow> nat \<Rightarrow> ('w, token_port_error, unit) io"
  ts_load_native_sso :: "string \<Rightarrow> ('w, token_port_error, json option) io"

record 'w token_signer =
  tk_sign_access_token :: "access_token_sign_input \<Rightarrow> ('w, token_port_error, issued_access_token) io"
  tk_sign_id_token :: "id_token_sign_input \<Rightarrow> ('w, token_port_error, string) io"
  tk_decode_access_token :: "string \<Rightarrow> string \<Rightarrow> ('w, token_port_error, claims option) io"

record 'w token_service =
  sv_repository :: "'w token_repository"
  sv_state :: "'w token_state_store"
  sv_signer :: "'w token_signer"

subsection \<open>Operations of the service\<close>

definition jwt_response_signing_algorithm :: "string option \<Rightarrow> bool \<Rightarrow> unit + string option" where
  "jwt_response_signing_algorithm configured require_fapi2 =
     (if \<not> require_fapi2 then Inr configured
      else (case configured of
          Some algorithm \<Rightarrow>
            if algorithm \<notin> set FAPI2_JWT_SIGNING_ALGS then Inl () else Inr (Some algorithm)
        | None \<Rightarrow> Inr (Some ''PS256'')))"

definition id_token_signing_algorithm :: "string option \<Rightarrow> bool \<Rightarrow> unit + string" where
  "id_token_signing_algorithm configured require_fapi2 =
     and_then (jwt_response_signing_algorithm configured require_fapi2)
       (\<lambda>algorithm. Inr (case algorithm of None \<Rightarrow> ''RS256'' | Some a \<Rightarrow> a))"

definition validate_sender_constraint ::
  "string option \<Rightarrow> string option \<Rightarrow> token_port_error + applied_sender_constraint"
where
  "validate_sender_constraint dpop mtls =
     map_err (\<lambda>_. TokenInvalidSenderConstraint)
       (apply_sender_constraint BearerAllowed \<lparr>psc_dpop_jkt = dpop, psc_mtls_x5t_s256 = mtls\<rparr>)"

record active_access =
  aa_scope :: string
  aa_client_id :: string
  aa_token_type :: string
  aa_expires_at :: int
  aa_issued_at :: int
  aa_not_before :: int
  aa_subject :: string
  aa_audience :: json
  aa_issuer :: string
  aa_jti :: string
  aa_cnf :: "confirmation_claims option"

record active_refresh =
  af_scope :: string
  af_client_id :: string
  af_expires_at :: int
  af_issued_at :: int
  af_subject :: string

datatype token_inspection =
  InspectionInactive | InspectionAccess active_access | InspectionRefresh active_refresh

definition access_token_type :: "claims \<Rightarrow> string" where
  "access_token_type c =
     (if Option.bind (c_cnf c) cnf_jkt \<noteq> None then ''DPoP'' else ''Bearer'')"

definition unix_seconds :: "time \<Rightarrow> int" where
  "unix_seconds t = t div 1000000000"

definition inspect_token ::
  "(string \<Rightarrow> uuid option) \<Rightarrow> 'w token_service \<Rightarrow> string \<Rightarrow> string \<Rightarrow> oauth_client \<Rightarrow> time \<Rightarrow>
    ('w, token_port_error, token_inspection) io"
where
  "inspect_token uuid_parse sv issuer raw_token resource_server now w =
     (case tk_decode_access_token (sv_signer sv) issuer raw_token w of
        (Inl e, w1) \<Rightarrow> (Inl e, w1)
      | (Inr (Some c), w1) \<Rightarrow>
          let audience_allowed = list_ex (\<lambda>audience. token_audience_contains (c_aud c) audience)
                (introspection_audiences (security_policy (registration resource_server)))
          in if (c_client_id c \<noteq> oc_client_id resource_server \<and> \<not> audience_allowed) \<or>
                uuid_parse (c_tenant_id c) \<noteq> Some (oc_tenant_id resource_server)
             then (Inr InspectionInactive, w1)
             else if c_exp c \<le> unix_seconds now then (Inr InspectionInactive, w1)
             else (case tr_access_token_revoked (sv_repository sv) (oc_tenant_id resource_server) c w1 of
                 (Inl e, w2) \<Rightarrow> (Inl e, w2)
               | (Inr revoked, w2) \<Rightarrow>
                   if revoked then (Inr InspectionInactive, w2)
                   else (Inr (InspectionAccess
                     \<lparr>aa_scope = c_scope c, aa_client_id = c_client_id c,
                      aa_token_type = access_token_type c, aa_expires_at = c_exp c,
                      aa_issued_at = c_iat c, aa_not_before = c_nbf c, aa_subject = c_sub c,
                      aa_audience = c_aud c, aa_issuer = c_iss c, aa_jti = c_jti c,
                      aa_cnf = c_cnf c\<rparr>), w2))
      | (Inr None, w1) \<Rightarrow>
         (case tr_refresh_token (sv_repository sv) (oc_tenant_id resource_server) raw_token w1 of
            (Inl e, w2) \<Rightarrow> (Inl e, w2)
          | (Inr None, w2) \<Rightarrow> (Inr InspectionInactive, w2)
          | (Inr (Some t), w2) \<Rightarrow>
              if rt_client_id t \<noteq> oc_id resource_server \<or> \<not> oc_is_active resource_server \<or>
                 rt_revoked_at t \<noteq> None \<or> rt_expires_at t \<le> now
              then (Inr InspectionInactive, w2)
              else
                let active = InspectionRefresh
                      \<lparr>af_scope = join '' '' (rc_scopes (rt_contract t)),
                       af_client_id = oc_client_id resource_server,
                       af_expires_at = unix_seconds (rt_expires_at t),
                       af_issued_at = unix_seconds (rt_issued_at t),
                       af_subject = rc_subject (rt_contract t)\<rparr>
                in (case rt_user_id t of
                      None \<Rightarrow> (Inr active, w2)
                    | Some user_id \<Rightarrow>
                       (case tr_active_subject_id (sv_repository sv) (rt_tenant_id t) user_id w2 of
                          (Inl e, w3) \<Rightarrow> (Inl e, w3)
                        | (Inr None, w3) \<Rightarrow> (Inr InspectionInactive, w3)
                        | (Inr (Some _), w3) \<Rightarrow> (Inr active, w3)))))"

text \<open>The response document of RFC 7662.\<close>

definition confirmation_json :: "confirmation_claims \<Rightarrow> json" where
  "confirmation_json c =
     JObject (insert_some ''x5t#S256'' (map_option JString (cnf_x5t_s256 c))
       (insert_some ''jkt'' (map_option JString (cnf_jkt c)) []))"

fun into_document :: "token_inspection \<Rightarrow> json" where
  "into_document InspectionInactive = JObject [(''active'', JBool False)]"
| "into_document (InspectionAccess a) =
     JObject (insert_some ''cnf'' (map_option confirmation_json (aa_cnf a))
       (map_insert ''jti'' (JString (aa_jti a))
       (map_insert ''iss'' (JString (aa_issuer a))
       (map_insert ''aud'' (aa_audience a)
       (map_insert ''sub'' (JString (aa_subject a))
       (map_insert ''client_id'' (JString (aa_client_id a))
       (map_insert ''scope'' (JString (aa_scope a))
         [(''active'', JBool True), (''token_type'', JString (aa_token_type a)),
          (''exp'', JInt (aa_expires_at a)), (''iat'', JInt (aa_issued_at a)),
          (''nbf'', JInt (aa_not_before a))])))))))"
| "into_document (InspectionRefresh r) =
     JObject (map_insert ''sub'' (JString (af_subject r))
       (map_insert ''client_id'' (JString (af_client_id r))
       (map_insert ''scope'' (JString (af_scope r))
         [(''active'', JBool True), (''exp'', JInt (af_expires_at r)),
          (''iat'', JInt (af_issued_at r))])))"

definition verified_revocation_target ::
  "(string \<Rightarrow> uuid option) \<Rightarrow> (int \<Rightarrow> time option) \<Rightarrow> 'w token_service \<Rightarrow> string \<Rightarrow> string \<Rightarrow> oauth_client \<Rightarrow>
    ('w, token_port_error, access_token_revocation option) io"
where
  "verified_revocation_target uuid_parse from_timestamp sv issuer raw_token client w =
     (case tk_decode_access_token (sv_signer sv) issuer raw_token w of
        (Inl e, w1) \<Rightarrow> (Inl e, w1)
      | (Inr decoded, w1) \<Rightarrow>
          (Inr (Option.bind decoded (\<lambda>c.
             if c_client_id c = oc_client_id client \<and>
                uuid_parse (c_tenant_id c) = Some (oc_tenant_id client)
             then map_option (\<lambda>t. \<lparr>ar_jti = c_jti c, ar_expires_at = t\<rparr>) (from_timestamp (c_exp c))
             else None)), w1))"

definition revoke_token_with_audit ::
  "(string \<Rightarrow> uuid option) \<Rightarrow> (int \<Rightarrow> time option) \<Rightarrow> 'w token_service \<Rightarrow> string \<Rightarrow> string \<Rightarrow> oauth_client \<Rightarrow>
    string \<Rightarrow> ('w, token_port_error, nat) io"
where
  "revoke_token_with_audit uuid_parse from_timestamp sv issuer raw_token client source_ip_hash w =
     (case verified_revocation_target uuid_parse from_timestamp sv issuer raw_token client w of
        (Inl e, w1) \<Rightarrow> (Inl e, w1)
      | (Inr target, w1) \<Rightarrow>
          tr_revoke_token_with_audit (sv_repository sv)
            \<lparr>tv_tenant_id = oc_tenant_id client, tv_client_id = oc_id client,
             tv_raw_token = raw_token, tv_access_token = target\<rparr>
            (oc_client_id client) source_ip_hash w1)"

text \<open>\<open>now\<close> is the value of \<open>Utc::now()\<close> at the call.\<close>

definition mark_authorization_code_failed ::
  "'w token_service \<Rightarrow> string \<Rightarrow> string \<Rightarrow> nat \<Rightarrow> time \<Rightarrow>
    ('w, token_port_error, authorization_code_transition_result) io"
where
  "mark_authorization_code_failed sv code_hash error ttl_seconds now =
     ts_mark_authorization_code (sv_state sv) code_hash (CodeFailed now error) ttl_seconds"

subsection \<open>The state on Valkey\<close>

fun token_map_error :: "vk_error_kind \<Rightarrow> token_port_error" where
  "token_map_error VkTimeout = TokenUnavailable"
| "token_map_error VkUnavailable = TokenUnavailable"
| "token_map_error VkCorruptData = TokenCorruptData"
| "token_map_error VkProtocol = TokenUnexpected"
| "token_map_error VkUnexpectedResult = TokenUnexpected"

definition token_adapted :: "(vk_error_kind + 'a) \<times> 'w \<Rightarrow> (token_port_error + 'a) \<times> 'w" where
  "token_adapted r = (map_err token_map_error (fst r), snd r)"

definition key_native_sso :: "(string \<Rightarrow> string) \<Rightarrow> string \<Rightarrow> string" where
  "key_native_sso digest secret = ''oauth:native_sso:device_secret:'' @ digest secret"

text \<open>\<open>TokenStateStore\<close>; the codec is \<open>serde_json\<close> at \<open>Value\<close>.\<close>

definition vk_store_native_sso ::
  "'w authorization_store \<Rightarrow> json codec \<Rightarrow> string \<Rightarrow> json \<Rightarrow> nat \<Rightarrow> ('w, vk_error_kind, unit) io"
where
  "vk_store_native_sso az c secret value ttl w =
     (case encode c value of
        None \<Rightarrow> (Inl VkProtocol, w)
      | Some raw \<Rightarrow> set_ex (az_vk az) (az_namespace az) (key_native_sso (az_digest az) secret) raw ttl w)"

definition vk_load_native_sso ::
  "'w authorization_store \<Rightarrow> json codec \<Rightarrow> string \<Rightarrow> ('w, vk_error_kind, json option) io"
where
  "vk_load_native_sso az c secret w =
     (case command_get (az_vk az) (az_namespace az) (key_native_sso (az_digest az) secret) w of
        (Inl e, w1) \<Rightarrow> (Inl e, w1)
      | (Inr None, w1) \<Rightarrow> (Inr None, w1)
      | (Inr (Some raw), w1) \<Rightarrow>
         (case decode c raw of
            None \<Rightarrow> (Inl VkProtocol, w1)
          | Some value \<Rightarrow> (Inr (Some value), w1)))"

definition valkey_token_state ::
  "'w authorization_store \<Rightarrow> 'w rate_limit_store \<Rightarrow> json codec \<Rightarrow> 'w token_state_store"
where
  "valkey_token_state az rl values =
     \<lparr>ts_load_authorization_code = (\<lambda>code_hash w.
        token_adapted (load_json az (az_code_codec az) (key_authorization_code_hash code_hash) w)),
      ts_begin_authorization_code = (\<lambda>code_hash consuming_at w.
        token_adapted (begin_authorization_code az code_hash consuming_at w)),
      ts_mark_authorization_code = (\<lambda>code_hash replacement ttl w.
        token_adapted (mark_authorization_code az code_hash replacement ttl w)),
      ts_delete_authorization_code = (\<lambda>code_hash w.
        case token_adapted (command_delete (az_vk az) (az_namespace az)
          (key_authorization_code_hash code_hash) w) of (r, w1) \<Rightarrow> (and_then r (\<lambda>_. Inr ()), w1)),
      ts_increment_token_management_rate = (\<lambda>subject window w.
        token_adapted (rate_increment rl RateTokenManagement subject window w)),
      ts_store_native_sso = (\<lambda>secret value ttl w.
        token_adapted (vk_store_native_sso az values secret value ttl w)),
      ts_load_native_sso = (\<lambda>secret w. token_adapted (vk_load_native_sso az values secret w))\<rparr>"

subsection \<open>Facts\<close>

text \<open>Requirements are restored as they were built.\<close>

lemma requirements_fields:
  assumes "from_verified_requirements a p d m t = Some h"
  shows "he_version h = 1" and "he_authenticated_client h \<longleftrightarrow> a = ClientAuthenticated"
    and "he_pkce_s256 h = p" and "he_dpop_jkt h = d" and "he_mtls_x5t_s256 h = m"
    and "he_client_attestation_jkt h = t"
  using assms by (auto simp: from_verified_requirements_def Let_def split: if_split_asm)

lemma requirements_restored:
  assumes "from_verified_requirements a p d m t = Some h" and "from_value v = Some h"
  shows "from_persisted from_value v = Some h"
proof -
  have "(if he_authenticated_client h then ClientAuthenticated else ClientPublic) = a"
    by (cases a) (simp_all add: requirements_fields(2) [OF assms(1)])
  then show ?thesis using assms(1) requirements_fields [OF assms(1)]
    by (simp add: from_persisted_def assms(2))
qed

lemma requirements_bind:
  assumes "from_verified_requirements a p d m t = Some h"
  shows "a = ClientAuthenticated \<or> p \<noteq> None \<or> d \<noteq> None \<or> m \<noteq> None \<or> t \<noteq> None"
    and "d = None \<or> m = None"
  using assms by (cases a; auto simp: from_verified_requirements_def Let_def split: if_split_asm)+

end
