(* ===== verification/Oidc_Logout.thy ===== *)
theory Oidc_Logout
  imports Uri_Policy
begin

text \<open>
  Subjects and RP-initiated logout
  (\<open>src/crates/authorization-server-core/src/oidc_logout.rs\<close>): which client a logout
  request speaks for, where it may be sent afterwards, and the subject under which a user is known to
  a client. \<open>subject_lib\<close> holds what is called of the \<open>url\<close>, \<open>base64\<close>,
  \<open>hmac\<close> and \<open>uuid\<close> crates.
\<close>

record subject_lib =
  sl_url :: url_lib
  sl_base64 :: base64
  sl_hmac_sha256 :: "string \<Rightarrow> string \<Rightarrow> string"
  sl_uuid_text :: "uuid \<Rightarrow> string"

record logout_client =
  lc_redirect_uris :: "string list"
  lc_subject_type :: string
  lc_sector_identifier_host :: "string option"

record id_token_hint_claims =
  hint_sub :: string
  hint_aud :: json
  hint_sid :: "string option"

datatype logout_policy_error =
    ClientAudienceMismatch | AmbiguousAudience | ClientRequiredForRedirect
  | RegisteredClientRequired | UnregisteredRedirect | InvalidRedirect | PairwiseSecretMissing
  | UnsupportedSubjectType

fun audience_contains :: "json \<Rightarrow> string \<Rightarrow> bool" where
  "audience_contains (JString v) client_id = (v = client_id)"
| "audience_contains (JArray vs) client_id = list_ex (\<lambda>v. as_str v = Some client_id) vs"
| "audience_contains _ client_id = False"

fun single_audience :: "json \<Rightarrow> string option" where
  "single_audience (JString v) = Some v"
| "single_audience (JArray vs) =
     (case List.map_filter as_str vs of [first] \<Rightarrow> Some first | _ \<Rightarrow> None)"
| "single_audience _ = None"

definition resolve_logout_client_id ::
  "string option \<Rightarrow> bool \<Rightarrow> id_token_hint_claims option \<Rightarrow> logout_policy_error + string option"
where
  "resolve_logout_client_id client_id post_logout_redirect_uri_present hint =
     (case (client_id, hint) of
        (Some c, Some h) \<Rightarrow>
          if \<not> audience_contains (hint_aud h) c then Inl ClientAudienceMismatch else Inr (Some c)
      | (Some c, None) \<Rightarrow> Inr (Some c)
      | (None, Some h) \<Rightarrow>
          and_then (ok_or AmbiguousAudience (single_audience (hint_aud h))) (\<lambda>c. Inr (Some c))
      | (None, None) \<Rightarrow>
          if post_logout_redirect_uri_present then Inl ClientRequiredForRedirect else Inr None)"

definition validate_post_logout_redirect ::
  "url_lib \<Rightarrow> string option \<Rightarrow> string option \<Rightarrow> string list option \<Rightarrow>
    logout_policy_error + string option"
where
  "validate_post_logout_redirect ul uri state registered_uris =
     (case uri of
        None \<Rightarrow> Inr None
      | Some u \<Rightarrow>
         (case registered_uris of
            None \<Rightarrow> Inl RegisteredClientRequired
          | Some registered \<Rightarrow>
              if u \<notin> set registered then Inl UnregisteredRedirect
              else and_then (ok_or InvalidRedirect (url_parse ul u)) (\<lambda>url.
                Inr (Some (case state of
                   Some s \<Rightarrow> if s \<noteq> [] then url_append_pairs ul url [(''state'', s)] else url_text url
                 | None \<Rightarrow> url_text url)))))"

definition UNIT_SEPARATOR :: string where
  "UNIT_SEPARATOR = [char_of (31 :: nat)]"

definition pairwise_message :: "subject_lib \<Rightarrow> string \<Rightarrow> string \<Rightarrow> uuid \<Rightarrow> string" where
  "pairwise_message sl issuer host user_id =
     issuer @ UNIT_SEPARATOR @ host @ UNIT_SEPARATOR @ sl_uuid_text sl user_id"

definition pairwise_subject :: "subject_lib \<Rightarrow> string \<Rightarrow> string \<Rightarrow> string \<Rightarrow> uuid \<Rightarrow> string" where
  "pairwise_subject sl secret issuer sector_identifier_host user_id =
     b64_encode (sl_base64 sl)
       (sl_hmac_sha256 sl secret (pairwise_message sl issuer sector_identifier_host user_id))"

text \<open>The host of a URL, empty if it does not parse or has none.\<close>

definition url_host_or_empty :: "url_lib \<Rightarrow> string \<Rightarrow> string" where
  "url_host_or_empty ul uri =
     (case Option.bind (url_parse ul uri) url_host_str of None \<Rightarrow> [] | Some host \<Rightarrow> host)"

definition oidc_subject_for_client ::
  "subject_lib \<Rightarrow> string \<Rightarrow> string option \<Rightarrow> uuid \<Rightarrow> string \<Rightarrow> string option \<Rightarrow> string \<Rightarrow>
    logout_policy_error + string"
where
  "oidc_subject_for_client sl issuer pairwise_subject_secret user_id subject_type
     sector_identifier_host redirect_uri =
     (if subject_type = ''public'' then Inr (sl_uuid_text sl user_id)
      else if subject_type = ''pairwise'' then
       (case pairwise_subject_secret of
          None \<Rightarrow> Inl PairwiseSecretMissing
        | Some secret \<Rightarrow>
            if length secret < 32 then Inl PairwiseSecretMissing
            else
              let host = (case sector_identifier_host of
                    Some h \<Rightarrow> if h \<noteq> [] then h else url_host_or_empty (sl_url sl) redirect_uri
                  | None \<Rightarrow> url_host_or_empty (sl_url sl) redirect_uri)
              in Inr (pairwise_subject sl secret issuer host user_id))
      else Inl UnsupportedSubjectType)"

fun sector_subjects ::
  "subject_lib \<Rightarrow> string \<Rightarrow> string option \<Rightarrow> uuid \<Rightarrow> string \<Rightarrow> string list \<Rightarrow>
    logout_policy_error + string list"
where
  "sector_subjects sl issuer secret user_id subject_type [] = Inr []"
| "sector_subjects sl issuer secret user_id subject_type (sector # rest) =
     and_then (oidc_subject_for_client sl issuer secret user_id subject_type (Some sector) []) (\<lambda>s.
     and_then (sector_subjects sl issuer secret user_id subject_type rest) (\<lambda>ss. Inr (s # ss)))"

definition logout_subjects_for_client ::
  "subject_lib \<Rightarrow> string \<Rightarrow> string option \<Rightarrow> uuid \<Rightarrow> logout_client \<Rightarrow> logout_policy_error + string list"
where
  "logout_subjects_for_client sl issuer pairwise_subject_secret user_id client =
     (if lc_subject_type client \<noteq> ''pairwise'' \<or>
         is_some_and (\<lambda>host. host \<noteq> []) (lc_sector_identifier_host client) \<or>
         length (lc_redirect_uris client) \<le> 1
      then
        and_then (oidc_subject_for_client sl issuer pairwise_subject_secret user_id
          (lc_subject_type client) (lc_sector_identifier_host client)
          (case lc_redirect_uris client of [] \<Rightarrow> [] | uri # _ \<Rightarrow> uri)) (\<lambda>s. Inr [s])
      else
        let sectors = sort_dedup (map (url_host_or_empty (sl_url sl)) (lc_redirect_uris client))
        in and_then (sector_subjects sl issuer pairwise_subject_secret user_id
             (lc_subject_type client) sectors) (\<lambda>subjects. Inr (sort_dedup subjects)))"

definition id_token_hint_matches_session ::
  "subject_lib \<Rightarrow> string \<Rightarrow> string option \<Rightarrow> logout_client option \<Rightarrow> uuid \<Rightarrow> string \<Rightarrow>
    id_token_hint_claims \<Rightarrow> bool"
where
  "id_token_hint_matches_session sl issuer pairwise_subject_secret client user_id oidc_sid hint =
     (if is_some_and (\<lambda>sid. sid \<noteq> oidc_sid) (hint_sid hint) then False
      else is_some_and (\<lambda>c.
        case logout_subjects_for_client sl issuer pairwise_subject_secret user_id c of
          Inl _ \<Rightarrow> False
        | Inr subjects \<Rightarrow> hint_sub hint \<in> set subjects) client)"

definition unique_logout_subject_for_client ::
  "subject_lib \<Rightarrow> string \<Rightarrow> string option \<Rightarrow> uuid \<Rightarrow> logout_client \<Rightarrow>
    logout_policy_error + string option"
where
  "unique_logout_subject_for_client sl issuer pairwise_subject_secret user_id client =
     and_then (logout_subjects_for_client sl issuer pairwise_subject_secret user_id client)
       (\<lambda>subjects. Inr (case subjects of [s] \<Rightarrow> Some s | _ \<Rightarrow> None))"

definition frontchannel_logout_url ::
  "url_lib \<Rightarrow> string \<Rightarrow> bool \<Rightarrow> string \<Rightarrow> string \<Rightarrow> unit + string"
where
  "frontchannel_logout_url ul uri session_required issuer oidc_sid =
     (case url_parse ul uri of
        None \<Rightarrow> Inl ()
      | Some url \<Rightarrow>
          Inr (if session_required
               then url_append_pairs ul url [(''iss'', issuer), (''sid'', oidc_sid)]
               else url_text url))"

subsection \<open>A subject determines its user\<close>

lemma before_mark:
  assumes "c \<notin> set xs" and "c \<notin> set ys"
  shows "xs @ c # zs = ys @ c # zs' \<longleftrightarrow> xs = ys \<and> zs = zs'"
proof
  assume eq: "xs @ c # zs = ys @ c # zs'"
  have "takeWhile (\<lambda>x. x \<noteq> c) (xs @ c # zs) = xs" using assms(1) by (subst takeWhile_append2) auto
  moreover have "takeWhile (\<lambda>x. x \<noteq> c) (ys @ c # zs') = ys" using assms(2) by (subst takeWhile_append2) auto
  ultimately show "xs = ys \<and> zs = zs'" using eq by simp
qed simp

text \<open>A keyed hash of which no two messages with equal digests are known, and the printed form of
  UUIDs, which has no separator.\<close>

locale subject_hash =
  fixes sl :: subject_lib
  assumes hmac_collision_free: "sl_hmac_sha256 sl k m = sl_hmac_sha256 sl k m' \<Longrightarrow> m = m'"
    and encode_injective: "b64_encode (sl_base64 sl) a = b64_encode (sl_base64 sl) b \<Longrightarrow> a = b"
    and uuid_text_injective: "sl_uuid_text sl u = sl_uuid_text sl u' \<Longrightarrow> u = u'"
    and uuid_text_plain: "char_of (31 :: nat) \<notin> set (sl_uuid_text sl u)"
begin

lemma pairwise_user:
  assumes "pairwise_subject sl secret issuer host u = pairwise_subject sl secret issuer' host' u'"
  shows "u = u'"
proof -
  let ?sep = "char_of (31 :: nat) :: char"
  have "sl_hmac_sha256 sl secret (pairwise_message sl issuer host u) =
      sl_hmac_sha256 sl secret (pairwise_message sl issuer' host' u')"
    by (rule encode_injective) (use assms in \<open>simp add: pairwise_subject_def\<close>)
  then have "pairwise_message sl issuer host u = pairwise_message sl issuer' host' u'"
    by (rule hmac_collision_free)
  then have "rev (pairwise_message sl issuer host u) = rev (pairwise_message sl issuer' host' u')"
    by simp
  then have "rev (sl_uuid_text sl u) = rev (sl_uuid_text sl u')"
    unfolding pairwise_message_def UNIT_SEPARATOR_def
    by (simp add: before_mark [of ?sep] uuid_text_plain)
  then show ?thesis using uuid_text_injective by simp
qed

lemma subject_user:
  assumes "oidc_subject_for_client sl issuer secret u st host uri = Inr s"
    and "oidc_subject_for_client sl issuer secret u' st host' uri' = Inr s"
  shows "u = u'"
  using assms
  by (auto simp: oidc_subject_for_client_def Let_def split: if_split_asm option.split_asm
    dest: pairwise_user uuid_text_injective)

lemma sector_subjects_user:
  "sector_subjects sl issuer secret u st sectors = Inr ss \<Longrightarrow> s \<in> set ss \<Longrightarrow>
     \<exists>sector. oidc_subject_for_client sl issuer secret u st (Some sector) [] = Inr s"
  by (induction sectors arbitrary: ss) (auto simp: and_then_Inr)

lemma logout_subject_user:
  assumes "logout_subjects_for_client sl issuer secret u c = Inr ss" and "s \<in> set ss"
  shows "\<exists>host uri. oidc_subject_for_client sl issuer secret u (lc_subject_type c) host uri = Inr s"
  using assms sector_subjects_user
  by (fastforce simp: logout_subjects_for_client_def and_then_Inr Let_def split: if_split_asm)

text \<open>A hint accepted for the sessions of two users at one client is from one user.\<close>

lemma hint_names_user:
  assumes "id_token_hint_matches_session sl issuer secret (Some c) u sid hint"
    and "id_token_hint_matches_session sl issuer secret (Some c) u' sid' hint"
  shows "u = u'"
proof -
  from assms obtain ss ss' where "logout_subjects_for_client sl issuer secret u c = Inr ss"
      "hint_sub hint \<in> set ss" "logout_subjects_for_client sl issuer secret u' c = Inr ss'"
      "hint_sub hint \<in> set ss'"
    by (auto simp: id_token_hint_matches_session_def is_some_and_iff split: if_split_asm sum.split_asm)
  then obtain h uri h' uri' where
      "oidc_subject_for_client sl issuer secret u (lc_subject_type c) h uri = Inr (hint_sub hint)"
      "oidc_subject_for_client sl issuer secret u' (lc_subject_type c) h' uri' = Inr (hint_sub hint)"
    using logout_subject_user by meson
  then show ?thesis by (rule subject_user)
qed

end

definition subject_ref :: subject_lib where
  "subject_ref =
     \<lparr>sl_url = \<lparr>url_parse = (\<lambda>_. None), url_without_query_fragment = url_text,
        url_append_pairs = (\<lambda>u _. url_text u)\<rparr>,
      sl_base64 = base64url, sl_hmac_sha256 = (\<lambda>k m. k @ m), sl_uuid_text = (\<lambda>u. replicate u CHR ''0'')\<rparr>"

interpretation subject_ref: subject_hash subject_ref
proof
  fix a b
  show "b64_encode (sl_base64 subject_ref) a = b64_encode (sl_base64 subject_ref) b \<Longrightarrow> a = b"
    by (simp add: subject_ref_def base64url.encode_inject)
next
  fix u u'
  show "sl_uuid_text subject_ref u = sl_uuid_text subject_ref u' \<Longrightarrow> u = u'"
    by (metis subject_ref_def length_replicate subject_lib.select_convs(4))
next
  fix u
  show "char_of (31 :: nat) \<notin> set (sl_uuid_text subject_ref u)"
    by (auto simp: subject_ref_def dest: arg_cong [of _ _ "of_char :: char \<Rightarrow> nat"])
qed (simp add: subject_ref_def)

end
