(* ===== verification/Client_Jwe.thy ===== *)
theory Client_Jwe
  imports Jose
begin

text \<open>
  Encrypted responses (\<open>src/crates/authorization-server/src/domain/client_jwe.rs\<close>): choosing
  the recipient key of a client and writing a compact JWE, with the key-length checks of
  \<open>src/crates/crypto/src/aead.rs\<close> and \<open>key_wrap.rs\<close> and the point layout of
  \<open>ec.rs\<close> there. AES-GCM, AES key wrap, RSA-OAEP, P-256, SHA-256 and the JSON writer are
  fields of \<open>jwe_lib\<close>; the bytes one call draws at random are its argument
  \<open>jwe_random\<close>. Causes of errors are not distinguished.
\<close>

record jwe_lib =
  jw_base64 :: base64
  jw_json_text :: "json \<Rightarrow> string option"
  jw_aes_gcm :: "string \<Rightarrow> string \<Rightarrow> string \<Rightarrow> string \<Rightarrow> (string \<times> string) option"
  jw_aes_key_wrap :: "string \<Rightarrow> string \<Rightarrow> string option"
  jw_rsa_oaep256 :: "string \<Rightarrow> string \<Rightarrow> string \<Rightarrow> string \<Rightarrow> string option"
  jw_p256_public :: "string \<Rightarrow> string"
  jw_p256_agree :: "string \<Rightarrow> string \<Rightarrow> string option"
  jw_sha256 :: "string \<Rightarrow> string"

record jwe_random =
  jr_cek :: string
  jr_iv :: string
  jr_ephemeral :: string
  jr_seed :: string

record client_jwe_key =
  cjk_kid :: "string option"
  cjk_alg :: string
  cjk_enc :: string
  cjk_jwk :: json

datatype jwe_payload_kind = JweClaims | JweNestedJwt

definition SUPPORTED_CLIENT_JWE_KEY_MANAGEMENT_ALGS :: "string list" where
  "SUPPORTED_CLIENT_JWE_KEY_MANAGEMENT_ALGS =
     [''RSA-OAEP-256'', ''ECDH-ES'', ''ECDH-ES+A128KW'', ''ECDH-ES+A256KW'']"

definition SUPPORTED_CLIENT_JWE_CONTENT_ENC_ALGS :: "string list" where
  "SUPPORTED_CLIENT_JWE_CONTENT_ENC_ALGS = [''A256GCM'']"

definition nonblank :: "string option \<Rightarrow> string option" where
  "nonblank v = Option.bind v (\<lambda>s. if trim s = [] then None else Some s)"

definition client_jwe_key_of ::
  "json option \<Rightarrow> string option \<Rightarrow> string option \<Rightarrow> unit + client_jwe_key option"
where
  "client_jwe_key_of key_set alg enc =
     (case alg of
        None \<Rightarrow> if enc \<noteq> None then Inl () else Inr None
      | Some alg \<Rightarrow>
     (case enc of
        None \<Rightarrow> Inl ()
      | Some enc \<Rightarrow>
          if alg \<notin> set SUPPORTED_CLIENT_JWE_KEY_MANAGEMENT_ALGS then Inl ()
          else if enc \<notin> set SUPPORTED_CLIENT_JWE_CONTENT_ENC_ALGS then Inl ()
          else
         (case Option.bind (Option.bind key_set (\<lambda>j. json_get j ''keys'')) as_array of
            None \<Rightarrow> Inl ()
          | Some keys \<Rightarrow>
             (case filter (\<lambda>key. json_get_str key ''use'' = Some ''enc'' \<and>
                  json_get_str key ''alg'' = Some alg) keys of
                [] \<Rightarrow> Inl ()
              | jwk # others \<Rightarrow>
                  let kid = nonblank (json_get_str jwk ''kid'')
                  in if list_ex (\<lambda>other. kid = None \<or> json_get_str other ''kid'' = kid) others
                     then Inl ()
                     else Inr (Some \<lparr>cjk_kid = kid, cjk_alg = alg, cjk_enc = enc, cjk_jwk = jwk\<rparr>)))))"

text \<open>Big-endian 32-bit numbers, as in the key derivation.\<close>

definition be32 :: "nat \<Rightarrow> string" where
  "be32 n = map (\<lambda>i. char_of (n div 256 ^ i mod 256)) [3, 2, 1, 0]"

definition concat_kdf :: "jwe_lib \<Rightarrow> string \<Rightarrow> string \<Rightarrow> string \<Rightarrow> string \<Rightarrow> nat \<Rightarrow> string" where
  "concat_kdf lib shared_secret algorithm apu apv key_bits =
     jw_sha256 lib (be32 1 @ shared_secret @ be32 (length algorithm) @ algorithm @
       be32 (length apu) @ apu @ be32 (length apv) @ apv @ be32 key_bits)"

definition ecdh_derive_key ::
  "jwe_lib \<Rightarrow> string \<Rightarrow> string \<Rightarrow> string \<Rightarrow> nat \<Rightarrow> unit + string"
where
  "ecdh_derive_key lib ephemeral recipient algorithm key_bits =
     and_then (ok_or () (jw_p256_agree lib ephemeral recipient))
       (\<lambda>shared. Inr (concat_kdf lib shared algorithm [] [] key_bits))"

definition decode_p256_coordinate :: "jwe_lib \<Rightarrow> json \<Rightarrow> string \<Rightarrow> unit + string" where
  "decode_p256_coordinate lib jwk name =
     and_then (ok_or () (json_get_str jwk name)) (\<lambda>v.
     and_then (ok_or () (b64_decode_slice (jw_base64 lib) 32 v)) (\<lambda>bs.
     if length bs \<noteq> 32 then Inl () else Inr bs))"

definition parse_p256_public_jwk :: "jwe_lib \<Rightarrow> json \<Rightarrow> unit + string" where
  "parse_p256_public_jwk lib jwk =
     (if json_get_str jwk ''kty'' \<noteq> Some ''EC'' \<or> json_get_str jwk ''crv'' \<noteq> Some ''P-256'' \<or>
         json_get jwk ''d'' \<noteq> None
      then Inl ()
      else and_then (decode_p256_coordinate lib jwk ''x'') (\<lambda>x.
           and_then (decode_p256_coordinate lib jwk ''y'') (\<lambda>y.
           Inr (char_of (4 :: nat) # x @ y))))"

definition rsa_oaep_256_encrypt_jwk :: "jwe_lib \<Rightarrow> string \<Rightarrow> json \<Rightarrow> string \<Rightarrow> unit + string" where
  "rsa_oaep_256_encrypt_jwk lib seed jwk plaintext =
     and_then (ok_or () (json_get_str jwk ''n'')) (\<lambda>n.
     and_then (ok_or () (json_get_str jwk ''e'')) (\<lambda>e.
     and_then (ok_or () (b64_decode (jw_base64 lib) n)) (\<lambda>modulus.
     and_then (ok_or () (b64_decode (jw_base64 lib) e)) (\<lambda>exponent.
     ok_or () (jw_rsa_oaep256 lib modulus exponent seed plaintext)))))"

text \<open>\<open>aead::encrypt_in_place\<close> and \<open>key_wrap::aes_wrap\<close>.\<close>

definition aead_encrypt_in_place ::
  "jwe_lib \<Rightarrow> string \<Rightarrow> string \<Rightarrow> string \<Rightarrow> string \<Rightarrow> unit + (string \<times> string)"
where
  "aead_encrypt_in_place lib key nonce aad plaintext =
     (if length key = 16 \<or> length key = 32 then ok_or () (jw_aes_gcm lib key nonce aad plaintext)
      else Inl ())"

definition aes_wrap :: "jwe_lib \<Rightarrow> string \<Rightarrow> string \<Rightarrow> unit + string" where
  "aes_wrap lib kek key =
     (if length kek = 16 \<or> length kek = 32 then ok_or () (jw_aes_key_wrap lib kek key) else Inl ())"

text \<open>The protected header in the order of its fields; \<open>P256PublicJwk\<close> of the ephemeral key.\<close>

definition p256_public_jwk :: "jwe_lib \<Rightarrow> string \<Rightarrow> json" where
  "p256_public_jwk lib point =
     JObject [(''crv'', JString ''P-256''), (''kty'', JString ''EC''),
       (''x'', JString (b64_encode (jw_base64 lib) (take 32 (drop 1 point)))),
       (''y'', JString (b64_encode (jw_base64 lib) (drop 33 point)))]"

record protected_header =
  ph_alg :: string
  ph_cty :: "string option"
  ph_enc :: string
  ph_epk :: "json option"
  ph_kid :: "string option"
  ph_typ :: "string option"

definition optional_member :: "string \<Rightarrow> json option \<Rightarrow> (string \<times> json) list" where
  "optional_member name v = (case v of None \<Rightarrow> [] | Some j \<Rightarrow> [(name, j)])"

definition protected_header_json :: "protected_header \<Rightarrow> json" where
  "protected_header_json h =
     JObject ([(''alg'', JString (ph_alg h))] @
       optional_member ''cty'' (map_option JString (ph_cty h)) @
       [(''enc'', JString (ph_enc h))] @
       optional_member ''epk'' (ph_epk h) @
       optional_member ''kid'' (map_option JString (ph_kid h)) @
       optional_member ''typ'' (map_option JString (ph_typ h)))"

definition encrypt_compact_jwe_with_cek ::
  "jwe_lib \<Rightarrow> string \<Rightarrow> protected_header \<Rightarrow> string \<Rightarrow> string \<Rightarrow> string \<Rightarrow> unit + string"
where
  "encrypt_compact_jwe_with_cek lib iv header cek encrypted_key plaintext =
     and_then (ok_or () (jw_json_text lib (protected_header_json header))) (\<lambda>text.
     let b64 = b64_encode (jw_base64 lib); aad = b64 text in
     and_then (aead_encrypt_in_place lib cek iv aad plaintext) (\<lambda>(ciphertext, tag).
     Inr (aad @ concat (map (\<lambda>segment. ''.'' @ b64 segment) [encrypted_key, iv, ciphertext, tag]))))"

definition encrypt_compact_jwe ::
  "jwe_lib \<Rightarrow> jwe_random \<Rightarrow> client_jwe_key \<Rightarrow> string \<Rightarrow> jwe_payload_kind \<Rightarrow> unit + string"
where
  "encrypt_compact_jwe lib rnd key plaintext payload_kind =
     (case client_jwe_key_management_from_name (cjk_alg key) of
        None \<Rightarrow> Inl ()
      | Some alg \<Rightarrow>
          if cjk_enc key \<noteq> ''A256GCM'' then Inl ()
          else
            let header = \<lparr>ph_alg = cjk_alg key,
                  ph_cty = (if payload_kind = JweNestedJwt then Some ''JWT'' else None),
                  ph_enc = cjk_enc key, ph_epk = None, ph_kid = cjk_kid key,
                  ph_typ = (if payload_kind = JweClaims then Some ''JWT'' else None)\<rparr>;
                with_epk = header\<lparr>ph_epk :=
                  Some (p256_public_jwk lib (jw_p256_public lib (jr_ephemeral rnd)))\<rparr>
            in (case alg of
                 RsaOaep256 \<Rightarrow>
                   and_then (rsa_oaep_256_encrypt_jwk lib (jr_seed rnd) (cjk_jwk key) (jr_cek rnd))
                     (\<lambda>encrypted_key.
                       encrypt_compact_jwe_with_cek lib (jr_iv rnd) header (jr_cek rnd) encrypted_key
                         plaintext)
               | EcdhEsDirect \<Rightarrow>
                   and_then (parse_p256_public_jwk lib (cjk_jwk key)) (\<lambda>recipient.
                   and_then (ecdh_derive_key lib (jr_ephemeral rnd) recipient (cjk_enc key) 256)
                     (\<lambda>cek. encrypt_compact_jwe_with_cek lib (jr_iv rnd) with_epk cek [] plaintext))
               | _ \<Rightarrow>
                   and_then (parse_p256_public_jwk lib (cjk_jwk key)) (\<lambda>recipient.
                   let kek_bits = (if alg = EcdhEsA128Kw then 128 else 256) in
                   and_then (ecdh_derive_key lib (jr_ephemeral rnd) recipient
                     (client_jwe_key_management_name alg) kek_bits) (\<lambda>kek.
                   and_then (aes_wrap lib (take (kek_bits div 8) kek) (jr_cek rnd))
                     (\<lambda>encrypted_key.
                       encrypt_compact_jwe_with_cek lib (jr_iv rnd) with_epk (jr_cek rnd)
                         encrypted_key plaintext)))))"

subsection \<open>The form of an encrypted response\<close>

text \<open>A compact JWE has five segments, and what is encrypted is bound to the header as it is sent.\<close>

lemma compact_jwe_segments:
  assumes engine: "base64_engine (jw_base64 lib)"
    and run: "encrypt_compact_jwe_with_cek lib iv h cek encrypted_key plaintext = Inr jwe"
  shows "\<exists>json ciphertext tag. jw_json_text lib (protected_header_json h) = Some json \<and>
    jw_aes_gcm lib cek iv (b64_encode (jw_base64 lib) json) plaintext = Some (ciphertext, tag) \<and>
    split_on CHR ''.'' jwe =
      map (b64_encode (jw_base64 lib)) [json, encrypted_key, iv, ciphertext, tag]"
proof -
  have no_dot: "CHR ''.'' \<notin> set (b64_encode (jw_base64 lib) bs)" for bs
    by (rule base64_engine.encode_no_dot [OF engine])
  from run obtain json ciphertext tag
    where header: "jw_json_text lib (protected_header_json h) = Some json"
      and gcm: "jw_aes_gcm lib cek iv (b64_encode (jw_base64 lib) json) plaintext = Some (ciphertext, tag)"
      and jwe: "jwe = b64_encode (jw_base64 lib) json @
        concat (map (\<lambda>segment. ''.'' @ b64_encode (jw_base64 lib) segment)
          [encrypted_key, iv, ciphertext, tag])"
    by (auto simp: encrypt_compact_jwe_with_cek_def aead_encrypt_in_place_def and_then_Inr Let_def
      ok_or_def split: if_split_asm option.split_asm)
  have "split_on CHR ''.'' jwe =
      map (b64_encode (jw_base64 lib)) [json, encrypted_key, iv, ciphertext, tag]"
    unfolding jwe by (simp add: split_on_append split_on_free no_dot)
  with header gcm show ?thesis by blast
qed

end
