(* ===== verification/Token_Issuance.thy ===== *)
theory Token_Issuance
  imports Handlers Token_Service Runtime_Modules Oidc_Logout Client_Jwe Server_Flows
begin

text \<open>
  Issuing tokens (\<open>src/crates/authorization-server/src/token\<close>: \<open>issue.rs\<close>,
  \<open>issue_grant.rs\<close>, \<open>issue/refresh_persistence.rs\<close>,
  \<open>issue/authorization_code_state.rs\<close>, the parts of \<open>native_sso.rs\<close> it calls;
  \<open>domain/oauth.rs\<close>, \<open>domain/oidc_claims.rs\<close>). Every grant ends in
  \<open>issue_token_response\<close>, which is split here into the stages of its body, in their order.

  A handler runs on a world: \<open>runtime\<close> reads the clock and draws identifiers and random bytes
  from it, \<open>module_view\<close> is where the request's module leases live in it, and
  \<open>issue_lib\<close> holds the functions of third-party crates. An error is its status and its
  OAuth code; the descriptions for humans and the log lines are left out. \<open>Panicked\<close> stands for
  a panic: \<open>chrono\<close> panics on durations and instants out of its range.
\<close>

subsection \<open>The environment of a handler\<close>

record 'w runtime =
  rn_now :: "'w \<Rightarrow> time \<times> 'w"
  rn_uuid :: "'w \<Rightarrow> uuid \<times> 'w"
  rn_random_32 :: "'w \<Rightarrow> string \<times> 'w"
  rn_jwe_random :: "'w \<Rightarrow> jwe_random \<times> 'w"

record 'w module_view =
  mv_request :: "'w \<Rightarrow> request_snapshot"
  mv_leases :: "'w \<Rightarrow> lease_state"
  mv_put :: "request_snapshot \<Rightarrow> lease_state \<Rightarrow> 'w \<Rightarrow> 'w"

record 'w audit_port =
  au_ensure_storage :: "('w, unit, unit) io"
  au_ensure_transactional_ready :: "('w, unit, unit) io"
  au_record_required :: "'w security_audit"

record native_sso_device_secret_state =
  nds_tenant_id :: uuid
  nds_user_id :: uuid
  nds_subject :: string
  nds_sid :: string
  nds_source_client_id :: string
  nds_refresh_token_family_id :: uuid
  nds_expires_at :: time

record issue_lib =
  li_dpop :: dpop_lib
  li_subject :: subject_lib
  li_jwe :: jwe_lib
  li_base64 :: base64
  li_sha256 :: "string \<Rightarrow> string"
  li_blake3_hex :: "string \<Rightarrow> string"
  li_url_ok :: "string \<Rightarrow> bool"
  li_json_text :: "json \<Rightarrow> string"
  li_authority_ok :: "string \<Rightarrow> string option"
  li_chrono :: chrono
  li_from_timestamp :: "int \<Rightarrow> time option"
  li_device_secret_json :: "native_sso_device_secret_state \<Rightarrow> json option"

datatype authorization_server_profile =
    Oauth2Baseline | ServerFapi2Security | Fapi2MessageSigningAuthzRequest
  | Fapi2MessageSigningJarm | Fapi2MessageSigningIntrospection

definition server_requires_fapi2_security :: "authorization_server_profile \<Rightarrow> bool" where
  "server_requires_fapi2_security p \<longleftrightarrow>
     p \<in> {ServerFapi2Security, Fapi2MessageSigningAuthzRequest, Fapi2MessageSigningJarm,
          Fapi2MessageSigningIntrospection}"

record token_issuance_config =
  tc_profile :: authorization_server_profile
  tc_issuer :: string
  tc_mtls_endpoint_base_url :: string
  tc_dpop_nonce_policy :: dpop_nonce_policy
  tc_default_audience :: string
  tc_openid4vci_enabled :: bool
  tc_openid4vci_credential_scopes :: "string list"
  tc_pairwise_subject_secret :: "string option"
  tc_client_secret_pepper :: string
  tc_rate_limit_window_seconds :: nat
  tc_token_rate_limit_max_requests :: nat
  tc_auth_code_ttl_seconds :: nat
  tc_access_token_ttl_seconds :: int
  tc_id_token_ttl_seconds :: int
  tc_refresh_token_ttl_seconds :: int

definition openid4vci_audience :: "token_issuance_config \<Rightarrow> string list \<Rightarrow> json \<Rightarrow> string option" where
  "openid4vci_audience cfg scopes details =
     (let by_scope = list_ex (\<lambda>scope. scope \<in> set (tc_openid4vci_credential_scopes cfg)) scopes;
          by_details = list_ex (\<lambda>detail. json_get_str detail ''type'' = Some ''openid_credential'')
            (case as_array details of None \<Rightarrow> [] | Some items \<Rightarrow> items)
      in if tc_openid4vci_enabled cfg \<and> (by_scope \<or> by_details) then Some (tc_issuer cfg) else None)"

definition auth_code_ttl :: "token_issuance_config \<Rightarrow> nat" where
  "auth_code_ttl cfg = max (tc_auth_code_ttl_seconds cfg) 1"

record 'w issuance_context =
  cx_grant_type :: "grant_type option"
  cx_client_epoch :: int
  cx_config :: token_issuance_config
  cx_modules :: "'w module_view"
  cx_authorization :: "'w authorization_state_store"
  cx_audit :: "'w audit_port"
  cx_runtime :: "'w runtime"
  cx_lib :: issue_lib

definition context_permits :: "'w issuance_context \<Rightarrow> module_id \<Rightarrow> ('w, 'e, bool) io" where
  "context_permits cx m = io_read (\<lambda>w.
     case request_permits m ExistingTransaction (mv_request (cx_modules cx) w)
       (mv_leases (cx_modules cx) w) of
       (b, r, l) \<Rightarrow> (b, mv_put (cx_modules cx) r l w))"

definition now_of :: "'w issuance_context \<Rightarrow> ('w, 'e, time) io" where
  "now_of cx = io_read (rn_now (cx_runtime cx))"

definition random_urlsafe_token :: "'w issuance_context \<Rightarrow> ('w, 'e, string) io" where
  "random_urlsafe_token cx =
     io_then (io_read (rn_random_32 (cx_runtime cx)))
       (\<lambda>bytes. io_return (b64_encode (li_base64 (cx_lib cx)) bytes))"

datatype oauth_endpoint_error = EndpointToken nat string | EndpointDpop dpop_error

datatype handler_failure = Rejected oauth_endpoint_error | Panicked

abbreviation token_error :: "nat \<Rightarrow> string \<Rightarrow> handler_failure" where
  "token_error status code \<equiv> Rejected (EndpointToken status code)"

datatype token_endpoint_success = TokensIssued json "string option"

text \<open>\<open>now + Duration::seconds(n)\<close>.\<close>

definition add_seconds :: "'w issuance_context \<Rightarrow> time \<Rightarrow> int \<Rightarrow> ('w, handler_failure, time) io" where
  "add_seconds cx t n =
     (if \<not> duration_seconds_ok (li_chrono (cx_lib cx)) n then io_fail Panicked
      else (case checked_add_seconds (li_chrono (cx_lib cx)) t n of
          None \<Rightarrow> io_fail Panicked
        | Some u \<Rightarrow> io_return u))"

subsection \<open>What is to be issued\<close>

datatype refresh_token_policy =
    NoRefresh
  | IssueNew
  | Rotate uuid uuid
  | RotateLostResponse uuid uuid string uuid time
  | PreserveExisting

record native_sso_token_binding =
  nsb_device_secret :: string
  nsb_ds_hash :: string
  nsb_sid :: string

record token_issue =
  ti_user_id :: "uuid option"
  ti_prepared_subject :: "prepared_token_subject option"
  ti_subject :: string
  ti_scopes :: "string list"
  ti_authorization_details :: json
  ti_audiences :: "string list"
  ti_nonce :: "string option"
  ti_auth_time :: "int option"
  ti_amr :: "string list"
  ti_oidc_sid :: "string option"
  ti_acr :: "string option"
  ti_userinfo_claim_requests :: "oidc_claim_request list"
  ti_id_token_claim_requests :: "oidc_claim_request list"
  ti_include_refresh :: bool
  ti_refresh_token_policy :: refresh_token_policy
  ti_dpop_jkt :: "string option"
  ti_refresh_token_dpop_jkt :: "string option"
  ti_mtls_x5t_s256 :: "string option"
  ti_refresh_token_mtls_x5t_s256 :: "string option"
  ti_refresh_token_client_attestation_jkt :: "string option"
  ti_refresh_authority :: "refresh_token_authority option"
  ti_native_sso_source :: "native_sso_source_fence option"
  ti_refresh_grant_audiences :: "string list option"
  ti_authorization_code_hash :: "string option"
  ti_actor :: "json option"
  ti_issued_token_type :: "string option"
  ti_native_sso :: "native_sso_token_binding option"

subsection \<open>Claims about the user\<close>

definition insert_claim ::
  "oidc_claim_request list \<Rightarrow> string \<Rightarrow> bool \<Rightarrow> json option \<Rightarrow> (string \<times> json) list \<Rightarrow>
    (string \<times> json) list"
where
  "insert_claim requests name scope_allowed actual m =
     (let request = find (\<lambda>r. cr_name r = name) requests in
      if \<not> scope_allowed \<and> request = None then m
      else (case actual of
          None \<Rightarrow> m
        | Some v \<Rightarrow> if is_none_or (\<lambda>r. matches_value r v) request then map_insert name v m else m))"

definition trimmed_claim :: "string option \<Rightarrow> json option" where
  "trimmed_claim v =
     Option.bind v (\<lambda>s. if trim s = [] then None else Some (JString (trim s)))"

definition user_display_name :: "subject_claims \<Rightarrow> string" where
  "user_display_name user =
     (case sc_name user of
        None \<Rightarrow> sc_preferred_username user
      | Some n \<Rightarrow> if trim n = [] then sc_preferred_username user else trim n)"

definition address_claim :: "subject_claims \<Rightarrow> json option" where
  "address_claim user =
     Option.bind (sc_address user) (\<lambda>a.
       let members = List.map_filter (\<lambda>(name, v). map_option (Pair name) (trimmed_claim v))
             [(''formatted'', pa_formatted a), (''street_address'', pa_street_address a),
              (''locality'', pa_locality a), (''region'', pa_region a),
              (''postal_code'', pa_postal_code a), (''country'', pa_country a)]
       in if members = [] then None else Some (JObject members))"

definition user_claims ::
  "subject_claims \<Rightarrow> string \<Rightarrow> oidc_claim_request list \<Rightarrow> (string \<Rightarrow> bool) \<Rightarrow> (string \<times> json) list"
where
  "user_claims user subject requests scope_allowed =
     (let p = scope_allowed ''profile''; e = scope_allowed ''email''; ph = scope_allowed ''phone''
      in fold (\<lambda>(name, v, allowed). insert_claim requests name allowed v)
        [(''preferred_username'', Some (JString (sc_preferred_username user)), p),
         (''name'', Some (JString (user_display_name user)), p),
         (''email'', Some (JString (sc_email user)), e),
         (''given_name'', trimmed_claim (sc_given_name user), p),
         (''family_name'', trimmed_claim (sc_family_name user), p),
         (''middle_name'', trimmed_claim (sc_middle_name user), p),
         (''nickname'', trimmed_claim (sc_nickname user), p),
         (''profile'', trimmed_claim (sc_profile user), p),
         (''picture'', trimmed_claim (sc_picture user), p),
         (''website'', trimmed_claim (sc_website user), p),
         (''gender'', trimmed_claim (sc_gender user), p),
         (''birthdate'', trimmed_claim (sc_birthdate user), p),
         (''zoneinfo'', trimmed_claim (sc_zoneinfo user), p),
         (''locale'', trimmed_claim (sc_locale user), p),
         (''phone_number'', trimmed_claim (sc_phone_number user), ph),
         (''updated_at'', Some (JInt (sc_updated_at user)), p),
         (''email_verified'', Some (JBool (sc_email_verified user)), e),
         (''phone_number_verified'', Some (JBool (sc_phone_number_verified user)), ph),
         (''address'', address_claim user, scope_allowed ''address'')]
        (map_insert ''sub'' (JString subject) []))"

definition oidc_id_token_user_claims ::
  "subject_claims \<Rightarrow> string list \<Rightarrow> string \<Rightarrow> oidc_claim_request list \<Rightarrow> (string \<times> json) list"
where
  "oidc_id_token_user_claims user scopes subject requests =
     user_claims user subject requests
       (\<lambda>scope. scope = ''profile'' \<and> ''profile'' \<in> set scopes)"

subsection \<open>ID token contents\<close>

definition client_session_sid_enabled :: "bool \<Rightarrow> oauth_client \<Rightarrow> bool" where
  "client_session_sid_enabled frontchannel_logout client \<longleftrightarrow>
     (frontchannel_logout \<and> frontchannel_logout_uri (registration client) \<noteq> None \<and>
        frontchannel_logout_session_required (registration client)) \<or>
     (backchannel_logout_uri (registration client) \<noteq> None \<and>
        backchannel_logout_session_required (registration client))"

definition id_token_session_sid :: "oauth_client \<Rightarrow> token_issue \<Rightarrow> bool \<Rightarrow> string option" where
  "id_token_session_sid client issue frontchannel_logout =
     (case ti_refresh_authority issue of
        Some source \<Rightarrow> ra_id_token_sid source
      | None \<Rightarrow>
     (case ti_native_sso issue of
        Some native_sso \<Rightarrow> Some (nsb_sid native_sso)
      | None \<Rightarrow>
          if client_session_sid_enabled frontchannel_logout client then ti_oidc_sid issue
          else if list_ex (\<lambda>request. cr_name request = ''sid'') (ti_id_token_claim_requests issue)
          then ti_oidc_sid issue
          else None))"

definition persisted_id_token_sid :: "token_issue \<Rightarrow> string option \<Rightarrow> string option" where
  "persisted_id_token_sid issue issued_id_token_sid =
     (case issued_id_token_sid of
        Some sid \<Rightarrow> Some sid
      | None \<Rightarrow> Option.bind (ti_refresh_authority issue) ra_id_token_sid)"

definition refreshed_id_token_essential_claims_satisfied ::
  "token_issue \<Rightarrow> oauth_client \<Rightarrow> bool \<Rightarrow> (string \<times> json) list \<Rightarrow> bool"
where
  "refreshed_id_token_essential_claims_satisfied issue client frontchannel_logout extra_claims =
     list_all (\<lambda>request.
       let actual =
         (if cr_name request = ''auth_time'' then map_option JInt (ti_auth_time issue)
          else if cr_name request = ''amr'' \<and> ti_amr issue \<noteq> []
            then Some (JArray (map JString (ti_amr issue)))
          else if cr_name request = ''acr'' then map_option JString (ti_acr issue)
          else if cr_name request = ''sid''
            then map_option JString (id_token_session_sid client issue frontchannel_logout)
          else map_of extra_claims (cr_name request))
       in is_some_and (\<lambda>v. matches_value request v) actual)
       (filter cr_essential (ti_id_token_claim_requests issue))"

subsection \<open>Refresh tokens\<close>

record pending_refresh_token =
  pr_raw :: string
  pr_member_id :: uuid
  pr_family :: uuid
  pr_rotated_from :: "uuid option"
  pr_lost_response_retry :: "(uuid \<times> string \<times> time) option"
  pr_issued_at :: time
  pr_expires_at :: time

definition refresh_authentication_context ::
  "token_issue \<Rightarrow> string \<Rightarrow> string \<Rightarrow> refresh_token_authentication_context option"
where
  "refresh_authentication_context issue issuer audience =
     (case ti_auth_time issue of
        None \<Rightarrow> None
      | Some auth_time \<Rightarrow>
          let c = \<lparr>rac_version = REFRESH_CONTEXT_CURRENT_VERSION, rac_issuer = issuer,
            rac_audience = audience, rac_auth_time = auth_time, rac_amr = ti_amr issue,
            rac_oidc_sid = ti_oidc_sid issue, rac_acr = ti_acr issue,
            rac_userinfo_claim_requests = ti_userinfo_claim_requests issue,
            rac_id_token_claim_requests = ti_id_token_claim_requests issue\<rparr>
          in if is_well_formed c then Some c else None)"

text \<open>The comparison of an issue with the refresh authority it draws on.\<close>

definition issue_within_source ::
  "token_issue \<Rightarrow> oauth_client \<Rightarrow> string \<Rightarrow> refresh_token_authority \<Rightarrow> bool"
where
  "issue_within_source issue client issuer source \<longleftrightarrow>
     (let contract = ra_contract source; c = rc_authentication_context contract in
      ra_tenant_id source = oc_tenant_id client \<and> ra_client_id source = oc_id client \<and>
      ra_user_id source = ti_user_id issue \<and> rc_subject contract = ti_subject issue \<and>
      rc_authorization_details contract = ti_authorization_details issue \<and>
      is_well_formed c \<and> is_none_or (\<lambda>sid. trim sid \<noteq> []) (ra_id_token_sid source) \<and>
      rac_issuer c = issuer \<and> rac_audience c = oc_client_id client \<and>
      ti_auth_time issue = Some (rac_auth_time c) \<and> rac_amr c = ti_amr issue \<and>
      rac_oidc_sid c = ti_oidc_sid issue \<and> rac_acr c = ti_acr issue \<and>
      rac_userinfo_claim_requests c = ti_userinfo_claim_requests issue \<and>
      rac_id_token_claim_requests c = ti_id_token_claim_requests issue \<and>
      is_subset (ti_scopes issue) (rc_scopes contract) \<and>
      ti_audiences issue \<noteq> [] \<and> is_subset (ti_audiences issue) (ra_current_audiences source) \<and>
      ti_actor issue = None \<and>
      is_none_or (\<lambda>binding. ti_dpop_jkt issue = Some binding) (ra_dpop_jkt source) \<and>
      is_none_or (\<lambda>binding. ti_mtls_x5t_s256 issue = Some binding) (ra_mtls_x5t_s256 source) \<and>
      ti_refresh_token_dpop_jkt issue = ra_dpop_jkt source \<and>
      ti_refresh_token_mtls_x5t_s256 issue = ra_mtls_x5t_s256 source \<and>
      ti_refresh_token_client_attestation_jkt issue = ra_client_attestation_jkt source \<and>
      ti_refresh_grant_audiences issue = None)"

definition refresh_issue_matches_source :: "token_issue \<Rightarrow> oauth_client \<Rightarrow> string \<Rightarrow> bool" where
  "refresh_issue_matches_source issue client issuer =
     (case (ti_refresh_token_policy issue, ti_refresh_authority issue) of
        (NoRefresh, None) \<Rightarrow> \<not> ti_include_refresh issue
      | (IssueNew, None) \<Rightarrow> True
      | (PreserveExisting, Some source) \<Rightarrow> issue_within_source issue client issuer source
      | (Rotate family rotated_from, Some source) \<Rightarrow>
          family = ra_family_id source \<and> rotated_from = ra_member_id source \<and>
          issue_within_source issue client issuer source
      | (RotateLostResponse family _ _ successor _, Some source) \<Rightarrow>
          family = ra_family_id source \<and> successor = ra_member_id source \<and>
          issue_within_source issue client issuer source
      | _ \<Rightarrow> False)"

definition client_supports_grant :: "oauth_client \<Rightarrow> string \<Rightarrow> bool" where
  "client_supports_grant client grant = list_ex (\<lambda>g. g = grant) (grant_types (registration client))"

definition should_issue_refresh_token :: "oauth_client \<Rightarrow> string list \<Rightarrow> bool \<Rightarrow> bool" where
  "should_issue_refresh_token client scopes openid4vci_credential_authorization \<longleftrightarrow>
     client_supports_grant client ''refresh_token'' \<and>
     (''offline_access'' \<in> set scopes \<or> openid4vci_credential_authorization)"

definition prepare_refresh_token ::
  "oauth_client \<Rightarrow> token_issue \<Rightarrow> pending_refresh_token \<Rightarrow> string option \<Rightarrow> new_refresh_token"
where
  "prepare_refresh_token client issue refresh id_token_sid =
     \<lparr>nt_raw_token = pr_raw refresh, nt_member_id = pr_member_id refresh,
      nt_tenant_id = oc_tenant_id client, nt_family_id = pr_family refresh,
      nt_rotated_from_id = pr_rotated_from refresh,
      nt_lost_response_retry = map_option (\<lambda>(original, digest, started).
        \<lparr>lr_original_id = original, lr_original_blake3 = digest, lr_retry_started_at = started\<rparr>)
        (pr_lost_response_retry refresh),
      nt_client_id = oc_id client, nt_user_id = ti_user_id issue,
      nt_audiences =
        (if ti_refresh_authority issue \<noteq> None then ti_audiences issue
         else (case ti_refresh_grant_audiences issue of
             None \<Rightarrow> ti_audiences issue | Some audiences \<Rightarrow> audiences)),
      nt_issued_at = pr_issued_at refresh, nt_expires_at = pr_expires_at refresh,
      nt_id_token_sid = id_token_sid, nt_dpop_jkt = ti_refresh_token_dpop_jkt issue,
      nt_mtls_x5t_s256 = ti_refresh_token_mtls_x5t_s256 issue,
      nt_client_attestation_jkt = ti_refresh_token_client_attestation_jkt issue\<rparr>"

subsection \<open>Codes and the tokens issued for them\<close>

definition failed_authorization_code_transition_result ::
  "authorization_code_transition_result \<Rightarrow> unit + unit"
where
  "failed_authorization_code_transition_result r =
     (if r \<in> {TransitionApplied, TransitionMissing, TransitionFailed, TransitionConsumed}
      then Inr () else Inl ())"

definition mark_failed_authorization_code ::
  "'w issuance_context \<Rightarrow> 'w token_service \<Rightarrow> string \<Rightarrow> string \<Rightarrow> nat \<Rightarrow> ('w, unit, unit) io"
where
  "mark_failed_authorization_code cx sv code_hash label ttl_seconds =
     io_then (now_of cx) (\<lambda>now.
     io_then (io_map_err (\<lambda>_. ()) (mark_authorization_code_failed sv code_hash label ttl_seconds now))
       (\<lambda>result. io_result (failed_authorization_code_transition_result result)))"

text \<open>A failure to mark is only logged.\<close>

definition mark_failed_authorization_code_if_needed ::
  "'w issuance_context \<Rightarrow> 'w token_service \<Rightarrow> string option \<Rightarrow> string \<Rightarrow> nat \<Rightarrow> ('w, 'e, unit) io"
where
  "mark_failed_authorization_code_if_needed cx sv code_hash label ttl_seconds =
     (case code_hash of
        None \<Rightarrow> io_return ()
      | Some h \<Rightarrow> io_then (io_try (mark_failed_authorization_code cx sv h label ttl_seconds))
          (\<lambda>_. io_return ()))"

definition revoke_issued_authorization_code_tokens ::
  "'w issuance_context \<Rightarrow> 'w token_service \<Rightarrow> oauth_client \<Rightarrow> string \<Rightarrow> int \<Rightarrow> uuid option \<Rightarrow>
    ('w, token_port_error, unit) io"
where
  "revoke_issued_authorization_code_tokens cx sv client jti expires_at family =
     tr_revoke_issued_tokens (sv_repository sv) (oc_tenant_id client) (oc_id client) jti
       (li_from_timestamp (cx_lib cx) expires_at) family"

definition requirement_met :: "string option \<Rightarrow> string option \<Rightarrow> bool" where
  "requirement_met expected candidate = is_none_or (\<lambda>e. candidate = Some e) expected"

definition holder_matches_original ::
  "holder_evidence \<Rightarrow> bool \<Rightarrow> string option \<Rightarrow> string option \<Rightarrow> string option \<Rightarrow> string option \<Rightarrow> bool"
where
  "holder_matches_original expected authenticated pkce dpop mtls attestation \<longleftrightarrow>
     (he_authenticated_client expected \<longrightarrow> authenticated) \<and>
     requirement_met (he_pkce_s256 expected) pkce \<and> requirement_met (he_dpop_jkt expected) dpop \<and>
     requirement_met (he_mtls_x5t_s256 expected) mtls \<and>
     requirement_met (he_client_attestation_jkt expected) attestation"

definition persist_native_sso_device_secret ::
  "'w issuance_context \<Rightarrow> 'w token_service \<Rightarrow> oauth_client \<Rightarrow> token_issue \<Rightarrow>
    native_sso_token_binding \<Rightarrow> uuid \<Rightarrow> ('w, handler_failure, unit + unit) io"
where
  "persist_native_sso_device_secret cx sv client issue binding family =
     (case ti_user_id issue of
        None \<Rightarrow> io_return (Inr ())
      | Some user_id \<Rightarrow>
     io_then (now_of cx) (\<lambda>now.
     io_then (add_seconds cx now (tc_refresh_token_ttl_seconds (cx_config cx))) (\<lambda>expires_at.
       case li_device_secret_json (cx_lib cx)
         \<lparr>nds_tenant_id = oc_tenant_id client, nds_user_id = user_id, nds_subject = ti_subject issue,
          nds_sid = nsb_sid binding, nds_source_client_id = oc_client_id client,
          nds_refresh_token_family_id = family, nds_expires_at = expires_at\<rparr> of
         None \<Rightarrow> io_return (Inl ())
       | Some payload \<Rightarrow>
           io_try (io_map_err (\<lambda>_. ()) (ts_store_native_sso (sv_state sv) (nsb_device_secret binding)
             payload (nat (max (tc_refresh_token_ttl_seconds (cx_config cx)) 1)))))))"

end
