(* ===== verification/Token_Response.thy ===== *)
theory Token_Response
  imports Token_Issuance
begin

text \<open>
  \<open>issue_token_response\<close> (\<open>src/crates/authorization-server/src/token/issue_grant.rs\<close>),
  the end of every grant: checks, subject and principal state, signatures, and the commit that is the
  only durable effect of a successful issuance. Each stage of the body is a definition; the stages
  pass on what the later ones read. \<open>reject_marked\<close> is the pattern of its error branches: the
  code being redeemed, if there is one, is marked as failed, then the error is returned.
\<close>

text \<open>The authorization service as the state store of DPoP
  (\<open>src/crates/authorization-server-core/src/dpop.rs\<close>).\<close>

definition authorization_dpop_store :: "'w authorization_state_store \<Rightarrow> 'w dpop_store" where
  "authorization_dpop_store st =
     \<lparr>ds_consume_replay = (\<lambda>jkt jti ttl. io_map_err (\<lambda>_. DpopStateStoreError)
        (st_consume_dpop st jkt jti ttl)),
      ds_issue_nonce = (\<lambda>nonce ttl. io_map_err (\<lambda>_. DpopStateStoreError)
        (st_issue_dpop_nonce st nonce ttl)),
      ds_validate_nonce = (\<lambda>nonce. io_map_err (\<lambda>_. DpopStateStoreError)
        (st_validate_dpop_nonce st nonce))\<rparr>"

definition reject_marked ::
  "'w issuance_context \<Rightarrow> 'w token_service \<Rightarrow> token_issue \<Rightarrow> string \<Rightarrow> handler_failure \<Rightarrow>
    ('w, handler_failure, 'a) io"
where
  "reject_marked cx sv issue label e =
     io_then (mark_failed_authorization_code_if_needed cx sv (ti_authorization_code_hash issue) label
       (auth_code_ttl (cx_config cx))) (\<lambda>_. io_fail e)"

definition reject_marked_if ::
  "bool \<Rightarrow> 'w issuance_context \<Rightarrow> 'w token_service \<Rightarrow> token_issue \<Rightarrow> string \<Rightarrow> handler_failure \<Rightarrow>
    ('w, handler_failure, unit) io"
where
  "reject_marked_if c cx sv issue label e =
     (if c then reject_marked cx sv issue label e else io_return ())"

subsection \<open>Checks before anything is signed\<close>

definition issue_requires_fapi2 :: "'w issuance_context \<Rightarrow> oauth_client \<Rightarrow> bool" where
  "issue_requires_fapi2 cx client \<longleftrightarrow>
     server_requires_fapi2_security (tc_profile (cx_config cx)) \<or>
     requires_fapi2_security_policy (security_policy (registration client))"

definition issue_includes_openid :: "token_issue \<Rightarrow> bool" where
  "issue_includes_openid issue \<longleftrightarrow> ''openid'' \<in> set (ti_scopes issue)"

definition issue_id_token_algorithm ::
  "'w issuance_context \<Rightarrow> oauth_client \<Rightarrow> token_issue \<Rightarrow> handler_failure + string option"
where
  "issue_id_token_algorithm cx client issue =
     (if issue_includes_openid issue
      then (case id_token_signing_algorithm (id_token_signed_response_alg (registration client))
          (issue_requires_fapi2 cx client) of
          Inl _ \<Rightarrow> Inl (token_error 400 ''invalid_client'')
        | Inr algorithm \<Rightarrow> Inr (Some algorithm))
      else Inr None)"

definition issue_admission ::
  "'w issuance_context \<Rightarrow> 'w token_service \<Rightarrow> oauth_client \<Rightarrow> token_issue \<Rightarrow>
    ('w, handler_failure, token_issue) io"
where
  "issue_admission cx sv client given =
     (case normalize_authorization_details (li_url_ok (cx_lib cx)) (ti_authorization_details given) of
        Inl _ \<Rightarrow> reject_marked cx sv given ''authorization_details_state_invalid''
          (token_error 503 ''server_error'')
      | Inr details \<Rightarrow>
      (let issue = given\<lparr>ti_authorization_details := details\<rparr>; openid = issue_includes_openid issue in
       io_then (reject_marked_if (openid \<and> ti_user_id issue = None) cx sv issue
         ''id_token_subject_missing'' (token_error 400 ''invalid_grant'')) (\<lambda>_.
       io_then (reject_marked_if
         (openid \<and> ti_refresh_authority issue \<noteq> None \<and> ti_auth_time issue = None) cx sv issue
         ''refresh_id_token_authentication_context_missing'' (token_error 400 ''invalid_grant'')) (\<lambda>_.
       io_then (if ti_native_sso issue = None then io_return True
         else context_permits cx ModNativeSso) (\<lambda>permitted.
       io_then (reject_marked_if (\<not> permitted) cx sv issue ''native_sso_disabled''
         (token_error 400 ''invalid_scope'')) (\<lambda>_.
       io_then (reject_marked_if (ti_native_sso issue \<noteq> None \<and> \<not> openid) cx sv issue
         ''native_sso_without_openid'' (token_error 400 ''invalid_scope'')) (\<lambda>_.
       io_then (io_reject (\<not> refresh_issue_matches_source issue client (tc_issuer (cx_config cx)))
         (token_error 400 ''invalid_grant'')) (\<lambda>_.
       io_return issue))))))))"

definition issue_refresh_scopes :: "token_issue \<Rightarrow> string list" where
  "issue_refresh_scopes issue =
     (case ti_refresh_authority issue of
        None \<Rightarrow> ti_scopes issue | Some source \<Rightarrow> rc_scopes (ra_contract source))"

definition will_issue_refresh :: "'w issuance_context \<Rightarrow> oauth_client \<Rightarrow> token_issue \<Rightarrow> bool" where
  "will_issue_refresh cx client issue \<longleftrightarrow>
     ti_include_refresh issue \<and>
     should_issue_refresh_token client (issue_refresh_scopes issue)
       (openid4vci_audience (cx_config cx) (issue_refresh_scopes issue)
          (ti_authorization_details issue) \<noteq> None)"

definition issue_refresh_context ::
  "'w issuance_context \<Rightarrow> 'w token_service \<Rightarrow> oauth_client \<Rightarrow> token_issue \<Rightarrow>
    ('w, handler_failure, refresh_token_authentication_context option) io"
where
  "issue_refresh_context cx sv client issue =
     io_then
       (if will_issue_refresh cx client issue \<and> ti_refresh_token_policy issue = IssueNew
        then (case refresh_authentication_context issue (tc_issuer (cx_config cx))
            (oc_client_id client) of
            None \<Rightarrow> reject_marked cx sv issue ''refresh_authentication_context_missing''
              (token_error 400 ''invalid_grant'')
          | Some c \<Rightarrow> io_return (Some c))
        else io_return None) (\<lambda>refresh_context.
     io_then (reject_marked_if
       (will_issue_refresh cx client issue \<and>
        token_endpoint_auth_method (registration client) = ''attest_jwt_client_auth'' \<and>
        ti_refresh_token_client_attestation_jkt issue = None) cx sv issue
       ''client_attestation_binding_missing'' (token_error 401 ''invalid_client_attestation'')) (\<lambda>_.
     io_return refresh_context))"

subsection \<open>Subject, principal and audit\<close>

definition issue_subject_snapshot ::
  "'w issuance_context \<Rightarrow> 'w token_service \<Rightarrow> oauth_client \<Rightarrow> token_issue \<Rightarrow>
    ('w, handler_failure, prepared_token_subject option) io"
where
  "issue_subject_snapshot cx sv client issue =
     (case (issue_includes_openid issue, ti_user_id issue) of
        (True, Some user_id) \<Rightarrow>
       io_then
         (case ti_prepared_subject issue of
            Some prepared \<Rightarrow> io_return prepared
          | None \<Rightarrow>
         io_then (io_try (tr_active_subject_claims (sv_repository sv) (oc_tenant_id client) user_id
           (ti_subject issue))) (\<lambda>loaded.
           case loaded of
             Inr (Some claims) \<Rightarrow> io_return claims
           | Inr None \<Rightarrow> reject_marked cx sv issue ''token_subject_invalid''
               (token_error 400 ''invalid_grant'')
           | Inl _ \<Rightarrow> reject_marked cx sv issue ''token_subject_load_failed''
               (token_error 503 ''server_error''))) (\<lambda>prepared.
       io_then (reject_marked_if
         (pts_tenant_id prepared \<noteq> oc_tenant_id client \<or>
          sc_subject (pts_claims prepared) \<noteq> user_id \<or>
          pts_token_subject prepared \<noteq> ti_subject issue) cx sv issue
         ''token_subject_snapshot_mismatch'' (token_error 500 ''server_error'')) (\<lambda>_.
       io_return (Some prepared)))
      | _ \<Rightarrow> io_return None)"

definition issue_principal_state ::
  "'w issuance_context \<Rightarrow> 'w token_service \<Rightarrow> oauth_client \<Rightarrow> token_issue \<Rightarrow>
    prepared_token_subject option \<Rightarrow> ('w, handler_failure, token_principal_state) io"
where
  "issue_principal_state cx sv client issue snapshot =
     (if ti_user_id issue = None
      then io_return \<lparr>tps_client_epoch = cx_client_epoch cx, tps_user_epoch = None,
        tps_subject_bound = False\<rparr>
      else (case snapshot of
          Some prepared \<Rightarrow>
            io_return \<lparr>tps_client_epoch = cx_client_epoch cx,
              tps_user_epoch = Some (pts_user_epoch prepared),
              tps_subject_bound = pts_subject_bound prepared\<rparr>
        | None \<Rightarrow>
       io_then (io_try (tr_token_principal_state (sv_repository sv) (oc_tenant_id client)
         (cx_client_epoch cx) (ti_user_id issue) (ti_subject issue))) (\<lambda>state.
         case state of
           Inr s \<Rightarrow> io_return s
         | Inl _ \<Rightarrow> reject_marked cx sv issue ''token_principal_state_unavailable''
             (token_error 503 ''server_error''))))"

definition issue_audit_ready ::
  "'w issuance_context \<Rightarrow> token_issuance_mode \<Rightarrow> token_issue \<Rightarrow> ('w, handler_failure, unit) io"
where
  "issue_audit_ready cx mode issue =
     io_map_err (\<lambda>_. token_error 503 ''server_error'')
       (if mode = ModeFresh \<and> ti_authorization_code_hash issue = None \<and> ti_native_sso issue = None
        then au_ensure_transactional_ready (cx_audit cx)
        else au_ensure_storage (cx_audit cx))"

subsection \<open>Lineage and signatures\<close>

text \<open>The family of the refresh token to be issued, its predecessor, and the retry it serves.\<close>

definition issue_refresh_family ::
  "'w issuance_context \<Rightarrow> oauth_client \<Rightarrow> token_issue \<Rightarrow>
    ('w, handler_failure, (uuid \<times> uuid option \<times> (uuid \<times> string \<times> time) option) option) io"
where
  "issue_refresh_family cx client issue =
     (if will_issue_refresh cx client issue
      then (case ti_refresh_token_policy issue of
          IssueNew \<Rightarrow> io_then (io_read (rn_uuid (cx_runtime cx)))
            (\<lambda>family. io_return (Some (family, None, None)))
        | Rotate family rotated_from \<Rightarrow> io_return (Some (family, Some rotated_from, None))
        | RotateLostResponse family original digest successor started \<Rightarrow>
            io_return (Some (family, Some successor, Some (original, digest, started)))
        | NoRefresh \<Rightarrow> io_return None
        | PreserveExisting \<Rightarrow> io_return None)
      else io_return None)"

definition issue_authorization_id ::
  "token_issue \<Rightarrow> (uuid \<times> uuid option \<times> (uuid \<times> string \<times> time) option) option \<Rightarrow> uuid \<Rightarrow> uuid"
where
  "issue_authorization_id issue refresh_family issuance_id =
     (case ti_refresh_authority issue of
        Some source \<Rightarrow> ra_family_id source
      | None \<Rightarrow> (case refresh_family of Some (family, _) \<Rightarrow> family | None \<Rightarrow> issuance_id))"

definition issue_next_nonce ::
  "'w issuance_context \<Rightarrow> 'w token_service \<Rightarrow> token_issue \<Rightarrow> ('w, handler_failure, string option) io"
where
  "issue_next_nonce cx sv issue =
     (if ti_dpop_jkt issue \<noteq> None \<and> tc_dpop_nonce_policy (cx_config cx) = NonceRequired
      then
       io_then (random_urlsafe_token cx) (\<lambda>nonce.
       io_then (io_try (issue_authorization_server_dpop_nonce
         (authorization_dpop_store (cx_authorization cx)) nonce)) (\<lambda>issued.
         case issued of
           Inr n \<Rightarrow> io_return (Some n)
         | Inl e \<Rightarrow> reject_marked cx sv issue ''dpop_next_nonce_failed'' (Rejected (EndpointDpop e))))
      else io_return None)"

definition issue_access_token_input ::
  "'w issuance_context \<Rightarrow> oauth_client \<Rightarrow> token_issue \<Rightarrow> token_principal_state \<Rightarrow> uuid \<Rightarrow>
    applied_sender_constraint \<Rightarrow> access_token_sign_input"
where
  "issue_access_token_input cx client issue principals authorization_id constraint =
     \<lparr>si_signing_algorithm = (if issue_requires_fapi2 cx client then Some ''PS256'' else None),
      si_authorization_id = Some authorization_id,
      si_client_epoch = Some (tps_client_epoch principals), si_user_epoch = tps_user_epoch principals,
      si_issuer = tc_issuer (cx_config cx), si_tenant_id = oc_tenant_id client,
      si_subject = ti_subject issue, si_user_id = ti_user_id issue,
      si_subject_type = (if ti_user_id issue \<noteq> None then ''user'' else ''client''),
      si_client_id = oc_client_id client, si_audiences = ti_audiences issue,
      si_scopes = ti_scopes issue, si_authorization_details = ti_authorization_details issue,
      si_userinfo_claim_requests = ti_userinfo_claim_requests issue,
      si_ttl_seconds = tc_access_token_ttl_seconds (cx_config cx),
      si_sender_constraint = constraint, si_actor = ti_actor issue\<rparr>"

definition issue_access_token ::
  "'w issuance_context \<Rightarrow> 'w token_service \<Rightarrow> oauth_client \<Rightarrow> token_issue \<Rightarrow> token_principal_state \<Rightarrow>
    uuid \<Rightarrow> ('w, handler_failure, issued_access_token) io"
where
  "issue_access_token cx sv client issue principals authorization_id =
     (case validate_sender_constraint (ti_dpop_jkt issue) (ti_mtls_x5t_s256 issue) of
        Inl _ \<Rightarrow> io_fail (token_error 400 ''invalid_request'')
      | Inr constraint \<Rightarrow>
     io_then (io_try (tk_sign_access_token (sv_signer sv)
       (issue_access_token_input cx client issue principals authorization_id constraint))) (\<lambda>signed.
       case signed of
         Inr token \<Rightarrow> io_return token
       | Inl _ \<Rightarrow> reject_marked cx sv issue ''access_token_signing_failed''
           (token_error 500 ''server_error'')))"

definition issue_body ::
  "'w issuance_context \<Rightarrow> token_issue \<Rightarrow> issued_access_token \<Rightarrow> (string \<times> json) list"
where
  "issue_body cx issue token =
     (let body = [(''token_type'', JString (if ti_dpop_jkt issue \<noteq> None then ''DPoP'' else ''Bearer'')),
            (''expires_in'', JInt (tc_access_token_ttl_seconds (cx_config cx))),
            (''scope'', JString (join '' '' (ti_scopes issue)))];
          body = map_insert ''access_token'' (JString (iat_token token)) body;
          body = (if authorization_details_empty (ti_authorization_details issue) then body
            else map_insert ''authorization_details'' (ti_authorization_details issue) body)
      in insert_some ''issued_token_type'' (map_option JString (ti_issued_token_type issue)) body)"

definition issue_encrypted_id_token ::
  "'w issuance_context \<Rightarrow> 'w token_service \<Rightarrow> oauth_client \<Rightarrow> token_issue \<Rightarrow> string \<Rightarrow>
    ('w, handler_failure, string) io"
where
  "issue_encrypted_id_token cx sv client issue signed =
     (case client_jwe_key_of (jwks (registration client))
        (id_token_encrypted_response_alg (registration client))
        (id_token_encrypted_response_enc (registration client)) of
        Inl _ \<Rightarrow> reject_marked cx sv issue ''id_token_encryption_failed''
          (token_error 500 ''server_error'')
      | Inr None \<Rightarrow> io_return signed
      | Inr (Some key) \<Rightarrow>
     io_then (io_read (rn_jwe_random (cx_runtime cx))) (\<lambda>rnd.
       case encrypt_compact_jwe (li_jwe (cx_lib cx)) rnd key signed JweNestedJwt of
         Inr token \<Rightarrow> io_return token
       | Inl _ \<Rightarrow> reject_marked cx sv issue ''id_token_encryption_failed''
           (token_error 500 ''server_error'')))"

text \<open>The session identifier put into the ID token, and the token.\<close>

definition issue_id_token ::
  "'w issuance_context \<Rightarrow> 'w token_service \<Rightarrow> oauth_client \<Rightarrow> token_issue \<Rightarrow> string option \<Rightarrow>
    prepared_token_subject option \<Rightarrow> ('w, handler_failure, string option \<times> string) io"
where
  "issue_id_token cx sv client issue algorithm snapshot =
     (case snapshot of
        None \<Rightarrow> io_fail Panicked
      | Some loaded \<Rightarrow>
     (let base = oidc_id_token_user_claims (pts_claims loaded) (issue_refresh_scopes issue)
            (ti_subject issue) (ti_id_token_claim_requests issue);
          extra = insert_some ''ds_hash''
            (map_option (\<lambda>b. JString (nsb_ds_hash b)) (ti_native_sso issue)) base
      in
     io_then (context_permits cx ModFrontchannelLogout) (\<lambda>frontchannel.
     let sid = id_token_session_sid client issue frontchannel in
     io_then (reject_marked_if
       (ti_refresh_authority issue \<noteq> None \<and>
        \<not> refreshed_id_token_essential_claims_satisfied issue client frontchannel extra) cx sv issue
       ''refresh_id_token_essential_claim_missing'' (token_error 400 ''invalid_grant'')) (\<lambda>_.
     io_then (io_try (tk_sign_id_token (sv_signer sv)
       \<lparr>ii_issuer = tc_issuer (cx_config cx), ii_subject = ti_subject issue,
        ii_client_id = oc_client_id client,
        ii_nonce = (if ti_refresh_authority issue \<noteq> None then None else ti_nonce issue),
        ii_auth_time = ti_auth_time issue, ii_amr = ti_amr issue, ii_sid = sid,
        ii_acr = ti_acr issue, ii_extra_claims = Some (JObject extra),
        ii_ttl_seconds = tc_id_token_ttl_seconds (cx_config cx),
        ii_signing_algorithm = algorithm\<rparr>)) (\<lambda>signed.
       case signed of
         Inl _ \<Rightarrow> reject_marked cx sv issue ''id_token_signing_failed'' (token_error 500 ''server_error'')
       | Inr token \<Rightarrow>
       io_then (issue_encrypted_id_token cx sv client issue token) (\<lambda>id_token.
       io_return (sid, id_token)))))))"

subsection \<open>Refresh token and device secret\<close>

definition issue_refresh_token ::
  "'w issuance_context \<Rightarrow> oauth_client \<Rightarrow> token_issue \<Rightarrow> time \<Rightarrow> string option \<Rightarrow>
    (uuid \<times> uuid option \<times> (uuid \<times> string \<times> time) option) option \<Rightarrow>
    ('w, handler_failure, new_refresh_token option) io"
where
  "issue_refresh_token cx client issue now sid refresh_family =
     (case refresh_family of
        None \<Rightarrow> io_return None
      | Some (family, rotated_from, retry) \<Rightarrow>
     io_then (random_urlsafe_token cx) (\<lambda>first.
     io_then (random_urlsafe_token cx) (\<lambda>second.
     io_then (io_read (rn_uuid (cx_runtime cx))) (\<lambda>member_id.
     io_then (add_seconds cx now (tc_refresh_token_ttl_seconds (cx_config cx))) (\<lambda>expires_at.
     io_return (Some (prepare_refresh_token client issue
       \<lparr>pr_raw = first @ ''.'' @ second, pr_member_id = member_id, pr_family = family,
        pr_rotated_from = rotated_from, pr_lost_response_retry = retry, pr_issued_at = now,
        pr_expires_at = expires_at\<rparr> (persisted_id_token_sid issue sid))))))))"

definition issue_refresh_commit ::
  "token_issue \<Rightarrow> refresh_token_authentication_context option \<Rightarrow> new_refresh_token option \<Rightarrow>
    handler_failure + refresh_token_commit option"
where
  "issue_refresh_commit issue refresh_context refresh_token =
     (case ti_refresh_authority issue of
        Some source \<Rightarrow> Inr (Some (CommitUseExisting source refresh_token))
      | None \<Rightarrow>
     (case refresh_token of
        None \<Rightarrow> Inr None
      | Some token \<Rightarrow>
     (case refresh_context of
        None \<Rightarrow> Inl Panicked
      | Some c \<Rightarrow> Inr (Some (CommitIssueNew token
          \<lparr>rc_subject = ti_subject issue, rc_scopes = ti_scopes issue,
           rc_audiences = nt_audiences token,
           rc_authorization_details = ti_authorization_details issue,
           rc_authentication_context = c\<rparr>)))))"

definition issue_device_secret ::
  "'w issuance_context \<Rightarrow> 'w token_service \<Rightarrow> oauth_client \<Rightarrow> token_issue \<Rightarrow> uuid option \<Rightarrow>
    ('w, handler_failure, string option) io"
where
  "issue_device_secret cx sv client issue family =
     (case ti_native_sso issue of
        None \<Rightarrow> io_return None
      | Some native_sso \<Rightarrow>
     (case family of
        None \<Rightarrow> reject_marked cx sv issue ''native_sso_refresh_token_missing''
          (token_error 400 ''invalid_grant'')
      | Some f \<Rightarrow>
     io_then (persist_native_sso_device_secret cx sv client issue native_sso f) (\<lambda>stored.
       case stored of
         Inl _ \<Rightarrow> reject_marked cx sv issue ''native_sso_device_secret_persist_failed''
           (token_error 503 ''server_error'')
       | Inr _ \<Rightarrow> io_return (Some (nsb_device_secret native_sso)))))"

subsection \<open>Commit\<close>

text \<open>The commit found the grant used: the tokens issued for a code are revoked, but only if this
  request meets the requirements stored with the redemption.\<close>

definition issue_already_used ::
  "'w issuance_context \<Rightarrow> 'w token_service \<Rightarrow> oauth_client \<Rightarrow> token_issuance_mode \<Rightarrow>
    ('w, handler_failure, 'a) io"
where
  "issue_already_used cx sv client mode =
     (case mode of
        ModeAuthorizationCode grant_key _ holder \<Rightarrow>
       io_then (io_map_err (\<lambda>_. token_error 503 ''server_error'')
         (tr_single_use_redemption (sv_repository sv) (oc_tenant_id client) (oc_id client) grant_key))
         (\<lambda>found. case found of
            None \<Rightarrow> io_fail (token_error 400 ''invalid_grant'')
          | Some redemption \<Rightarrow>
              if is_some_and (\<lambda>expected. holder_matches_original expected
                   (he_authenticated_client holder) (he_pkce_s256 holder) (he_dpop_jkt holder)
                   (he_mtls_x5t_s256 holder) (he_client_attestation_jkt holder))
                 (sr_authorization_code_holder redemption)
              then
                io_then (io_map_err (\<lambda>_. token_error 503 ''server_error'')
                  (revoke_issued_authorization_code_tokens cx sv client
                    (sr_access_token_jti redemption)
                    (unix_seconds (sr_access_token_expires_at redemption))
                    (sr_refresh_token_family_id redemption)))
                  (\<lambda>_. io_fail (token_error 400 ''invalid_grant''))
              else io_fail (token_error 400 ''invalid_grant''))
      | _ \<Rightarrow> io_fail (token_error 400 ''invalid_grant''))"

definition issue_commit ::
  "'w issuance_context \<Rightarrow> 'w token_service \<Rightarrow> oauth_client \<Rightarrow> token_issuance_mode \<Rightarrow> token_issue \<Rightarrow>
    commit_token_issuance \<Rightarrow> ('w, handler_failure, unit) io"
where
  "issue_commit cx sv client mode issue commit =
     io_then (io_map_err (\<lambda>_. token_error 503 ''server_error'')
       (tr_commit_token_issuance (sv_repository sv) commit)) (\<lambda>result.
       case result of
         IssuanceCommitted \<Rightarrow>
           (case ti_authorization_code_hash issue of
              None \<Rightarrow> io_return ()
            | Some h \<Rightarrow> io_then (io_try (ts_delete_authorization_code (sv_state sv) h))
                (\<lambda>_. io_return ()))
       | IssuanceAlreadyUsed \<Rightarrow> issue_already_used cx sv client mode
       | IssuanceRefreshGrantUnavailable \<Rightarrow> io_fail (token_error 400 ''invalid_grant'')
       | IssuanceGrantExpired \<Rightarrow> reject_marked cx sv issue ''grant_expired'' (token_error 400
           (if cx_grant_type cx \<in> {Some DeviceCode, Some Ciba} then ''expired_token''
            else ''invalid_grant''))
       | IssuanceClientInactive \<Rightarrow> reject_marked cx sv issue ''client_inactive''
           (token_error 400 ''unauthorized_client'')
       | IssuanceSubjectInactive \<Rightarrow> reject_marked cx sv issue ''subject_inactive''
           (token_error 400 ''invalid_grant'')
       | IssuanceRotationConflict \<Rightarrow> reject_marked cx sv issue ''refresh_rotation_conflict''
           (token_error 400 ''invalid_grant''))"

definition issue_commit_request ::
  "'w issuance_context \<Rightarrow> oauth_client \<Rightarrow> token_issuance_mode \<Rightarrow> token_issue \<Rightarrow> uuid \<Rightarrow> uuid \<Rightarrow>
    token_principal_state \<Rightarrow> issued_access_token \<Rightarrow> refresh_token_commit option \<Rightarrow>
    commit_token_issuance"
where
  "issue_commit_request cx client mode issue authorization_id issuance_id principals token refresh =
     \<lparr>ct_authorization_id = Some authorization_id, ct_principal_state = principals,
      ct_subject = ti_subject issue, ct_issuance_id = issuance_id,
      ct_tenant_id = oc_tenant_id client, ct_client_id = oc_id client,
      ct_user_id = ti_user_id issue, ct_mode = mode, ct_access_token_jti = iat_jti token,
      ct_access_token_expires_at = iat_expires_at token, ct_refresh_token = refresh,
      ct_native_sso_source = ti_native_sso_source issue,
      ct_audit_fields = \<lparr>taf_client_id = oc_client_id client,
        taf_subject_hash = li_blake3_hex (cx_lib cx) (ti_subject issue),
        taf_scope = join '' '' (ti_scopes issue), taf_audience = ti_audiences issue\<rparr>\<rparr>"

subsection \<open>The whole function\<close>

definition issue_family_id :: "token_issue \<Rightarrow> new_refresh_token option \<Rightarrow> uuid option" where
  "issue_family_id issue refresh_token =
     (case refresh_token of
        Some token \<Rightarrow> Some (nt_family_id token)
      | None \<Rightarrow> map_option ra_family_id (ti_refresh_authority issue))"

text \<open>From the signatures on: \<open>issue\<close> has passed the checks.\<close>

definition issue_checked ::
  "'w issuance_context \<Rightarrow> 'w token_service \<Rightarrow> oauth_client \<Rightarrow> token_issuance_mode \<Rightarrow> string option \<Rightarrow>
    token_issue \<Rightarrow> refresh_token_authentication_context option \<Rightarrow> prepared_token_subject option \<Rightarrow>
    token_principal_state \<Rightarrow> ('w, handler_failure, token_endpoint_success) io"
where
  "issue_checked cx sv client mode algorithm issue refresh_context snapshot principals =
     io_then (io_read (rn_uuid (cx_runtime cx))) (\<lambda>issuance_id.
     io_then (issue_audit_ready cx mode issue) (\<lambda>_.
     io_then (now_of cx) (\<lambda>now.
     io_then (issue_refresh_family cx client issue) (\<lambda>refresh_family.
     let authorization_id = issue_authorization_id issue refresh_family issuance_id in
     io_then (issue_next_nonce cx sv issue) (\<lambda>next_nonce.
     io_then (issue_access_token cx sv client issue principals authorization_id) (\<lambda>token.
     io_then
       (if issue_includes_openid issue
        then io_then (issue_id_token cx sv client issue algorithm snapshot)
          (\<lambda>(sid, id_token). io_return (sid, Some id_token))
        else io_return (None, None)) (\<lambda>(sid, id_token).
     io_then (issue_refresh_token cx client issue now sid refresh_family) (\<lambda>refresh_token.
     io_then (io_result (issue_refresh_commit issue refresh_context refresh_token)) (\<lambda>refresh.
     io_then (issue_device_secret cx sv client issue (issue_family_id issue refresh_token))
       (\<lambda>device_secret.
     io_then (issue_commit cx sv client mode issue
       (issue_commit_request cx client mode issue authorization_id issuance_id principals token refresh))
       (\<lambda>_.
     io_return (TokensIssued
       (JObject (insert_some ''device_secret'' (map_option JString device_secret)
         (insert_some ''refresh_token'' (map_option (\<lambda>t. JString (nt_raw_token t)) refresh_token)
           (insert_some ''id_token'' (map_option JString id_token) (issue_body cx issue token)))))
       next_nonce))))))))))))"

definition issue_token_response ::
  "'w issuance_context \<Rightarrow> 'w token_service \<Rightarrow> oauth_client \<Rightarrow> token_issuance_mode \<Rightarrow> token_issue \<Rightarrow>
    ('w, handler_failure, token_endpoint_success) io"
where
  "issue_token_response cx sv client mode given =
     io_then (io_result (issue_id_token_algorithm cx client given)) (\<lambda>algorithm.
     io_then (issue_admission cx sv client given) (\<lambda>issue.
     io_then (issue_refresh_context cx sv client issue) (\<lambda>refresh_context.
     io_then (issue_subject_snapshot cx sv client issue) (\<lambda>snapshot.
     io_then (issue_principal_state cx sv client issue snapshot) (\<lambda>principals.
     issue_checked cx sv client mode algorithm issue refresh_context snapshot principals)))))"

end
