(* ===== verification/Code_Redemption.thy ===== *)
theory Code_Redemption
  imports Token_Response
begin

text \<open>
  Redeeming an authorization code
  (\<open>src/crates/authorization-server/src/token/authorization_code.rs\<close>), with the sender proofs
  of a token request (\<open>token/mod.rs\<close>, \<open>security/dpop.rs\<close>) and the consumption of a
  client assertion (\<open>token/client_auth.rs\<close>). \<open>token_authorization_code_with_service\<close> is
  split where the code leaves the pending state: \<open>redemption_candidate\<close> are the checks before,
  \<open>redeem_candidate\<close> is what follows. \<open>li_authority_ok\<close> parses an
  \<open>http::uri::Authority\<close> and gives its text back.
\<close>

subsection \<open>The request\<close>

record dpop_request_facts =
  dq_method :: string
  dq_path :: string
  dq_authority :: "string option"
  dq_proof :: "dpop_error + string option"
  dq_proof_present :: bool

record client_certificate_facts =
  cert_thumbprint :: "string option"
  cert_subject_dn :: "string option"
  cert_san_dns :: "string list"
  cert_san_uri :: "string list"
  cert_san_ip :: "string list"
  cert_san_email :: "string list"
  cert_chain_der :: "string list"
  cert_deployment_trusted_chain :: bool

record token_request_facts =
  fa_dpop :: dpop_request_facts
  fa_client_attestation :: "unit + (string \<times> string) option"
  fa_certificate :: "client_certificate_facts option"

record token_form =
  tf_grant_type :: string
  tf_code :: "string option"
  tf_device_code :: "string option"
  tf_auth_req_id :: "string option"
  tf_redirect_uri :: "string option"
  tf_code_verifier :: "string option"
  tf_refresh_token :: "string option"
  tf_device_secret :: "string option"
  tf_scope :: "string option"
  tf_client_id :: "string option"
  tf_client_secret :: "string option"
  tf_client_assertion_type :: "string option"
  tf_client_assertion :: "string option"
  tf_assertion :: "string option"
  tf_requested_token_type :: "string option"
  tf_subject_token :: "string option"
  tf_subject_token_type :: "string option"
  tf_actor_token :: "string option"
  tf_actor_token_type :: "string option"
  tf_audiences :: "string list"
  tf_has_audience_param :: bool

subsection \<open>Sender proofs\<close>

definition trim_end_slashes :: "string \<Rightarrow> string" where
  "trim_end_slashes s = rev (dropWhile (\<lambda>c. c = CHR ''/'') (rev s))"

definition dpop_base_candidate ::
  "url_lib \<Rightarrow> string \<Rightarrow> string \<Rightarrow> string \<Rightarrow> dpop_error + string option"
where
  "dpop_base_candidate ul host path base =
     (case url_parse ul base of
        None \<Rightarrow> Inl InvalidProof
      | Some origin \<Rightarrow>
          if url_scheme origin \<notin> {''http'', ''https''} then Inl InvalidProof
          else (case url_parse ul (url_scheme origin @ ''://'' @ host) of
              None \<Rightarrow> Inl InvalidProof
            | Some request_origin \<Rightarrow>
                Inr (if url_origin origin = url_origin request_origin
                  then Some (trim_end_slashes base @ path) else None)))"

text \<open>The loop over the two configured origins, written out.\<close>

definition dpop_target_uri ::
  "issue_lib \<Rightarrow> string \<Rightarrow> string \<Rightarrow> string option \<Rightarrow> string \<Rightarrow> dpop_error + string"
where
  "dpop_target_uri lib issuer mtls_endpoint_base_url given path =
     (case given of
        None \<Rightarrow> Inl InvalidProof
      | Some text_given \<Rightarrow>
          if CHR ''@'' \<in> set text_given then Inl InvalidProof
          else (case li_authority_ok lib text_given of
              None \<Rightarrow> Inl InvalidProof
            | Some host \<Rightarrow>
                and_then (dpop_base_candidate (dl_url (li_dpop lib)) host path issuer) (\<lambda>first.
                and_then (dpop_base_candidate (dl_url (li_dpop lib)) host path
                  mtls_endpoint_base_url) (\<lambda>second.
                  case (first, second) of
                    (Some a, Some b) \<Rightarrow> if a \<noteq> b then Inl InvalidProof else Inr b
                  | (Some a, None) \<Rightarrow> Inr a
                  | (None, Some b) \<Rightarrow> Inr b
                  | (None, None) \<Rightarrow> Inl InvalidProof))))"

text \<open>The nonce that a challenge may need is drawn before the call.\<close>

definition validate_dpop_proof ::
  "'w issuance_context \<Rightarrow> dpop_request_facts \<Rightarrow> string option \<Rightarrow> string option \<Rightarrow>
    ('w, dpop_error, string option) io"
where
  "validate_dpop_proof cx request token_for_ath expected_jkt =
     io_then (io_result (dq_proof request)) (\<lambda>proof.
     io_then (io_result (case proof of
         None \<Rightarrow> Inr []
       | Some _ \<Rightarrow> dpop_target_uri (cx_lib cx) (tc_issuer (cx_config cx))
           (tc_mtls_endpoint_base_url (cx_config cx)) (dq_authority request) (dq_path request)))
       (\<lambda>target_uri.
     io_then (random_urlsafe_token cx) (\<lambda>new_nonce.
     io_then (now_of cx) (\<lambda>now.
     io_then (io_try (validate_authorization_server_dpop_at (li_dpop (cx_lib cx))
       (authorization_dpop_store (cx_authorization cx)) new_nonce
       \<lparr>dpr_proof = proof, dpr_method = dq_method request, dpr_target_uris = [target_uri],
        dpr_access_token = token_for_ath, dpr_expected_jkt = expected_jkt\<rparr>
       (tc_dpop_nonce_policy (cx_config cx)) (unix_seconds now))) (\<lambda>result.
       case result of
         Inr jkt \<Rightarrow> io_return jkt
       | Inl e \<Rightarrow>
         (case e of
            ReplayDetected event \<Rightarrow>
              io_then (io_map_err (\<lambda>_. StateStoreUnavailable)
                (au_record_required (cx_audit cx) ''dpop_replay_detected''
                  [(''jti_hash'', JString (dra_jti_hash event)),
                   (''kid'', case dra_key_id event of None \<Rightarrow> JNull | Some kid \<Rightarrow> JString kid)]))
                (\<lambda>_. io_fail e)
          | _ \<Rightarrow> io_fail e))))))"

record validated_sender_constraints =
  vs_dpop_jkt :: "string option"
  vs_mtls_x5t_s256 :: "string option"

datatype sender_constraint_validation_error = SenderDpop dpop_error | SenderMissingMtls | SenderMultiple

definition certificate_thumbprint :: "token_request_facts \<Rightarrow> string option" where
  "certificate_thumbprint facts = Option.bind (fa_certificate facts) cert_thumbprint"

definition request_mtls_binding ::
  "oauth_client \<Rightarrow> token_request_facts \<Rightarrow> string option \<Rightarrow>
    sender_constraint_validation_error + string option"
where
  "request_mtls_binding client facts expected =
     (let actual = (if expected \<noteq> None \<or> require_mtls_bound_tokens client
            then certificate_thumbprint facts else None)
      in case expected of
           None \<Rightarrow> Inr actual
         | Some e \<Rightarrow> if actual = Some e then Inr actual else Inl SenderMissingMtls)"

definition validate_token_sender_constraints ::
  "'w issuance_context \<Rightarrow> token_request_facts \<Rightarrow> oauth_client \<Rightarrow> string option \<Rightarrow> string option \<Rightarrow>
    string option \<Rightarrow> ('w, sender_constraint_validation_error, validated_sender_constraints) io"
where
  "validate_token_sender_constraints cx facts client token_for_ath expected_dpop expected_mtls =
     io_then (io_map_err SenderDpop
       (validate_dpop_proof cx (fa_dpop facts) token_for_ath expected_dpop)) (\<lambda>dpop.
     io_then (io_result (request_mtls_binding client facts expected_mtls)) (\<lambda>mtls.
       let need_dpop = require_dpop_bound_tokens (registration client);
           need_mtls = require_mtls_bound_tokens client
       in case apply_sender_constraint (sender_constraint_policy_of need_dpop need_mtls)
            \<lparr>psc_dpop_jkt = dpop, psc_mtls_x5t_s256 = mtls\<rparr> of
            Inr _ \<Rightarrow> io_return \<lparr>vs_dpop_jkt = dpop, vs_mtls_x5t_s256 = mtls\<rparr>
          | Inl _ \<Rightarrow> io_fail
              (if dpop \<noteq> None \<and> mtls \<noteq> None then SenderMultiple
               else if need_dpop \<and> \<not> need_mtls then SenderDpop MissingProof
               else SenderMissingMtls)))"

subsection \<open>Client assertions\<close>

datatype token_management_client_auth_error =
  AuthInvalidClient | AuthPublicClientCredentialsForbidden | AuthStoreUnavailable

fun token_management_client_assertion_error ::
  "client_assertion_flow_error \<Rightarrow> token_management_client_auth_error"
where
  "token_management_client_assertion_error FlowStoreUnavailable = AuthStoreUnavailable"
| "token_management_client_assertion_error FlowInvalid = AuthInvalidClient"
| "token_management_client_assertion_error FlowReplayDetected = AuthInvalidClient"

fun token_client_assertion_error :: "token_management_client_auth_error \<Rightarrow> handler_failure" where
  "token_client_assertion_error AuthInvalidClient = token_error 401 ''invalid_client''"
| "token_client_assertion_error AuthPublicClientCredentialsForbidden =
     token_error 401 ''invalid_client''"
| "token_client_assertion_error AuthStoreUnavailable = token_error 503 ''server_error''"

definition consume_token_client_assertion ::
  "'w issuance_context \<Rightarrow> oauth_client \<Rightarrow> validated_client_assertion option \<Rightarrow>
    ('w, token_management_client_auth_error, unit) io"
where
  "consume_token_client_assertion cx client assertion =
     (case assertion of
        None \<Rightarrow> io_return ()
      | Some a \<Rightarrow>
     io_then (now_of cx) (\<lambda>now.
       io_map_err token_management_client_assertion_error
         (consume_private_key_jwt_with_authorization_service (cx_authorization cx)
           (au_record_required (cx_audit cx)) (li_blake3_hex (cx_lib cx)) (unix_seconds now)
           client a)))"

subsection \<open>The pending code\<close>

definition load_pending_authorization_code_payload ::
  "'w token_service \<Rightarrow> string \<Rightarrow> ('w, handler_failure, code_payload option) io"
where
  "load_pending_authorization_code_payload sv code_hash =
     io_then (io_map_err (\<lambda>_. token_error 503 ''server_error'')
       (ts_load_authorization_code (sv_state sv) code_hash)) (\<lambda>stored.
       io_return (case stored of Some (CodePending payload) \<Rightarrow> Some payload | _ \<Rightarrow> None))"

definition redirect_uri_matches_authorization_request :: "code_payload \<Rightarrow> string option \<Rightarrow> bool" where
  "redirect_uri_matches_authorization_request payload token_redirect_uri =
     (case token_redirect_uri of
        Some given \<Rightarrow> given = co_redirect_uri payload
      | None \<Rightarrow> \<not> co_redirect_uri_was_supplied payload)"

definition authorization_code_requires_pkce :: "oauth_client \<Rightarrow> code_payload \<Rightarrow> bool" where
  "authorization_code_requires_pkce client payload \<longleftrightarrow>
     client_type (registration client) \<noteq> ''confidential'' \<or>
     require_dpop_bound_tokens (registration client) \<or> require_mtls_bound_tokens client \<or>
     co_dpop_jkt payload \<noteq> None \<or> co_mtls_x5t_s256 payload \<noteq> None \<or>
     ''openid'' \<notin> set (co_scopes payload)"

fun authorization_code_dpop_error_response :: "dpop_error \<Rightarrow> handler_failure" where
  "authorization_code_dpop_error_response (UseNonce n) = Rejected (EndpointDpop (UseNonce n))"
| "authorization_code_dpop_error_response StateStoreUnavailable =
     Rejected (EndpointDpop StateStoreUnavailable)"
| "authorization_code_dpop_error_response _ = token_error 400 ''invalid_grant''"

fun authorization_code_sender_error :: "sender_constraint_validation_error \<Rightarrow> handler_failure" where
  "authorization_code_sender_error (SenderDpop e) = authorization_code_dpop_error_response e"
| "authorization_code_sender_error SenderMissingMtls = token_error 400 ''invalid_request''"
| "authorization_code_sender_error SenderMultiple = token_error 400 ''invalid_request''"

abbreviation authorization_code_client_mismatch :: handler_failure where
  "authorization_code_client_mismatch \<equiv> token_error 400 ''invalid_grant''"

definition pkce_s256 :: "issue_lib \<Rightarrow> string \<Rightarrow> string" where
  "pkce_s256 lib verifier = b64_encode (li_base64 lib) (li_sha256 lib verifier)"

definition check_code_verifier ::
  "issue_lib \<Rightarrow> oauth_client \<Rightarrow> token_form \<Rightarrow> code_payload \<Rightarrow> handler_failure + unit"
where
  "check_code_verifier lib client form payload =
     (case pkce_challenge (co_pkce payload) of
        Some challenge \<Rightarrow>
         (case tf_code_verifier form of
            None \<Rightarrow> Inl (token_error 400 ''invalid_grant'')
          | Some verifier \<Rightarrow>
              if \<not> is_valid_pkce_value verifier \<or> pkce_s256 lib verifier \<noteq> challenge
              then Inl (token_error 400 ''invalid_grant'') else Inr ())
      | None \<Rightarrow>
          if \<not> authorization_code_requires_pkce client payload
          then (if tf_code_verifier form \<noteq> None then Inl (token_error 400 ''invalid_grant'')
            else Inr ())
          else Inl (token_error 503 ''server_error''))"

definition authorization_code_audiences_with_default ::
  "string \<Rightarrow> string option \<Rightarrow> code_payload \<Rightarrow> token_form \<Rightarrow> unit + string list"
where
  "authorization_code_audiences_with_default default_audience vci_audience payload form =
     (if co_resource_indicators payload = [] then
        Inr (if tf_audiences form = []
          then [case vci_audience of None \<Rightarrow> default_audience | Some a \<Rightarrow> a]
          else tf_audiences form)
      else if tf_audiences form = [] then Inr (co_resource_indicators payload)
      else if is_subset (tf_audiences form) (co_resource_indicators payload)
        then Inr (tf_audiences form) else Inl ())"

definition audiences_allowed :: "oauth_client \<Rightarrow> string list \<Rightarrow> bool" where
  "audiences_allowed client audiences \<longleftrightarrow>
     audiences \<noteq> [] \<and> is_subset audiences (allowed_audiences (registration client))"

definition native_sso_requested :: "string list \<Rightarrow> bool" where
  "native_sso_requested scopes \<longleftrightarrow> ''device_sso'' \<in> set scopes"

definition validate_pending_authorization_code_request ::
  "'w issuance_context \<Rightarrow> oauth_client \<Rightarrow> token_form \<Rightarrow> code_payload \<Rightarrow>
    ('w, handler_failure, string list) io"
where
  "validate_pending_authorization_code_request cx client form payload =
     io_then (io_reject
       (co_redemption_contract_version payload \<noteq> AUTHORIZATION_CODE_REDEMPTION_VERSION)
       (token_error 400 ''invalid_grant'')) (\<lambda>_.
     io_then (now_of cx) (\<lambda>now.
     io_then (io_reject (co_expires_at payload \<le> now) (token_error 400 ''invalid_grant'')) (\<lambda>_.
     io_then (io_reject
       (\<not> redirect_uri_matches_authorization_request payload (tf_redirect_uri form))
       authorization_code_client_mismatch) (\<lambda>_.
     io_then (io_result (check_code_verifier (cx_lib cx) client form payload)) (\<lambda>_.
     io_then (io_result (map_err (\<lambda>_. token_error 400 ''invalid_target'')
       (authorization_code_audiences_with_default (tc_default_audience (cx_config cx))
         (openid4vci_audience (cx_config cx) (co_scopes payload) (co_authorization_details payload))
         payload form))) (\<lambda>audiences.
     io_then (io_reject (\<not> audiences_allowed client audiences)
       (token_error 400 ''invalid_target'')) (\<lambda>_.
     io_then (if native_sso_requested (co_scopes payload) then context_permits cx ModNativeSso
       else io_return True) (\<lambda>permitted.
     io_then (io_reject (\<not> permitted) (token_error 400 ''invalid_scope'')) (\<lambda>_.
     io_then (io_reject
       (native_sso_requested (co_scopes payload) \<and> ''openid'' \<notin> set (co_scopes payload))
       (token_error 400 ''invalid_scope'')) (\<lambda>_.
     io_return audiences))))))))))"

subsection \<open>Redemptions already made\<close>

definition authorization_code_identity :: "string \<Rightarrow> string" where
  "authorization_code_identity code_hash = ''authorization_code:v2:'' @ code_hash"

definition optional_text :: "string option \<Rightarrow> json" where
  "optional_text v = (case v of None \<Rightarrow> JNull | Some s \<Rightarrow> JString s)"

definition legacy_authorization_code_redemption_key ::
  "issue_lib \<Rightarrow> string \<Rightarrow> token_form \<Rightarrow> string option \<Rightarrow> string option \<Rightarrow> string option \<Rightarrow> string"
where
  "legacy_authorization_code_redemption_key lib code_hash form dpop mtls attestation =
     (let digest = li_blake3_hex lib;
          proof_json = JObject
            [(''code_hash'', JString code_hash),
             (''code_verifier'', optional_text (map_option digest (tf_code_verifier form))),
             (''redirect_uri'', optional_text (map_option digest (tf_redirect_uri form))),
             (''scope'', optional_text (map_option digest (tf_scope form))),
             (''audiences'', JArray (map JString (tf_audiences form))),
             (''dpop_jkt'', optional_text dpop), (''mtls_x5t_s256'', optional_text mtls),
             (''client_attestation_jkt'', optional_text attestation)]
      in ''authorization_code:'' @ digest (li_json_text lib proof_json))"

record fresh_code_holder_facts =
  fh_client_authentication :: code_client_authentication
  fh_pkce_s256 :: "string option"
  fh_dpop_jkt :: "string option"
  fh_certificate_thumbprint :: "string option"
  fh_client_attestation_jkt :: "string option"

definition holder_requirements ::
  "fresh_code_holder_facts \<Rightarrow> string option \<Rightarrow> holder_evidence option"
where
  "holder_requirements facts mtls_binding =
     from_verified_requirements (fh_client_authentication facts) (fh_pkce_s256 facts)
       (fh_dpop_jkt facts) mtls_binding (fh_client_attestation_jkt facts)"

definition holder_matches :: "fresh_code_holder_facts \<Rightarrow> holder_evidence \<Rightarrow> bool" where
  "holder_matches facts expected =
     holder_matches_original expected (fh_client_authentication facts = ClientAuthenticated)
       (fh_pkce_s256 facts) (fh_dpop_jkt facts) (fh_certificate_thumbprint facts)
       (fh_client_attestation_jkt facts)"

definition committed_single_use_redemption ::
  "'w token_service \<Rightarrow> oauth_client \<Rightarrow> string \<Rightarrow> string \<Rightarrow> fresh_code_holder_facts \<Rightarrow>
    holder_evidence option \<Rightarrow> ('w, handler_failure, single_use_redemption option) io"
where
  "committed_single_use_redemption sv client code_identity legacy_key candidate issuance_holder =
     (let look = (\<lambda>key. io_map_err (\<lambda>_. token_error 503 ''server_error'')
            (tr_single_use_redemption (sv_repository sv) (oc_tenant_id client) (oc_id client) key))
      in
     io_then (look code_identity) (\<lambda>found. case found of
        Some receipt \<Rightarrow> io_return
          (if is_some_and (holder_matches candidate) (sr_authorization_code_holder receipt)
           then Some receipt else None)
      | None \<Rightarrow>
          if issuance_holder = None then io_return None
          else io_then (look legacy_key) (\<lambda>legacy. io_return
            (case legacy of
               None \<Rightarrow> None
             | Some receipt \<Rightarrow>
                 if sr_authorization_code_holder receipt = None then Some receipt else None))))"

definition revoke_replayed_redemption ::
  "'w token_service \<Rightarrow> oauth_client \<Rightarrow> single_use_redemption \<Rightarrow> ('w, handler_failure, unit) io"
where
  "revoke_replayed_redemption sv client redemption =
     io_map_err (\<lambda>_. token_error 503 ''server_error'')
       (tr_revoke_issued_tokens (sv_repository sv) (oc_tenant_id client) (oc_id client)
         (sr_access_token_jti redemption) (Some (sr_access_token_expires_at redemption))
         (sr_refresh_token_family_id redemption))"

subsection \<open>From the code to the issue\<close>

definition new_native_sso_token_binding ::
  "'w issuance_context \<Rightarrow> string option \<Rightarrow> ('w, handler_failure, native_sso_token_binding option) io"
where
  "new_native_sso_token_binding cx oidc_sid =
     (case oidc_sid of
        None \<Rightarrow> io_return None
      | Some sid \<Rightarrow>
     io_then (random_urlsafe_token cx) (\<lambda>first.
     io_then (random_urlsafe_token cx) (\<lambda>second.
       let device_secret = first @ ''.'' @ second in
       io_return (Some \<lparr>nsb_device_secret = device_secret,
         nsb_ds_hash = b64_encode (li_base64 (cx_lib cx)) (li_sha256 (cx_lib cx) device_secret),
         nsb_sid = sid\<rparr>))))"

record authorization_code_issue_input =
  ci_payload :: code_payload
  ci_subject :: string
  ci_audiences :: "string list"
  ci_dpop_jkt :: "string option"
  ci_mtls_x5t_s256 :: "string option"
  ci_code_hash :: string
  ci_refresh_token_dpop_jkt :: "string option"
  ci_refresh_token_mtls_x5t_s256 :: "string option"
  ci_refresh_token_client_attestation_jkt :: "string option"

definition code_token_issue ::
  "authorization_code_issue_input \<Rightarrow> native_sso_token_binding option \<Rightarrow> token_issue"
where
  "code_token_issue input native_sso =
     (let payload = ci_payload input in
      \<lparr>ti_user_id = Some (co_user_id payload), ti_prepared_subject = None,
       ti_subject = ci_subject input, ti_scopes = co_scopes payload,
       ti_authorization_details = co_authorization_details payload,
       ti_audiences = ci_audiences input, ti_nonce = co_nonce payload,
       ti_auth_time = Some (co_auth_time payload), ti_amr = co_amr payload,
       ti_oidc_sid = co_oidc_sid payload, ti_acr = co_acr payload,
       ti_userinfo_claim_requests = co_userinfo_claim_requests payload,
       ti_id_token_claim_requests = co_id_token_claim_requests payload,
       ti_include_refresh = True, ti_refresh_token_policy = IssueNew,
       ti_dpop_jkt = ci_dpop_jkt input, ti_refresh_token_dpop_jkt = ci_refresh_token_dpop_jkt input,
       ti_mtls_x5t_s256 = ci_mtls_x5t_s256 input,
       ti_refresh_token_mtls_x5t_s256 = ci_refresh_token_mtls_x5t_s256 input,
       ti_refresh_token_client_attestation_jkt = ci_refresh_token_client_attestation_jkt input,
       ti_refresh_authority = None, ti_native_sso_source = None,
       ti_refresh_grant_audiences =
         (if co_resource_indicators payload = [] then None else Some (co_resource_indicators payload)),
       ti_authorization_code_hash = Some (ci_code_hash input), ti_actor = None,
       ti_issued_token_type = None, ti_native_sso = native_sso\<rparr>)"

definition token_issue_from_authorization_code ::
  "'w issuance_context \<Rightarrow> authorization_code_issue_input \<Rightarrow> ('w, handler_failure, token_issue) io"
where
  "token_issue_from_authorization_code cx input =
     io_then
       (if native_sso_requested (co_scopes (ci_payload input))
        then new_native_sso_token_binding cx (co_oidc_sid (ci_payload input))
        else io_return None) (\<lambda>native_sso.
     io_return (code_token_issue input native_sso))"

definition refresh_token_dpop_binding ::
  "oauth_client \<Rightarrow> code_payload \<Rightarrow> string option \<Rightarrow> string option"
where
  "refresh_token_dpop_binding client payload dpop =
     (if client_type (registration client) = ''public'' \<or> co_dpop_jkt payload \<noteq> None then dpop
      else None)"

datatype authorization_code_consumption =
    ConsumptionConsuming code_payload | ConsumptionBusy | ConsumptionConsumed | ConsumptionFailed
  | ConsumptionMissing | ConsumptionMalformed

fun consumption_of :: "authorization_code_begin_result \<Rightarrow> authorization_code_consumption" where
  "consumption_of (BeginConsuming payload) = ConsumptionConsuming payload"
| "consumption_of BeginBusy = ConsumptionBusy"
| "consumption_of (BeginConsumed CodeConsumed) = ConsumptionConsumed"
| "consumption_of (BeginConsumed _) = ConsumptionMalformed"
| "consumption_of BeginMalformed = ConsumptionMalformed"
| "consumption_of BeginFailed = ConsumptionFailed"
| "consumption_of BeginMissing = ConsumptionMissing"

definition begin_authorization_code_consumption ::
  "'w issuance_context \<Rightarrow> 'w token_service \<Rightarrow> string \<Rightarrow>
    ('w, handler_failure, authorization_code_consumption) io"
where
  "begin_authorization_code_consumption cx sv code_hash =
     io_then (now_of cx) (\<lambda>now.
     io_then (io_map_err (\<lambda>_. token_error 503 ''server_error'')
       (ts_begin_authorization_code (sv_state sv) code_hash now)) (\<lambda>begun.
     io_return (consumption_of begun)))"

definition authorization_code_subject ::
  "'w issuance_context \<Rightarrow> code_payload \<Rightarrow> oauth_client \<Rightarrow> logout_policy_error + string"
where
  "authorization_code_subject cx payload client =
     oidc_subject_for_client (li_subject (cx_lib cx)) (tc_issuer (cx_config cx))
       (tc_pairwise_subject_secret (cx_config cx)) (co_user_id payload)
       (subject_type (registration client)) (sector_identifier_host (registration client))
       (co_redirect_uri payload)"

subsection \<open>The handler\<close>

text \<open>What the checks before the consumption leave: the digest of the code, whether its payload was
  found expired, the payload if it is pending, the audiences, the sender proofs, the facts about the
  presenter and the requirements they make, and the key of an old receipt.\<close>

record redemption_candidate =
  cd_code_hash :: string
  cd_expired_pending :: bool
  cd_expected :: "code_payload option"
  cd_audiences :: "string list option"
  cd_sender :: validated_sender_constraints
  cd_holder :: fresh_code_holder_facts
  cd_issuance_holder :: "holder_evidence option"
  cd_legacy_key :: string

definition payload_expired ::
  "'w issuance_context \<Rightarrow> code_payload option \<Rightarrow> ('w, handler_failure, bool) io"
where
  "payload_expired cx payload =
     (case payload of
        None \<Rightarrow> io_return False
      | Some p \<Rightarrow> io_then (now_of cx) (\<lambda>now. io_return (co_expires_at p \<le> now)))"

definition fresh_holder ::
  "issue_lib \<Rightarrow> token_request_facts \<Rightarrow> oauth_client \<Rightarrow> token_form \<Rightarrow> code_payload option \<Rightarrow>
    string option \<Rightarrow> string option \<Rightarrow> fresh_code_holder_facts"
where
  "fresh_holder lib facts client form expected dpop attestation =
     \<lparr>fh_client_authentication =
        (if client_type (registration client) = ''confidential'' \<and>
            token_endpoint_auth_method (registration client) \<noteq> ''none''
         then ClientAuthenticated else ClientPublic),
      fh_pkce_s256 = (case expected of
          Some payload \<Rightarrow> pkce_challenge (co_pkce payload)
        | None \<Rightarrow> Option.bind (tf_code_verifier form)
            (\<lambda>v. if is_valid_pkce_value v then Some (pkce_s256 lib v) else None)),
      fh_dpop_jkt = dpop, fh_certificate_thumbprint = certificate_thumbprint facts,
      fh_client_attestation_jkt = attestation\<rparr>"

definition redemption_candidate_of ::
  "'w token_service \<Rightarrow> 'w issuance_context \<Rightarrow> token_request_facts \<Rightarrow> oauth_client \<Rightarrow> token_form \<Rightarrow>
    validated_client_assertion option \<Rightarrow> string option \<Rightarrow>
    ('w, handler_failure, redemption_candidate) io"
where
  "redemption_candidate_of sv cx facts client form client_assertion attestation =
     (case tf_code form of
        None \<Rightarrow> io_fail (token_error 400 ''invalid_request'')
      | Some code \<Rightarrow>
     (let lib = cx_lib cx; code_hash = li_blake3_hex lib code in
     io_then (load_pending_authorization_code_payload sv code_hash) (\<lambda>loaded.
     io_then (io_reject (is_some_and (\<lambda>p. co_client_id p \<noteq> oc_client_id client) loaded)
       authorization_code_client_mismatch) (\<lambda>_.
     io_then (payload_expired cx loaded) (\<lambda>expired_pending.
     let expected = (if expired_pending then None else loaded) in
     io_then (case expected of
         None \<Rightarrow> io_return None
       | Some payload \<Rightarrow>
           io_then (validate_pending_authorization_code_request cx client form payload)
             (\<lambda>audiences. io_return (Some audiences))) (\<lambda>audiences.
     io_then (io_map_err authorization_code_sender_error
       (validate_token_sender_constraints cx facts client None
         (Option.bind expected co_dpop_jkt) (Option.bind expected co_mtls_x5t_s256))) (\<lambda>sender.
     let holder = fresh_holder lib facts client form expected (vs_dpop_jkt sender) attestation;
         issuance_holder = holder_requirements holder (vs_mtls_x5t_s256 sender)
     in
     io_then (io_reject (expected \<noteq> None \<and> issuance_holder = None)
       authorization_code_client_mismatch) (\<lambda>_.
     io_then (io_map_err token_client_assertion_error
       (consume_token_client_assertion cx client client_assertion)) (\<lambda>_.
     io_return
       \<lparr>cd_code_hash = code_hash, cd_expired_pending = expired_pending, cd_expected = expected,
        cd_audiences = audiences, cd_sender = sender, cd_holder = holder,
        cd_issuance_holder = issuance_holder,
        cd_legacy_key = legacy_authorization_code_redemption_key lib code_hash form
          (vs_dpop_jkt sender) (vs_mtls_x5t_s256 sender) attestation\<rparr>)))))))))"

text \<open>Look for a redemption of the code, and revoke its tokens.\<close>

definition revoke_if_redeemed ::
  "'w token_service \<Rightarrow> oauth_client \<Rightarrow> redemption_candidate \<Rightarrow> ('w, handler_failure, unit) io"
where
  "revoke_if_redeemed sv client cd =
     io_then (committed_single_use_redemption sv client
       (authorization_code_identity (cd_code_hash cd)) (cd_legacy_key cd) (cd_holder cd)
       (cd_issuance_holder cd)) (\<lambda>redemption.
       case redemption of
         None \<Rightarrow> io_return ()
       | Some r \<Rightarrow> revoke_replayed_redemption sv client r)"

definition refuse_redemption ::
  "'w token_service \<Rightarrow> oauth_client \<Rightarrow> redemption_candidate \<Rightarrow> ('w, handler_failure, 'a) io"
where
  "refuse_redemption sv client cd =
     io_then (revoke_if_redeemed sv client cd) (\<lambda>_. io_fail (token_error 400 ''invalid_grant''))"

definition refuse_consumed ::
  "'w token_service \<Rightarrow> 'w issuance_context \<Rightarrow> redemption_candidate \<Rightarrow> string \<Rightarrow> handler_failure \<Rightarrow>
    ('w, handler_failure, 'a) io"
where
  "refuse_consumed sv cx cd label e =
     io_then (io_try (mark_failed_authorization_code cx sv (cd_code_hash cd) label
       (auth_code_ttl (cx_config cx)))) (\<lambda>_. io_fail e)"

text \<open>The code is being consumed by this request.\<close>

definition redeem_consuming ::
  "'w token_service \<Rightarrow> 'w issuance_context \<Rightarrow> oauth_client \<Rightarrow> string option \<Rightarrow>
    redemption_candidate \<Rightarrow> code_payload \<Rightarrow> ('w, handler_failure, token_endpoint_success) io"
where
  "redeem_consuming sv cx client attestation cd payload =
     io_then (payload_expired cx (Some payload)) (\<lambda>expired.
     if expired then
       io_then (revoke_if_redeemed sv client cd) (\<lambda>_.
       refuse_consumed sv cx cd ''authorization_code_expired'' (token_error 400 ''invalid_grant''))
     else (case cd_audiences cd of
         None \<Rightarrow> refuse_consumed sv cx cd ''authorization_code_state_changed''
           (token_error 503 ''server_error'')
       | Some audiences \<Rightarrow>
     (case authorization_code_subject cx payload client of
         Inl _ \<Rightarrow> refuse_consumed sv cx cd ''subject_policy_invalid'' (token_error 503 ''server_error'')
       | Inr subject \<Rightarrow>
     (case cd_issuance_holder cd of
         None \<Rightarrow> io_fail authorization_code_client_mismatch
       | Some holder \<Rightarrow>
     io_then (token_issue_from_authorization_code cx
       \<lparr>ci_payload = payload, ci_subject = subject, ci_audiences = audiences,
        ci_dpop_jkt = vs_dpop_jkt (cd_sender cd), ci_mtls_x5t_s256 = vs_mtls_x5t_s256 (cd_sender cd),
        ci_code_hash = cd_code_hash cd,
        ci_refresh_token_dpop_jkt = refresh_token_dpop_binding client payload
          (vs_dpop_jkt (cd_sender cd)),
        ci_refresh_token_mtls_x5t_s256 = vs_mtls_x5t_s256 (cd_sender cd),
        ci_refresh_token_client_attestation_jkt = attestation\<rparr>) (\<lambda>issue.
     issue_token_response cx sv client
       (ModeAuthorizationCode (authorization_code_identity (cd_code_hash cd))
         (co_expires_at payload) holder) issue)))))"

definition redeem_candidate ::
  "'w token_service \<Rightarrow> 'w issuance_context \<Rightarrow> oauth_client \<Rightarrow> string option \<Rightarrow>
    redemption_candidate \<Rightarrow> ('w, handler_failure, token_endpoint_success) io"
where
  "redeem_candidate sv cx client attestation cd =
     io_then (if cd_expired_pending cd then io_return True else payload_expired cx (cd_expected cd))
       (\<lambda>expired.
     if expired then refuse_redemption sv client cd
     else
     io_then (begin_authorization_code_consumption cx sv (cd_code_hash cd)) (\<lambda>consumption.
       case consumption of
         ConsumptionConsuming payload \<Rightarrow> redeem_consuming sv cx client attestation cd payload
       | ConsumptionMalformed \<Rightarrow> io_fail (token_error 503 ''server_error'')
       | _ \<Rightarrow> refuse_redemption sv client cd))"

definition token_authorization_code_with_service ::
  "'w token_service \<Rightarrow> 'w issuance_context \<Rightarrow> token_request_facts \<Rightarrow> oauth_client \<Rightarrow> token_form \<Rightarrow>
    validated_client_assertion option \<Rightarrow> string option \<Rightarrow>
    ('w, handler_failure, token_endpoint_success) io"
where
  "token_authorization_code_with_service sv cx facts client form client_assertion attestation =
     io_then (redemption_candidate_of sv cx facts client form client_assertion attestation)
       (redeem_candidate sv cx client attestation)"

end
