(* ===== verification/Spec2Isabelle.thy ===== *)
theory Spec2Isabelle
  imports Ciba_Properties Device_Properties Replay_Properties Request_Properties Runtime_Properties
    Code_Redemption
begin

text \<open>
  NazoAuth is an OAuth 2.0 and OpenID Connect authorization server in Rust. Its core
  (\<open>src/crates/authorization-server-core\<close>) holds the protocol rules and the services over
  ports; \<open>src/crates/state-store-valkey\<close> implements the state ports with Lua scripts on a
  Valkey server; \<open>src/crates/authorization-server\<close> is the application that composes them for
  the endpoints; \<open>src/crates/runtime-capabilities\<close> decides which optional modules a request may
  use. This library models those four and proves what the endpoints rely on.

  \<^bold>\<open>How code is modelled.\<close> A struct is a record, an enum a datatype, an early return or
  \<open>?\<close> a branch with an \<open>Inl\<close>. An \<open>await\<close> is a function on a world that
  returns a result and the world it leaves (\<open>io\<close> in \<open>Prelude\<close>, the combinators in
  \<open>Handlers\<close>). A port is the record of its operations, and an adapter is a definition of
  that record. Functions of third-party crates (\<open>serde_json\<close>, \<open>url\<close>,
  \<open>chrono\<close>, \<open>jsonwebtoken\<close>, \<open>blake3\<close>, the ciphers), the Valkey server and
  PostgreSQL are parameters: record fields whose documented behaviour is the assumption of a locale.
  Every such locale is interpreted by a reference instance (\<open>valkey_ref\<close>,
  \<open>replay_ref\<close>, \<open>rate_ref\<close>, \<open>device_ref\<close>, \<open>ciba_ref\<close>,
  \<open>authorization_ref\<close>, \<open>subject_ref\<close>, \<open>base64url\<close>), on which the
  examples after the properties run. Integers keep their width where the code saturates, checks or
  wraps. Descriptions for humans and log lines are left out.

  \<^bold>\<open>Common ground.\<close> \<open>Prelude\<close>: types, integers, JSON, strings. \<open>Text_Ops\<close>,
  \<open>Base64\<close>: text and base64url. \<open>Handlers\<close>: sequencing of fallible calls, with a
  collection that inverts successful runs and the rules for properties that every call keeps.
  \<open>Valkey\<close>, \<open>Valkey_Commands\<close>, \<open>Valkey_Keys\<close>: the server, the commands of
  \<open>command.rs\<close> and the key layout of \<open>keys.rs\<close>. A call acts at one instant; other
  clients act before and after it, which is the relation \<open>env\<close> of the server locales.

  \<^bold>\<open>Device grant.\<close> \<open>Device\<close> and \<open>Device_Service\<close> model \<open>device.rs\<close>
  of the core, \<open>Device_Valkey\<close> the five scripts and operations of the adapter.
  \<open>Device_Contract\<close> states the store as the service needs it and the legal steps of an entry,
  \<open>Device_Guarantee\<close> shows that every call of the service is a sequence of those steps under
  interference, and \<open>Device_Valkey\<close> that the adapter fulfils the contract.
  \<open>Device_Properties\<close>: approvals reach the repository, polls answer only approved requests of
  their client, decided entries stay decided.

  \<^bold>\<open>Backchannel authentication.\<close> \<open>Ciba\<close>, \<open>Ciba_Contract\<close>,
  \<open>Ciba_Valkey\<close> and \<open>Ciba_Properties\<close> do the same for \<open>ciba.rs\<close>,
  \<open>ciba_ping.rs\<close> and the adapter.

  \<^bold>\<open>Token endpoint rules.\<close> \<open>Client\<close> (\<open>client_registration.rs\<close>),
  \<open>Token_Policy\<close> (admission, authentication methods, sender constraints, PKCE, attestation
  windows), \<open>Claims\<close>, \<open>Jose\<close> (verification keys and token decoding),
  \<open>Client_Assertion\<close>, \<open>Dpop\<close>, \<open>Extension_Grants\<close>,
  \<open>Authorization_Details\<close>, \<open>Uri_Policy\<close>, \<open>Client_Jwe\<close>,
  \<open>Oidc_Logout\<close>. \<open>Token_Properties\<close> has what they guarantee alone.

  \<^bold>\<open>Authorization endpoint.\<close> \<open>Authorization_Policy\<close>
  (\<open>authorization_policy.rs\<close>), \<open>Request_Object\<close> (\<open>authorization_request.rs\<close>),
  \<open>Authorization_Service\<close> (\<open>authorization_service.rs\<close>, \<open>transaction.rs\<close>) and
  \<open>Authorization_Store\<close> (its state on Valkey), with \<open>Authorization_Reference\<close>.
  \<open>Authorization_Properties\<close> and \<open>Request_Properties\<close>: a code is published only
  after its decision was committed and begins to be consumed at most once, accepted requests and
  redirect URIs satisfy the client's registration, silent authorizations stay within a grant.

  \<^bold>\<open>Replay and rates.\<close> \<open>Replay_Store\<close> (\<open>replay.rs\<close>),
  \<open>Rate_Limit\<close> (\<open>rate_limit.rs\<close>) and \<open>Server_Flows\<close> (client assertions in
  the application). \<open>Replay_Properties\<close>: proofs, assertions and request objects are accepted
  once, across protocol code and store.

  \<^bold>\<open>Issuing tokens.\<close> \<open>Token_Service\<close> (\<open>token.rs\<close>,
  \<open>token_service.rs\<close> and the Valkey adapter \<open>token_issuance.rs\<close>,
  \<open>token_state.rs\<close>), \<open>Token_Issuance\<close> and \<open>Token_Response\<close>
  (\<open>token/issue.rs\<close>, \<open>token/issue_grant.rs\<close> and the files under
  \<open>token/issue\<close>), \<open>Code_Redemption\<close> (\<open>token/authorization_code.rs\<close>,
  \<open>token/mod.rs\<close>, \<open>security/dpop.rs\<close>): the handler that redeems an authorization
  code, from the form to the commit.

  \<^bold>\<open>Runtime modules.\<close> \<open>Runtime_Modules\<close> (\<open>model.rs\<close>,
  \<open>policy.rs\<close>, \<open>catalog.rs\<close>, \<open>snapshot.rs\<close>, \<open>transition.rs\<close>,
  \<open>lease.rs\<close>) and \<open>Runtime_Properties\<close>: the dependency check ends and is exact,
  leases are counted exactly, and no request enters a withdrawn module.

  \<^bold>\<open>Bounds.\<close> The retry loops of the device and CIBA services recurse on the attempts left,
  which the source bounds by a constant; running out of attempts is the error the source returns. The
  search through the module dependencies is a total function: its recursion is over paths without
  repetition. No definition uses fuel beyond what the source bounds itself.

  \<^bold>\<open>Not modelled.\<close> SQL and transactions of PostgreSQL (the repositories are ports), the
  HTTP layer and rendering, startup and configuration, key management and the primitives of
  cryptography, accounts, federation and MFA, client administration and dynamic registration,
  digital credentials, SCIM, the delivery of logout and CIBA notifications, and the reconciliation of
  desired module states. The grants other than the authorization code are modelled up to the core
  rules they apply, not as handlers of the application. Lua scripts that rewrite whole JSON documents
  inside the server (CIBA notifications) are left out, because their meaning depends on the JSON
  library of the server. These parts are I/O, wiring, or need semantics of systems that are not part
  of the repository.
\<close>

end
